(* ===== verification/Prelude.thy ===== *)
theory Prelude
  imports Main "HOL-Library.Word"
begin

text \<open>
  Shared vocabulary of the development: the machine types of the C++ sources, C memory
  blocks with explicit bounds, NUL-terminated strings, the \<open>strncpy\<close>/\<open>memcpy\<close>
  primitives of the C library, and the association-list reading of
  \<open>std::unordered_map\<close>. An access outside a block is undefined behaviour in C++; every
  primitive here returns \<open>None\<close> in that case, so that a theorem that some operation
  returns \<open>Some\<close> is a memory-safety statement.
\<close>

named_theorems buf_simps \<open>equations for bounded memory blocks\<close>
named_theorems dict_simps \<open>equations for association-list dictionaries\<close>

type_synonym byte = "8 word"
type_synonym u32 = "32 word"
type_synonym u64 = "64 word"

text \<open>Pointers that are only compared with \<open>nullptr\<close> are options over what they refer to.\<close>

abbreviation SIZE_MAX :: nat where
  "SIZE_MAX \<equiv> 2 ^ 64 - 1"

text \<open>\<open>n - 1\<close> on \<open>size_t\<close>: the unsigned decrement wraps around at zero.\<close>

definition size_pred :: "nat \<Rightarrow> nat" where
  "size_pred n = (if n = 0 then SIZE_MAX else n - 1)"

lemma size_pred_Suc [simp]: "size_pred (Suc n) = n"
  by (simp add: size_pred_def)

lemma size_pred_pos: "0 < n \<Longrightarrow> size_pred n = n - 1"
  by (simp add: size_pred_def)

section \<open>Memory blocks\<close>

definition write_at :: "'a list \<Rightarrow> nat \<Rightarrow> 'a \<Rightarrow> 'a list option" where
  "write_at buf i x = (if i < length buf then Some (buf[i := x]) else None)"

definition write_block :: "'a list \<Rightarrow> nat \<Rightarrow> 'a list \<Rightarrow> 'a list option" where
  "write_block buf i xs =
     (if i + length xs \<le> length buf
      then Some (take i buf @ xs @ drop (i + length xs) buf) else None)"

lemma write_at_Some [buf_simps]: "i < length buf \<Longrightarrow> write_at buf i x = Some (buf[i := x])"
  by (simp add: write_at_def)

lemma write_at_None [buf_simps]: "length buf \<le> i \<Longrightarrow> write_at buf i x = None"
  by (simp add: write_at_def)

lemma write_at_SomeD: "write_at buf i x = Some b \<Longrightarrow> i < length buf \<and> b = buf[i := x]"
  by (auto simp: write_at_def split: if_splits)

lemma write_block_SomeD:
  "write_block buf i xs = Some b \<Longrightarrow>
     i + length xs \<le> length buf \<and> b = take i buf @ xs @ drop (i + length xs) buf"
  by (auto simp: write_block_def split: if_splits)

lemma length_write_block:
  "write_block buf i xs = Some b \<Longrightarrow> length b = length buf"
  by (auto dest: write_block_SomeD)

lemma length_write_at: "write_at buf i x = Some b \<Longrightarrow> length b = length buf"
  by (auto dest: write_at_SomeD)

text \<open>A block built left to right: after a prefix of length \<open>n\<close>, the next cell extends it.\<close>

lemma write_at_append [buf_simps, simp]:
  "write_at (xs @ y # ys) (length xs) c = Some (xs @ c # ys)"
  by (simp add: write_at_def)

lemma take_Suc_list_update:
  "n < length buf \<Longrightarrow> take (Suc n) (buf[n := x]) = take n buf @ [x]"
  by (simp add: take_Suc_conv_app_nth)

section \<open>C strings\<close>

definition NUL :: char where
  "NUL = CHR 0x00"

text \<open>\<open>c_str s\<close> is what a C function sees of a \<open>std::string\<close>: the bytes before the first NUL.\<close>

definition c_str :: "string \<Rightarrow> string" where
  "c_str s = takeWhile (\<lambda>c. c \<noteq> NUL) s"

definition no_nul :: "string \<Rightarrow> bool" where
  "no_nul s \<longleftrightarrow> NUL \<notin> set s"

lemma c_str_no_nul [simp]: "no_nul s \<Longrightarrow> c_str s = s"
  by (induction s) (auto simp: c_str_def no_nul_def)

lemma no_nul_c_str [simp]: "no_nul (c_str s)"
  by (auto simp: no_nul_def c_str_def dest: set_takeWhileD)

lemma c_str_append_NUL [simp]: "no_nul s \<Longrightarrow> c_str (s @ NUL # t) = s"
  by (induction s) (auto simp: c_str_def no_nul_def)

lemma no_nul_take [simp]: "no_nul s \<Longrightarrow> no_nul (take n s)"
  by (auto simp: no_nul_def dest: in_set_takeD)

text \<open>
  \<open>strncpy(dst, src, n)\<close> writes exactly \<open>n\<close> bytes: the source up to its NUL, then NUL
  padding. It adds no terminator when the source has \<open>n\<close> bytes or more.
\<close>

definition strncpy :: "string \<Rightarrow> string \<Rightarrow> nat \<Rightarrow> string option" where
  "strncpy dst src n =
     (if n \<le> length dst
      then Some (take n (c_str src) @ replicate (n - length (c_str src)) NUL @ drop n dst)
      else None)"

lemma length_strncpy: "strncpy dst src n = Some d \<Longrightarrow> length d = length dst"
  by (auto simp: strncpy_def min_def split: if_splits)

text \<open>
  The pair \<open>strncpy(buffer, s, size - 1); buffer[size - 1] = NUL\<close> that the sources use to
  hand out a string: \<open>size - 1\<close> is computed on \<open>size_t\<close>.
\<close>

definition copy_bounded :: "string \<Rightarrow> string \<Rightarrow> nat \<Rightarrow> string option" where
  "copy_bounded buffer s sz =
     (case strncpy buffer s (size_pred sz) of
        None \<Rightarrow> None
      | Some b \<Rightarrow> write_at b (size_pred sz) NUL)"

lemma strncpy_append_NUL:
  assumes "Suc n \<le> length dst"
  shows "\<exists>b. strncpy dst src n = Some b \<and> write_at b n NUL =
     Some (take n (c_str src) @ replicate (n - length (c_str src)) NUL @ NUL # drop (Suc n) dst)"
proof -
  let ?p = "take n (c_str src) @ replicate (n - length (c_str src)) NUL"
  have l: "length ?p = n" by simp
  have "drop n dst = dst ! n # drop (Suc n) dst" using assms by (simp add: Cons_nth_drop_Suc)
  then have "strncpy dst src n = Some (?p @ dst ! n # drop (Suc n) dst)"
    using assms by (simp add: strncpy_def)
  then show ?thesis using write_at_append [of ?p "dst ! n" "drop (Suc n) dst" NUL] unfolding l by simp
qed

lemma copy_bounded_Some:
  assumes "0 < sz" "sz \<le> length buffer"
  shows "copy_bounded buffer s sz =
     Some (take (sz - 1) (c_str s) @ replicate (sz - 1 - length (c_str s)) NUL
           @ NUL # drop sz buffer)"
  using assms strncpy_append_NUL [of "sz - 1" buffer s]
  by (auto simp: copy_bounded_def size_pred_pos)

text \<open>What a C reader of the buffer sees: the string, cut to \<open>sz - 1\<close> bytes.\<close>

lemma c_str_copy_bounded:
  assumes "0 < sz" "sz \<le> length buffer" "copy_bounded buffer s sz = Some b"
  shows "c_str b = take (sz - 1) (c_str s) \<and> length b = length buffer \<and> drop sz b = drop sz buffer"
proof -
  have "c_str (take n (c_str s) @ replicate k NUL @ NUL # r) = take n (c_str s)" for n k r
    by (cases k) auto
  then show ?thesis using assms by (auto simp: copy_bounded_Some min_def)
qed

lemma copy_bounded_zero: "length buffer < SIZE_MAX \<Longrightarrow> copy_bounded buffer s 0 = None"
  by (simp add: copy_bounded_def strncpy_def size_pred_def)

section \<open>Decimal text of integers\<close>

fun nat_to_string :: "nat \<Rightarrow> string" where
  "nat_to_string n =
     (if n < 10 then [char_of (48 + n)] else nat_to_string (n div 10) @ [char_of (48 + n mod 10)])"

declare nat_to_string.simps [simp del]

definition to_string_int :: "int \<Rightarrow> string" where
  "to_string_int i = (if i < 0 then CHR ''-'' # nat_to_string (nat (- i)) else nat_to_string (nat i))"

section \<open>Tables\<close>

text \<open>A check of every entry of a long table, piece by piece.\<close>

lemma list_all_pieces: "list_all P xs \<longleftrightarrow> list_all P (take n xs) \<and> list_all P (drop n xs)"
  by (metis append_take_drop_id list_all_append)

end
