(* ===== verification/Argon2_Base64.thy ===== *)
theory Argon2_Base64
  imports Prelude
begin

text \<open>
  The Argon2 base64 codec of \<open>Runtime/Bindings/FFI/crypto/crypto_argon2.cpp\<close> and the
  constant-time comparison macros of \<open>crypto_argon2.hpp\<close>. The accumulator \<open>acc\<close> is a
  32-bit word and wraps as \<open>unsigned\<close> does; \<open>acc_len\<close> and the buffer positions are
  naturals (they stay below 25 and below the buffer sizes). Writes go through
  \<^const>\<open>write_at\<close>, so \<open>None\<close> is an out-of-bounds write.
\<close>

unbundle bit_operations_syntax

section \<open>Constant-time comparisons (crypto_argon2.hpp)\<close>

definition EQ :: "u32 \<Rightarrow> u32 \<Rightarrow> u32" where
  "EQ x y = ((drop_bit 8 (0 - (x XOR y))) AND 0xFF) XOR 0xFF"

definition GT :: "u32 \<Rightarrow> u32 \<Rightarrow> u32" where
  "GT x y = (drop_bit 8 (y - x)) AND 0xFF"

definition GE :: "u32 \<Rightarrow> u32 \<Rightarrow> u32" where
  "GE x y = GT y x XOR 0xFF"

definition LT :: "u32 \<Rightarrow> u32 \<Rightarrow> u32" where
  "LT x y = GT y x"

definition LE :: "u32 \<Rightarrow> u32 \<Rightarrow> u32" where
  "LE x y = GE y x"

section \<open>Alphabet and single characters\<close>

definition base64_chars :: string where
  "base64_chars =
     ''ABCDEFGHIJKLMNOPQRSTUVWXYZ'' @ ''abcdefghijklmnopqrstuvwxyz'' @ ''0123456789+/''"

definition b64_byte_to_char :: "u32 \<Rightarrow> char" where
  "b64_byte_to_char x = base64_chars ! unat x"

text \<open>
  The conversion of a \<open>char\<close> to the \<open>int\<close> parameter \<open>c\<close>: plain \<open>char\<close> is signed on
  x86 and on Apple targets and unsigned on Linux/ARM, so the model takes the signedness
  as an argument.
\<close>

definition char_as_int :: "bool \<Rightarrow> char \<Rightarrow> u32" where
  "char_as_int signed_char c =
     (if signed_char then scast (of_char c :: byte) else ucast (of_char c :: byte))"

abbreviation chr :: "char \<Rightarrow> u32" where
  "chr k \<equiv> of_char k"

definition b64_char_to_byte :: "u32 \<Rightarrow> u32" where
  "b64_char_to_byte c =
     (let x = (GE c (chr CHR ''A'') AND LE c (chr CHR ''Z'') AND (c - chr CHR ''A''))
            OR (GE c (chr CHR ''a'') AND LE c (chr CHR ''z'') AND (c - (chr CHR ''a'' - 26)))
            OR (GE c (chr CHR ''0'') AND LE c (chr CHR ''9'') AND (c - (chr CHR ''0'' - 52)))
            OR (EQ c (chr CHR ''+'') AND 62)
            OR (EQ c (chr CHR ''/'') AND 63)
      in x OR (EQ x 0 AND (EQ c (chr CHR ''A'') XOR 0xFF)))"

section \<open>Encoder\<close>

text \<open>The inner loop \<open>while(acc_len >= 6)\<close> that writes one character per sextet.\<close>

function emit_sextets ::
  "u32 \<Rightarrow> nat \<Rightarrow> string \<Rightarrow> nat \<Rightarrow> (nat \<times> string \<times> nat) option" where
  "emit_sextets acc acc_len dst pos =
     (if 6 \<le> acc_len then
        (case write_at dst pos (b64_byte_to_char (drop_bit (acc_len - 6) acc AND 0x3F)) of
           None \<Rightarrow> None
         | Some dst' \<Rightarrow> emit_sextets acc (acc_len - 6) dst' (Suc pos))
      else Some (acc_len, dst, pos))"
  by pat_completeness auto
termination
  by (relation "measure (\<lambda>(acc, acc_len, dst, pos). acc_len)") auto

declare emit_sextets.simps [simp del]

text \<open>The unrolled loop \<open>while(src_len >= 3)\<close>; it leaves the bytes it did not consume.\<close>

fun encode_triples ::
  "byte list \<Rightarrow> u32 \<Rightarrow> nat \<Rightarrow> string \<Rightarrow> nat \<Rightarrow> (byte list \<times> u32 \<times> nat \<times> string \<times> nat) option" where
  "encode_triples (b0 # b1 # b2 # src) acc acc_len dst pos =
     (let acc' = push_bit 24 acc + push_bit 16 (ucast b0) + push_bit 8 (ucast b1) + ucast b2 in
      case emit_sextets acc' 24 dst pos of
        None \<Rightarrow> None
      | Some (acc_len', dst', pos') \<Rightarrow> encode_triples src acc' acc_len' dst' pos')"
| "encode_triples src acc acc_len dst pos = Some (src, acc, acc_len, dst, pos)"

text \<open>The byte-at-a-time loop \<open>while(src_len-- > 0)\<close>.\<close>

fun encode_bytes ::
  "byte list \<Rightarrow> u32 \<Rightarrow> nat \<Rightarrow> string \<Rightarrow> nat \<Rightarrow> (u32 \<times> nat \<times> string \<times> nat) option" where
  "encode_bytes [] acc acc_len dst pos = Some (acc, acc_len, dst, pos)"
| "encode_bytes (b # src) acc acc_len dst pos =
     (let acc' = push_bit 8 acc + ucast b in
      case emit_sextets acc' (acc_len + 8) dst pos of
        None \<Rightarrow> None
      | Some (acc_len', dst', pos') \<Rightarrow> encode_bytes src acc' acc_len' dst' pos')"

text \<open>The output length, with the \<open>size_t\<close> arithmetic written out.\<close>

definition b64_olen :: "nat \<Rightarrow> nat" where
  "b64_olen src_len =
     (let olen = (src_len div 3 * 4) mod 2 ^ 64 in
      if src_len mod 3 = 2 then (olen + 1 + 2) mod 2 ^ 64
      else if src_len mod 3 = 1 then (olen + 2) mod 2 ^ 64
      else olen)"

text \<open>The code after both loops: the left-over bits, the terminator, the return value.\<close>

definition encode_finish :: "nat \<Rightarrow> (u32 \<times> nat \<times> string \<times> nat) \<Rightarrow> (string \<times> nat) option" where
  "encode_finish olen st =
     (case st of (acc, acc_len, dst, pos) \<Rightarrow>
        (case (if 0 < acc_len
               then map_option (\<lambda>d. (d, Suc pos))
                      (write_at dst pos (b64_byte_to_char (push_bit (6 - acc_len) acc AND 0x3F)))
               else Some (dst, pos)) of
           None \<Rightarrow> None
         | Some (dst', pos') \<Rightarrow>
             (case write_at dst' pos' NUL of
                None \<Rightarrow> None
              | Some dst'' \<Rightarrow> Some (dst'', olen))))"

definition argon2_to_base64 :: "string \<Rightarrow> nat \<Rightarrow> byte list \<Rightarrow> (string \<times> nat) option" where
  "argon2_to_base64 dst dst_len src =
     (let olen = b64_olen (length src) in
      if dst_len \<le> olen then Some (dst, SIZE_MAX)
      else
        (case encode_triples src 0 0 dst 0 of
           None \<Rightarrow> None
         | Some (src', acc, acc_len, dst', pos) \<Rightarrow>
             (case encode_bytes src' acc acc_len dst' pos of
                None \<Rightarrow> None
              | Some st \<Rightarrow> encode_finish olen st)))"

section \<open>Decoder\<close>

datatype decode_state =
    Overflow "byte list"
  | Stopped "byte list" nat u32 nat

text \<open>
  The \<open>for(;;)\<close> loop. A C string ends with a NUL, which the loop reads like any other
  character; reading past it would be undefined (\<open>None\<close>).
\<close>

fun decode_loop ::
  "bool \<Rightarrow> nat \<Rightarrow> string \<Rightarrow> byte list \<Rightarrow> nat \<Rightarrow> u32 \<Rightarrow> nat \<Rightarrow> decode_state option" where
  "decode_loop sg dst_len [] dst len acc acc_len =
     (if 63 < b64_char_to_byte (char_as_int sg NUL)
      then Some (Stopped dst len acc acc_len) else None)"
| "decode_loop sg dst_len (c # src) dst len acc acc_len =
     (let d = b64_char_to_byte (char_as_int sg c) in
      if 63 < d then Some (Stopped dst len acc acc_len)
      else
        (let acc' = push_bit 6 acc + d; acc_len' = acc_len + 6 in
         if 8 \<le> acc_len' then
           (if dst_len \<le> len then Some (Overflow dst)
            else
              (case write_at dst len (ucast (drop_bit (acc_len' - 8) acc' AND 0xFF)) of
                 None \<Rightarrow> None
               | Some dst' \<Rightarrow> decode_loop sg dst_len src dst' (Suc len) acc' (acc_len' - 8)))
         else decode_loop sg dst_len src dst len acc' acc_len'))"

definition argon2_from_base64 ::
  "bool \<Rightarrow> byte list \<Rightarrow> nat \<Rightarrow> string \<Rightarrow> (byte list \<times> nat) option" where
  "argon2_from_base64 sg dst dst_len src =
     (case decode_loop sg dst_len src dst 0 0 0 of
        None \<Rightarrow> None
      | Some (Overflow dst') \<Rightarrow> Some (dst', SIZE_MAX)
      | Some (Stopped dst' len acc acc_len) \<Rightarrow>
          (if 4 < acc_len \<or> acc AND (push_bit acc_len 1 - 1) \<noteq> 0
           then Some (dst', SIZE_MAX) else Some (dst', len)))"

section \<open>Reference codec\<close>

text \<open>
  The character code of a sextet, the sextets of a byte string (RFC 4648, without padding)
  and the text they spell; \<open>sextet_decode\<close> is the bit-exact decoder on naturals, which
  carries \<open>k\<close> pending bits of value \<open>p\<close>.
\<close>

definition b64_code :: "nat \<Rightarrow> nat" where
  "b64_code n = (if n < 26 then n + 65 else if n < 52 then n + 71 else if n < 62 then n - 4
      else if n = 62 then 43 else 47)"

fun b64_digits :: "byte list \<Rightarrow> nat list" where
  "b64_digits (a # b # c # src) =
     [unat a div 4, unat a mod 4 * 16 + unat b div 16,
      unat b mod 16 * 4 + unat c div 64, unat c mod 64] @ b64_digits src"
| "b64_digits [a, b] =
     [unat a div 4, unat a mod 4 * 16 + unat b div 16, unat b mod 16 * 4]"
| "b64_digits [a] = [unat a div 4, unat a mod 4 * 16]"
| "b64_digits [] = []"

definition b64_text :: "byte list \<Rightarrow> string" where
  "b64_text src = map ((!) base64_chars) (b64_digits src)"

fun sextet_decode :: "nat list \<Rightarrow> nat \<Rightarrow> nat \<Rightarrow> byte list \<times> nat \<times> nat" where
  "sextet_decode [] p k = ([], p, k)"
| "sextet_decode (d # ds) p k =
     (let v = p * 64 + d in
      if 8 \<le> k + 6 then
        (case sextet_decode ds (v mod 2 ^ (k - 2)) (k - 2) of
           (bs, q, l) \<Rightarrow> (of_nat (v div 2 ^ (k - 2)) # bs, q, l))
      else sextet_decode ds v (k + 6))"

text \<open>
  The value of a character as the decoder reads it, the character of the sextet at bit
  position \<open>j\<close> of the accumulator, the code after the unrolled loop as one function, and the
  encoder without the unrolled loop.
\<close>

definition b64_value :: "bool \<Rightarrow> char \<Rightarrow> nat" where
  "b64_value sg c = unat (b64_char_to_byte (char_as_int sg c))"

abbreviation b64_valid :: "bool \<Rightarrow> char \<Rightarrow> bool" where
  "b64_valid sg c \<equiv> b64_value sg c < 64"

definition sextet_at :: "u32 \<Rightarrow> nat \<Rightarrow> char" where
  "sextet_at acc j = base64_chars ! (unat acc div 2 ^ j mod 64)"

definition encode_rest :: "nat \<Rightarrow> byte list \<Rightarrow> u32 \<Rightarrow> nat \<Rightarrow> string \<Rightarrow> nat \<Rightarrow> (string \<times> nat) option" where
  "encode_rest olen src acc acc_len dst pos =
     (case encode_bytes src acc acc_len dst pos of None \<Rightarrow> None | Some st \<Rightarrow> encode_finish olen st)"

definition argon2_to_base64_bytewise :: "string \<Rightarrow> nat \<Rightarrow> byte list \<Rightarrow> (string \<times> nat) option" where
  "argon2_to_base64_bytewise dst dst_len src =
     (let olen = b64_olen (length src) in
      if dst_len \<le> olen then Some (dst, SIZE_MAX) else encode_rest olen src 0 0 dst 0)"

section \<open>The comparison macros on character codes\<close>

lemma unat_and_FF: "unat ((w :: u32) AND 0xFF) = unat w mod 256"
proof -
  have "w AND 0xFF = take_bit 8 w" by (simp add: take_bit_eq_mask mask_eq_exp_minus_1)
  then show ?thesis using take_bit_eq_mod [of 8 "unat w"] by (simp add: unsigned_take_bit_eq)
qed

lemma unat_and_3F: "unat ((w :: u32) AND 0x3F) = unat w mod 64"
proof -
  have "w AND 0x3F = take_bit 6 w" by (simp add: take_bit_eq_mask mask_eq_exp_minus_1)
  then show ?thesis using take_bit_eq_mod [of 6 "unat w"] by (simp add: unsigned_take_bit_eq)
qed

lemma unat_drop_u32: "unat (drop_bit k (w :: u32)) = unat w div 2 ^ k"
  using drop_bit_eq_div [of k "unat w"] take_bit_nat_eq_self [OF unsigned_less [of w]]
  by (simp add: unsigned_drop_bit_eq)

lemma neg_small_mask:
  fixes k :: u32
  assumes "0 < unat k" "unat k \<le> 256"
  shows "drop_bit 8 (- k) AND 0xFF = 255"
proof -
  have "unat (- k) = 2 ^ 32 - unat k"
    using assms unat_sub_if' [of 0 k] by simp
  then have "unat (drop_bit 8 (- k) AND 0xFF) = (2 ^ 32 - unat k) div 256 mod 256"
    by (simp only: unat_and_FF unat_drop_u32) simp
  also have "(2 ^ 32 - unat k) div 256 = 2 ^ 24 - 1"
    using assms by simp
  finally show ?thesis
    by (simp add: word_unat_eq_iff)
qed

lemma small_mask: "unat (k :: u32) < 256 \<Longrightarrow> drop_bit 8 k AND 0xFF = 0"
  by (simp add: word_unat_eq_iff unat_and_FF unat_drop_u32 del: unsigned_drop_bit_eq)

lemma xor_less_exp:
  fixes x y :: u32
  assumes "unat x < 2 ^ n" "unat y < 2 ^ n"
  shows "unat (x XOR y) < 2 ^ n"
proof -
  have t: "take_bit n w = w" if "unat w < 2 ^ n" for w :: u32
    using that take_bit_eq_mod [of n "unat w"]
    by (simp add: word_unat_eq_iff unsigned_take_bit_eq)
  have "unat (take_bit n (x XOR y)) < 2 ^ n"
    by (simp only: unsigned_take_bit_eq take_bit_nat_less_exp)
  then show ?thesis
    using assms by (simp add: t)
qed

lemma word_xor_eq_0: "(x XOR y = 0) = (x = (y :: u32))"
  by (auto simp: bit_eq_iff bit_xor_iff)

lemma EQ_small: "x < 256 \<Longrightarrow> y < 256 \<Longrightarrow> EQ x y = (if x = y then 255 else 0)"
  using xor_less_exp [of x 8 y] neg_small_mask [of "x XOR y"]
  by (auto simp: EQ_def unat_gt_0 word_xor_eq_0 word_less_nat_alt)
lemma GT_small: "x < 256 \<Longrightarrow> y < 256 \<Longrightarrow> GT x y = (if y < x then 255 else 0)"
proof (cases "y < x")
  case True
  assume b: "x < 256" "y < 256"
  have "unat (x - y) = unat x - unat y"
    using True by (simp add: unat_sub)
  then show ?thesis using True b neg_small_mask [of "x - y"]
    by (simp add: GT_def word_less_nat_alt)
next
  case False
  assume b: "x < 256" "y < 256"
  then have "unat (y - x) < 256" using False by (auto simp: word_less_nat_alt unat_sub word_le_nat_alt not_less)
  then show ?thesis using False small_mask [of "y - x"] by (simp add: GT_def)
qed

lemma GE_small: "x < 256 \<Longrightarrow> y < 256 \<Longrightarrow> GE x y = (if y \<le> x then 255 else 0)"
  by (auto simp: GE_def GT_small)

lemma LE_small: "x < 256 \<Longrightarrow> y < 256 \<Longrightarrow> LE x y = (if x \<le> y then 255 else 0)"
  by (simp add: LE_def GE_small)

lemma FF_and_small: "w < 256 \<Longrightarrow> (0xFF :: u32) AND w = w"
  using unat_and_FF [of w] by (simp add: word_unat_eq_iff and.commute word_less_nat_alt)

lemma b64_char_to_byte_small:
  assumes c: "c < 256"
  shows "b64_char_to_byte c =
     (if 65 \<le> c \<and> c \<le> 90 then c - 65
      else if 97 \<le> c \<and> c \<le> 122 then c - 71
      else if 48 \<le> c \<and> c \<le> 57 then c + 4
      else if c = 43 then 62 else if c = 47 then 63 else 255)"
proof -
  note w = word_le_nat_alt word_less_nat_alt word_unat_eq_iff
  have s: "65 \<le> c \<Longrightarrow> unat (c - 65) = unat c - 65" "97 \<le> c \<Longrightarrow> unat (c - 71) = unat c - 71"
     "unat (c + 4) = unat c + 4"
    using c unat_sub [of 65 c] unat_sub [of 71 c] by (auto simp: w unat_word_ariths)
  note eqs = b64_char_to_byte_def GE_small LE_small EQ_small FF_and_small
  consider "65 \<le> c \<and> c \<le> 90" | "97 \<le> c \<and> c \<le> 122" | "48 \<le> c \<and> c \<le> 57" | "c = 43" | "c = 47"
    | "\<not> (65 \<le> c \<and> c \<le> 90)" "\<not> (97 \<le> c \<and> c \<le> 122)" "\<not> (48 \<le> c \<and> c \<le> 57)" "c \<noteq> 43" "c \<noteq> 47" 
    by blast
  then show ?thesis
  proof cases
    case 1
    then have "\<not> 97 \<le> c" "\<not> c \<le> 57" "c \<noteq> 43" "c \<noteq> 47" "c - 65 < 256" "c - 65 = 0 \<longleftrightarrow> c = 65"
      using s by (auto simp: w)
    then show ?thesis using 1 c by (simp add: eqs)
  next
    case 2
    then have "\<not> c \<le> 90" "\<not> c \<le> 57" "c \<noteq> 43" "c \<noteq> 47" "c - 71 < 256" "c - 71 \<noteq> 0" "c \<noteq> 65" "65 \<le> c" "48 \<le> c"
      using s by (auto simp: w)
    then show ?thesis using 2 c by (simp add: eqs)
  next
    case 3
    then have "\<not> 65 \<le> c" "\<not> 97 \<le> c" "c \<noteq> 43" "c \<noteq> 47" "c + 4 < 256" "c + 4 \<noteq> 0" "c \<noteq> 65" "c \<le> 90" "c \<le> 122"
      using s by (auto simp: w)
    then show ?thesis using 3 c by (simp add: eqs)
  next
    case 4 then show ?thesis by (simp add: eqs)
  next
    case 5 then show ?thesis by (simp add: eqs)
  next
    case 6
    then have "c \<noteq> 65" by auto
    then show ?thesis using c 6 by (simp add: eqs) 
  qed
qed

lemma b64_char_to_byte_negative:
  assumes m: "unat m < 128"
  shows "b64_char_to_byte (NOT m) = 63"
proof -
  have ge: "GE (NOT m) y = 0" if "unat y < 128" for y
  proof -
    have "NOT m - y = - (m + 1 + y)" by (simp add: not_eq_complement)
    moreover have "unat (m + 1 + y) = unat m + 1 + unat y"
      using m that by (simp add: unat_word_ariths)
    ultimately show ?thesis
      using m that neg_small_mask [of "m + 1 + y"] by (simp add: GE_def GT_def)
  qed
  have eq: "EQ (NOT m) y = 255" if "unat y < 128" for y
  proof -
    have "0 - (NOT m XOR y) = (m XOR y) + 1" by (simp add: minus_eq_not_plus_1)
    moreover have "unat (m XOR y) < 128" using xor_less_exp [of m 7 y] m that by simp
    then have "unat ((m XOR y) + 1) < 256" by (simp add: unat_word_ariths)
    ultimately show ?thesis
      using small_mask by (simp add: EQ_def)
  qed
  have "EQ (63::u32) 0 = 0" by (simp add: EQ_small)
  then show ?thesis
    by (simp add: b64_char_to_byte_def Let_def ge eq)
qed

lemma unat_of_char_byte: "unat (of_char c :: byte) = of_char c"
proof -
  have "unat (of_nat (of_char c) :: byte) = of_char c"
    by (simp only: unat_of_nat) simp
  then show ?thesis by (simp only: of_nat_of_char)
qed

lemma char_as_int_unsigned: "char_as_int False c = of_nat (of_char c)"
  by (simp only: char_as_int_def if_False) (metis of_nat_unat unat_of_char_byte)

lemma char_as_int_ascii:
  assumes "(of_char c :: nat) < 128" shows "char_as_int sg c = of_nat (of_char c)"
proof (cases sg)
  case True
  have "sint (of_char c :: byte) = int (of_char c)"
    using assms  by (simp add: sint_uint signed_take_bit_eq_if_positive bit_iff_odd uint_nat unat_of_char_byte take_bit_int_eq_self)
  then show ?thesis using True
    by (simp add: char_as_int_def scast_eq)
next
  case False
  then show ?thesis by (simp add: char_as_int_unsigned del: of_nat_of_char)
qed

lemma char_as_int_high:
  assumes "128 \<le> (of_char c :: nat)" shows "char_as_int True c = NOT (of_nat (255 - of_char c))"
proof -
  define k :: nat where "k = of_char c"
  have k: "128 \<le> k" "k < 256" using assms by (simp_all add: k_def)
  then have "int k div 128 = 1" by simp
  then have o: "bit (int k) 7" by (simp add: bit_iff_odd)
  have "sint (of_char c :: byte) = int k - 256"
    using k o by (simp add: sint_uint signed_take_bit_eq_take_bit_minus uint_nat unat_of_char_byte take_bit_int_eq_self flip: k_def)
  moreover have "NOT (of_nat (255 - k) :: u32) = word_of_int (int k - 256)"
    using k by (simp add: not_eq_complement of_nat_diff)
  ultimately show ?thesis
    by (simp add: char_as_int_def scast_eq flip: k_def)
qed

lemma length_base64_chars [simp]: "length base64_chars = 64"
  by (simp add: base64_chars_def)

lemma base64_codes: "map of_char base64_chars = map b64_code [0..<64]"
  by code_simp

lemma of_char_base64_chars: "n < 64 \<Longrightarrow> of_char (base64_chars ! n) = b64_code n"
  using arg_cong [OF base64_codes, of "\<lambda>xs. xs ! n"] by (simp del: upt_rec_numeral upt_conv_Cons)

lemma b64_char_to_byte_code: "n < 64 \<Longrightarrow> b64_char_to_byte (of_nat (b64_code n)) = of_nat n"
proof -
  assume n: "n < 64"
  let ?k = "b64_code n"
  have "?k < 128" using n by (auto simp: b64_code_def)
  then have b: "unat (of_nat ?k :: u32) = ?k" by (simp add: unat_of_nat)
  note w = word_le_nat_alt word_less_nat_alt word_unat_eq_iff
  have lt: "(of_nat ?k :: u32) < 256" using b \<open>?k < 128\<close> by (simp add: w)
  consider "n < 26" | "26 \<le> n" "n < 52" | "52 \<le> n" "n < 62" | "n = 62" | "n = 63" using n by linarith
  then show ?thesis
  proof cases
    case 1 then show ?thesis using b lt by (simp add: b64_char_to_byte_small w b64_code_def)
  next
    case 2 then show ?thesis using b lt by (simp add: b64_char_to_byte_small w b64_code_def)
  next
    case 3
    then have "48 \<le> n - 4" "n - 4 \<le> 57" by simp_all
    with 3 show ?thesis using b lt by (simp add: b64_char_to_byte_small w b64_code_def)
  next
    case 4 then show ?thesis by (simp add: b64_char_to_byte_small b64_code_def)
  next
    case 5 then show ?thesis by (simp add: b64_char_to_byte_small b64_code_def)
  qed
qed

lemma base64_chars_decode:
  assumes "n < 64"
  shows "b64_char_to_byte (char_as_int sg (base64_chars ! n)) = of_nat n"
proof -
  have "b64_code n < 128" using assms by (auto simp: b64_code_def)
  then show ?thesis 
    using char_as_int_ascii [of "base64_chars ! n" sg] b64_char_to_byte_code [OF assms] assms
    by (simp add: of_char_base64_chars)
qed

lemma base64_decode_inverse:
  assumes c: "c < 256" and v: "b64_char_to_byte (of_nat c) \<le> 63"
  shows "\<exists>n < 64. c = b64_code n"
proof -
  have b: "unat (of_nat c :: u32) = c" using c by (simp add: unat_of_nat)
  note w = word_le_nat_alt word_less_nat_alt word_unat_eq_iff
  have "65 \<le> c \<and> c \<le> 90 \<or> 97 \<le> c \<and> c \<le> 122 \<or> 48 \<le> c \<and> c \<le> 57 \<or> c = 43 \<or> c = 47"
    using v b b64_char_to_byte_small [of "of_nat c"] c
    by (auto simp: w split: if_splits)
  then show ?thesis
  proof (elim disjE)
    assume "65 \<le> c \<and> c \<le> 90"
    then show ?thesis by (intro exI [of _ "c - 65"]) (auto simp: b64_code_def)
  next
    assume "97 \<le> c \<and> c \<le> 122"
    then show ?thesis by (intro exI [of _ "c - 71"]) (auto simp: b64_code_def)
  next
    assume "48 \<le> c \<and> c \<le> 57"
    then show ?thesis by (intro exI [of _ "c + 4"]) (auto simp: b64_code_def)
  next
    assume "c = 43"
    then show ?thesis by (intro exI [of _ 62]) (simp add: b64_code_def)
  next
    assume "c = 47"
    then show ?thesis by (intro exI [of _ 63]) (simp add: b64_code_def)
  qed
qed

section \<open>The decoder against the reference codec\<close>

lemma unat_byte_less [simp]: "unat (a :: byte) < 256"
  using unsigned_less [of a] by simp

lemma unat_push_u32: "unat (push_bit j (w :: u32)) = (unat w * 2 ^ j) mod 2 ^ 32"
proof -
  have "unat (push_bit j w) = take_bit 32 (push_bit j (unat w))"
    by (simp add: unsigned_push_bit_eq)
  then show ?thesis by (simp only: take_bit_eq_mod push_bit_eq_mult)
qed

lemma unat_shift_add:
  fixes acc x :: u32
  assumes "j + m \<le> 32"
  shows "unat (push_bit j acc + x) mod 2 ^ (j + m) = (unat acc mod 2 ^ m * 2 ^ j + unat x) mod 2 ^ (j + m)"
proof -
  let ?M = "2 ^ (j + m) :: nat"
  have d: "?M dvd 2 ^ 32" using assms by (intro le_imp_power_dvd) simp
  have p: "unat (push_bit j acc) mod ?M = (2 ^ j * unat acc) mod ?M"
    using d by (simp only: unat_push_u32 mod_mod_cancel mult.commute)
  have "unat (push_bit j acc + x) mod ?M = (unat (push_bit j acc) + unat x) mod 2 ^ 32 mod ?M"
    by (simp only: unat_word_ariths) simp
  also have "\<dots> = (unat (push_bit j acc) + unat x) mod ?M"
    using d by (simp only: mod_mod_cancel)
  also have "\<dots> = ((2 ^ j * unat acc) mod ?M + unat x) mod ?M"
    by (metis p mod_add_left_eq)
  also have "(2 ^ j * unat acc) mod ?M = 2 ^ j * (unat acc mod 2 ^ m)"
    by (simp only: power_add mult_mod_right)
  finally show ?thesis by (simp only: mult.commute)
qed

lemma b64_digits_less: "d \<in> set (b64_digits src) \<Longrightarrow> d < 64"
proof (induction src rule: b64_digits.induct)
  case (1 a b c src)
  have "unat a div 4 < 64" "unat b div 16 < 16" "unat c div 64 < 4" by (simp_all add: less_mult_imp_div_less)
  with 1 show ?case by auto
next
  case (2 a b)
  have "unat a div 4 < 64" "unat b div 16 < 16" by (simp_all add: less_mult_imp_div_less)
  with 2 show ?case by auto
next
  case (3 a)
  have "unat a div 4 < 64" by (simp_all add: less_mult_imp_div_less)
  with 3 show ?case by auto
qed simp

lemma div4_regroup: "(a::nat) div 4 * 64 + (a mod 4 * 16 + r) = a * 16 + r"
  using div_mult_mod_eq [of a 4] by linarith

lemma div16_regroup: "(a::nat) div 16 * 64 + (a mod 16 * 4 + r) = a * 4 + r"
  using div_mult_mod_eq [of a 16] by linarith

lemma sextet_decode_group:
  "sextet_decode (b64_digits [a, b, c] @ ds) 0 0 =
     (case sextet_decode ds 0 0 of (bs, q, l) \<Rightarrow> (a # b # c # bs, q, l))"
proof -
  have "unat b div 16 < 16" "unat c div 64 < 4" by (simp_all add: less_mult_imp_div_less)
  then show ?thesis
    by (simp add: Let_def div4_regroup div16_regroup del: of_nat_add of_nat_mult split: prod.splits)
qed

lemma sextet_decode_b64_digits:
  "\<exists>k \<le> 4. sextet_decode (b64_digits src) 0 0 = (src, 0, k)"
proof (induction src rule: b64_digits.induct)
  case (1 a b c src)
  then show ?case using sextet_decode_group [of a b c "b64_digits src"] by auto
next
  case (2 a b)
  have "unat b div 16 < 16" by (simp add: less_mult_imp_div_less)
  then show ?case using div16_regroup [of "unat b" 0]
    by (simp add: Let_def div4_regroup del: of_nat_add of_nat_mult)
next
  case (3 a)
  show ?case using div4_regroup [of "unat a" 0]
    by (simp add: Let_def del: of_nat_add of_nat_mult)
qed simp

lemma mod_exp_div_exp: "j \<le> n \<Longrightarrow> (a mod 2 ^ n) div 2 ^ j = a div 2 ^ j mod 2 ^ (n - j)" for a :: nat
  by (simp add: drop_bit_take_bit flip: take_bit_eq_mod drop_bit_eq_div)

lemma unat_shift_add_small:
  fixes acc x :: u32
  assumes "j + m \<le> 32" "unat x < 2 ^ j"
  shows "unat (push_bit j acc + x) mod 2 ^ (j + m) = unat acc mod 2 ^ m * 2 ^ j + unat x"
proof -
  have "unat acc mod 2 ^ m + 1 \<le> 2 ^ m" by (simp add: Suc_leI)
  then have "(unat acc mod 2 ^ m + 1) * 2 ^ j \<le> 2 ^ m * 2 ^ j" by (rule mult_le_mono1)
  then have "unat acc mod 2 ^ m * 2 ^ j + unat x < 2 ^ (j + m)"
    using assms(2) by (simp add: power_add mult.commute add_mult_distrib)
  then show ?thesis using unat_shift_add [OF assms(1), of acc x] by simp
qed

lemma b64_value_NUL: "b64_value sg NUL = 255"
proof -
  have "char_as_int sg NUL = 0" by (simp add: char_as_int_def NUL_def)
  then show ?thesis by (simp add: b64_value_def b64_char_to_byte_small)
qed

lemma b64_valid_iff: "(63 < b64_char_to_byte (char_as_int sg c)) = (\<not> b64_valid sg c)"
  by (auto simp: b64_value_def word_less_nat_alt)

lemma decode_byte:
  fixes acc acc' d :: u32
  assumes "k \<in> {2, 4, 6}" "unat d < 64" "acc' = push_bit 6 acc + d"
  shows "ucast (drop_bit (k - 2) acc' AND 0xFF) =
     (of_nat ((unat acc mod 2 ^ k * 64 + unat d) div 2 ^ (k - 2)) :: byte)"
    and "unat acc' mod 2 ^ (k - 2) = (unat acc mod 2 ^ k * 64 + unat d) mod 2 ^ (k - 2)"
proof -
  have k: "6 + k \<le> 32" "k - 2 \<le> 6 + k" "6 + k - (k - 2) = 8" using assms(1) by auto
  have v: "unat acc' mod 2 ^ (6 + k) = unat acc mod 2 ^ k * 64 + unat d"
    using unat_shift_add_small [of 6 k d acc] k assms by simp
  have "unat (drop_bit (k - 2) acc' AND 0xFF) = (unat acc mod 2 ^ k * 64 + unat d) div 2 ^ (k - 2)"
    using mod_exp_div_exp [OF k(2), of "unat acc'"] k(3) by (simp add: unat_and_FF unat_drop_u32 flip: v)
  then show "ucast (drop_bit (k - 2) acc' AND 0xFF) =
     (of_nat ((unat acc mod 2 ^ k * 64 + unat d) div 2 ^ (k - 2)) :: byte)"
    by (metis of_nat_unat)
  have "(2::nat) ^ (k - 2) dvd 2 ^ (6 + k)" by (intro le_imp_power_dvd) simp
  then show "unat acc' mod 2 ^ (k - 2) = (unat acc mod 2 ^ k * 64 + unat d) mod 2 ^ (k - 2)"
    using v by (metis mod_mod_cancel)
qed

lemma decode_loop_sextets:
  assumes "k \<in> {0, 2, 4, 6}" "dst_len \<le> length dst" "len \<le> dst_len"
    and "sextet_decode (map (b64_value sg) (takeWhile (b64_valid sg) src)) (unat acc mod 2 ^ k) k = (bs, q, l)"
  shows "if len + length bs \<le> dst_len
    then \<exists>acc'. decode_loop sg dst_len src dst len acc k
            = Some (Stopped (take len dst @ bs @ drop (len + length bs) dst) (len + length bs) acc' l)
          \<and> unat acc' mod 2 ^ l = q
    else \<exists>dst'. decode_loop sg dst_len src dst len acc k = Some (Overflow dst')
          \<and> length dst' = length dst \<and> drop dst_len dst' = drop dst_len dst"
  using assms
proof (induction src arbitrary: dst len acc k bs)
  case Nil
  then show ?case using b64_value_NUL [of sg]
    by (auto simp: b64_valid_iff)
next
  case (Cons c src)
  let ?d = "b64_char_to_byte (char_as_int sg c)"
  let ?acc = "push_bit 6 acc + ?d"
  show ?case
  proof (cases "b64_valid sg c")
    case False
    then show ?thesis using Cons.prems by (auto simp: b64_valid_iff)
  next
    case True
    then have d: "unat ?d < 64" by (simp add: b64_value_def)
    show ?thesis
    proof (cases "k = 0")
      case k0: True
      have "unat ?acc mod 2 ^ 6 = unat ?d"
        using unat_shift_add_small [of 6 0 ?d acc] d by simp
      then show ?thesis using Cons.IH [of 6 dst len ?acc bs] Cons.prems True k0
        by (simp add: b64_valid_iff Let_def b64_value_def)
    next
      case False
      then have k: "k \<in> {2, 4, 6}" using Cons.prems(1) by auto
      let ?v = "unat acc mod 2 ^ k * 64 + b64_value sg c"
      let ?b = "of_nat (?v div 2 ^ (k - 2)) :: byte"
      note db = decode_byte [OF k d refl, of acc, folded b64_value_def]
      obtain bs' where bs: "bs = ?b # bs'"
        and sd: "sextet_decode (map (b64_value sg) (takeWhile (b64_valid sg) src)) (?v mod 2 ^ (k - 2)) (k - 2) = (bs', q, l)"
        using Cons.prems(4) True k
        by (auto simp: Let_def split: prod.splits simp del: of_nat_add of_nat_mult)
      show ?thesis
      proof (cases "dst_len \<le> len")
        case True': True
        then show ?thesis using \<open>b64_valid sg c\<close> k bs Cons.prems
          by (auto simp: b64_valid_iff Let_def)
      next
        case False
        then have l: "len < length dst" using Cons.prems by simp
        have "k - 2 \<in> {0, 2, 4, 6}" using k by auto
        note IH = Cons.IH [OF this, of "dst[len := ?b]" "Suc len" ?acc bs']
        have step: "decode_loop sg dst_len (c # src) dst len acc k
            = decode_loop sg dst_len src (dst[len := ?b]) (Suc len) ?acc (k - 2)"
          using \<open>b64_valid sg c\<close> k False l db(1)
          by (auto simp: b64_valid_iff Let_def write_at_Some)
        have "take (Suc len) (dst[len := ?b]) = take len dst @ [?b]"
          using l by (rule take_Suc_list_update)
        then show ?thesis using IH sd step db(2) Cons.prems False l bs
          by (simp add: drop_update_cancel split: if_splits)
      qed
    qed
  qed
qed

section \<open>The encoder against the reference codec\<close>

lemma emit_sextets_run:
  assumes "m = n div 6" "m \<le> length ys"
  shows "emit_sextets acc n (xs @ ys) (length xs) =
     Some (n mod 6, xs @ map (\<lambda>i. sextet_at acc (n - 6 * (i + 1))) [0..<m] @ drop m ys, length xs + m)"
  using assms
proof (induction m arbitrary: n xs ys)
  case 0
  then have "n < 6" by linarith
  then show ?case by (subst emit_sextets.simps) simp
next
  case (Suc m)
  then obtain z zs where ys: "ys = z # zs" "m \<le> length zs" by (cases ys) auto
  have n6: "6 \<le> n" using Suc.prems(1) by (cases "n < 6") simp_all
  have n: "6 \<le> n" "m = (n - 6) div 6" "(n - 6) mod 6 = n mod 6"
    using Suc.prems(1) n6 le_div_geq [of 6 n] le_mod_geq [of 6 n] by auto
  have "emit_sextets acc n (xs @ ys) (length xs) =
     emit_sextets acc (n - 6) ((xs @ [sextet_at acc (n - 6)]) @ zs) (length (xs @ [sextet_at acc (n - 6)]))"
    using n(1) ys
    by (subst emit_sextets.simps) (simp add: b64_byte_to_char_def sextet_at_def unat_and_3F unat_drop_u32)
  also have "\<dots> = Some ((n - 6) mod 6, (xs @ [sextet_at acc (n - 6)]) @
      map (\<lambda>i. sextet_at acc (n - 6 - 6 * (i + 1))) [0..<m] @ drop m zs, length (xs @ [sextet_at acc (n - 6)]) + m)"
    by (rule Suc.IH) (use n ys in auto)
  also have "map (\<lambda>i. sextet_at acc (n - 6 - 6 * (i + 1))) [0..<m] =
      map (\<lambda>i. sextet_at acc (n - 6 * (i + 1))) [1..<Suc m]"
    by (rule nth_equalityI) (simp_all add: algebra_simps del: upt_Suc)
  finally show ?case using n(3) ys by (simp add: upt_conv_Cons del: upt_Suc)
qed

lemma word_mod_exp_div:
  assumes "unat (w :: u32) mod 2 ^ n = v" "j + 6 \<le> n"
  shows "sextet_at w j = base64_chars ! (v div 2 ^ j mod 64)"
proof -
  have "v div 2 ^ j mod 2 ^ 6 = unat w div 2 ^ j mod 2 ^ (n - j) mod 2 ^ 6"
    using mod_exp_div_exp [of j n "unat w"] assms by simp
  also have "\<dots> = unat w div 2 ^ j mod 2 ^ 6"
    using assms(2) by (intro mod_mod_cancel le_imp_power_dvd) simp
  finally show ?thesis by (simp add: sextet_at_def)
qed

lemma mod_eq_of_decomp: "(x :: nat) = m * q + s \<Longrightarrow> s < m \<Longrightarrow> x mod m = s"
  by simp

lemma triple_sextets:
  fixes a b c :: nat
  assumes b: "b < 256" and c: "c < 256" and v: "v = a * 65536 + b * 256 + c"
  shows "v div 2 ^ 18 = a div 4" "v div 2 ^ 12 mod 64 = a mod 4 * 16 + b div 16"
    "v div 2 ^ 6 mod 64 = b mod 16 * 4 + c div 64" "v mod 64 = c mod 64"
proof -
  have 1: "v div 256 = a * 256 + b" using c v by simp
  then have 2: "v div 65536 = a" using div_mult2_eq [of v 256 256] b by simp
  show "v div 2 ^ 18 = a div 4" using div_mult2_eq [of v 65536 4] 2 by simp
  have h: "v div 2 ^ 12 = a * 16 + b div 16" using div_mult2_eq [of v 256 16] 1 by simp
  show "v div 2 ^ 12 mod 64 = a mod 4 * 16 + b div 16"
  proof (rule mod_eq_of_decomp)
    show "v div 2 ^ 12 = 64 * (a div 4) + (a mod 4 * 16 + b div 16)"
      using h div_mult_mod_eq [of a 4] by linarith
    have "b div 16 < 16" using b by (simp add: less_mult_imp_div_less)
    then show "a mod 4 * 16 + b div 16 < 64" using mod_less_divisor [of 4 a] by linarith
  qed
  have l: "v div 2 ^ 6 = a * 1024 + b * 4 + c div 64" using v by simp
  show "v div 2 ^ 6 mod 64 = b mod 16 * 4 + c div 64"
  proof (rule mod_eq_of_decomp)
    show "v div 2 ^ 6 = 64 * (a * 16 + b div 16) + (b mod 16 * 4 + c div 64)"
      unfolding l using div_mult_mod_eq [of b 16] by arith
    have "c div 64 < 4" using c by (simp add: less_mult_imp_div_less)
    then show "b mod 16 * 4 + c div 64 < 64" using mod_less_divisor [of 16 b] by linarith
  qed
  show "v mod 64 = c mod 64"
  proof (rule mod_eq_of_decomp)
    show "v = 64 * (a * 1024 + b * 4 + c div 64) + c mod 64"
      using v div_mult_mod_eq [of c 64] by arith
  qed simp
qed

lemma upt_unroll: "[0..<1] = [0]" "[0..<2] = [0, 1]" "[0..<4] = [0, 1, 2, 3]"
  by (simp_all add: upt_rec)

lemma b64_text_simps:
  "b64_text (a # b # c # src) = map ((!) base64_chars)
     [unat a div 4, unat a mod 4 * 16 + unat b div 16, unat b mod 16 * 4 + unat c div 64, unat c mod 64]
     @ b64_text src"
  "b64_text [a, b] = map ((!) base64_chars)
     [unat a div 4, unat a mod 4 * 16 + unat b div 16, unat b mod 16 * 4]"
  "b64_text [a] = map ((!) base64_chars) [unat a div 4, unat a mod 4 * 16]"
  "b64_text [] = []"
  by (simp_all add: b64_text_def)

lemma acc_triple:
  fixes acc :: u32 and a b c :: byte
  shows "unat (push_bit 24 acc + push_bit 16 (ucast a) + push_bit 8 (ucast b) + ucast c :: u32) mod 2 ^ 24
    = unat a * 65536 + unat b * 256 + unat c"
proof -
  let ?x = "push_bit 16 (ucast a) + push_bit 8 (ucast b) + ucast c :: u32"
  have u: "unat (ucast w :: u32) = unat w" for w :: byte
    using less_trans [OF unat_byte_less [of w], of "2 ^ 32"] by (simp add: unsigned_ucast_eq take_bit_nat_eq_self)
  have p: "unat (push_bit j (ucast w) :: u32) = unat w * 2 ^ j" if "j \<le> 16" for w :: byte and j
  proof -
    have "unat w * 2 ^ j < 256 * 2 ^ 16"
      using unat_byte_less [of w] power_increasing [OF that, of "2 :: nat"] by (intro mult_less_le_imp_less) auto
    then show ?thesis
      by (simp add: unat_push_u32 u)
  qed
  have l: "unat a * 65536 + unat b * 256 + unat c < 16777216"
    using unat_byte_less [of a] unat_byte_less [of b] unat_byte_less [of c] by linarith
  have x: "unat ?x = unat a * 65536 + unat b * 256 + unat c"
  proof -
    have l': "unat a * 65536 + unat b * 256 < 4294967296"
      and l'': "unat a * 65536 + unat b * 256 + unat c < 4294967296" using l by linarith+
    have "unat ?x = ((unat a * 65536 + unat b * 256) mod 4294967296 + unat c) mod 4294967296"
      by (simp add: unat_word_ariths p u)
    then show ?thesis by (simp only: mod_less [OF l'] mod_less [OF l''])
  qed
  have "unat (push_bit 24 acc + ?x) mod 2 ^ (24 + 0) = unat acc mod 2 ^ 0 * 2 ^ 24 + unat ?x"
    by (intro unat_shift_add_small) (use l in \<open>simp_all add: x\<close>)
  then show ?thesis by (simp only: x add.assoc [symmetric]) simp
qed

lemma encode_triples_text:
  assumes "4 * (length src div 3) \<le> length ys"
  shows "\<exists>acc'. encode_triples src acc 0 (xs @ ys) (length xs) =
    (let t = 3 * (length src div 3); text = b64_text (take t src) in
     Some (drop t src, acc', 0, xs @ text @ drop (length text) ys, length xs + length text))"
  using assms
proof (induction src arbitrary: acc xs ys rule: b64_digits.induct)
  case (1 a b c src)
  let ?acc = "push_bit 24 acc + push_bit 16 (ucast a) + push_bit 8 (ucast b) + ucast c :: u32"
  let ?t = "map ((!) base64_chars) [unat a div 4, unat a mod 4 * 16 + unat b div 16,
      unat b mod 16 * 4 + unat c div 64, unat c mod 64]"
  note v = triple_sextets [OF unat_byte_less unat_byte_less refl, of "unat a" b c]
  have w: "sextet_at ?acc j = base64_chars ! ((unat a * 65536 + unat b * 256 + unat c) div 2 ^ j mod 64)"
    if "j \<le> 18" for j
    using word_mod_exp_div [OF acc_triple] that by simp
  have "unat a div 4 < 64" by (simp add: less_mult_imp_div_less)
  then have t: "map (\<lambda>i. sextet_at ?acc (24 - 6 * (i + 1))) [0..<4] = ?t"
    using v by (simp add: upt_unroll w)
  have l: "length (a # b # c # src) div 3 = Suc (length src div 3)" by simp
  then have y: "4 \<le> length ys" "4 * (length src div 3) \<le> length (drop 4 ys)" using 1(2) by simp_all
  have lt: "length (xs @ ?t) = length xs + 4" by simp
  have "encode_triples (a # b # c # src) acc 0 (xs @ ys) (length xs)
      = encode_triples src ?acc 0 ((xs @ ?t) @ drop 4 ys) (length xs + 4)"
    using emit_sextets_run [of 4 24 ys ?acc xs, unfolded t] y by (simp add: Let_def)
  moreover obtain acc' where "encode_triples src ?acc 0 ((xs @ ?t) @ drop 4 ys) (length xs + 4) =
    (let t = 3 * (length src div 3); text = b64_text (take t src) in
     Some (drop t src, acc', 0, (xs @ ?t) @ text @ drop (length text) (drop 4 ys), length xs + 4 + length text))"
    using 1(1) [OF y(2), of ?acc "xs @ ?t"] unfolding lt by blast
  moreover have e4: "n + 4 = Suc (Suc (Suc (Suc n)))" for n by simp
  moreover have e: "3 * Suc n = Suc (Suc (Suc (3 * n)))" for n by simp
  ultimately show ?case
    unfolding l e by (auto simp: b64_text_simps Let_def simp del: mult_Suc_right)
qed (simp_all add: b64_text_simps)

lemma acc_byte:
  fixes acc :: u32 and b :: byte
  assumes "m \<le> 24" 
  shows "unat (push_bit 8 acc + ucast b :: u32) mod 2 ^ (8 + m) = unat acc mod 2 ^ m * 256 + unat b"
  using unat_shift_add_small [of 8 m "ucast b" acc] assms less_trans [OF unat_byte_less [of b], of "2 ^ 32"]
  by (simp add: unsigned_ucast_eq take_bit_nat_eq_self)

lemma encode_bytes_step:
  assumes "k \<in> {0, 2, 4}" "m = (k + 8) div 6" "m \<le> length ys"
  shows "encode_bytes (b # src) acc k (xs @ ys) (length xs) =
     (let acc' = push_bit 8 acc + ucast b;
          t = map (\<lambda>i. sextet_at acc' (k + 8 - 6 * (i + 1))) [0..<m] in
      encode_bytes src acc' ((k + 8) mod 6) ((xs @ t) @ drop m ys) (length (xs @ t)))"
  using emit_sextets_run [OF assms(2,3), of "push_bit 8 acc + ucast b" xs] by (simp add: Let_def)

lemma unat_ucast_byte: "unat (ucast (w :: byte) :: u32) = unat w"
  using less_trans [OF unat_byte_less [of w], of "2 ^ 32"] by (simp add: unsigned_ucast_eq take_bit_nat_eq_self)

lemma byte_sextets:
  fixes acc :: u32 and a b c :: byte
  defines "acc1 \<equiv> push_bit 8 acc + ucast a"
  defines "acc2 \<equiv> push_bit 8 acc1 + ucast b"
  defines "acc3 \<equiv> push_bit 8 acc2 + ucast c"
  shows "unat acc1 mod 2 ^ 8 = unat a" "unat acc2 mod 2 ^ 16 = unat a * 256 + unat b"
    and "sextet_at acc1 2 = base64_chars ! (unat a div 4)"
    and "sextet_at acc2 4 = base64_chars ! (unat a mod 4 * 16 + unat b div 16)"
    and "sextet_at acc3 6 = base64_chars ! (unat b mod 16 * 4 + unat c div 64)"
    and "sextet_at acc3 0 = base64_chars ! (unat c mod 64)"
proof -
  show 1: "unat acc1 mod 2 ^ 8 = unat a"
    using acc_byte [of 0 acc a] by (simp add: acc1_def)
  show 2: "unat acc2 mod 2 ^ 16 = unat a * 256 + unat b"
    using acc_byte [of 8 acc1 b] 1 by (simp add: acc2_def)
  have 3: "unat acc3 mod 2 ^ 24 = unat a * 65536 + unat b * 256 + unat c"
    using acc_byte [of 16 acc2 c] 2 by (simp add: acc3_def)
  note v = triple_sextets [OF unat_byte_less unat_byte_less refl, of "unat a" b c]
  have "unat a div 4 < 64" by (simp add: less_mult_imp_div_less)
  then show "sextet_at acc1 2 = base64_chars ! (unat a div 4)"
    using word_mod_exp_div [OF 1, of 2] by simp
  have e: "(unat a * 65536 + unat b * 256 + unat c) div 256 = unat a * 256 + unat b"
    using unat_byte_less [of c] by arith
  have "(unat a * 256 + unat b) div 2 ^ 4 = (unat a * 65536 + unat b * 256 + unat c) div 2 ^ 12"
    using div_mult2_eq [of "unat a * 65536 + unat b * 256 + unat c" 256 16] e by simp
  then show "sextet_at acc2 4 = base64_chars ! (unat a mod 4 * 16 + unat b div 16)"
    using word_mod_exp_div [OF 2, of 4] v(2) by simp
  show "sextet_at acc3 6 = base64_chars ! (unat b mod 16 * 4 + unat c div 64)"
    using word_mod_exp_div [OF 3, of 6] v(3) by simp
  show "sextet_at acc3 0 = base64_chars ! (unat c mod 64)"
    using word_mod_exp_div [OF 3, of 0] v(4) by simp
qed

lemma push_bit_sextet:
  assumes "unat (acc :: u32) mod 2 ^ n = v" "j \<le> 6" "6 - j \<le> n" 
  shows "b64_byte_to_char (push_bit j acc AND 0x3F) = base64_chars ! (v mod 2 ^ (6 - j) * 2 ^ j)"
proof -
  have e: "(64 :: nat) = 2 ^ (6 - j) * 2 ^ j" using assms(2) by (simp flip: power_add)
  have "unat (push_bit j acc AND 0x3F) = (unat acc * 2 ^ j) mod 2 ^ 32 mod 2 ^ 6"
    by (simp add: unat_and_3F unat_push_u32)
  also have "\<dots> = (unat acc * 2 ^ j) mod 2 ^ 6"
    by (intro mod_mod_cancel le_imp_power_dvd) simp
  also have "\<dots> = unat acc mod 2 ^ (6 - j) * 2 ^ j"
    using e by (simp add: mult_mod_left)
  also have "unat acc mod 2 ^ (6 - j) = v mod 2 ^ (6 - j)"
    using assms(1,3) by (metis mod_mod_cancel le_imp_power_dvd)
  finally show ?thesis by (simp add: b64_byte_to_char_def)
qed

lemma encode_rest_Cons:
  assumes "k \<in> {0, 2, 4}" "m = (k + 8) div 6" "m \<le> length ys"
  shows "encode_rest olen (b # src) acc k (xs @ ys) (length xs) =
     (let acc' = push_bit 8 acc + ucast b;
          t = map (\<lambda>i. sextet_at acc' (k + 8 - 6 * (i + 1))) [0..<m] in
      encode_rest olen src acc' ((k + 8) mod 6) ((xs @ t) @ drop m ys) (length (xs @ t)))"
  by (simp only: encode_rest_def encode_bytes_step [OF assms] Let_def)

lemma encode_rest_first:
  assumes "acc' = push_bit 8 acc + ucast a" "xs' = xs @ [sextet_at acc' 2]"
  shows "encode_rest olen (a # src) acc 0 (xs @ p # ys) (length xs) =
     encode_rest olen src acc' 2 (xs' @ ys) (length xs')"
  using encode_rest_Cons [of 0 1 "p # ys" olen a src acc xs] assms by (simp add: Let_def upt_unroll)

lemma encode_rest_second:
  assumes "acc' = push_bit 8 acc + ucast a" "xs' = xs @ [sextet_at acc' 4]"
  shows "encode_rest olen (a # src) acc 2 (xs @ p # ys) (length xs) =
     encode_rest olen src acc' 4 (xs' @ ys) (length xs')"
  using encode_rest_Cons [of 2 1 "p # ys" olen a src acc xs] assms by (simp add: Let_def upt_unroll)

lemma encode_rest_third:
  assumes "acc' = push_bit 8 acc + ucast a" "xs' = xs @ [sextet_at acc' 6, sextet_at acc' 0]"
  shows "encode_rest olen (a # src) acc 4 (xs @ p # q # ys) (length xs) =
     encode_rest olen src acc' 0 (xs' @ ys) (length xs')"
proof -
  have "encode_rest olen (a # src) acc 4 (xs @ p # q # ys) (length xs) =
     (let acc' = push_bit 8 acc + ucast a; t = map (\<lambda>i. sextet_at acc' (4 + 8 - 6 * (i + 1))) [0..<2] in
      encode_rest olen src acc' ((4 + 8) mod 6) ((xs @ t) @ drop 2 (p # q # ys)) (length (xs @ t)))"
    by (rule encode_rest_Cons) simp_all
  then show ?thesis
    unfolding assms Let_def upt_unroll by simp
qed

lemma encode_rest_Nil_0: "encode_rest olen [] acc 0 (xs @ p # ys) (length xs) = Some (xs @ NUL # ys, olen)"
  by (simp add: encode_rest_def encode_finish_def)

lemma encode_rest_Nil:
  assumes "0 < k"
  shows "encode_rest olen [] acc k (xs @ p # q # ys) (length xs) =
     Some (xs @ b64_byte_to_char (push_bit (6 - k) acc AND 0x3F) # NUL # ys, olen)"
proof -
  let ?c = "b64_byte_to_char (push_bit (6 - k) acc AND 0x3F)"
  have "write_at (xs @ ?c # q # ys) (Suc (length xs)) NUL = Some (xs @ ?c # NUL # ys)"
    using write_at_append [of "xs @ [?c]" q ys NUL] by simp
  then show ?thesis using assms
    by (simp add: encode_rest_def encode_finish_def)
qed

lemma encode_rest_text:
  assumes "length (b64_text src) < length ys"
  shows "encode_rest olen src acc 0 (xs @ ys) (length xs) =
     Some (xs @ b64_text src @ NUL # drop (Suc (length (b64_text src))) ys, olen)"
  using assms
proof (induction src arbitrary: acc xs ys rule: b64_digits.induct)
  case (1 a b c src)
  then obtain p q r s zs where ys: "ys = p # q # r # s # zs" "length (b64_text src) < length zs"
    by (auto simp: b64_text_simps less_iff_Suc_add length_Suc_conv)
  let ?t = "b64_text [a, b, c]"
  have "encode_rest olen (a # b # c # src) acc 0 (xs @ ys) (length xs) =
      encode_rest olen src (push_bit 8 (push_bit 8 (push_bit 8 acc + ucast a) + ucast b) + ucast c) 0
        ((xs @ ?t) @ zs) (length (xs @ ?t))"
    unfolding ys(1) encode_rest_first [OF refl refl] encode_rest_second [OF refl refl]
      encode_rest_third [OF refl refl] byte_sextets by (simp add: b64_text_simps)
  then show ?case
    by (simp only: 1(1) [OF ys(2)]) (simp add: ys(1) b64_text_simps)
next
  case (2 a b)
  then obtain p q r s zs where ys: "ys = p # q # r # s # zs"
    by (auto simp: b64_text_simps less_iff_Suc_add length_Suc_conv)
  have "(unat a * 256 + unat b) mod 2 ^ 4 = unat b mod 16" by (simp add: mod_add_eq [symmetric, of "unat a * 256"])
  then show ?case
    unfolding ys(1) encode_rest_first [OF refl refl] encode_rest_second [OF refl refl]
      encode_rest_Nil [OF zero_less_numeral]
    using push_bit_sextet [OF byte_sextets(2) [of acc a b], of 2]
    by (simp add: byte_sextets b64_text_simps)
next
  case (3 a)
  then obtain p q r zs where ys: "ys = p # q # r # zs"
    by (auto simp: b64_text_simps less_iff_Suc_add length_Suc_conv)
  show ?case
    unfolding ys(1) encode_rest_first [OF refl refl] encode_rest_Nil [OF zero_less_numeral]
    using push_bit_sextet [OF byte_sextets(1) [of acc a], of 4]
    by (simp add: byte_sextets b64_text_simps)
next
  case 4
  then obtain p zs where "ys = p # zs"
    by (cases ys) (auto simp: b64_text_simps)
  then show ?case by (simp add: b64_text_simps encode_rest_Nil_0)
qed

lemma length_b64_text:
  "length (b64_text src) = 4 * (length src div 3) +
     (if length src mod 3 = 2 then 3 else if length src mod 3 = 1 then 2 else 0)"
proof (induction src rule: b64_digits.induct)
  case (1 a b c src)
  have "length (a # b # c # src) div 3 = Suc (length src div 3)"
    "length (a # b # c # src) mod 3 = length src mod 3" by simp_all
  then show ?case using 1 by (simp add: b64_text_simps)
qed (simp_all add: b64_text_simps)

lemma b64_olen_text:
  assumes "length src < 2 ^ 63"
  shows "b64_olen (length src) = length (b64_text src)"
proof -
  have "length src div 3 * 4 + 3 < 2 ^ 64" using assms by simp
  then show ?thesis by (simp add: b64_olen_def Let_def length_b64_text)
qed

lemma b64_text_split:
  "t = 3 * (length src div 3) \<Longrightarrow> b64_text (take t src) @ b64_text (drop t src) = b64_text src"
proof (induction src arbitrary: t rule: b64_digits.induct)
  case (1 a b c src)
  have l: "length (a # b # c # src) div 3 = Suc (length src div 3)" by simp
  have e: "3 * Suc n = Suc (Suc (Suc (3 * n)))" for n by simp
  show ?case using 1(1) [OF refl] unfolding 1(2) l e by (simp add: b64_text_simps)
qed (simp_all add: b64_text_simps)

lemma encode_text:
  assumes "length (b64_text src) < length dst"
  shows "\<exists>st. encode_triples src 0 0 dst 0 = Some st
     \<and> (case st of (src', acc, acc_len, dst', pos) \<Rightarrow> encode_rest olen src' acc acc_len dst' pos)
        = Some (b64_text src @ NUL # drop (Suc (length (b64_text src))) dst, olen)"
proof -
  let ?t = "3 * (length src div 3)"
  let ?h = "b64_text (take ?t src)" and ?r = "b64_text (drop ?t src)"
  note sp = b64_text_split [OF refl, of src]
  have ln: "length (b64_text src) = length ?h + length ?r" by (metis sp length_append)
  obtain acc where e: "encode_triples src 0 0 dst 0 = Some (drop ?t src, acc, 0, ?h @ drop (length ?h) dst, length ?h)"
    using encode_triples_text [of src dst 0 "[]"] assms by (auto simp: length_b64_text Let_def)
  have "encode_rest olen (drop ?t src) acc 0 (?h @ drop (length ?h) dst) (length ?h) =
    Some (?h @ ?r @ NUL # drop (Suc (length ?r)) (drop (length ?h) dst), olen)"
    using assms ln by (intro encode_rest_text) simp
  moreover have "drop (Suc (length ?r)) (drop (length ?h) dst) = drop (Suc (length (b64_text src))) dst"
    by (simp add: ln add.commute)
  ultimately show ?thesis using e
    by (simp only: append_assoc [symmetric] sp) simp
qed

lemma argon2_to_base64_rest:
  "argon2_to_base64 dst dst_len src =
     (if dst_len \<le> b64_olen (length src) then Some (dst, SIZE_MAX)
      else case encode_triples src 0 0 dst 0 of None \<Rightarrow> None
         | Some (src', acc, acc_len, dst', pos) \<Rightarrow> encode_rest (b64_olen (length src)) src' acc acc_len dst' pos)"
  by (auto simp: argon2_to_base64_def encode_rest_def Let_def split: option.splits)

lemma argon2_to_base64_text:
  assumes "dst_len \<le> length dst" "length src < 2 ^ 63"
  shows "argon2_to_base64 dst dst_len src =
     Some (if dst_len \<le> length (b64_text src) then (dst, SIZE_MAX)
           else (b64_text src @ NUL # drop (Suc (length (b64_text src))) dst, length (b64_text src)))"
proof (cases "dst_len \<le> length (b64_text src)")
  case True
  then show ?thesis using assms by (simp add: argon2_to_base64_def b64_olen_text)
next
  case False
  then have "length (b64_text src) < length dst" using assms(1) by simp
  then show ?thesis using encode_text [of src dst "length (b64_text src)"] False assms(2)
    by (auto simp: argon2_to_base64_rest b64_olen_text)
qed

lemma bytewise_text:
  assumes "dst_len \<le> length dst" "length src < 2 ^ 63"
  shows "argon2_to_base64_bytewise dst dst_len src = argon2_to_base64 dst dst_len src"
  using assms encode_rest_text [of src dst "length (b64_text src)" 0 "[]"]
  by (auto simp: argon2_to_base64_bytewise_def argon2_to_base64_text b64_olen_text Let_def)

lemma argon2_from_base64_result:
  assumes "dst_len \<le> length dst"
    and "sextet_decode (map (b64_value sg) (takeWhile (b64_valid sg) src)) 0 0 = (bs, q, l)"
  shows "if length bs \<le> dst_len
     then argon2_from_base64 sg dst dst_len src
        = Some (bs @ drop (length bs) dst, if l \<le> 4 \<and> q = 0 then length bs else SIZE_MAX)
     else \<exists>dst'. argon2_from_base64 sg dst dst_len src = Some (dst', SIZE_MAX)
        \<and> length dst' = length dst \<and> drop dst_len dst' = drop dst_len dst"
proof (cases "length bs \<le> dst_len")
  case True
  have l: "l \<in> {0, 2, 4, 6}" if "sextet_decode ds p k = (bs, q, l)" "k \<in> {0, 2, 4, 6}" for ds p k bs
    using that by (induction ds p k arbitrary: bs rule: sextet_decode.induct) (auto simp: Let_def split: if_splits prod.splits)
  obtain acc where acc: "decode_loop sg dst_len src dst 0 0 0 =
      Some (Stopped (bs @ drop (length bs) dst) (length bs) acc l)" "unat acc mod 2 ^ l = q"
    using decode_loop_sextets [of 0 dst_len dst 0 sg src 0 bs q l] assms True by auto
  have "acc AND (push_bit l 1 - 1) = take_bit l acc"
    by (simp add: take_bit_eq_mask mask_eq_exp_minus_1 push_bit_eq_mult)
  then have "unat (acc AND (push_bit l 1 - 1)) = q"
    using take_bit_eq_mod [of l "unat acc"] acc(2) by (simp add: unsigned_take_bit_eq)
  then have "(acc AND (push_bit l 1 - 1) = 0) = (q = 0)" by (simp add: word_unat_eq_iff)
  then show ?thesis using acc True by (auto simp: argon2_from_base64_def)
next
  case False
  then show ?thesis
    using decode_loop_sextets [of 0 dst_len dst 0 sg src 0 bs q l] assms by (auto simp: argon2_from_base64_def)
qed

lemma b64_value_base64_chars: "n < 64 \<Longrightarrow> b64_value sg (base64_chars ! n) = n"
  by (simp add: b64_value_def base64_chars_decode unat_of_nat)

lemma takeWhile_b64_text:
  "takeWhile (b64_valid sg) (b64_text src @ NUL # r) = b64_text src"
  using b64_digits_less [of _ src] b64_value_NUL [of sg]
  by (subst takeWhile_append2) (auto simp: b64_text_def b64_value_base64_chars)

lemma b64_value_text: "map (b64_value sg) (b64_text src) = b64_digits src"
  using b64_digits_less [of _ src]
  by (auto simp: b64_text_def b64_value_base64_chars intro!: map_idI)

lemma argon2_from_base64_text:
  assumes "length src \<le> out_len" "out_len \<le> length out"
  shows "argon2_from_base64 sg out out_len (b64_text src @ NUL # r) =
     Some (src @ drop (length src) out, length src)"
proof -
  obtain k where "k \<le> 4" "sextet_decode (b64_digits src) 0 0 = (src, 0, k)"
    using sextet_decode_b64_digits by blast
  then show ?thesis
    using argon2_from_base64_result [of out_len out sg "b64_text src @ NUL # r" src 0 k] assms
    by (simp add: takeWhile_b64_text b64_value_text)
qed

lemma regroup_sextets:
  fixes d0 d1 d2 d3 :: nat
  assumes "d0 < 64" "d1 < 64" "d2 < 64" "d3 < 64"
  shows "(d0 * 64 + d1) div 16 = d0 * 4 + d1 div 16" "(d0 * 64 + d1) mod 16 = d1 mod 16"
    and "d0 * 4 + d1 div 16 < 256" "(d1 mod 16) * 16 + d2 div 4 < 256" "(d2 mod 4) * 64 + d3 < 256"
    and "(d0 * 4 + d1 div 16) div 4 = d0" "(d0 * 4 + d1 div 16) mod 4 = d1 div 16"
    and "((d1 mod 16) * 64 + d2) div 4 = (d1 mod 16) * 16 + d2 div 4" "((d1 mod 16) * 64 + d2) mod 4 = d2 mod 4"
    and "((d1 mod 16) * 16 + d2 div 4) div 16 = d1 mod 16" "((d1 mod 16) * 16 + d2 div 4) mod 16 = d2 div 4"
    and "((d2 mod 4) * 64 + d3) div 64 = d2 mod 4" "((d2 mod 4) * 64 + d3) mod 64 = d3"
proof -
  have d: "d1 div 16 < 4" "d2 div 4 < 16" "d1 mod 16 < 16" "d2 mod 4 < 4"
    using assms by (simp_all add: less_mult_imp_div_less)
  have r: "(x * m + y) div m = x" "(x * m + y) mod m = y" if "y < m" for x y m :: nat
    using that by simp_all
  show "d0 * 4 + d1 div 16 < 256" "(d1 mod 16) * 16 + d2 div 4 < 256" "(d2 mod 4) * 64 + d3 < 256"
    using d assms by linarith+
  show "(d0 * 64 + d1) div 16 = d0 * 4 + d1 div 16" by simp
  show "(d0 * 64 + d1) mod 16 = d1 mod 16" by (simp add: mod_add_eq [symmetric, of "d0 * 64"])
  show "(d0 * 4 + d1 div 16) div 4 = d0" "(d0 * 4 + d1 div 16) mod 4 = d1 div 16"
    using r [OF d(1)] by blast+
  show "((d1 mod 16) * 64 + d2) div 4 = (d1 mod 16) * 16 + d2 div 4" by simp
  show "((d1 mod 16) * 64 + d2) mod 4 = d2 mod 4" by (simp add: mod_add_eq [symmetric, of "d1 mod 16 * 64"])
  show "((d1 mod 16) * 16 + d2 div 4) div 16 = d1 mod 16" "((d1 mod 16) * 16 + d2 div 4) mod 16 = d2 div 4"
    using r [OF d(2)] by blast+
  show "((d2 mod 4) * 64 + d3) div 64 = d2 mod 4" "((d2 mod 4) * 64 + d3) mod 64 = d3"
    using r [OF assms(4)] by blast+
qed

lemma unat_of_nat_byte: "n < 256 \<Longrightarrow> unat (of_nat n :: byte) = n"
  by (simp add: unat_of_nat)

lemma b64_digits_sextet_decode:
  assumes "sextet_decode ds 0 0 = (bs, 0, k)" "k \<le> 4" "\<forall>d \<in> set ds. d < 64"
  shows "b64_digits bs = ds"
  using assms
proof (induction "length ds" arbitrary: ds bs rule: less_induct)
  case less
  consider "ds = []" | d0 where "ds = [d0]" | d0 d1 where "ds = [d0, d1]" | d0 d1 d2 where "ds = [d0, d1, d2]"
    | d0 d1 d2 d3 r where "ds = d0 # d1 # d2 # d3 # r"
    by (metis list.exhaust)
  then show ?case
  proof cases
    case (3 d0 d1)
    then have d: "d0 < 64" "d1 < 64" using less.prems(3) by simp_all
    note r = regroup_sextets [OF d, of 0 0, simplified]
    have "bs = [of_nat (d0 * 4 + d1 div 16)]" "d1 mod 16 = 0"
      using less.prems(1) r(1,2) unfolding 3 by (simp_all add: Let_def del: of_nat_add of_nat_mult)
    then show ?thesis using r(3,6,7) div_mult_mod_eq [of d1 16] unfolding 3
      by (simp add: unat_of_nat_byte del: of_nat_add of_nat_mult)
  next
    case (4 d0 d1 d2)
    then have d: "d0 < 64" "d1 < 64" "d2 < 64" using less.prems(3) by simp_all
    note r = regroup_sextets [OF d, of 0, simplified]
    have "bs = [of_nat (d0 * 4 + d1 div 16), of_nat (d1 mod 16 * 16 + d2 div 4)]" "d2 mod 4 = 0"
      using less.prems(1) r(1,2,8,9) unfolding 4 by (simp_all add: Let_def del: of_nat_add of_nat_mult)
    then show ?thesis using r(3,4,6,7,10,11) div_mult_mod_eq [of d1 16] div_mult_mod_eq [of d2 4] unfolding 4
      by (simp add: unat_of_nat_byte del: of_nat_add of_nat_mult)
  next
    case (5 d0 d1 d2 d3 t)
    then have d: "d0 < 64" "d1 < 64" "d2 < 64" "d3 < 64" using less.prems(3) by simp_all
    note r = regroup_sextets [OF d]
    obtain bs' where bs: "bs = of_nat (d0 * 4 + d1 div 16) # of_nat (d1 mod 16 * 16 + d2 div 4) # of_nat (d2 mod 4 * 64 + d3) # bs'"
      and "sextet_decode t 0 0 = (bs', 0, k)"
      using less.prems(1) r(1,2,8,9) unfolding 5
      by (simp add: Let_def split: prod.splits del: of_nat_add of_nat_mult)
    then have "b64_digits bs' = t" using less 5 by simp
    then show ?thesis
      using r(3-7,10-13) div_mult_mod_eq [of d1 16] div_mult_mod_eq [of d2 4] unfolding 5 bs
      by (simp add: unat_of_nat_byte del: of_nat_add of_nat_mult)
  qed (use less.prems in auto)
qed

lemma b64_valid_char:
  assumes "b64_valid sg c" "\<not> sg \<or> (of_char c :: nat) < 128"
  shows "c = base64_chars ! b64_value sg c"
proof -
  have i: "char_as_int sg c = of_nat (of_char c)"
    using assms(2) char_as_int_unsigned [of c] char_as_int_ascii [of c sg] by (cases sg) auto
  have "b64_char_to_byte (of_nat (of_char c)) \<le> 63"
    using assms(1) unfolding b64_value_def i by (simp add: word_le_nat_alt)
  then obtain n where n: "n < 64" "(of_char c :: nat) = b64_code n"
    using base64_decode_inverse [of "of_char c"] by auto
  then have "of_char c = (of_char (base64_chars ! n) :: nat)" by (simp add: of_char_base64_chars)
  then have "c = base64_chars ! n" by simp
  then show ?thesis using b64_value_base64_chars [OF n(1)] by simp
qed

lemma decode_canonical:
  assumes "dst_len \<le> length dst" "dst_len < SIZE_MAX" 
    and "\<not> sg \<or> (\<forall>c \<in> set src. (of_char c :: nat) < 128)"
    and "argon2_from_base64 sg dst dst_len src = Some (out, n)" "n \<noteq> SIZE_MAX"
  shows "takeWhile (b64_valid sg) src = b64_text (take n out)"
proof -
  let ?t = "takeWhile (b64_valid sg) src"
  obtain bs q l where sd: "sextet_decode (map (b64_value sg) ?t) 0 0 = (bs, q, l)"
    by (metis prod_cases3)
  have r: "take n out = bs" "l \<le> 4" "q = 0"
    using argon2_from_base64_result [OF assms(1) sd] assms(4,5) by (auto split: if_splits)
  have "b64_digits bs = map (b64_value sg) ?t"
    using sd r(2,3) by (intro b64_digits_sextet_decode [of _ _ l]) (auto dest: set_takeWhileD)
  moreover have "map (\<lambda>c. base64_chars ! b64_value sg c) ?t = ?t"
    using assms(3) by (intro map_idI) (auto dest!: set_takeWhileD intro!: b64_valid_char [symmetric])
  ultimately show ?thesis
    by (simp add: b64_text_def r(1) comp_def)
qed

lemma decode_loop_same_value:
  assumes "b64_char_to_byte (char_as_int sg c) = b64_char_to_byte (char_as_int sg c')"
  shows "decode_loop sg n (xs @ c # ys) dst len acc k = decode_loop sg n (xs @ c' # ys) dst len acc k"
proof (induction xs arbitrary: dst len acc k)
  case Nil
  then show ?case by (simp add: assms)
next
  case (Cons x xs)
  then show ?case by (simp add: Let_def split: option.splits)
qed

lemma decode_high_byte:
  assumes "128 \<le> (of_char c :: nat)"
  shows "b64_char_to_byte (char_as_int True c) = b64_char_to_byte (char_as_int True (CHR ''/''))"
proof -
  have "unat (of_nat (255 - of_char c) :: u32) < 128"
    using assms by (simp add: unat_of_nat)
  then show ?thesis
    using assms char_as_int_high [OF assms] b64_char_to_byte_negative base64_chars_decode [of 63 True] 
    by (simp add: base64_chars_def)
qed

section \<open>Properties\<close>

text \<open>
  C4. The encoder is correct and memory safe: for every input shorter than \<open>2^63\<close> bytes and
  every destination that really has \<open>dst_len\<close> bytes, it either refuses (\<open>SIZE_MAX\<close>, nothing
  written) because the text and its terminator do not fit, or writes exactly the RFC 4648 text
  of the input, a NUL, leaves the rest of the buffer alone and returns the text's length.
\<close>

theorem argon2_to_base64_correct:
  assumes "dst_len \<le> length dst" "length src < 2 ^ 63"
  shows "argon2_to_base64 dst dst_len src =
     Some (if dst_len \<le> length (b64_text src) then (dst, SIZE_MAX)
           else (b64_text src @ NUL # drop (Suc (length (b64_text src))) dst,
                 length (b64_text src)))"
  using assms by (rule argon2_to_base64_text)

theorem argon2_to_base64_correct_witness:
  "argon2_to_base64 (replicate 7 CHR ''x'') 7 [77, 97, 110, 255] = Some (''TWFu/w'' @ [NUL], 6) \<and>
   argon2_to_base64 (replicate 7 CHR ''x'') 6 [77, 97, 110, 255] = Some (replicate 7 CHR ''x'', SIZE_MAX)"
  using argon2_to_base64_correct [of 7 "replicate 7 CHR ''x''" "[77, 97, 110, 255]"]
    argon2_to_base64_correct [of 6 "replicate 7 CHR ''x''" "[77, 97, 110, 255]"]
  by (simp add: b64_text_simps base64_chars_def)

text \<open>
  C3. Round trip: decoding what the encoder wrote (terminator and stale bytes after it
  included) gives back the input and its length, for signed and for unsigned \<open>char\<close>.
\<close>

theorem argon2_base64_roundtrip:
  assumes "b64_olen (length src) < dst_len" "dst_len \<le> length dst" "length src < 2 ^ 63"
    and "length src \<le> out_len" "out_len \<le> length out"
  shows "\<exists>text. argon2_to_base64 dst dst_len src = Some (text, b64_olen (length src))
     \<and> argon2_from_base64 sg out out_len text = Some (src @ drop (length src) out, length src)"
  using assms argon2_from_base64_text [OF assms(4,5)] by (auto simp: argon2_to_base64_text b64_olen_text)

theorem argon2_base64_roundtrip_witness:
  "\<exists>text. argon2_to_base64 (replicate 9 NUL) 9 [1, 2, 3, 4] = Some (text, 6)
     \<and> argon2_from_base64 True [9, 9, 9, 9, 9] 4 text = Some ([1, 2, 3, 4, 9], 4)"
proof -
  have o: "b64_olen 4 = 6" by (simp add: b64_olen_def)
  have l: "length [1, 2, 3, 4 :: byte] = 4" by simp
  show ?thesis
    using argon2_base64_roundtrip [of "[1, 2, 3, 4]" 9 "replicate 9 NUL" 4 "[9, 9, 9, 9, 9]" True]
    unfolding l o by simp
qed

text \<open>
  The manually unrolled loop changes nothing: the encoder computes the same buffer and
  result as the plain byte-at-a-time loop alone.
\<close>

theorem argon2_to_base64_unrolled:
  assumes "dst_len \<le> length dst" "length src < 2 ^ 63"
  shows "argon2_to_base64 dst dst_len src = argon2_to_base64_bytewise dst dst_len src"
  using bytewise_text [OF assms] by simp

theorem argon2_to_base64_unrolled_witness:
  "argon2_to_base64 (replicate 9 NUL) 9 [250, 251, 252, 253, 254] =
   argon2_to_base64_bytewise (replicate 9 NUL) 9 [250, 251, 252, 253, 254]"
  using argon2_to_base64_unrolled [of 9 "replicate 9 NUL" "[250, 251, 252, 253, 254]"] by simp

text \<open>
  C14. The decoder is memory safe on every string: it never writes at or behind \<open>dst_len\<close>,
  never reads past the terminator, and returns \<open>SIZE_MAX\<close> or the number of bytes it wrote.
\<close>

theorem argon2_from_base64_safe:
  assumes "dst_len \<le> length dst"
  shows "\<exists>out n. argon2_from_base64 sg dst dst_len src = Some (out, n)
     \<and> length out = length dst \<and> drop dst_len out = drop dst_len dst
     \<and> (n = SIZE_MAX \<or> n \<le> dst_len \<and> drop n out = drop n dst)"
proof -
  obtain bs q l where "sextet_decode (map (b64_value sg) (takeWhile (b64_valid sg) src)) 0 0 = (bs, q, l)"
    by (metis prod_cases3)
  from argon2_from_base64_result [OF assms this] show ?thesis using assms
    by (auto split: if_splits)
qed

theorem argon2_from_base64_safe_witness:
  "\<exists>out n. argon2_from_base64 True [7, 7, 7] 2 ''AAAAAAAA'' = Some (out, n)
     \<and> length out = length [7, 7, 7 :: byte] \<and> drop 2 out = drop 2 [7, 7, 7]
     \<and> (n = SIZE_MAX \<or> n \<le> 2 \<and> drop n out = drop n [7, 7, 7])"
  using argon2_from_base64_safe [of 2 "[7, 7, 7]" True "''AAAAAAAA''"] by simp

text \<open>
  C15. The decoder is strict: where \<open>char\<close> is unsigned, or on 7-bit input, a string that is
  accepted starts with exactly the text the encoder produces for the decoded bytes, so no two
  different encodings of the same bytes are accepted.
\<close>

theorem argon2_from_base64_canonical:
  assumes "dst_len \<le> length dst" "dst_len < SIZE_MAX"
    and "\<not> sg \<or> (\<forall>c \<in> set src. (of_char c :: nat) < 128)"
    and "argon2_from_base64 sg dst dst_len src = Some (out, n)" "n \<noteq> SIZE_MAX"
  shows "takeWhile (b64_valid sg) src = b64_text (take n out)"
  using assms by (rule decode_canonical)

theorem argon2_from_base64_canonical_witness:
  "takeWhile (b64_valid True) ''AQIDBA!'' = b64_text [1, 2, 3, 4]"
proof -
  have "argon2_from_base64 True [0, 0, 0, 0] 4 ''AQIDBA!'' = Some ([1, 2, 3, 4], 4)"
    by code_simp
  moreover have "\<forall>c \<in> set ''AQIDBA!''. (of_char c :: nat) < 128" by simp
  ultimately show ?thesis
    using argon2_from_base64_canonical [of 4 "[0, 0, 0, 0]" True "''AQIDBA!''" "[1, 2, 3, 4]" 4] by simp
qed

text \<open>
  Where \<open>char\<close> is signed the strictness is lost: any byte from \<open>0x80\<close> on is read as if it
  were the character \<open>/\<close> (the comparison macros are valid on 0..255 only, and the character is
  passed as a negative \<open>int\<close>).
\<close>

theorem argon2_from_base64_high_bytes:
  assumes "128 \<le> (of_char c :: nat)"
  shows "argon2_from_base64 True dst dst_len (xs @ c # ys) =
         argon2_from_base64 True dst dst_len (xs @ CHR ''/'' # ys)"
  by (simp only: argon2_from_base64_def decode_loop_same_value [OF decode_high_byte [OF assms]])

theorem argon2_from_base64_high_bytes_witness:
  "argon2_from_base64 True [0, 0, 0] 3 (''AA'' @ CHR 0xE9 # ''A'') =
   argon2_from_base64 True [0, 0, 0] 3 (''AA'' @ CHR ''/'' # ''A'')"
  by (rule argon2_from_base64_high_bytes) simp

end
