(* ===== verification/Uuid_Strings.thy ===== *)
theory Uuid_Strings
  imports Prelude
begin

text \<open>
  The UUID bindings of \<open>Runtime/Bindings/FFI/stduuid/stduuid_ffi.cpp\<close>. The generators and
  \<open>uuids::to_string\<close> belong to the stduuid library and are parameters: a generator maps the
  state of its random engine to a UUID and the next state. The four exported functions share
  the code that copies the text into the caller's \<open>uuid_rfc_string_t\<close> (37 bytes).
\<close>

datatype uuid_error = Bad_optional_access | Out_of_bounds

definition UUID_RFC_STRING_SIZE :: nat where
  "UUID_RFC_STRING_SIZE = 37"

text \<open>\<open>std::memcpy(result, str_id.c_str(), str_id.size()); (*result)[str_id.size()] = NUL\<close>\<close>

definition uuid_store :: "string \<Rightarrow> string \<Rightarrow> string option" where
  "uuid_store result str_id =
     (case write_block result 0 str_id of
        None \<Rightarrow> None
      | Some result' \<Rightarrow> write_at result' (length str_id) NUL)"

definition uuid_finish :: "string \<Rightarrow> string \<Rightarrow> uuid_error + (bool \<times> string)" where
  "uuid_finish result str_id =
     (case uuid_store result str_id of None \<Rightarrow> Inl Out_of_bounds | Some r \<Rightarrow> Inr (True, r))"

text \<open>Both random generators keep their engine in a static variable; \<open>rng\<close> is its state.\<close>

definition uuid_create_v4 ::
  "('rng \<Rightarrow> 'uuid \<times> 'rng) \<Rightarrow> ('uuid \<Rightarrow> string) \<Rightarrow> 'rng \<Rightarrow> string \<Rightarrow>
   (uuid_error + (bool \<times> string)) \<times> 'rng" where
  "uuid_create_v4 gen to_str low_quality_rng result =
     (case gen low_quality_rng of (i, rng') \<Rightarrow> (uuid_finish result (to_str i), rng'))"

definition uuid_create_mt19937 ::
  "('rng \<Rightarrow> 'uuid \<times> 'rng) \<Rightarrow> ('uuid \<Rightarrow> string) \<Rightarrow> 'rng \<Rightarrow> string \<Rightarrow>
   (uuid_error + (bool \<times> string)) \<times> 'rng" where
  "uuid_create_mt19937 gen to_str high_quality_rng result =
     (case gen high_quality_rng of (i, rng') \<Rightarrow> (uuid_finish result (to_str i), rng'))"

text \<open>\<open>value()\<close> on the parsed namespace throws when the text is not a UUID.\<close>

definition uuid_create_v5 ::
  "(string \<Rightarrow> 'uuid option) \<Rightarrow> ('uuid \<Rightarrow> string \<Rightarrow> 'uuid) \<Rightarrow> ('uuid \<Rightarrow> string) \<Rightarrow>
   string \<Rightarrow> string \<Rightarrow> string \<Rightarrow> uuid_error + (bool \<times> string)" where
  "uuid_create_v5 from_str name_gen to_str namespace_uuid_str nm result =
     (case from_str namespace_uuid_str of
        None \<Rightarrow> Inl Bad_optional_access
      | Some namespace_uuid \<Rightarrow> uuid_finish result (to_str (name_gen namespace_uuid nm)))"

definition uuid_create_system ::
  "'uuid \<Rightarrow> ('uuid \<Rightarrow> string) \<Rightarrow> string \<Rightarrow> uuid_error + (bool \<times> string)" where
  "uuid_create_system system_id to_str result = uuid_finish result (to_str system_id)"

lemma uuid_store_Some:
  "length str_id < length result \<Longrightarrow>
     uuid_store result str_id = Some (str_id @ NUL # drop (Suc (length str_id)) result)"
  by (auto simp: uuid_store_def write_block_def Cons_nth_drop_Suc [symmetric])

lemma uuid_store_None: "length result \<le> length str_id \<Longrightarrow> uuid_store result str_id = None"
  by (auto simp: uuid_store_def write_block_def write_at_def)

lemma uuid_finish_fits:
  "length str_id < length result \<Longrightarrow>
     uuid_finish result str_id = Inr (True, str_id @ NUL # drop (Suc (length str_id)) result)"
  by (simp add: uuid_finish_def uuid_store_Some)

text \<open>
  Given that the library prints a UUID as 36 characters without NUL, the 37-byte result
  buffer ends up holding exactly that text as a NUL-terminated string, for each of the four
  generators; the version 5 generator fails instead when the namespace is not a UUID.
\<close>

theorem uuid_create_writes_text:
  assumes spec: "\<And>i. length (to_str i) = 36 \<and> no_nul (to_str i)"
    and buf: "length result = UUID_RFC_STRING_SIZE"
  shows "fst (uuid_create_v4 gen to_str rng result) = Inr (True, to_str (fst (gen rng)) @ [NUL])
    \<and> fst (uuid_create_mt19937 gen to_str rng result) = Inr (True, to_str (fst (gen rng)) @ [NUL])
    \<and> uuid_create_system u to_str result = Inr (True, to_str u @ [NUL])
    \<and> uuid_create_v5 from_str name_gen to_str ns nm result =
       (case from_str ns of
          None \<Rightarrow> Inl Bad_optional_access
        | Some v \<Rightarrow> Inr (True, to_str (name_gen v nm) @ [NUL]))
    \<and> c_str (to_str u @ [NUL]) = to_str u"
proof -
  have f: "uuid_finish result (to_str i) = Inr (True, to_str i @ [NUL])" for i
    using spec [of i] buf by (simp add: uuid_finish_fits UUID_RFC_STRING_SIZE_def)
  show ?thesis using spec [of u]
    by (simp add: uuid_create_v4_def uuid_create_mt19937_def uuid_create_system_def uuid_create_v5_def f
        split: prod.splits option.splits)
qed

theorem uuid_create_writes_text_witness:
  "fst (uuid_create_v4 (\<lambda>n. (n, n + 1)) (\<lambda>n :: nat. replicate 36 CHR ''a'') 0 (replicate 37 CHR ''z''))
     = Inr (True, replicate 36 CHR ''a'' @ [NUL])"
  using uuid_create_writes_text [of "\<lambda>n :: nat. replicate 36 CHR ''a''" "replicate 37 CHR ''z''"
      "\<lambda>n. (n, n + 1)" 0 0 Map.empty "\<lambda>n s. n" "[]" "[]"]
  by (simp add: no_nul_def NUL_def UUID_RFC_STRING_SIZE_def)

end
