(* ===== verification/Std_Containers.thy ===== *)
theory Std_Containers
  imports Prelude "HOL-Library.AList"
begin

text \<open>
  The standard containers the C++ sources build on, and the interfaces their clients rely on.

  \<^item> \<open>std::queue\<close> is the list of its elements, oldest first. The interface of an event queue
    (append an event, take the oldest one) is the locale \<open>event_queue\<close>; every component that
    hands events to LuaJIT through a queue interprets it with its own operations. An event may
    be handed out in another form than it was pushed in; \<open>view\<close> is that form.
  \<^item> \<open>std::unordered_map\<close> is the association list of its entries in iteration order. The
    standard leaves that order open; here a new key goes behind the existing ones. The
    interface of such a map is the locale \<open>dictionary\<close>.
\<close>

section \<open>Queues\<close>

definition std_push :: "'e \<Rightarrow> 'e list \<Rightarrow> 'e list" where
  "std_push e q = q @ [e]"

text \<open>\<open>front()\<close> followed by \<open>pop()\<close>; both are undefined on an empty queue.\<close>

definition std_pop :: "'e list \<Rightarrow> ('e \<times> 'e list) option" where
  "std_pop q = (case q of [] \<Rightarrow> None | e # es \<Rightarrow> Some (e, es))"

text \<open>A client's view of a queue: a sequence of insertions and polls, and what the polls got.\<close>

datatype 'e queue_cmd = Push_cmd 'e | Poll_cmd

fun pushed :: "'e queue_cmd list \<Rightarrow> 'e list" where
  "pushed [] = []"
| "pushed (Push_cmd e # cs) = e # pushed cs"
| "pushed (Poll_cmd # cs) = pushed cs"

fun run_queue ::
  "('x \<Rightarrow> 'q \<Rightarrow> 'q) \<Rightarrow> ('q \<Rightarrow> ('e \<times> 'q) option) \<Rightarrow> 'x queue_cmd list \<Rightarrow> 'q \<Rightarrow> 'e list \<times> 'q" where
  "run_queue push poll [] q = ([], q)"
| "run_queue push poll (Push_cmd e # cs) q = run_queue push poll cs (push e q)"
| "run_queue push poll (Poll_cmd # cs) q =
     (case poll q of
        None \<Rightarrow> run_queue push poll cs q
      | Some (e, q') \<Rightarrow> (case run_queue push poll cs q' of (es, r) \<Rightarrow> (e # es, r)))"

locale event_queue =
  fixes view :: "'x \<Rightarrow> 'e"
    and contents :: "'q \<Rightarrow> 'e list"
    and valid :: "'q \<Rightarrow> bool"
    and push :: "'x \<Rightarrow> 'q \<Rightarrow> 'q"
    and poll :: "'q \<Rightarrow> ('e \<times> 'q) option"
  assumes push_valid: "valid q \<Longrightarrow> valid (push x q)"
    and push_contents: "valid q \<Longrightarrow> contents (push x q) = contents q @ [view x]"
    and poll_empty: "valid q \<Longrightarrow> contents q = [] \<Longrightarrow> poll q = None"
    and poll_front: "valid q \<Longrightarrow> contents q = e # es \<Longrightarrow>
          \<exists>q'. poll q = Some (e, q') \<and> contents q' = es \<and> valid q'"
begin

lemma poll_Some_iff:
  assumes "valid q" "poll q = Some (e, q')"
  shows "contents q = e # contents q' \<and> valid q'"
proof (cases "contents q")
  case Nil
  then show ?thesis using poll_empty assms by simp
next
  case (Cons x xs)
  then show ?thesis using poll_front [OF assms(1) Cons] assms(2) by auto
qed

lemma poll_None_iff: "valid q \<Longrightarrow> poll q = None \<longleftrightarrow> contents q = []"
  using poll_empty poll_front by (cases "contents q") fastforce+

text \<open>First in, first out: what was polled, followed by what is still queued, is what was
  there, followed by what was pushed; nothing is lost, duplicated or reordered.\<close>

lemma fifo_order:
  assumes "valid q" "run_queue push poll cs q = (es, r)"
  shows "es @ contents r = contents q @ map view (pushed cs) \<and> valid r"
  using assms
proof (induction cs arbitrary: q es rule: pushed.induct)
  case (2 e cs)
  then show ?case
    using 2(1) [of "push e q" es] push_valid [OF 2(2), of e] push_contents [OF 2(2), of e] by simp
next
  case (3 cs)
  show ?case
  proof (cases "poll q")
    case None
    then show ?thesis using 3 by simp
  next
    case (Some p)
    obtain e q' where p: "p = (e, q')" by fastforce
    obtain es' where "run_queue push poll cs q' = (es', r)" "es = e # es'"
      using 3(3) Some p by (auto split: prod.splits)
    then show ?thesis
      using 3(1) [of q' es'] poll_Some_iff [OF 3(2), of e q'] Some p by simp
  qed
qed auto

lemma poll_all:
  assumes "valid q"
  shows "\<exists>r. run_queue push poll (replicate (length (contents q)) Poll_cmd) q = (contents q, r)
    \<and> contents r = []"
  using assms
proof (induction "contents q" arbitrary: q)
  case Nil
  then show ?case by auto
next
  case (Cons e es)
  obtain q' where q': "poll q = Some (e, q')" "contents q' = es" "valid q'"
    using poll_front [OF Cons(3), of e es] Cons(2) by auto
  then obtain r where "run_queue push poll (replicate (length es) Poll_cmd) q' = (es, r)" "contents r = []"
    using Cons(1) [of q'] by auto
  then show ?case using q'(1) by (simp flip: Cons(2))
qed

end

interpretation std_queue: event_queue "\<lambda>e. e" "\<lambda>q. q" "\<lambda>q. True" std_push std_pop
  by unfold_locales (auto simp: std_push_def std_pop_def)

section \<open>Unordered maps\<close>

type_synonym ('k, 'v) unordered_map = "('k \<times> 'v) list"

abbreviation um_keys :: "('k, 'v) unordered_map \<Rightarrow> 'k list" where
  "um_keys m \<equiv> map fst m"

definition um_find :: "'k \<Rightarrow> ('k, 'v) unordered_map \<Rightarrow> 'v option" where
  "um_find k m = map_of m k"

text \<open>\<open>m[k] = v\<close>.\<close>

definition um_set :: "'k \<Rightarrow> 'v \<Rightarrow> ('k, 'v) unordered_map \<Rightarrow> ('k, 'v) unordered_map" where
  "um_set k v m = AList.update k v m"

text \<open>\<open>emplace\<close> keeps the value of a key that is already present.\<close>

definition um_emplace :: "'k \<Rightarrow> 'v \<Rightarrow> ('k, 'v) unordered_map \<Rightarrow> ('k, 'v) unordered_map" where
  "um_emplace k v m = (if um_find k m = None then um_set k v m else m)"

definition um_erase :: "'k \<Rightarrow> ('k, 'v) unordered_map \<Rightarrow> ('k, 'v) unordered_map" where
  "um_erase k m = AList.delete k m"

locale dictionary =
  fixes wf :: "'m \<Rightarrow> bool"
    and find :: "'k \<Rightarrow> 'm \<Rightarrow> 'v option"
    and assign :: "'k \<Rightarrow> 'v \<Rightarrow> 'm \<Rightarrow> 'm"
    and erase :: "'k \<Rightarrow> 'm \<Rightarrow> 'm"
    and entries :: "'m \<Rightarrow> ('k \<times> 'v) list"
  assumes wf_assign: "wf m \<Longrightarrow> wf (assign k v m)"
    and wf_erase: "wf m \<Longrightarrow> wf (erase k m)"
    and find_assign: "wf m \<Longrightarrow> find k' (assign k v m) = (if k' = k then Some v else find k' m)"
    and find_erase: "wf m \<Longrightarrow> find k' (erase k m) = (if k' = k then None else find k' m)"
    and entries_find: "wf m \<Longrightarrow> (k, v) \<in> set (entries m) \<longleftrightarrow> find k m = Some v"
    and entries_distinct: "wf m \<Longrightarrow> distinct (map fst (entries m))"
begin

lemma find_other:
  "wf m \<Longrightarrow> k' \<noteq> k \<Longrightarrow> find k' (assign k v m) = find k' m"
  "wf m \<Longrightarrow> k' \<noteq> k \<Longrightarrow> find k' (erase k m) = find k' m"
  by (simp_all add: find_assign find_erase)

lemma assign_overwrites: "wf m \<Longrightarrow> find x (assign k v (assign k w m)) = find x (assign k v m)"
  by (simp add: find_assign wf_assign)

lemma erase_assign: "wf m \<Longrightarrow> find x (erase k (assign k v m)) = find x (erase k m)"
  by (simp add: find_assign find_erase wf_assign)

lemma entries_assign:
  assumes "wf m"
  shows "set (entries (assign k v m)) = insert (k, v) {e \<in> set (entries m). fst e \<noteq> k}"
  using assms by (auto simp: entries_find wf_assign find_assign split: if_splits)

lemma entries_erase:
  assumes "wf m"
  shows "set (entries (erase k m)) = {e \<in> set (entries m). fst e \<noteq> k}"
  using assms by (auto simp: entries_find wf_erase find_erase split: if_splits)

end

interpretation um: dictionary "\<lambda>m. distinct (um_keys m)" um_find um_set um_erase "\<lambda>m. m"
  by unfold_locales
    (auto simp: um_find_def um_set_def um_erase_def update_conv' delete_conv' distinct_update distinct_delete)

lemma um_find_Nil [simp]: "um_find k [] = None"
  by (simp add: um_find_def)

lemma um_find_Cons: "um_find k ((k', v) # m) = (if k = k' then Some v else um_find k m)"
  by (simp add: um_find_def)

lemma um_find_None: "um_find k m = None \<longleftrightarrow> k \<notin> set (um_keys m)"
  by (simp add: um_find_def map_of_eq_None_iff)

lemma um_find_SomeD: "um_find k m = Some v \<Longrightarrow> (k, v) \<in> set m"
  by (simp add: um_find_def map_of_SomeD)

lemma um_find_in: "distinct (um_keys m) \<Longrightarrow> (k, v) \<in> set m \<Longrightarrow> um_find k m = Some v"
  by (simp add: um_find_def)

lemma um_keys_set_present: "k \<in> set (um_keys m) \<Longrightarrow> um_keys (um_set k v m) = um_keys m"
  by (simp add: um_set_def update_keys)

lemma um_set_present_split:
  "um_set k v (xs @ (k, w) # ys) = xs @ (k, v) # ys" if "k \<notin> set (um_keys xs)"
  using that by (induction xs) (auto simp: um_set_def)

lemma um_set_fresh: "k \<notin> set (um_keys m) \<Longrightarrow> um_set k v m = m @ [(k, v)]"
  by (induction m) (auto simp: um_set_def)

lemma um_set_subset: "set (um_set k v m) \<subseteq> insert (k, v) (set m)"
  by (induction m) (auto simp: um_set_def)

lemma um_erase_subset: "set (um_erase k m) \<subseteq> set m"
  by (auto simp: um_erase_def AList.delete_eq)

lemma um_erase_filter: "um_erase k m = filter (\<lambda>e. fst e \<noteq> k) m"
  by (induction m) (auto simp: um_erase_def)

lemma distinct_um_set [simp]: "distinct (um_keys m) \<Longrightarrow> distinct (um_keys (um_set k v m))"
  by (rule um.wf_assign)

lemma distinct_um_erase [simp]: "distinct (um_keys m) \<Longrightarrow> distinct (um_keys (um_erase k m))"
  by (rule um.wf_erase)

end
