(* ===== verification/Web_Server.thy ===== *)
theory Web_Server
  imports Std_Containers Uuid_Strings
begin

text \<open>
  The HTTP and WebSocket server of \<open>Runtime/Bindings/FFI/WebServer.hpp\<close> and
  \<open>WebServer.cpp\<close>. The state of the class \<open>WebServer\<close> is the record \<open>web_server\<close>; each member
  function is a definition over it. The server sits on the uWebSockets library, which is not
  part of the repository: every call into it is recorded, in order, in the field \<open>uws_calls\<close>,
  and what such a call returns is taken from the record \<open>uws_env\<close>, whose functions may depend
  on the whole history of calls (so every sequence of results is possible). Closing a socket
  runs the close handler before \<open>close()\<close> returns when the field \<open>close_result\<close> says so.

  Messages for \<open>std::cerr\<close> are recorded in \<open>cerr\<close>, without their source position. A result
  \<open>None\<close> is undefined behaviour: an access outside a buffer, or an unordered map that is
  rehashed while it is iterated over.
\<close>

unbundle bit_operations_syntax

section \<open>Data\<close>

datatype DeferredEvent_Type =
    INVALID | OPEN | MESSAGE | CLOSE | LISTEN | SHUTDOWN
  | HTTP_START | HTTP_DATA | HTTP_END | HTTP_ABORT | HTTP_WRITABLE

fun event_code :: "DeferredEvent_Type \<Rightarrow> int" where
  "event_code INVALID = 0"
| "event_code OPEN = 1"
| "event_code MESSAGE = 2"
| "event_code CLOSE = 3"
| "event_code LISTEN = 4"
| "event_code SHUTDOWN = 5"
| "event_code HTTP_START = 6"
| "event_code HTTP_DATA = 7"
| "event_code HTTP_END = 8"
| "event_code HTTP_ABORT = 9"
| "event_code HTTP_WRITABLE = 10"

record DeferredEvent =
  event_type :: DeferredEvent_Type
  event_clientID :: string
  event_payload :: string

abbreviation mk_event :: "DeferredEvent_Type \<Rightarrow> string \<Rightarrow> string \<Rightarrow> DeferredEvent" where
  "mk_event t c p \<equiv> \<lparr>event_type = t, event_clientID = c, event_payload = p\<rparr>"

record HttpRequestDetails =
  req_method :: string
  req_url :: string
  req_query :: string
  req_endpoint :: string
  req_headers :: "(string, string) unordered_map"

text \<open>A response object of uWebSockets is only known by its identity.\<close>

record HttpMessageData =
  requestDetails :: HttpRequestDetails
  response :: nat

text \<open>A WebSocket: its address and the \<open>PerSocketData\<close> stored with it.\<close>

record WebSocket =
  ws_address :: nat
  ws_clientID :: string

datatype OpCode = TEXT | BINARY | CLOSE_frame | PING | PONG | OtherOp nat

datatype SendStatus = BACKPRESSURE | SUCCESS | DROPPED

datatype HttpSendStatus = SendNone | Sent | Ended | SentAndEnded

datatype CompressOptions =
    DISABLED | SHARED_COMPRESSOR | SHARED_DECOMPRESSOR
  | DEDICATED_DECOMPRESSOR_32KB | DEDICATED_DECOMPRESSOR_16KB | DEDICATED_DECOMPRESSOR_8KB
  | DEDICATED_DECOMPRESSOR_4KB | DEDICATED_DECOMPRESSOR_2KB | DEDICATED_DECOMPRESSOR_1KB
  | DEDICATED_DECOMPRESSOR_512B
  | DEDICATED_COMPRESSOR_3KB | DEDICATED_COMPRESSOR_4KB | DEDICATED_COMPRESSOR_8KB
  | DEDICATED_COMPRESSOR_16KB | DEDICATED_COMPRESSOR_32KB | DEDICATED_COMPRESSOR_64KB
  | DEDICATED_COMPRESSOR_128KB | DEDICATED_COMPRESSOR_256KB
  | OtherCompression nat

record WebSocketBehavior =
  b_compression :: CompressOptions
  b_maxPayloadLength :: nat
  b_idleTimeout :: nat
  b_maxBackpressure :: nat
  b_closeOnBackpressureLimit :: bool
  b_resetIdleTimeoutOnSend :: bool
  b_sendPingsAutomatically :: bool
  b_maxLifetime :: nat

text \<open>What the handlers read from a \<open>uWS::HttpRequest\<close>.\<close>

record HttpRequest =
  getMethod :: string
  getUrl :: string
  getQuery :: string
  request_headers :: "(string \<times> string) list"
  getHeader :: "string \<Rightarrow> string"

text \<open>The calls into uWebSockets.\<close>

datatype uws_call =
    App_listen int
  | Listen_socket_close nat
  | App_ws string WebSocketBehavior
  | App_route string string
  | Ws_send WebSocket string OpCode bool
  | Ws_close WebSocket
  | Res_upgrade string string string string
  | Res_write nat string
  | Res_end nat string
  | Res_tryEnd nat string
  | Res_writeStatus nat string
  | Res_writeHeader nat string string
  | Res_callbacks nat string

record uws_env =
  listen_result :: "uws_call list \<Rightarrow> nat option"
  close_result :: "uws_call list \<Rightarrow> (int \<times> string) option"
  send_result :: "uws_call list \<Rightarrow> SendStatus"
  write_result :: "uws_call list \<Rightarrow> bool"
  tryEnd_result :: "uws_call list \<Rightarrow> bool \<times> bool"
  writeStatus_result :: "uws_call list \<Rightarrow> bool"
  writeHeader_result :: "uws_call list \<Rightarrow> bool"

record web_server =
  m_usListenSocket :: "nat option"
  m_deferredEventsQueue :: "DeferredEvent list"
  m_websocketClientsMap :: "(string, WebSocket option) unordered_map"
  m_httpClientsMap :: "(string, HttpMessageData) unordered_map"
  m_isEchoServer :: bool
  m_maxPayloadSize :: nat
  m_maxBackpressureLimit :: nat
  m_idleTimeoutInSeconds :: nat
  m_maxSocketLifetimeInMinutes :: nat
  m_sendPingsAutomatically :: bool
  m_closeOnBackpressureLimit :: bool
  m_resetIdleTimeoutOnSend :: bool
  m_compressionMode :: CompressOptions
  uws_calls :: "uws_call list"
  cerr :: "string list"

definition new_WebServer :: web_server where
  "new_WebServer =
     \<lparr>m_usListenSocket = None, m_deferredEventsQueue = [], m_websocketClientsMap = [],
      m_httpClientsMap = [], m_isEchoServer = False, m_maxPayloadSize = 16 * 1024 * 1024,
      m_maxBackpressureLimit = 64 * 1024, m_idleTimeoutInSeconds = 120,
      m_maxSocketLifetimeInMinutes = 0, m_sendPingsAutomatically = True,
      m_closeOnBackpressureLimit = False, m_resetIdleTimeoutOnSend = True,
      m_compressionMode = SHARED_COMPRESSOR, uws_calls = [], cerr = []\<rparr>"

section \<open>Primitive effects\<close>

definition emplace_event ::
  "DeferredEvent_Type \<Rightarrow> string \<Rightarrow> string \<Rightarrow> web_server \<Rightarrow> web_server" where
  "emplace_event t c p s =
     s\<lparr>m_deferredEventsQueue := std_push (mk_event t c p) (m_deferredEventsQueue s)\<rparr>"

definition call_uws :: "uws_call \<Rightarrow> web_server \<Rightarrow> web_server" where
  "call_uws c s = s\<lparr>uws_calls := uws_calls s @ [c]\<rparr>"

definition report :: "string \<Rightarrow> web_server \<Rightarrow> web_server" where
  "report msg s = s\<lparr>cerr := cerr s @ [msg]\<rparr>"

section \<open>WebSocket events\<close>

text \<open>The generated UUID text \<open>str_id\<close> is copied through a \<open>uuid_rfc_string_t\<close>.\<close>

definition fresh_id :: "string \<Rightarrow> string option" where
  "fresh_id str_id = map_option c_str (uuid_store (replicate UUID_RFC_STRING_SIZE NUL) str_id)"

definition OnUpgrade :: "string \<Rightarrow> HttpRequest \<Rightarrow> web_server \<Rightarrow> web_server option" where
  "OnUpgrade str_id request s =
     (case fresh_id str_id of
        None \<Rightarrow> None
      | Some clientID \<Rightarrow>
          Some (call_uws (Res_upgrade clientID (getHeader request ''sec-websocket-key'')
                  (getHeader request ''sec-websocket-protocol'')
                  (getHeader request ''sec-websocket-extensions'')) s))"

definition OnWebSocketOpen :: "WebSocket \<Rightarrow> web_server \<Rightarrow> web_server" where
  "OnWebSocketOpen websocket s =
     (let clientID = ws_clientID websocket;
          s1 = emplace_event OPEN clientID '''' s
      in s1\<lparr>m_websocketClientsMap := um_set clientID (Some websocket) (m_websocketClientsMap s1)\<rparr>)"

definition OnWebSocketClose :: "WebSocket \<Rightarrow> int \<Rightarrow> string \<Rightarrow> web_server \<Rightarrow> web_server" where
  "OnWebSocketClose websocket code msg s =
     (let clientID = ws_clientID websocket;
          s1 = emplace_event CLOSE clientID msg s
      in s1\<lparr>m_websocketClientsMap := um_set clientID None (m_websocketClientsMap s1)\<rparr>)"

definition OnWebSocketMessage :: "WebSocket \<Rightarrow> string \<Rightarrow> OpCode \<Rightarrow> web_server \<Rightarrow> web_server" where
  "OnWebSocketMessage websocket msg opCode s =
     (let clientID = ws_clientID websocket;
          s1 = emplace_event MESSAGE clientID msg s
      in if \<not> m_isEchoServer s1 then s1
         else call_uws (Ws_send websocket msg opCode False) s1)"

section \<open>HTTP events\<close>

definition StoreRequestDetails ::
  "string \<Rightarrow> nat \<Rightarrow> HttpRequest \<Rightarrow> string \<Rightarrow> web_server \<Rightarrow> bool \<times> web_server" where
  "StoreRequestDetails requestID res request route s =
     (if um_find requestID (m_httpClientsMap s) \<noteq> None
      then (False, report (''Request ID '' @ requestID @ '' is already in use'') s)
      else
        (let details =
           \<lparr>req_method = getMethod request, req_url = getUrl request,
            req_query = getQuery request, req_endpoint = route,
            req_headers = foldl (\<lambda>m (k, v). um_set k v m) [] (request_headers request)\<rparr>
         in (True, s\<lparr>m_httpClientsMap := um_emplace requestID
               \<lparr>requestDetails = details, response = res\<rparr> (m_httpClientsMap s)\<rparr>)))"

text \<open>The three callbacks are registered with the request ID they will report.\<close>

definition SetCallbackHandlers :: "string \<Rightarrow> nat \<Rightarrow> web_server \<Rightarrow> web_server" where
  "SetCallbackHandlers requestID res s = call_uws (Res_callbacks res requestID) s"

definition OnRequest ::
  "string \<Rightarrow> nat \<Rightarrow> HttpRequest \<Rightarrow> string \<Rightarrow> web_server \<Rightarrow> web_server" where
  "OnRequest requestID res request route s =
     (let s1 = emplace_event HTTP_START requestID '''' s;
          s2 = snd (StoreRequestDetails requestID res request route s1)
      in SetCallbackHandlers requestID res s2)"

definition CreateRouteHandler ::
  "string \<Rightarrow> string \<Rightarrow> string \<Rightarrow> nat \<Rightarrow> HttpRequest \<Rightarrow> web_server \<Rightarrow> web_server option" where
  "CreateRouteHandler str_id verb route res request s =
     (case fresh_id str_id of
        None \<Rightarrow> None
      | Some requestID \<Rightarrow> Some (OnRequest requestID res request route s))"

definition OnChunkReceived :: "string \<Rightarrow> string \<Rightarrow> web_server \<Rightarrow> web_server" where
  "OnChunkReceived requestID chunk s = emplace_event HTTP_DATA requestID chunk s"

definition OnLastChunkReceived :: "string \<Rightarrow> string \<Rightarrow> web_server \<Rightarrow> web_server" where
  "OnLastChunkReceived requestID chunk s = emplace_event HTTP_END requestID chunk s"

definition OnConnectionWritable :: "string \<Rightarrow> nat \<Rightarrow> web_server \<Rightarrow> web_server" where
  "OnConnectionWritable requestID offset s = emplace_event HTTP_WRITABLE requestID '''' s"

definition OnConnectionAborted :: "string \<Rightarrow> web_server \<Rightarrow> web_server" where
  "OnConnectionAborted requestID s =
     (let s1 = emplace_event HTTP_ABORT requestID '''' s
      in s1\<lparr>m_httpClientsMap := um_erase requestID (m_httpClientsMap s1)\<rparr>)"

text \<open>The lambdas that \<open>SetCallbackHandlers\<close> registers.\<close>

definition onData_callback :: "string \<Rightarrow> string \<Rightarrow> bool \<Rightarrow> web_server \<Rightarrow> web_server" where
  "onData_callback requestID chunk isLast s =
     (if isLast then OnLastChunkReceived requestID chunk s else OnChunkReceived requestID chunk s)"

definition onWritable_callback :: "string \<Rightarrow> nat \<Rightarrow> web_server \<Rightarrow> bool \<times> web_server" where
  "onWritable_callback requestID offset s = (True, OnConnectionWritable requestID offset s)"

section \<open>Routing\<close>

definition AddWebSocketRoute :: "string \<Rightarrow> web_server \<Rightarrow> web_server" where
  "AddWebSocketRoute route s =
     call_uws (App_ws route
       \<lparr>b_compression = m_compressionMode s, b_maxPayloadLength = m_maxPayloadSize s,
        b_idleTimeout = m_idleTimeoutInSeconds s, b_maxBackpressure = m_maxBackpressureLimit s,
        b_closeOnBackpressureLimit = m_closeOnBackpressureLimit s,
        b_resetIdleTimeoutOnSend = m_resetIdleTimeoutOnSend s,
        b_sendPingsAutomatically = m_sendPingsAutomatically s,
        b_maxLifetime = m_maxSocketLifetimeInMinutes s\<rparr>) s"

definition AddGetRoute :: "string \<Rightarrow> web_server \<Rightarrow> web_server" where
  "AddGetRoute route s = call_uws (App_route ''GET'' route) s"

definition AddPostRoute :: "string \<Rightarrow> web_server \<Rightarrow> web_server" where
  "AddPostRoute route s = call_uws (App_route ''POST'' route) s"

definition AddOptionsRoute :: "string \<Rightarrow> web_server \<Rightarrow> web_server" where
  "AddOptionsRoute route s = call_uws (App_route ''OPTIONS'' route) s"

definition AddDeleteRoute :: "string \<Rightarrow> web_server \<Rightarrow> web_server" where
  "AddDeleteRoute route s = call_uws (App_route ''DELETE'' route) s"

definition AddPatchRoute :: "string \<Rightarrow> web_server \<Rightarrow> web_server" where
  "AddPatchRoute route s = call_uws (App_route ''PATCH'' route) s"

definition AddPutRoute :: "string \<Rightarrow> web_server \<Rightarrow> web_server" where
  "AddPutRoute route s = call_uws (App_route ''PUT'' route) s"

definition AddHeadRoute :: "string \<Rightarrow> web_server \<Rightarrow> web_server" where
  "AddHeadRoute route s = call_uws (App_route ''HEAD'' route) s"

definition AddAnyRoute :: "string \<Rightarrow> web_server \<Rightarrow> web_server" where
  "AddAnyRoute route s = call_uws (App_route ''ANY'' route) s"

section \<open>Connection management\<close>

definition GetNumConnectedClients :: "web_server \<Rightarrow> nat" where
  "GetNumConnectedClients s = length (m_websocketClientsMap s)"

definition FindClientByID :: "string \<Rightarrow> web_server \<Rightarrow> WebSocket option" where
  "FindClientByID clientID s =
     (case um_find clientID (m_websocketClientsMap s) of
        None \<Rightarrow> None
      | Some websocket \<Rightarrow> websocket)"

text \<open>
  The loop over the clients map. \<open>close()\<close> may run the close handler, which writes to the map
  that is being iterated over; if that inserted a key the iteration would be undefined.
\<close>

fun disconnect_loop :: "uws_env \<Rightarrow> string list \<Rightarrow> web_server \<Rightarrow> web_server option" where
  "disconnect_loop env [] s = Some s"
| "disconnect_loop env (k # ks) s =
     (case um_find k (m_websocketClientsMap s) of
        None \<Rightarrow> None
      | Some None \<Rightarrow> disconnect_loop env ks s
      | Some (Some websocket) \<Rightarrow>
          (let s1 = call_uws (Ws_close websocket) s in
           case close_result env (uws_calls s1) of
             None \<Rightarrow> disconnect_loop env ks s1
           | Some (code, msg) \<Rightarrow>
               (let s2 = OnWebSocketClose websocket code msg s1 in
                if um_keys (m_websocketClientsMap s2) \<noteq> um_keys (m_websocketClientsMap s1)
                then None else disconnect_loop env ks s2)))"

definition DisconnectAllClients :: "uws_env \<Rightarrow> web_server \<Rightarrow> web_server option" where
  "DisconnectAllClients env s =
     (case disconnect_loop env (um_keys (m_websocketClientsMap s)) s of
        None \<Rightarrow> None
      | Some s1 \<Rightarrow> Some (s1\<lparr>m_websocketClientsMap := []\<rparr>))"

text \<open>The iterator loop: entries that hold \<open>nullptr\<close> are erased and counted.\<close>

fun purge_loop ::
  "(string, WebSocket option) unordered_map \<Rightarrow> nat \<Rightarrow> (string, WebSocket option) unordered_map \<times> nat" where
  "purge_loop [] n = ([], n)"
| "purge_loop ((k, v) # m) n =
     (if v = None then purge_loop m (n + 1)
      else (case purge_loop m n of (m', n') \<Rightarrow> ((k, v) # m', n')))"

definition PurgeFadedClients :: "web_server \<Rightarrow> nat \<times> web_server" where
  "PurgeFadedClients s =
     (case purge_loop (m_websocketClientsMap s) 0 of
        (m, numPurgedClients) \<Rightarrow> (numPurgedClients, s\<lparr>m_websocketClientsMap := m\<rparr>))"

fun abort_loop :: "(string, HttpMessageData) unordered_map \<Rightarrow> nat \<Rightarrow> web_server \<Rightarrow> nat \<times> web_server" where
  "abort_loop [] n s = (n, s)"
| "abort_loop ((requestID, d) # m) n s =
     (let r = response d;
          s1 = call_uws (Res_writeStatus r ''503 Service Unavailable'') s;
          s2 = call_uws (Res_writeHeader r ''Content-Type'' ''text/plain'') s1;
          s3 = call_uws (Res_end r ''Service Unavailable: Server shutting down'') s2
      in abort_loop m (n + 1) s3)"

definition AbortAllConnections :: "web_server \<Rightarrow> nat \<times> web_server" where
  "AbortAllConnections s =
     (case abort_loop (m_httpClientsMap s) 0 s of
        (n, s1) \<Rightarrow> (n, s1\<lparr>m_httpClientsMap := []\<rparr>))"

section \<open>Setup\<close>

definition StartListening :: "uws_env \<Rightarrow> int \<Rightarrow> web_server \<Rightarrow> web_server" where
  "StartListening env port s =
     (let s1 = call_uws (App_listen port) s in
      case listen_result env (uws_calls s1) of
        None \<Rightarrow> report (''Failed to listen on port '' @ to_string_int port) s1
      | Some listenSocket \<Rightarrow>
          emplace_event LISTEN ''SERVER'' (to_string_int port)
            (s1\<lparr>m_usListenSocket := Some listenSocket\<rparr>))"

definition StopListening :: "uws_env \<Rightarrow> web_server \<Rightarrow> web_server option" where
  "StopListening env s =
     (case m_usListenSocket s of
        None \<Rightarrow> Some (report ''Failed shutdown: m_usListenSocket is nullptr'' s)
      | Some socket \<Rightarrow>
          (case DisconnectAllClients env s of
             None \<Rightarrow> None
           | Some s1 \<Rightarrow>
               (let s2 = snd (AbortAllConnections s1);
                    s3 = call_uws (Listen_socket_close socket) s2;
                    s4 = s3\<lparr>m_usListenSocket := None\<rparr>
                in Some (emplace_event SHUTDOWN ''SERVER'' ''Going Away'' s4))))"

definition GetMaxAllowedPayloadSize :: "web_server \<Rightarrow> nat" where
  "GetMaxAllowedPayloadSize s = m_maxPayloadSize s"

definition SetEchoMode :: "bool \<Rightarrow> web_server \<Rightarrow> web_server" where
  "SetEchoMode enabledFlag s = s\<lparr>m_isEchoServer := enabledFlag\<rparr>"

section \<open>Messaging\<close>

definition ws_send ::
  "uws_env \<Rightarrow> WebSocket \<Rightarrow> string \<Rightarrow> OpCode \<Rightarrow> bool \<Rightarrow> web_server \<Rightarrow> SendStatus \<times> web_server" where
  "ws_send env websocket msg opCode compress s =
     (let s1 = call_uws (Ws_send websocket msg opCode compress) s
      in (send_result env (uws_calls s1), s1))"

fun broadcast_loop ::
  "uws_env \<Rightarrow> string \<Rightarrow> OpCode \<Rightarrow> bool \<Rightarrow> (string, WebSocket option) unordered_map \<Rightarrow>
   SendStatus \<Rightarrow> web_server \<Rightarrow> SendStatus \<times> web_server" where
  "broadcast_loop env msg opCode compress [] status s = (status, s)"
| "broadcast_loop env msg opCode compress ((clientID, websocket) # m) status s =
     (case websocket of
        None \<Rightarrow> broadcast_loop env msg opCode compress m status s
      | Some ws \<Rightarrow>
          (case ws_send env ws msg opCode compress s of
             (currentStatus, s1) \<Rightarrow>
               broadcast_loop env msg opCode compress m
                 (if currentStatus = DROPPED then DROPPED else status) s1))"

definition BroadcastTextMessage :: "uws_env \<Rightarrow> string \<Rightarrow> web_server \<Rightarrow> SendStatus \<times> web_server" where
  "BroadcastTextMessage env msg s = broadcast_loop env msg TEXT False (m_websocketClientsMap s) SUCCESS s"

definition BroadcastBinaryMessage :: "uws_env \<Rightarrow> string \<Rightarrow> web_server \<Rightarrow> SendStatus \<times> web_server" where
  "BroadcastBinaryMessage env msg s =
     broadcast_loop env msg BINARY False (m_websocketClientsMap s) SUCCESS s"

definition BroadcastCompressedTextMessage ::
  "uws_env \<Rightarrow> string \<Rightarrow> web_server \<Rightarrow> SendStatus \<times> web_server" where
  "BroadcastCompressedTextMessage env msg s =
     broadcast_loop env msg TEXT True (m_websocketClientsMap s) SUCCESS s"

definition SendTextMessageToClient ::
  "uws_env \<Rightarrow> string \<Rightarrow> string \<Rightarrow> web_server \<Rightarrow> SendStatus \<times> web_server" where
  "SendTextMessageToClient env msg clientID s =
     (case FindClientByID clientID s of
        None \<Rightarrow> (DROPPED, s)
      | Some websocket \<Rightarrow> ws_send env websocket msg TEXT False s)"

definition SendBinaryMessageToClient ::
  "uws_env \<Rightarrow> string \<Rightarrow> string \<Rightarrow> web_server \<Rightarrow> SendStatus \<times> web_server" where
  "SendBinaryMessageToClient env msg clientID s =
     (case FindClientByID clientID s of
        None \<Rightarrow> (DROPPED, s)
      | Some websocket \<Rightarrow> ws_send env websocket msg BINARY False s)"

definition SendCompressedTextMessageToClient ::
  "uws_env \<Rightarrow> string \<Rightarrow> string \<Rightarrow> web_server \<Rightarrow> SendStatus \<times> web_server" where
  "SendCompressedTextMessageToClient env msg clientID s =
     (case FindClientByID clientID s of
        None \<Rightarrow> (DROPPED, s)
      | Some websocket \<Rightarrow> ws_send env websocket msg TEXT True s)"

definition WriteResponse ::
  "uws_env \<Rightarrow> string \<Rightarrow> string \<Rightarrow> web_server \<Rightarrow> HttpSendStatus \<times> web_server" where
  "WriteResponse env requestID data s =
     (case um_find requestID (m_httpClientsMap s) of
        None \<Rightarrow> (SendNone, s)
      | Some d \<Rightarrow>
          (let s1 = call_uws (Res_write (response d) data) s in
           if \<not> write_result env (uws_calls s1) then (SendNone, s1) else (SentAndEnded, s1)))"

definition EndResponse :: "string \<Rightarrow> string \<Rightarrow> web_server \<Rightarrow> HttpSendStatus \<times> web_server" where
  "EndResponse requestID data s =
     (case um_find requestID (m_httpClientsMap s) of
        None \<Rightarrow> (SendNone, s)
      | Some d \<Rightarrow>
          (let s1 = call_uws (Res_end (response d) data) s in
           (SentAndEnded, s1\<lparr>m_httpClientsMap := um_erase requestID (m_httpClientsMap s1)\<rparr>)))"

text \<open>\<open>static_cast<HttpSendStatus>\<close> of an integer in 0..3.\<close>

definition HttpSendStatus_of :: "nat \<Rightarrow> HttpSendStatus" where
  "HttpSendStatus_of n =
     (if n = 0 then SendNone else if n = 1 then Sent else if n = 2 then Ended else SentAndEnded)"

definition TryEndResponse ::
  "uws_env \<Rightarrow> string \<Rightarrow> string \<Rightarrow> web_server \<Rightarrow> HttpSendStatus \<times> web_server" where
  "TryEndResponse env requestID data s =
     (case um_find requestID (m_httpClientsMap s) of
        None \<Rightarrow> (SendNone, s)
      | Some d \<Rightarrow>
          (let s1 = call_uws (Res_tryEnd (response d) data) s;
               result = tryEnd_result env (uws_calls s1);
               s2 = (if snd result
                     then s1\<lparr>m_httpClientsMap := um_erase requestID (m_httpClientsMap s1)\<rparr> else s1)
           in (HttpSendStatus_of ((if fst result then 1 else 0) OR (if snd result then 2 else 0)), s2)))"

definition WriteResponseStatus ::
  "uws_env \<Rightarrow> string \<Rightarrow> string \<Rightarrow> web_server \<Rightarrow> bool \<times> web_server" where
  "WriteResponseStatus env requestID statusCodeAndText s =
     (case um_find requestID (m_httpClientsMap s) of
        None \<Rightarrow> (False, s)
      | Some d \<Rightarrow>
          (let s1 = call_uws (Res_writeStatus (response d) statusCodeAndText) s
           in (writeStatus_result env (uws_calls s1), s1)))"

definition WriteResponseHeader ::
  "uws_env \<Rightarrow> string \<Rightarrow> string \<Rightarrow> string \<Rightarrow> web_server \<Rightarrow> bool \<times> web_server" where
  "WriteResponseHeader env requestID key val s =
     (case um_find requestID (m_httpClientsMap s) of
        None \<Rightarrow> (False, s)
      | Some d \<Rightarrow>
          (let s1 = call_uws (Res_writeHeader (response d) key val) s
           in (writeHeader_result env (uws_calls s1), s1)))"

section \<open>Request details\<close>

definition HasRequest :: "string \<Rightarrow> web_server \<Rightarrow> bool" where
  "HasRequest requestID s = (um_find requestID (m_httpClientsMap s) \<noteq> None)"

text \<open>The result is the returned flag and the buffer afterwards.\<close>

definition GetRequestMethod ::
  "string \<Rightarrow> string \<Rightarrow> nat \<Rightarrow> web_server \<Rightarrow> (bool \<times> string) option" where
  "GetRequestMethod requestID buffer bufferSize s =
     (case um_find requestID (m_httpClientsMap s) of
        Some d \<Rightarrow> map_option (Pair True) (copy_bounded buffer (req_method (requestDetails d)) bufferSize)
      | None \<Rightarrow> Some (False, buffer))"

definition GetRequestURL ::
  "string \<Rightarrow> string \<Rightarrow> nat \<Rightarrow> web_server \<Rightarrow> (bool \<times> string) option" where
  "GetRequestURL requestID buffer bufferSize s =
     (case um_find requestID (m_httpClientsMap s) of
        Some d \<Rightarrow> map_option (Pair True) (copy_bounded buffer (req_url (requestDetails d)) bufferSize)
      | None \<Rightarrow> Some (False, buffer))"

definition GetRequestQuery ::
  "string \<Rightarrow> string \<Rightarrow> nat \<Rightarrow> web_server \<Rightarrow> (bool \<times> string) option" where
  "GetRequestQuery requestID buffer bufferSize s =
     (case um_find requestID (m_httpClientsMap s) of
        Some d \<Rightarrow> map_option (Pair True) (copy_bounded buffer (req_query (requestDetails d)) bufferSize)
      | None \<Rightarrow> Some (False, buffer))"

definition GetRequestEndpoint ::
  "string \<Rightarrow> string \<Rightarrow> nat \<Rightarrow> web_server \<Rightarrow> (bool \<times> string) option" where
  "GetRequestEndpoint requestID buffer bufferSize s =
     (case um_find requestID (m_httpClientsMap s) of
        Some d \<Rightarrow> map_option (Pair True) (copy_bounded buffer (req_endpoint (requestDetails d)) bufferSize)
      | None \<Rightarrow> Some (False, buffer))"

definition GetRequestHeader ::
  "string \<Rightarrow> string \<Rightarrow> string \<Rightarrow> nat \<Rightarrow> web_server \<Rightarrow> (bool \<times> string) option" where
  "GetRequestHeader requestID headerName buffer bufferSize s =
     (case um_find requestID (m_httpClientsMap s) of
        Some d \<Rightarrow>
          (case um_find headerName (req_headers (requestDetails d)) of
             Some v \<Rightarrow> map_option (Pair True) (copy_bounded buffer v bufferSize)
           | None \<Rightarrow> Some (False, buffer))
      | None \<Rightarrow> Some (False, buffer))"

definition serialize_headers :: "(string, string) unordered_map \<Rightarrow> string" where
  "serialize_headers hs =
     concat (map (\<lambda>(k, v). k @ '': '' @ v @ [CHR 0x0D, CHR 0x0A]) hs)"

definition GetSerializedRequestHeaders ::
  "string \<Rightarrow> string \<Rightarrow> nat \<Rightarrow> web_server \<Rightarrow> (bool \<times> string) option" where
  "GetSerializedRequestHeaders requestID buffer bufferSize s =
     (case um_find requestID (m_httpClientsMap s) of
        Some d \<Rightarrow>
          (let serializedHeaders = serialize_headers (req_headers (requestDetails d)) in
           if bufferSize < length serializedHeaders + 1 then Some (False, buffer)
           else map_option (Pair True) (copy_bounded buffer serializedHeaders bufferSize))
      | None \<Rightarrow> Some (False, buffer))"

section \<open>Polling\<close>

record uws_webserver_event =
  ev_type :: int
  ev_clientID :: string
  ev_payload :: "string option"
  ev_payload_size :: nat

definition GetNumDeferredEvents :: "web_server \<Rightarrow> nat" where
  "GetNumDeferredEvents s = length (m_deferredEventsQueue s)"

definition HasDeferredEvents :: "web_server \<Rightarrow> bool" where
  "HasDeferredEvents s = (m_deferredEventsQueue s \<noteq> [])"

text \<open>
  Copying one event into the preallocated buffer. \<open>sizeof(clientID)\<close> is 37; the array has the
  bytes the buffer brings along.
\<close>

definition fill_event ::
  "DeferredEvent \<Rightarrow> nat \<Rightarrow> string \<Rightarrow> uws_webserver_event \<Rightarrow> uws_webserver_event option" where
  "fill_event event maxPayload payloadBuffer buf =
     (case strncpy (ev_clientID buf) (event_clientID event) 37 of
        None \<Rightarrow> None
      | Some c \<Rightarrow>
     (case write_at c 36 NUL of
        None \<Rightarrow> None
      | Some c' \<Rightarrow>
          (let payloadLength = min (size_pred maxPayload) (length (event_payload event)) in
     (case write_block payloadBuffer 0 (take payloadLength (event_payload event)) of
        None \<Rightarrow> None
      | Some p \<Rightarrow>
     (case write_at p payloadLength NUL of
        None \<Rightarrow> None
      | Some p' \<Rightarrow>
          Some \<lparr>ev_type = event_code (event_type event), ev_clientID = c',
                ev_payload = Some p', ev_payload_size = payloadLength\<rparr>)))))"

definition GetNextDeferredEvent ::
  "uws_webserver_event option \<Rightarrow> web_server \<Rightarrow> (uws_webserver_event option \<times> web_server) option" where
  "GetNextDeferredEvent preallocatedEventBuffer s =
     (case preallocatedEventBuffer of
        None \<Rightarrow> Some (None, report ''Failed to GetNextDeferredEvent: Missing preallocated event buffer'' s)
      | Some buf \<Rightarrow>
     (case ev_payload buf of
        None \<Rightarrow> Some (Some buf, report ''Failed to GetNextDeferredEvent: Uninitialized payload buffer'' s)
      | Some payloadBuffer \<Rightarrow>
     (case std_pop (m_deferredEventsQueue s) of
        None \<Rightarrow> Some (Some buf, report ''Failed to GetNextDeferredEvent: Queue is empty'' s)
      | Some (event, rest) \<Rightarrow>
          (let s1 = (if size_pred (m_maxPayloadSize s) < length (event_payload event)
                     then report ''Warning: Payload buffer too small (data may be truncated)'' s else s)
           in case fill_event event (m_maxPayloadSize s) payloadBuffer buf of
                None \<Rightarrow> None
              | Some buf' \<Rightarrow> Some (Some buf', s1\<lparr>m_deferredEventsQueue := rest\<rparr>)))))"

section \<open>Debugging\<close>

text \<open>The queue is drained into a temporary one, which is moved back; the lines are printed.\<close>

fun dump_loop ::
  "DeferredEvent list \<Rightarrow> DeferredEvent list \<Rightarrow> string list \<Rightarrow> DeferredEvent list \<times> string list" where
  "dump_loop [] tempQueue out = (tempQueue, out)"
| "dump_loop (event # q) tempQueue out =
     dump_loop q (std_push event tempQueue)
       (out @ [''DeferredEvent type: '' @ to_string_int (event_code (event_type event)),
               ''DeferredEvent clientID: '' @ event_clientID event,
               ''DeferredEvent payload: '' @ event_payload event, ''''])"

definition DumpDeferredEvents :: "web_server \<Rightarrow> string list \<times> web_server" where
  "DumpDeferredEvents s =
     (case dump_loop (m_deferredEventsQueue s) []
             [''DeferredEvent queue size: '' @ to_string_int (int (length (m_deferredEventsQueue s)))] of
        (q, out) \<Rightarrow> (out, s\<lparr>m_deferredEventsQueue := q\<rparr>))"

end
