(* ===== verification/Web_Server_Runs.thy ===== *)
theory Web_Server_Runs
  imports Web_Server
begin

text \<open>
  Properties of the web server over arbitrary interleavings. A run is a sequence of operations
  \<open>server_op\<close>: calls from LuaJIT and events from uWebSockets, in any order. \<open>emits\<close> says which
  events an operation queues and \<open>delivered\<close> which event it hands to LuaJIT; \<open>server_inv\<close> is
  the invariant of the two client maps and of the history of uWebSockets calls. The exact
  effect of the loops over the maps is proved first.
\<close>

section \<open>Operations as data\<close>

datatype server_op =
    Op_StartListening int
  | Op_StopListening
  | Op_AddWebSocketRoute string
  | Op_AddRoute string string
  | Op_OnUpgrade string HttpRequest
  | Op_OnWebSocketOpen WebSocket
  | Op_OnWebSocketClose WebSocket int string
  | Op_OnWebSocketMessage WebSocket string OpCode
  | Op_CreateRouteHandler string string string nat HttpRequest
  | Op_onData string string bool
  | Op_onAborted string
  | Op_onWritable string nat
  | Op_DisconnectAllClients
  | Op_PurgeFadedClients
  | Op_AbortAllConnections
  | Op_Broadcast OpCode bool string
  | Op_SendToClient OpCode bool string string
  | Op_WriteResponse string string
  | Op_EndResponse string string
  | Op_TryEndResponse string string
  | Op_WriteResponseStatus string string
  | Op_WriteResponseHeader string string string
  | Op_GetNextDeferredEvent "uws_webserver_event option"
  | Op_SetEchoMode bool
  | Op_DumpDeferredEvents

text \<open>The route, broadcast and send functions that differ only in what they pass on.\<close>

definition add_route :: "string \<Rightarrow> string \<Rightarrow> web_server \<Rightarrow> web_server" where
  "add_route verb route s =
     (if verb = ''GET'' then AddGetRoute route s
      else if verb = ''POST'' then AddPostRoute route s
      else if verb = ''OPTIONS'' then AddOptionsRoute route s
      else if verb = ''DELETE'' then AddDeleteRoute route s
      else if verb = ''PATCH'' then AddPatchRoute route s
      else if verb = ''PUT'' then AddPutRoute route s
      else if verb = ''HEAD'' then AddHeadRoute route s
      else AddAnyRoute route s)"

definition broadcast :: "uws_env \<Rightarrow> OpCode \<Rightarrow> bool \<Rightarrow> string \<Rightarrow> web_server \<Rightarrow> SendStatus \<times> web_server" where
  "broadcast env opCode compress msg s =
     (if compress then BroadcastCompressedTextMessage env msg s
      else if opCode = TEXT then BroadcastTextMessage env msg s
      else BroadcastBinaryMessage env msg s)"

definition send_to_client ::
  "uws_env \<Rightarrow> OpCode \<Rightarrow> bool \<Rightarrow> string \<Rightarrow> string \<Rightarrow> web_server \<Rightarrow> SendStatus \<times> web_server" where
  "send_to_client env opCode compress msg clientID s =
     (if compress then SendCompressedTextMessageToClient env msg clientID s
      else if opCode = TEXT then SendTextMessageToClient env msg clientID s
      else SendBinaryMessageToClient env msg clientID s)"

fun perform :: "uws_env \<Rightarrow> server_op \<Rightarrow> web_server \<Rightarrow> web_server option" where
  "perform env (Op_StartListening port) s = Some (StartListening env port s)"
| "perform env Op_StopListening s = StopListening env s"
| "perform env (Op_AddWebSocketRoute route) s = Some (AddWebSocketRoute route s)"
| "perform env (Op_AddRoute verb route) s = Some (add_route verb route s)"
| "perform env (Op_OnUpgrade str_id request) s = OnUpgrade str_id request s"
| "perform env (Op_OnWebSocketOpen ws) s = Some (OnWebSocketOpen ws s)"
| "perform env (Op_OnWebSocketClose ws code msg) s = Some (OnWebSocketClose ws code msg s)"
| "perform env (Op_OnWebSocketMessage ws msg opCode) s = Some (OnWebSocketMessage ws msg opCode s)"
| "perform env (Op_CreateRouteHandler str_id verb route res request) s =
     CreateRouteHandler str_id verb route res request s"
| "perform env (Op_onData requestID chunk isLast) s = Some (onData_callback requestID chunk isLast s)"
| "perform env (Op_onAborted requestID) s = Some (OnConnectionAborted requestID s)"
| "perform env (Op_onWritable requestID offset) s = Some (snd (onWritable_callback requestID offset s))"
| "perform env Op_DisconnectAllClients s = DisconnectAllClients env s"
| "perform env Op_PurgeFadedClients s = Some (snd (PurgeFadedClients s))"
| "perform env Op_AbortAllConnections s = Some (snd (AbortAllConnections s))"
| "perform env (Op_Broadcast opCode compress msg) s = Some (snd (broadcast env opCode compress msg s))"
| "perform env (Op_SendToClient opCode compress msg clientID) s =
     Some (snd (send_to_client env opCode compress msg clientID s))"
| "perform env (Op_WriteResponse requestID data) s = Some (snd (WriteResponse env requestID data s))"
| "perform env (Op_EndResponse requestID data) s = Some (snd (EndResponse requestID data s))"
| "perform env (Op_TryEndResponse requestID data) s = Some (snd (TryEndResponse env requestID data s))"
| "perform env (Op_WriteResponseStatus requestID st) s = Some (snd (WriteResponseStatus env requestID st s))"
| "perform env (Op_WriteResponseHeader requestID key val) s =
     Some (snd (WriteResponseHeader env requestID key val s))"
| "perform env (Op_GetNextDeferredEvent buf) s = map_option snd (GetNextDeferredEvent buf s)"
| "perform env (Op_SetEchoMode enabledFlag) s = Some (SetEchoMode enabledFlag s)"
| "perform env Op_DumpDeferredEvents s = Some (snd (DumpDeferredEvents s))"

section \<open>Specification of the event traffic\<close>

definition live_clients :: "(string, WebSocket option) unordered_map \<Rightarrow> WebSocket list" where
  "live_clients m = List.map_filter snd m"

text \<open>The CLOSE events that closing the sockets one after the other produces.\<close>

fun closed_events :: "uws_env \<Rightarrow> uws_call list \<Rightarrow> WebSocket list \<Rightarrow> DeferredEvent list" where
  "closed_events env cs [] = []"
| "closed_events env cs (w # ws) =
     (case close_result env (cs @ [Ws_close w]) of
        None \<Rightarrow> []
      | Some (code, msg) \<Rightarrow> [mk_event CLOSE (ws_clientID w) msg])
     @ closed_events env (cs @ [Ws_close w]) ws"

definition disconnect_events :: "uws_env \<Rightarrow> web_server \<Rightarrow> DeferredEvent list" where
  "disconnect_events env s = closed_events env (uws_calls s) (live_clients (m_websocketClientsMap s))"

fun emits :: "uws_env \<Rightarrow> server_op \<Rightarrow> web_server \<Rightarrow> DeferredEvent list" where
  "emits env (Op_StartListening port) s =
     (if listen_result env (uws_calls s @ [App_listen port]) = None then []
      else [mk_event LISTEN ''SERVER'' (to_string_int port)])"
| "emits env Op_StopListening s =
     (if m_usListenSocket s = None then []
      else disconnect_events env s @ [mk_event SHUTDOWN ''SERVER'' ''Going Away''])"
| "emits env (Op_OnWebSocketOpen ws) s = [mk_event OPEN (ws_clientID ws) '''']"
| "emits env (Op_OnWebSocketClose ws code msg) s = [mk_event CLOSE (ws_clientID ws) msg]"
| "emits env (Op_OnWebSocketMessage ws msg opCode) s = [mk_event MESSAGE (ws_clientID ws) msg]"
| "emits env (Op_CreateRouteHandler str_id verb route res request) s =
     [mk_event HTTP_START (the (fresh_id str_id)) '''']"
| "emits env (Op_onData requestID chunk isLast) s =
     [mk_event (if isLast then HTTP_END else HTTP_DATA) requestID chunk]"
| "emits env (Op_onAborted requestID) s = [mk_event HTTP_ABORT requestID '''']"
| "emits env (Op_onWritable requestID offset) s = [mk_event HTTP_WRITABLE requestID '''']"
| "emits env Op_DisconnectAllClients s = disconnect_events env s"
| "emits env op s = []"

fun delivered :: "server_op \<Rightarrow> web_server \<Rightarrow> DeferredEvent list" where
  "delivered (Op_GetNextDeferredEvent (Some buf)) s =
     (if ev_payload buf = None then [] else take 1 (m_deferredEventsQueue s))"
| "delivered op s = []"

text \<open>A run: what was delivered, what was queued, and the final state.\<close>

fun run_server ::
  "uws_env \<Rightarrow> server_op list \<Rightarrow> web_server \<Rightarrow> (DeferredEvent list \<times> DeferredEvent list \<times> web_server) option" where
  "run_server env [] s = Some ([], [], s)"
| "run_server env (op # ops) s =
     (case perform env op s of
        None \<Rightarrow> None
      | Some s1 \<Rightarrow>
          (case run_server env ops s1 of
             None \<Rightarrow> None
           | Some (ds, es, s2) \<Rightarrow> Some (delivered op s @ ds, emits env op s @ es, s2)))"

section \<open>Specification of the use of responses\<close>

fun mentions :: "uws_call \<Rightarrow> nat \<Rightarrow> bool" where
  "mentions (Res_write r d) q = (q = r)"
| "mentions (Res_end r d) q = (q = r)"
| "mentions (Res_tryEnd r d) q = (q = r)"
| "mentions (Res_writeStatus r d) q = (q = r)"
| "mentions (Res_writeHeader r k v) q = (q = r)"
| "mentions (Res_callbacks r i) q = (q = r)"
| "mentions c q = False"

text \<open>The last call of the history \<open>cs\<close> completes the response \<open>q\<close>.\<close>

fun completes :: "uws_env \<Rightarrow> uws_call list \<Rightarrow> uws_call \<Rightarrow> nat \<Rightarrow> bool" where
  "completes env cs (Res_end r d) q = (q = r)"
| "completes env cs (Res_tryEnd r d) q = (q = r \<and> snd (tryEnd_result env cs))"
| "completes env cs c q = False"

definition completed :: "uws_env \<Rightarrow> uws_call list \<Rightarrow> nat \<Rightarrow> bool" where
  "completed env cs q \<longleftrightarrow> (\<exists>i < length cs. completes env (take (Suc i) cs) (cs ! i) q)"

text \<open>No call is made on a response that was completed by an earlier call.\<close>

definition no_use_after_end :: "uws_env \<Rightarrow> uws_call list \<Rightarrow> bool" where
  "no_use_after_end env cs \<longleftrightarrow>
     (\<forall>i < length cs. \<forall>q. mentions (cs ! i) q \<longrightarrow> \<not> completed env (take i cs) q)"

section \<open>Invariant and admissible operations\<close>

definition clients_inv :: "(string, WebSocket option) unordered_map \<Rightarrow> bool" where
  "clients_inv m \<longleftrightarrow> distinct (um_keys m) \<and> (\<forall>(k, v) \<in> set m. \<forall>w. v = Some w \<longrightarrow> ws_clientID w = k)"

definition requests_inv ::
  "uws_env \<Rightarrow> uws_call list \<Rightarrow> (string, HttpMessageData) unordered_map \<Rightarrow> bool" where
  "requests_inv env cs m \<longleftrightarrow>
     distinct (um_keys m) \<and> distinct (map (response \<circ> snd) m) \<and> no_use_after_end env cs \<and>
     (\<forall>d \<in> snd ` set m. list_ex (\<lambda>c. mentions c (response d)) cs \<and> \<not> completed env cs (response d))"

definition server_inv :: "uws_env \<Rightarrow> web_server \<Rightarrow> bool" where
  "server_inv env s \<longleftrightarrow>
     clients_inv (m_websocketClientsMap s) \<and>
     requests_inv env (uws_calls s) (m_httpClientsMap s) \<and>
     m_maxPayloadSize s = 16 * 1024 * 1024"

text \<open>
  What the environment guarantees: UUID texts have 36 characters, the response object of a new
  request was not seen before, and LuaJIT passes an event buffer as \<open>uws_exports.h\<close> declares it,
  with \<open>uws_webserver_payload_size\<close> bytes of payload.
\<close>

definition event_buffer_ok :: "uws_webserver_event option \<Rightarrow> web_server \<Rightarrow> bool" where
  "event_buffer_ok b s =
     (case b of
        None \<Rightarrow> True
      | Some buf \<Rightarrow> length (ev_clientID buf) = 37 \<and>
          (case ev_payload buf of None \<Rightarrow> True | Some p \<Rightarrow> GetMaxAllowedPayloadSize s \<le> length p))"

fun admissible :: "server_op \<Rightarrow> web_server \<Rightarrow> bool" where
  "admissible (Op_OnUpgrade str_id request) s = (length str_id = 36)"
| "admissible (Op_CreateRouteHandler str_id verb route res request) s =
     (length str_id = 36 \<and> \<not> list_ex (\<lambda>c. mentions c res) (uws_calls s))"
| "admissible (Op_GetNextDeferredEvent b) s = event_buffer_ok b s"
| "admissible op s = True"

fun admissible_run :: "uws_env \<Rightarrow> server_op list \<Rightarrow> web_server \<Rightarrow> bool" where
  "admissible_run env [] s = True"
| "admissible_run env (op # ops) s =
     (admissible op s \<and> (case perform env op s of None \<Rightarrow> True | Some s1 \<Rightarrow> admissible_run env ops s1))"

text \<open>The states that runs of admissible operations reach from the fresh server.\<close>

inductive reachable :: "uws_env \<Rightarrow> web_server \<Rightarrow> bool" for env where
  start: "reachable env new_WebServer"
| step: "reachable env s \<Longrightarrow> admissible op s \<Longrightarrow> perform env op s = Some s' \<Longrightarrow> reachable env s'"

inductive_cases reachable_stepE: "reachable env s"

section \<open>Exact effect of the loops\<close>

lemmas server_effects = emplace_event_def call_uws_def report_def std_push_def

lemma live_clients_simps [simp]:
  "live_clients [] = []"
  "live_clients ((k, None) # m) = live_clients m"
  "live_clients ((k, Some w) # m) = w # live_clients m"
  by (simp_all add: live_clients_def map_filter_simps)

lemma clients_inv_split:
  assumes "clients_inv (xs @ (k, v) # ys)"
  shows "k \<notin> set (um_keys xs)" "um_find k (xs @ (k, v) # ys) = Some v" "v = Some w \<Longrightarrow> ws_clientID w = k"
    "clients_inv ((xs @ [(k, None)]) @ ys)"
  using assms by (auto simp: clients_inv_def intro!: um_find_in)

lemma disconnect_loop_run:
  assumes "clients_inv (xs @ ys)" "m_websocketClientsMap s = xs @ ys"
  shows "\<exists>ys'. disconnect_loop env (um_keys ys) s = Some
     (s\<lparr>m_websocketClientsMap := xs @ ys',
        m_deferredEventsQueue := m_deferredEventsQueue s @ closed_events env (uws_calls s) (live_clients ys),
        uws_calls := uws_calls s @ map Ws_close (live_clients ys)\<rparr>)"
  using assms
proof (induction ys arbitrary: xs s)
  case Nil
  then show ?case by (auto intro!: exI [of _ "[]"])
next
  case (Cons p ys)
  obtain k v where p: "p = (k, v)" by fastforce
  note sp = clients_inv_split [OF Cons.prems(1) [unfolded p]]
  show ?case
  proof (cases v)
    case None
    then have "clients_inv ((xs @ [(k, v)]) @ ys)" using sp(4) by simp
    from Cons.IH [OF this, of s] Cons.prems(2) show ?thesis
      using sp(2) None p by auto
  next
    case (Some w)
    let ?s1 = "call_uws (Ws_close w) s"
    show ?thesis
    proof (cases "close_result env (uws_calls s @ [Ws_close w])")
      case None
      have "clients_inv ((xs @ [(k, v)]) @ ys)" using Cons.prems(1) p by simp
      from Cons.IH [OF this, of ?s1] Cons.prems(2) show ?thesis
        using sp(2) Some None p by (auto simp: call_uws_def)
    next
      case (Some cm)
      obtain code msg where cm: "cm = (code, msg)" by fastforce
      let ?s2 = "OnWebSocketClose w code msg ?s1"
      have m2: "m_websocketClientsMap ?s2 = (xs @ [(k, None)]) @ ys"
        using Cons.prems(2) p sp(1,3) \<open>v = Some w\<close> um_set_present_split [OF sp(1)]
        by (simp add: OnWebSocketClose_def server_effects Let_def)
      have "um_keys (m_websocketClientsMap ?s2) = um_keys (m_websocketClientsMap ?s1)"
        unfolding m2 using Cons.prems(2) p by (simp add: call_uws_def)
      then have "disconnect_loop env (um_keys (p # ys)) s = disconnect_loop env (um_keys ys) ?s2"
        using sp(2) Cons.prems(2) p \<open>v = Some w\<close> Some cm by (simp add: call_uws_def Let_def)
      then show ?thesis
        using Cons.IH [OF sp(4) m2] p \<open>v = Some w\<close> Some cm sp(3)
        by (auto simp: OnWebSocketClose_def server_effects Let_def)
    qed
  qed
qed

lemma DisconnectAllClients_run:
  assumes "clients_inv (m_websocketClientsMap s)"
  shows "DisconnectAllClients env s = Some
     (s\<lparr>m_websocketClientsMap := [],
        m_deferredEventsQueue := m_deferredEventsQueue s @ disconnect_events env s,
        uws_calls := uws_calls s @ map Ws_close (live_clients (m_websocketClientsMap s))\<rparr>)"
  using disconnect_loop_run [of "[]" "m_websocketClientsMap s" s env] assms
  by (auto simp: DisconnectAllClients_def disconnect_events_def)

definition abort_calls :: "HttpMessageData \<Rightarrow> uws_call list" where
  "abort_calls d =
     [Res_writeStatus (response d) ''503 Service Unavailable'',
      Res_writeHeader (response d) ''Content-Type'' ''text/plain'',
      Res_end (response d) ''Service Unavailable: Server shutting down'']"

lemma abort_loop_run:
  "abort_loop m n s = (n + length m, s\<lparr>uws_calls := uws_calls s @ concat (map (abort_calls \<circ> snd) m)\<rparr>)"
  by (induction m n s rule: abort_loop.induct) (simp_all add: call_uws_def abort_calls_def Let_def)

lemma AbortAllConnections_run:
  "AbortAllConnections s = (length (m_httpClientsMap s),
     s\<lparr>m_httpClientsMap := [], uws_calls := uws_calls s @ concat (map (abort_calls \<circ> snd) (m_httpClientsMap s))\<rparr>)"
  by (simp add: AbortAllConnections_def abort_loop_run)

lemma StopListening_run:
  assumes "clients_inv (m_websocketClientsMap s)" "m_usListenSocket s = Some socket"
  shows "StopListening env s = Some
     (s\<lparr>m_usListenSocket := None, m_websocketClientsMap := [], m_httpClientsMap := [],
        m_deferredEventsQueue := m_deferredEventsQueue s @ disconnect_events env s
          @ [mk_event SHUTDOWN ''SERVER'' ''Going Away''],
        uws_calls := uws_calls s @ map Ws_close (live_clients (m_websocketClientsMap s))
          @ concat (map (abort_calls \<circ> snd) (m_httpClientsMap s)) @ [Listen_socket_close socket]\<rparr>)"
  using assms
  by (simp add: StopListening_def DisconnectAllClients_run AbortAllConnections_run server_effects Let_def)

lemma purge_loop_run:
  "purge_loop m n = (filter (\<lambda>(k, v). v \<noteq> None) m, n + length (filter (\<lambda>(k, v). v = None) m))"
  by (induction m n rule: purge_loop.induct) auto

lemma PurgeFadedClients_run:
  "PurgeFadedClients s =
     (length (filter (\<lambda>(k, v). v = None) (m_websocketClientsMap s)),
      s\<lparr>m_websocketClientsMap := filter (\<lambda>(k, v). v \<noteq> None) (m_websocketClientsMap s)\<rparr>)"
  by (simp add: PurgeFadedClients_def purge_loop_run)

abbreviation sends :: "string \<Rightarrow> OpCode \<Rightarrow> bool \<Rightarrow> WebSocket list \<Rightarrow> uws_call list" where
  "sends msg opCode compress ws \<equiv> map (\<lambda>w. Ws_send w msg opCode compress) ws"

lemma broadcast_loop_run:
  "broadcast_loop env msg opCode compress m status s =
     (if \<exists>n. 0 < n \<and> n \<le> length (live_clients m) \<and>
         send_result env (uws_calls s @ sends msg opCode compress (take n (live_clients m))) = DROPPED
      then DROPPED else status,
      s\<lparr>uws_calls := uws_calls s @ sends msg opCode compress (live_clients m)\<rparr>)"
proof (induction m arbitrary: status s)
  case Nil
  then show ?case by simp
next
  case (Cons p m)
  obtain k v where p: "p = (k, v)" by fastforce
  show ?case
  proof (cases v)
    case None
    then show ?thesis using Cons p by simp
  next
    case (Some w)
    let ?c = "Ws_send w msg opCode compress"
    let ?P = "\<lambda>n. send_result env (uws_calls s @ sends msg opCode compress (take n (w # live_clients m))) = DROPPED"
    have "(\<exists>n. 0 < n \<and> n \<le> Suc (length (live_clients m)) \<and> ?P n) \<longleftrightarrow>
        ?P 1 \<or> (\<exists>n. 0 < n \<and> n \<le> length (live_clients m) \<and> ?P (Suc n))"
      (is "?l \<longleftrightarrow> ?r")
    proof
      assume ?l
      then obtain j where "j \<le> length (live_clients m)" "?P (Suc j)"
        by (metis Suc_le_mono gr0_implies_Suc)
      then show ?r by (cases j) (auto intro!: exI [of _ j])
    next
      assume ?r
      then show ?l by (auto intro: exI [of _ 1] exI [of _ "Suc _"])
    qed
    then show ?thesis using Some p by (simp add: Cons ws_send_def call_uws_def) auto
  qed
qed

lemma dump_loop_run: "fst (dump_loop q t out) = t @ q"
  by (induction q t out rule: dump_loop.induct) (simp_all add: std_push_def)

lemma DumpDeferredEvents_state: "snd (DumpDeferredEvents s) = s"
proof -
  let ?d = "dump_loop (m_deferredEventsQueue s) []
     [''DeferredEvent queue size: '' @ to_string_int (int (length (m_deferredEventsQueue s)))]"
  have "snd (DumpDeferredEvents s) = s\<lparr>m_deferredEventsQueue := fst ?d\<rparr>"
    by (simp add: DumpDeferredEvents_def split: prod.split)
  then show ?thesis by (simp add: dump_loop_run)
qed

section \<open>The event queue\<close>

lemmas send_defs = broadcast_def BroadcastTextMessage_def BroadcastBinaryMessage_def
  BroadcastCompressedTextMessage_def send_to_client_def SendTextMessageToClient_def
  SendBinaryMessageToClient_def SendCompressedTextMessageToClient_def ws_send_def

lemmas route_defs = add_route_def AddGetRoute_def AddPostRoute_def AddOptionsRoute_def
  AddDeleteRoute_def AddPatchRoute_def AddPutRoute_def AddHeadRoute_def AddAnyRoute_def
  AddWebSocketRoute_def

lemmas response_defs = WriteResponse_def EndResponse_def TryEndResponse_def
  WriteResponseStatus_def WriteResponseHeader_def

lemmas handler_defs = StartListening_def OnUpgrade_def OnWebSocketOpen_def OnWebSocketClose_def
  OnWebSocketMessage_def CreateRouteHandler_def OnRequest_def SetCallbackHandlers_def
  StoreRequestDetails_def onData_callback_def OnLastChunkReceived_def OnChunkReceived_def
  OnConnectionAborted_def onWritable_callback_def OnConnectionWritable_def SetEchoMode_def

lemma poll_queue:
  assumes "GetNextDeferredEvent b s = Some (b', s')"
  shows "delivered (Op_GetNextDeferredEvent b) s @ m_deferredEventsQueue s' = m_deferredEventsQueue s"
    and "m_websocketClientsMap s' = m_websocketClientsMap s" "m_httpClientsMap s' = m_httpClientsMap s"
    and "uws_calls s' = uws_calls s" "m_maxPayloadSize s' = m_maxPayloadSize s"
  using assms
  by (auto simp: GetNextDeferredEvent_def std_pop_def report_def Let_def
      split: option.splits list.splits if_splits)

lemma perform_queue:
  assumes "clients_inv (m_websocketClientsMap s)" "perform env op s = Some s'"
  shows "delivered op s @ m_deferredEventsQueue s' = m_deferredEventsQueue s @ emits env op s"
proof (cases op)
  case Op_StopListening
  then show ?thesis
    using assms StopListening_run [OF assms(1), of _ env]
    by (cases "m_usListenSocket s") (auto simp: StopListening_def report_def)
next
  case (Op_GetNextDeferredEvent b)
  then show ?thesis using assms(2) poll_queue(1) by auto
qed (use assms in \<open>auto simp: DisconnectAllClients_run AbortAllConnections_run PurgeFadedClients_run
      DumpDeferredEvents_state broadcast_loop_run send_defs route_defs response_defs handler_defs
      server_effects Let_def split: option.splits if_splits\<close>)

end
