(* ===== verification/Web_Server_Safety.thy ===== *)
theory Web_Server_Safety
  imports Web_Server_Runs
begin

text \<open>
  The invariant of the web server: every operation keeps it, and an admissible operation on a
  state that satisfies it never runs into undefined behaviour. Both parts of the invariant, the
  WebSocket clients and the pending HTTP requests with the history of calls, have their own
  lemmas.
\<close>

section \<open>Clients\<close>

lemma clients_inv_Nil [simp]: "clients_inv []"
  by (simp add: clients_inv_def)

lemma clients_inv_set:
  assumes "clients_inv m" "\<And>w. v = Some w \<Longrightarrow> ws_clientID w = k"
  shows "clients_inv (um_set k v m)"
  using assms um_set_subset [of k v m] by (fastforce simp: clients_inv_def)

lemma clients_inv_filter: "clients_inv m \<Longrightarrow> clients_inv (filter P m)"
  by (auto simp: clients_inv_def distinct_map_filter)

section \<open>Requests\<close>

lemma completes_mentions: "completes env cs c q \<Longrightarrow> mentions c q"
  by (cases c) auto

lemma completed_snoc:
  "completed env (cs @ [c]) q \<longleftrightarrow> completed env cs q \<or> completes env (cs @ [c]) c q"
proof -
  have "completes env (take (Suc i) (cs @ [c])) ((cs @ [c]) ! i) q
      \<longleftrightarrow> completes env (take (Suc i) cs) (cs ! i) q" if "i < length cs" for i
    using that by (simp add: nth_append)
  then show ?thesis
    unfolding completed_def length_append_singleton Ex_less_Suc by auto
qed

lemma completed_mentioned: "completed env cs q \<Longrightarrow> list_ex (\<lambda>c. mentions c q) cs"
  unfolding completed_def by (auto simp: list_ex_iff dest!: completes_mentions intro: nth_mem)

lemma no_use_after_end_snoc:
  "no_use_after_end env (cs @ [c]) \<longleftrightarrow>
     no_use_after_end env cs \<and> (\<forall>q. mentions c q \<longrightarrow> \<not> completed env cs q)"
proof -
  have "(\<forall>q. mentions ((cs @ [c]) ! i) q \<longrightarrow> \<not> completed env (take i (cs @ [c])) q)
      \<longleftrightarrow> (\<forall>q. mentions (cs ! i) q \<longrightarrow> \<not> completed env (take i cs) q)" if "i < length cs" for i
    using that by (simp add: nth_append)
  then show ?thesis
    unfolding no_use_after_end_def length_append_singleton All_less_Suc by auto
qed

lemma requests_inv_call:
  assumes "requests_inv env cs m"
    and "\<And>q. mentions c q \<Longrightarrow> \<not> completed env cs q"
    and "\<And>d. d \<in> snd ` set m \<Longrightarrow> \<not> completes env (cs @ [c]) c (response d)"
  shows "requests_inv env (cs @ [c]) m"
  using assms unfolding requests_inv_def by (auto simp: completed_snoc no_use_after_end_snoc)

lemma requests_inv_quiet:
  assumes "requests_inv env cs m" "\<And>c q. c \<in> set ds \<Longrightarrow> \<not> mentions c q"
  shows "requests_inv env (cs @ ds) m"
  using assms
proof (induction ds rule: rev_induct)
  case (snoc c ds)
  then have "requests_inv env ((cs @ ds) @ [c]) m"
    by (intro requests_inv_call) (auto dest: completes_mentions)
  then show ?case by simp
qed simp

lemma requests_inv_filter:
  assumes "requests_inv env cs m"
  shows "requests_inv env cs (filter P m)"
  using assms by (auto simp: requests_inv_def distinct_map_filter)

lemma requests_inv_use:
  assumes "requests_inv env cs m" "um_find k m = Some d"
    and "\<And>q. mentions c q \<Longrightarrow> q = response d" "\<And>q. \<not> completes env (cs @ [c]) c q"
  shows "requests_inv env (cs @ [c]) m"
  using assms um_find_SomeD [OF assms(2)] by (intro requests_inv_call) (force simp: requests_inv_def)+

lemma requests_inv_finish:
  assumes "requests_inv env cs m" "um_find k m = Some d" "\<And>q. mentions c q \<Longrightarrow> q = response d"
  shows "requests_inv env (cs @ [c]) (um_erase k m)"
proof (rule requests_inv_call)
  show "requests_inv env cs (um_erase k m)"
    using requests_inv_filter [OF assms(1)] by (simp add: um_erase_filter)
  have d: "(k, d) \<in> set m" by (rule um_find_SomeD [OF assms(2)])
  then show "\<not> completed env cs q" if "mentions c q" for q
    using assms(1) assms(3) [OF that] by (force simp: requests_inv_def)
  fix e assume "e \<in> snd ` set (um_erase k m)"
  then obtain k' where e: "(k', e) \<in> set m" "k' \<noteq> k" by (auto simp: um_erase_filter)
  have "inj_on (response \<circ> snd) (set m)" using assms(1) by (simp add: requests_inv_def distinct_map)
  then have "response e \<noteq> response d" using inj_onD [of "response \<circ> snd" "set m" "(k', e)" "(k, d)"] d e by auto
  then show "\<not> completes env (cs @ [c]) c (response e)"
    using assms(3) completes_mentions by blast
qed

lemma requests_inv_fresh:
  assumes "requests_inv env cs m" "\<not> list_ex (\<lambda>c. mentions c r) cs" "response d = r"
  shows "requests_inv env (cs @ [Res_callbacks r i]) m"
    and "um_find k m = None \<Longrightarrow> requests_inv env (cs @ [Res_callbacks r i]) (um_emplace k d m)"
proof -
  have r: "\<not> completed env cs r" using assms(2) completed_mentioned by blast
  then show old: "requests_inv env (cs @ [Res_callbacks r i]) m"
    using assms(1) by (intro requests_inv_call) auto
  assume n: "um_find k m = None"
  have "r \<notin> (response \<circ> snd) ` set m" using assms(1,2) by (auto simp: requests_inv_def)
  moreover have "um_emplace k d m = m @ [(k, d)]" using n by (simp add: um_emplace_def um_set_fresh um_find_None)
  ultimately show "requests_inv env (cs @ [Res_callbacks r i]) (um_emplace k d m)"
    using old n r assms(3) by (auto simp: requests_inv_def um_find_None completed_snoc)
qed

lemma requests_inv_abort:
  assumes "requests_inv env cs m"
  shows "requests_inv env (cs @ concat (map (abort_calls \<circ> snd) m)) []"
  using assms
proof (induction m arbitrary: cs)
  case (Cons p m)
  obtain k d where p: "p = (k, d)" by fastforce
  let ?a = "Res_writeStatus (response d) ''503 Service Unavailable''"
  let ?b = "Res_writeHeader (response d) ''Content-Type'' ''text/plain''"
  let ?c = "Res_end (response d) ''Service Unavailable: Server shutting down''"
  have f: "um_find k (p # m) = Some d" by (simp add: p um_find_Cons)
  have k: "um_erase k (p # m) = m"
    using Cons.prems p by (force simp: um_erase_filter requests_inv_def filter_id_conv)
  have "requests_inv env (cs @ [?a]) (p # m)"
    by (rule requests_inv_use [OF Cons.prems f]) auto
  then have "requests_inv env ((cs @ [?a]) @ [?b]) (p # m)"
    by (rule requests_inv_use [OF _ f]) auto
  then have "requests_inv env (((cs @ [?a]) @ [?b]) @ [?c]) (um_erase k (p # m))"
    by (rule requests_inv_finish [OF _ f]) auto
  then have "requests_inv env (cs @ abort_calls d) m" by (simp add: k abort_calls_def)
  from Cons.IH [OF this] show ?case by (simp add: p)
qed simp

section \<open>Preservation\<close>

lemma server_inv_start: "server_inv env new_WebServer"
  by (simp add: server_inv_def new_WebServer_def requests_inv_def no_use_after_end_def)

lemma fresh_id_36: "length str_id = 36 \<Longrightarrow> \<exists>i. fresh_id str_id = Some i"
  by (simp add: fresh_id_def uuid_store_Some UUID_RFC_STRING_SIZE_def)

lemma requests_inv_disconnect:
  "requests_inv env cs m \<Longrightarrow> requests_inv env (cs @ map Ws_close ws) m"
  by (rule requests_inv_quiet) auto

lemma requests_inv_shutdown:
  assumes "requests_inv env cs m"
  shows "requests_inv env (cs @ map Ws_close ws @ concat (map (abort_calls \<circ> snd) m) @ [Listen_socket_close x]) []"
  using requests_inv_quiet [OF requests_inv_abort [OF requests_inv_disconnect [OF assms, of ws]],
      of "[Listen_socket_close x]"] by simp

lemma requests_inv_sends:
  "requests_inv env cs m \<Longrightarrow> requests_inv env (cs @ sends msg opCode compress ws) m"
  by (rule requests_inv_quiet) auto

lemma requests_inv_one_quiet:
  "requests_inv env cs m \<Longrightarrow> (\<And>q. \<not> mentions c q) \<Longrightarrow> requests_inv env (cs @ [c]) m"
  using requests_inv_quiet [of env cs m "[c]"] by simp

lemma server_inv_CreateRouteHandler:
  assumes "server_inv env s" "\<not> list_ex (\<lambda>c. mentions c res) (uws_calls s)"
  shows "server_inv env (OnRequest requestID res request route s)"
proof -
  have i: "requests_inv env (uws_calls s) (m_httpClientsMap s)" using assms(1) by (simp add: server_inv_def)
  note f = requests_inv_fresh [OF i assms(2)]
  show ?thesis
  proof (cases "um_find requestID (m_httpClientsMap s)")
    case None
    then show ?thesis using assms(1) f(2) [OF _ None]
      by (simp add: server_inv_def OnRequest_def StoreRequestDetails_def SetCallbackHandlers_def
          server_effects Let_def)
  next
    case (Some d)
    then show ?thesis using assms(1) f(1) [of "d\<lparr>response := res\<rparr>"]
      by (simp add: server_inv_def OnRequest_def StoreRequestDetails_def SetCallbackHandlers_def
          server_effects Let_def)
  qed
qed

lemma server_inv_response:
  assumes "server_inv env s"
  shows "server_inv env (snd (WriteResponse env i d s))" "server_inv env (snd (EndResponse i d s))"
    "server_inv env (snd (TryEndResponse env i d s))" "server_inv env (snd (WriteResponseStatus env i d s))"
    "server_inv env (snd (WriteResponseHeader env i d v s))"
proof -
  have r: "requests_inv env (uws_calls s) (m_httpClientsMap s)" using assms by (simp add: server_inv_def)
  show "server_inv env (snd (WriteResponse env i d s))" "server_inv env (snd (EndResponse i d s))"
    "server_inv env (snd (WriteResponseStatus env i d s))"
    "server_inv env (snd (WriteResponseHeader env i d v s))"
    using assms by (auto simp: response_defs call_uws_def server_inv_def Let_def
        intro!: requests_inv_use [OF r] requests_inv_finish [OF r] split: option.splits)
  show "server_inv env (snd (TryEndResponse env i d s))"
  proof (cases "um_find i (m_httpClientsMap s)")
    case (Some e)
    have "requests_inv env (uws_calls s @ [Res_tryEnd (response e) d]) (m_httpClientsMap s)"
      if "\<not> snd (tryEnd_result env (uws_calls s @ [Res_tryEnd (response e) d]))"
      using that by (intro requests_inv_use [OF r Some]) auto
    then show ?thesis using assms Some
      by (auto simp: TryEndResponse_def call_uws_def server_inv_def Let_def
          intro!: requests_inv_finish [OF r Some])
  qed (use assms in \<open>simp add: TryEndResponse_def\<close>)
qed

lemma perform_inv:
  assumes inv: "server_inv env s" and adm: "admissible op s" and p: "perform env op s = Some s'"
  shows "server_inv env s'"
proof -
  have c: "clients_inv (m_websocketClientsMap s)" and r: "requests_inv env (uws_calls s) (m_httpClientsMap s)"
    using inv by (simp_all add: server_inv_def)
  note quiet = requests_inv_one_quiet [OF r]
  show ?thesis
  proof (cases op)
    case Op_StopListening
    then show ?thesis
      using inv p StopListening_run [OF c, of _ env] requests_inv_shutdown [OF r]
      by (cases "m_usListenSocket s") (auto simp: StopListening_def report_def server_inv_def)
  next
    case (Op_CreateRouteHandler str_id verb route res request)
    then show ?thesis
      using p adm by (auto simp: CreateRouteHandler_def split: option.splits intro: server_inv_CreateRouteHandler [OF inv])
  next
    case (Op_GetNextDeferredEvent b)
    then show ?thesis using inv p poll_queue by (auto simp: server_inv_def)
  next
    case Op_AbortAllConnections
    then show ?thesis using inv p requests_inv_abort [OF r] by (auto simp: AbortAllConnections_run server_inv_def)
  next
    case (Op_onAborted i)
    then show ?thesis using inv p requests_inv_filter [OF r]
      by (auto simp: OnConnectionAborted_def server_effects server_inv_def um_erase_filter Let_def)
  qed (use inv p c quiet requests_inv_disconnect [OF r] requests_inv_sends [OF r] in
      \<open>auto simp: DisconnectAllClients_run PurgeFadedClients_run DumpDeferredEvents_state
        broadcast_loop_run send_defs route_defs handler_defs server_effects Let_def server_inv_def
        server_inv_response [OF inv, unfolded server_inv_def]
        split: option.splits if_splits intro!: clients_inv_set clients_inv_filter\<close>)
qed

lemma fill_event_fits:
  assumes "length (ev_clientID buf) = 37" "maxPayload \<le> length p" "0 < maxPayload"
  shows "\<exists>buf'. fill_event e maxPayload p buf = Some buf'
    \<and> ev_type buf' = event_code (event_type e)
    \<and> c_str (ev_clientID buf') = take 36 (c_str (event_clientID e)) \<and> length (ev_clientID buf') = 37
    \<and> ev_payload_size buf' = min (maxPayload - 1) (length (event_payload e))
    \<and> ev_payload buf' = Some (take (maxPayload - 1) (event_payload e) @ NUL # drop (Suc (ev_payload_size buf')) p)"
proof -
  let ?c = "c_str (event_clientID e)"
  let ?n = "min (maxPayload - 1) (length (event_payload e))"
  let ?t = "take (maxPayload - 1) (event_payload e)"
  let ?b = "take 37 ?c @ replicate (37 - length ?c) NUL"
  have b: "strncpy (ev_clientID buf) (event_clientID e) 37 = Some ?b" "length ?b = 37"
    using assms(1) by (simp_all add: strncpy_def)
  then have w: "write_at ?b 36 NUL = Some (?b[36 := NUL])" by (simp add: write_at_Some)
  have "?b[36 := NUL] = take 36 ?b @ NUL # drop 37 ?b"
    using b(2) upd_conv_take_nth_drop [of 36 ?b NUL] by simp
  also have "take 36 ?b = take 36 ?c @ replicate (36 - length ?c) NUL" by (auto simp: min_def)
  finally have u: "?b[36 := NUL] = take 36 ?c @ replicate (36 - length ?c) NUL @ NUL # drop 37 ?b" by simp
  have c: "c_str (?b[36 := NUL]) = take 36 ?c"
    unfolding u by (cases "36 - length ?c") auto
  have n: "?n < length p" "take ?n (event_payload e) = ?t" "length ?t = ?n" using assms(2,3) by (auto simp: min_def)
  have pb: "write_block p 0 ?t = Some (?t @ drop ?n p)" using n by (simp add: write_block_def)
  have "drop ?n p = p ! ?n # drop (Suc ?n) p" using n(1) by (simp add: Cons_nth_drop_Suc)
  then have pw: "write_at (?t @ drop ?n p) ?n NUL = Some (?t @ NUL # drop (Suc ?n) p)"
    using write_at_append [of ?t "p ! ?n" "drop (Suc ?n) p" NUL] unfolding n(3) by simp
  show ?thesis
    unfolding fill_event_def b(1) Let_def size_pred_pos [OF assms(3)] n(2)
    using w pb pw c b(2) by simp
qed

lemma poll_defined:
  assumes "event_buffer_ok b s" "0 < m_maxPayloadSize s"
  shows "\<exists>r. GetNextDeferredEvent b s = Some r"
proof (cases b)
  case (Some buf)
  show ?thesis
  proof (cases "ev_payload buf")
    case (Some p)
    then have "\<forall>e. \<exists>buf'. fill_event e (m_maxPayloadSize s) p buf = Some buf'"
      using fill_event_fits [of buf "m_maxPayloadSize s" p] assms \<open>b = Some buf\<close>
      by (auto simp: event_buffer_ok_def GetMaxAllowedPayloadSize_def)
    then show ?thesis using Some \<open>b = Some buf\<close>
      by (cases "m_deferredEventsQueue s") (auto simp: GetNextDeferredEvent_def std_pop_def Let_def dest!: spec split: option.splits)
  qed (simp add: GetNextDeferredEvent_def Some)
qed (simp add: GetNextDeferredEvent_def)

lemma perform_defined:
  assumes inv: "server_inv env s" and adm: "admissible op s"
  shows "\<exists>s'. perform env op s = Some s'"
proof (cases op)
  case Op_StopListening
  then show ?thesis
    using inv StopListening_run [of s _ env]
    by (cases "m_usListenSocket s") (auto simp: StopListening_def server_inv_def)
next
  case (Op_GetNextDeferredEvent b)
  then show ?thesis using poll_defined [of b s] inv adm by (auto simp: server_inv_def)
qed (use inv adm fresh_id_36 in
    \<open>auto simp: server_inv_def DisconnectAllClients_run OnUpgrade_def CreateRouteHandler_def
       split: option.splits dest!: fresh_id_36\<close>)

lemma reachable_inv: "reachable env s \<Longrightarrow> server_inv env s"
  by (induction rule: reachable.induct) (auto intro: server_inv_start perform_inv)

lemma run_server_queue:
  assumes "server_inv env s" "admissible_run env ops s"
  shows "\<exists>ds es s'. run_server env ops s = Some (ds, es, s') \<and> server_inv env s'
    \<and> ds @ m_deferredEventsQueue s' = m_deferredEventsQueue s @ es"
  using assms
proof (induction ops arbitrary: s)
  case (Cons op ops)
  have adm: "admissible op s" using Cons.prems(2) by simp
  obtain s1 where s1: "perform env op s = Some s1" "server_inv env s1"
    using perform_defined [OF Cons.prems(1) adm] perform_inv [OF Cons.prems(1) adm] by blast
  then obtain ds es s' where r: "run_server env ops s1 = Some (ds, es, s')" "server_inv env s'"
      "ds @ m_deferredEventsQueue s' = m_deferredEventsQueue s1 @ es"
    using Cons.IH [of s1] Cons.prems(2) by auto
  have "delivered op s @ m_deferredEventsQueue s1 = m_deferredEventsQueue s @ emits env op s"
    using perform_queue [OF _ s1(1)] Cons.prems(1) by (simp add: server_inv_def)
  then have "(delivered op s @ ds) @ m_deferredEventsQueue s' = m_deferredEventsQueue s @ emits env op s @ es"
    using r(3) by (metis append_assoc)
  then show ?case using r(1,2) s1(1) by simp
qed simp

end
