(* ===== verification/Web_Server_Props.thy ===== *)
theory Web_Server_Props
  imports Web_Server_Safety
begin

text \<open>
  The correctness properties of the web server. The server, together with the event buffer that
  LuaJIT allocates once and passes to every poll, is an instance of the interface \<open>event_queue\<close>:
  what a poll hands out is what LuaJIT reads from the buffer after the call.
\<close>

section \<open>The server as an event queue\<close>

definition lua_event_buffer :: uws_webserver_event where
  "lua_event_buffer =
     \<lparr>ev_type = 0, ev_clientID = replicate 37 NUL,
      ev_payload = Some (replicate (16 * 1024 * 1024) NUL), ev_payload_size = 0\<rparr>"

abbreviation payload_limit_ok :: "web_server \<Rightarrow> bool" where
  "payload_limit_ok s \<equiv> m_maxPayloadSize s = 16 * 1024 * 1024"

text \<open>What LuaJIT reads from its buffer: the type, the client ID as a C string, and the first
  \<open>payload_size\<close> bytes of the payload.\<close>

type_synonym read_event = "int \<times> string \<times> string"

definition read_event_buffer :: "uws_webserver_event \<Rightarrow> read_event" where
  "read_event_buffer b =
     (ev_type b, c_str (ev_clientID b),
      case ev_payload b of None \<Rightarrow> [] | Some p \<Rightarrow> take (ev_payload_size b) p)"

text \<open>What it should read for a queued event: the ID is cut to 36 characters, the payload to
  one byte less than the limit.\<close>

definition event_as_read :: "DeferredEvent \<Rightarrow> read_event" where
  "event_as_read e =
     (event_code (event_type e), take 36 (c_str (event_clientID e)),
      take (16 * 1024 * 1024 - 1) (event_payload e))"

text \<open>A buffer of the size the server asks for, whatever an earlier poll left in it.\<close>

definition lua_buffer_ok :: "uws_webserver_event \<Rightarrow> bool" where
  "lua_buffer_ok b \<longleftrightarrow> length (ev_clientID b) = 37 \<and>
     (case ev_payload b of None \<Rightarrow> False | Some p \<Rightarrow> 16 * 1024 * 1024 \<le> length p)"

type_synonym polled_server = "uws_webserver_event \<times> web_server"

definition server_push :: "DeferredEvent \<Rightarrow> polled_server \<Rightarrow> polled_server" where
  "server_push e = (\<lambda>(b, s). (b, emplace_event (event_type e) (event_clientID e) (event_payload e) s))"

text \<open>One turn of the polling loop of LuaJIT: while there are events, poll into the buffer and
  read the buffer.\<close>

definition server_poll :: "polled_server \<Rightarrow> (read_event \<times> polled_server) option" where
  "server_poll = (\<lambda>(b, s).
     if \<not> HasDeferredEvents s then None
     else (case GetNextDeferredEvent (Some b) s of
             Some (Some b', s') \<Rightarrow> Some (read_event_buffer b', (b', s'))
           | _ \<Rightarrow> None))"

lemma lua_event_buffer_ok: "lua_buffer_ok lua_event_buffer"
  by (simp add: lua_buffer_ok_def lua_event_buffer_def)

lemma lua_buffer_okE:
  assumes "lua_buffer_ok b"
  obtains p where "length (ev_clientID b) = 37" "ev_payload b = Some p" "16 * 1024 * 1024 \<le> length p"
  using assms by (auto simp: lua_buffer_ok_def split: option.splits)

lemma server_poll_front:
  assumes "payload_limit_ok s" "lua_buffer_ok b" "m_deferredEventsQueue s = e # es"
  shows "\<exists>b' s'. server_poll (b, s) = Some (event_as_read e, (b', s'))
     \<and> m_deferredEventsQueue s' = es \<and> payload_limit_ok s' \<and> lua_buffer_ok b'"
proof -
  obtain p where p: "length (ev_clientID b) = 37" "ev_payload b = Some p" "16 * 1024 * 1024 \<le> length p"
    using assms(2) by (rule lua_buffer_okE)
  define n where "n = min (16 * 1024 * 1024 - 1) (length (event_payload e))"
  obtain b' where b': "fill_event e (16 * 1024 * 1024) p b = Some b'"
    "ev_type b' = event_code (event_type e)" "c_str (ev_clientID b') = take 36 (c_str (event_clientID e))"
    "length (ev_clientID b') = 37" "ev_payload_size b' = n"
    "ev_payload b' = Some (take (16 * 1024 * 1024 - 1) (event_payload e) @ NUL # drop (Suc n) p)"
    using fill_event_fits [OF p(1,3), of e] by (auto simp: n_def)
  have r: "GetNextDeferredEvent (Some b) s = Some (Some b',
      (if size_pred (16 * 1024 * 1024) < length (event_payload e)
       then report ''Warning: Payload buffer too small (data may be truncated)'' s else s)\<lparr>m_deferredEventsQueue := es\<rparr>)"
    using assms(1,3) p(2) b'(1) by (simp add: GetNextDeferredEvent_def std_pop_def Let_def)
  have l: "length (take (16 * 1024 * 1024 - 1) (event_payload e)) = n"
    by (simp add: n_def min.commute)
  have "n < length p" using p(3) by (simp add: n_def)
  then have ok: "lua_buffer_ok b'"
    using b'(4,6) l p(3) by (simp add: lua_buffer_ok_def)
  have "take n (xs @ ys) = xs" if "length xs = n" for xs ys :: string using that by simp
  from this [OF l] have "read_event_buffer b' = event_as_read e"
    unfolding read_event_buffer_def event_as_read_def b'(2,3,5,6) option.case by (rule arg_cong)
  then show ?thesis
    using r ok assms(1,3) by (simp add: server_poll_def HasDeferredEvents_def report_def)
qed

interpretation server_queue: event_queue event_as_read
  "\<lambda>(b, s). map event_as_read (m_deferredEventsQueue s)" "\<lambda>(b, s). payload_limit_ok s \<and> lua_buffer_ok b"
  server_push server_poll
proof (unfold_locales, goal_cases)
  case (4 q e es)
  then obtain b s x xs where "q = (b, s)" "m_deferredEventsQueue s = x # xs" "e = event_as_read x"
    "es = map event_as_read xs" by (cases q) auto
  then show ?case using server_poll_front [of s b x xs] 4(1) by fastforce
qed (auto simp: server_push_def emplace_event_def std_push_def server_poll_def HasDeferredEvents_def event_as_read_def)

section \<open>Sample environment\<close>

definition sample_env :: uws_env where
  "sample_env =
     \<lparr>listen_result = (\<lambda>cs. Some 1), close_result = (\<lambda>cs. Some (1006, '''')),
      send_result = (\<lambda>cs. SUCCESS), write_result = (\<lambda>cs. True), tryEnd_result = (\<lambda>cs. (True, True)),
      writeStatus_result = (\<lambda>cs. True), writeHeader_result = (\<lambda>cs. True)\<rparr>"

abbreviation sample_client :: WebSocket where
  "sample_client \<equiv> \<lparr>ws_address = 7, ws_clientID = ''c1''\<rparr>"

abbreviation sample_request :: HttpRequest where
  "sample_request \<equiv> \<lparr>getMethod = ''get'', getUrl = ''/index'', getQuery = ''q=1'',
     request_headers = [(''host'', ''a'')], getHeader = (\<lambda>h. [])\<rparr>"

abbreviation sample_id :: string where
  "sample_id \<equiv> replicate 36 CHR ''a''"

lemma sample_id_fresh: "fresh_id sample_id = Some sample_id"
proof -
  have "no_nul sample_id" by (simp add: no_nul_def NUL_def)
  then show ?thesis by (simp add: fresh_id_def uuid_store_Some UUID_RFC_STRING_SIZE_def)
qed

lemma sample_request_stored:
  "\<exists>d. um_find ''r1'' (m_httpClientsMap (OnRequest ''r1'' 5 sample_request ''/*'' new_WebServer)) = Some d
     \<and> req_headers (requestDetails d) = [(''host'', ''a'')]"
  by (simp add: OnRequest_def StoreRequestDetails_def SetCallbackHandlers_def
      server_effects Let_def um_emplace_def um_find_def um_set_def new_WebServer_def)

section \<open>Properties\<close>

text \<open>
  C1. No event is lost, duplicated or reordered: in every run of the server, with calls from
  LuaJIT and uWebSockets events interleaved in any way, all operations are defined, and the
  events handed to LuaJIT followed by those still queued are exactly the events that the
  handlers produced, in the order they were produced.
\<close>

theorem server_run_fifo:
  assumes "admissible_run env ops new_WebServer"
  shows "\<exists>ds es s. run_server env ops new_WebServer = Some (ds, es, s) \<and> ds @ m_deferredEventsQueue s = es"
  using run_server_queue [OF server_inv_start assms] by (auto simp: new_WebServer_def)

theorem server_run_fifo_witness:
  "\<exists>ds es s. run_server sample_env
      [Op_OnWebSocketOpen sample_client, Op_OnWebSocketMessage sample_client ''hi'' TEXT,
       Op_GetNextDeferredEvent (Some lua_event_buffer), Op_StopListening] new_WebServer = Some (ds, es, s)
    \<and> ds @ m_deferredEventsQueue s = es"
  by (rule server_run_fifo)
    (auto simp: event_buffer_ok_def lua_event_buffer_def GetMaxAllowedPayloadSize_def new_WebServer_def
      OnWebSocketOpen_def OnWebSocketMessage_def server_effects Let_def split: option.splits)

text \<open>
  C2. No use after end: in every reachable state the history of calls into uWebSockets contains
  no call on a response object after the call that completed it (\<open>end\<close>, or a \<open>tryEnd\<close> that
  reported completion).
\<close>

theorem server_no_use_after_end:
  assumes "reachable env s"
  shows "no_use_after_end env (uws_calls s)"
  using reachable_inv [OF assms] by (simp add: server_inv_def requests_inv_def)

theorem server_no_use_after_end_witness:
  "let s = snd (WriteResponse sample_env sample_id ''late'' (snd (EndResponse sample_id ''bye''
       (snd (WriteResponse sample_env sample_id ''hi'' (OnRequest sample_id 5 sample_request ''/*'' new_WebServer))))))
   in uws_calls s = [Res_callbacks 5 sample_id, Res_write 5 ''hi'', Res_end 5 ''bye'']
     \<and> no_use_after_end sample_env (uws_calls s)"
proof -
  let ?s1 = "OnRequest sample_id 5 sample_request ''/*'' new_WebServer"
  let ?s2 = "snd (WriteResponse sample_env sample_id ''hi'' ?s1)"
  let ?s3 = "snd (EndResponse sample_id ''bye'' ?s2)"
  let ?s4 = "snd (WriteResponse sample_env sample_id ''late'' ?s3)"
  have "reachable sample_env ?s1"
    by (rule reachable.step [OF reachable.start, of "Op_CreateRouteHandler sample_id ''get'' ''/*'' 5 sample_request"])
      (simp_all add: CreateRouteHandler_def sample_id_fresh new_WebServer_def)
  then have "reachable sample_env ?s2" by (rule reachable.step [of _ _ "Op_WriteResponse sample_id ''hi''"]) simp_all
  then have "reachable sample_env ?s3" by (rule reachable.step [of _ _ "Op_EndResponse sample_id ''bye''"]) simp_all
  then have "reachable sample_env ?s4" by (rule reachable.step [of _ _ "Op_WriteResponse sample_id ''late''"]) simp_all
  moreover have "uws_calls ?s4 = [Res_callbacks 5 sample_id, Res_write 5 ''hi'', Res_end 5 ''bye'']"
    by (simp add: OnRequest_def StoreRequestDetails_def SetCallbackHandlers_def WriteResponse_def EndResponse_def
        server_effects Let_def um_emplace_def um_find_def um_set_def um_erase_def new_WebServer_def sample_env_def)
  ultimately show ?thesis using server_no_use_after_end [of sample_env ?s4] by (simp only: Let_def)
qed

text \<open>
  C11. Polling hands out the oldest event faithfully: with a buffer of the advertised size the
  event type, the client ID (up to the 36 characters of a UUID) and the payload are those of the
  event, a payload of up to \<open>2^24 - 1\<close> bytes arrives complete, NUL-terminated and with its exact
  length even if it contains NUL bytes, and the event leaves the queue.
\<close>

theorem GetNextDeferredEvent_faithful:
  assumes "payload_limit_ok s" "m_deferredEventsQueue s = e # es"
    and "length (ev_clientID buf) = 37" "ev_payload buf = Some p" "16 * 1024 * 1024 \<le> length p"
    and "length (event_payload e) < 16 * 1024 * 1024"
    and "length (event_clientID e) \<le> 36" "no_nul (event_clientID e)"
  shows "\<exists>buf' s'. GetNextDeferredEvent (Some buf) s = Some (Some buf', s')
     \<and> ev_type buf' = event_code (event_type e) \<and> c_str (ev_clientID buf') = event_clientID e
     \<and> ev_payload_size buf' = length (event_payload e)
     \<and> ev_payload buf' = Some (event_payload e @ NUL # drop (Suc (length (event_payload e))) p)
     \<and> s' = s\<lparr>m_deferredEventsQueue := es\<rparr>"
proof -
  have l: "\<not> size_pred (m_maxPayloadSize s) < length (event_payload e)"
    using assms(1,6) by (simp add: size_pred_def)
  have "min (16 * 1024 * 1024 - 1) (length (event_payload e)) = length (event_payload e)"
    "take (16 * 1024 * 1024 - 1) (event_payload e) = event_payload e"
    "take 36 (c_str (event_clientID e)) = event_clientID e" using assms(6-8) by auto
  then show ?thesis
    using fill_event_fits [of buf "16 * 1024 * 1024" p e] assms(1-5) l
    by (auto simp: GetNextDeferredEvent_def std_pop_def Let_def)
qed

theorem GetNextDeferredEvent_faithful_witness:
  "\<exists>buf' s'. GetNextDeferredEvent (Some lua_event_buffer) (emplace_event OPEN ''abc'' '''' new_WebServer)
       = Some (Some buf', s') \<and> c_str (ev_clientID buf') = ''abc'' \<and> m_deferredEventsQueue s' = []"
proof -
  have "payload_limit_ok (emplace_event OPEN ''abc'' '''' new_WebServer)"
    "m_deferredEventsQueue (emplace_event OPEN ''abc'' '''' new_WebServer) = mk_event OPEN ''abc'' '''' # []"
    by (simp_all add: new_WebServer_def server_effects)
  from GetNextDeferredEvent_faithful [OF this, of lua_event_buffer "replicate (16 * 1024 * 1024) NUL"]
  show ?thesis by (fastforce simp: lua_event_buffer_def no_nul_def NUL_def)
qed

text \<open>
  Polling with no buffer, with a buffer without payload, or on an empty queue changes
  nothing but the error log, and the events stay queued.
\<close>

theorem GetNextDeferredEvent_errors:
  "GetNextDeferredEvent None s =
     Some (None, report ''Failed to GetNextDeferredEvent: Missing preallocated event buffer'' s) \<and>
   GetNextDeferredEvent (Some (buf\<lparr>ev_payload := None\<rparr>)) s =
     Some (Some (buf\<lparr>ev_payload := None\<rparr>),
           report ''Failed to GetNextDeferredEvent: Uninitialized payload buffer'' s) \<and>
   GetNextDeferredEvent (Some (buf\<lparr>ev_payload := Some p\<rparr>)) (s\<lparr>m_deferredEventsQueue := []\<rparr>) =
     Some (Some (buf\<lparr>ev_payload := Some p\<rparr>),
           report ''Failed to GetNextDeferredEvent: Queue is empty'' (s\<lparr>m_deferredEventsQueue := []\<rparr>))"
  by (simp add: GetNextDeferredEvent_def std_pop_def)

text \<open>
  C30. The polling loop of LuaJIT drains the queue faithfully: in every reachable state, polling
  \<open>GetNumDeferredEvents\<close> times with one buffer of the advertised size, which is used again for
  every event, hands LuaJIT exactly the queued events in order (the type, the client ID up to 36
  characters, the payload up to \<open>2^24 - 1\<close> bytes, with no rest of an earlier event) and leaves
  no event behind.
\<close>

theorem poll_drains_queue:
  assumes "reachable env s" "lua_buffer_ok b"
  shows "\<exists>b' s'. run_queue server_push server_poll (replicate (GetNumDeferredEvents s) Poll_cmd) (b, s)
       = (map event_as_read (m_deferredEventsQueue s), (b', s')) \<and> \<not> HasDeferredEvents s'"
proof -
  have "payload_limit_ok s" using reachable_inv [OF assms(1)] by (simp add: server_inv_def)
  then show ?thesis using server_queue.poll_all [of "(b, s)"] assms(2)
    by (auto simp: GetNumDeferredEvents_def HasDeferredEvents_def)
qed

theorem poll_drains_queue_witness:
  "\<exists>b' s'. run_queue server_push server_poll [Poll_cmd, Poll_cmd]
      (lua_event_buffer, OnWebSocketMessage sample_client ''hi'' TEXT (OnWebSocketOpen sample_client new_WebServer))
    = ([(event_code OPEN, ''c1'', ''''), (event_code MESSAGE, ''c1'', ''hi'')], (b', s')) \<and> \<not> HasDeferredEvents s'"
proof -
  let ?s1 = "OnWebSocketOpen sample_client new_WebServer"
  let ?s = "OnWebSocketMessage sample_client ''hi'' TEXT ?s1"
  have r1: "reachable sample_env ?s1"
    by (rule reachable.step [OF reachable.start, of "Op_OnWebSocketOpen sample_client"]) simp_all
  have r: "reachable sample_env ?s"
    by (rule reachable.step [OF r1, of "Op_OnWebSocketMessage sample_client ''hi'' TEXT"])
      (simp_all add: OnWebSocketOpen_def new_WebServer_def server_effects)
  have "m_deferredEventsQueue ?s = [mk_event OPEN ''c1'' '''', mk_event MESSAGE ''c1'' ''hi'']"
    by (simp add: OnWebSocketOpen_def OnWebSocketMessage_def new_WebServer_def server_effects Let_def)
  moreover have "no_nul ''c1''" by (simp add: no_nul_def NUL_def)
  ultimately show ?thesis
    using poll_drains_queue [OF r lua_event_buffer_ok]
    by (simp add: GetNumDeferredEvents_def event_as_read_def numeral_2_eq_2 del: run_queue.simps)
qed

text \<open>
  C18. Shutdown is complete: stopping a listening server in any reachable state closes every
  connected WebSocket exactly once, ends every pending HTTP request exactly once with a 503
  response, closes the listen socket, empties both client maps and announces the shutdown
  behind all other events; stopping a server that does not listen only logs an error.
\<close>

theorem StopListening_complete:
  assumes "reachable env s"
  shows "StopListening env s = Some
     (case m_usListenSocket s of
        None \<Rightarrow> report ''Failed shutdown: m_usListenSocket is nullptr'' s
      | Some socket \<Rightarrow>
          s\<lparr>m_usListenSocket := None, m_websocketClientsMap := [], m_httpClientsMap := [],
            m_deferredEventsQueue := m_deferredEventsQueue s @ disconnect_events env s
              @ [mk_event SHUTDOWN ''SERVER'' ''Going Away''],
            uws_calls := uws_calls s
              @ map Ws_close (live_clients (m_websocketClientsMap s))
              @ concat (map (abort_calls \<circ> snd) (m_httpClientsMap s))
              @ [Listen_socket_close socket]\<rparr>)"
  using reachable_inv [OF assms] StopListening_run [of s _ env]
  by (auto simp: server_inv_def StopListening_def split: option.splits)

theorem StopListening_complete_witness:
  "\<exists>s'. StopListening sample_env (OnWebSocketOpen sample_client (StartListening sample_env 80 new_WebServer)) = Some s'
     \<and> m_usListenSocket s' = None \<and> m_websocketClientsMap s' = []
     \<and> uws_calls s' = [App_listen 80, Ws_close sample_client, Listen_socket_close 1]
     \<and> m_deferredEventsQueue s' = [mk_event LISTEN ''SERVER'' (to_string_int 80), mk_event OPEN ''c1'' '''',
         mk_event CLOSE ''c1'' '''', mk_event SHUTDOWN ''SERVER'' ''Going Away'']"
proof -
  let ?s1 = "StartListening sample_env 80 new_WebServer"
  let ?s = "OnWebSocketOpen sample_client ?s1"
  have "reachable sample_env ?s1"
    by (rule reachable.step [OF reachable.start, of "Op_StartListening 80"]) simp_all
  then have "reachable sample_env ?s"
    by (rule reachable.step [of _ _ "Op_OnWebSocketOpen sample_client"]) simp_all
  moreover have "m_usListenSocket ?s = Some 1" "m_websocketClientsMap ?s = [(''c1'', Some sample_client)]"
    "m_httpClientsMap ?s = []" "uws_calls ?s = [App_listen 80]"
    "m_deferredEventsQueue ?s = [mk_event LISTEN ''SERVER'' (to_string_int 80), mk_event OPEN ''c1'' '''']"
    by (simp_all add: OnWebSocketOpen_def StartListening_def new_WebServer_def sample_env_def server_effects
        Let_def um_set_def)
  ultimately show ?thesis
    using StopListening_complete [of sample_env ?s]
    by (simp add: disconnect_events_def sample_env_def)
qed

text \<open>
  Messages reach the right client: in every reachable state the socket found for a client
  ID belongs to that client, sending to it makes exactly one \<open>send\<close> call on it and returns its
  status, and for an unknown or disconnected client nothing is sent and \<open>DROPPED\<close> is returned.
\<close>

theorem SendTextMessageToClient_correct:
  assumes "reachable env s"
  shows "case FindClientByID clientID s of
      None \<Rightarrow> SendTextMessageToClient env msg clientID s = (DROPPED, s)
        \<and> SendBinaryMessageToClient env msg clientID s = (DROPPED, s)
        \<and> SendCompressedTextMessageToClient env msg clientID s = (DROPPED, s)
    | Some w \<Rightarrow> ws_clientID w = clientID
        \<and> SendTextMessageToClient env msg clientID s =
            (send_result env (uws_calls s @ [Ws_send w msg TEXT False]),
             s\<lparr>uws_calls := uws_calls s @ [Ws_send w msg TEXT False]\<rparr>)
        \<and> SendBinaryMessageToClient env msg clientID s =
            (send_result env (uws_calls s @ [Ws_send w msg BINARY False]),
             s\<lparr>uws_calls := uws_calls s @ [Ws_send w msg BINARY False]\<rparr>)
        \<and> SendCompressedTextMessageToClient env msg clientID s =
            (send_result env (uws_calls s @ [Ws_send w msg TEXT True]),
             s\<lparr>uws_calls := uws_calls s @ [Ws_send w msg TEXT True]\<rparr>)"
proof -
  have "clients_inv (m_websocketClientsMap s)" using reachable_inv [OF assms] by (simp add: server_inv_def)
  then have "ws_clientID w = clientID" if "FindClientByID clientID s = Some w" for w
    using that by (auto simp: FindClientByID_def clients_inv_def split: option.splits dest!: um_find_SomeD)
  then show ?thesis by (simp add: send_defs call_uws_def split: option.split)
qed

theorem SendTextMessageToClient_correct_witness:
  "SendTextMessageToClient sample_env ''hi'' ''nobody'' new_WebServer = (DROPPED, new_WebServer)"
  using SendTextMessageToClient_correct [OF reachable.start,
      where env = sample_env and clientID = "''nobody''" and msg = "''hi''"]
  by (simp add: FindClientByID_def new_WebServer_def)

text \<open>
  A broadcast makes exactly one \<open>send\<close> call per connected client, in the order of the map,
  skips disconnected ones, and reports \<open>DROPPED\<close> exactly when one of these calls did, so that
  backpressure is reported as success.
\<close>

theorem BroadcastTextMessage_correct:
  "BroadcastTextMessage env msg s =
     (if \<exists>n. 0 < n \<and> n \<le> length (live_clients (m_websocketClientsMap s)) \<and>
         send_result env (uws_calls s @ sends msg TEXT False
           (take n (live_clients (m_websocketClientsMap s)))) = DROPPED
      then DROPPED else SUCCESS,
      s\<lparr>uws_calls := uws_calls s @ sends msg TEXT False (live_clients (m_websocketClientsMap s))\<rparr>)"
  by (simp only: BroadcastTextMessage_def broadcast_loop_run)

text \<open>
  C38. Purging removes exactly the disconnected clients and returns their number; afterwards the
  client count is the number of connected clients and nobody who could be reached is lost.
\<close>

theorem PurgeFadedClients_correct:
  assumes "reachable env s" "PurgeFadedClients s = (n, s')"
  shows "n + GetNumConnectedClients s' = GetNumConnectedClients s
    \<and> GetNumConnectedClients s' = length (live_clients (m_websocketClientsMap s))
    \<and> live_clients (m_websocketClientsMap s') = live_clients (m_websocketClientsMap s)
    \<and> (\<forall>clientID. FindClientByID clientID s' = FindClientByID clientID s)"
proof -
  let ?m = "m_websocketClientsMap s"
  have s': "n = length (filter (\<lambda>(k, v). v = None) ?m)" "m_websocketClientsMap s' = filter (\<lambda>(k, v). v \<noteq> None) ?m"
    using assms(2) by (auto simp: PurgeFadedClients_run)
  have l: "length (filter (\<lambda>(k, v). v = None) m) + length (filter (\<lambda>(k, v). v \<noteq> None) m) = length m
      \<and> length (filter (\<lambda>(k, v). v \<noteq> None) m) = length (live_clients m)
      \<and> live_clients (filter (\<lambda>(k, v). v \<noteq> None) m) = live_clients m"
    for m :: "(string, WebSocket option) unordered_map"
    by (induction m) (auto simp: live_clients_def map_filter_simps split: option.splits)
  have d: "distinct (um_keys ?m)" using reachable_inv [OF assms(1)] by (simp add: server_inv_def clients_inv_def)
  have f: "(case um_find k (filter (\<lambda>(k, v). v \<noteq> None) m) of None \<Rightarrow> None | Some w \<Rightarrow> w)
        = (case um_find k m of None \<Rightarrow> None | Some w \<Rightarrow> w)" if "distinct (um_keys m)"
    for k and m :: "(string, WebSocket option) unordered_map"
    using that
  proof (induction m)
    case (Cons p m)
    obtain k' v where p: "p = (k', v)" by fastforce
    have "um_find k' m = None" "um_find k' (filter (\<lambda>(k, v). v \<noteq> None) m) = None"
      using Cons.prems p by (force simp: um_find_None)+
    then show ?case using Cons p by (auto simp: um_find_Cons)
  qed simp
  show ?thesis
    using l [of ?m] f [OF d] s' by (simp add: GetNumConnectedClients_def FindClientByID_def)
qed

theorem PurgeFadedClients_correct_witness:
  "let s = OnWebSocketOpen \<lparr>ws_address = 8, ws_clientID = ''c2''\<rparr>
       (OnWebSocketClose sample_client 1000 '''' (OnWebSocketOpen sample_client new_WebServer));
       s' = snd (PurgeFadedClients s)
   in GetNumConnectedClients s = 2 \<and> fst (PurgeFadedClients s) = 1 \<and> GetNumConnectedClients s' = 1
    \<and> FindClientByID ''c2'' s' = FindClientByID ''c2'' s"
proof -
  let ?c = "\<lparr>ws_address = 8, ws_clientID = ''c2''\<rparr>"
  let ?s1 = "OnWebSocketOpen sample_client new_WebServer"
  let ?s2 = "OnWebSocketClose sample_client 1000 '''' ?s1"
  let ?s = "OnWebSocketOpen ?c ?s2"
  have "reachable sample_env ?s1"
    by (rule reachable.step [OF reachable.start, of "Op_OnWebSocketOpen sample_client"]) simp_all
  then have "reachable sample_env ?s2"
    by (rule reachable.step [of _ _ "Op_OnWebSocketClose sample_client 1000 ''''"]) simp_all
  then have r: "reachable sample_env ?s" by (rule reachable.step [of _ _ "Op_OnWebSocketOpen ?c"]) simp_all
  have "m_websocketClientsMap ?s = [(''c1'', None), (''c2'', Some ?c)]"
    by (simp add: OnWebSocketOpen_def OnWebSocketClose_def new_WebServer_def server_effects Let_def um_set_def)
  then have n: "GetNumConnectedClients ?s = 2" "length (live_clients (m_websocketClientsMap ?s)) = 1"
    by (simp_all add: GetNumConnectedClients_def)
  from PurgeFadedClients_correct [OF r prod.collapse [symmetric]] show ?thesis
    unfolding Let_def n by simp
qed

text \<open>
  C37. The details of a request are available from the moment its start is announced: after the
  handler ran for an unused ID, each getter with a buffer of at least one byte succeeds without
  leaving the buffer, and what it stored is the corresponding text, cut to the buffer.
\<close>

theorem OnRequest_details_available:
  assumes "um_find requestID (m_httpClientsMap s) = None" "0 < n" "n \<le> length buffer"
    and s': "s' = OnRequest requestID res request route s"
  shows "HasRequest requestID s'
    \<and> (\<exists>b. GetRequestMethod requestID buffer n s' = Some (True, b)
        \<and> c_str b = take (n - 1) (c_str (getMethod request)) \<and> drop n b = drop n buffer)
    \<and> (\<exists>b. GetRequestURL requestID buffer n s' = Some (True, b)
        \<and> c_str b = take (n - 1) (c_str (getUrl request)) \<and> drop n b = drop n buffer)
    \<and> (\<exists>b. GetRequestQuery requestID buffer n s' = Some (True, b)
        \<and> c_str b = take (n - 1) (c_str (getQuery request)) \<and> drop n b = drop n buffer)
    \<and> (\<exists>b. GetRequestEndpoint requestID buffer n s' = Some (True, b)
        \<and> c_str b = take (n - 1) (c_str route) \<and> drop n b = drop n buffer)"
proof -
  have g: "\<exists>b. copy_bounded buffer x n = Some b \<and> c_str b = take (n - 1) (c_str x) \<and> drop n b = drop n buffer" for x
    using copy_bounded_Some [OF assms(2,3), of x] c_str_copy_bounded [OF assms(2,3), of x] by auto
  obtain d where d: "um_find requestID (m_httpClientsMap s') = Some d"
    "req_method (requestDetails d) = getMethod request" "req_url (requestDetails d) = getUrl request"
    "req_query (requestDetails d) = getQuery request" "req_endpoint (requestDetails d) = route"
    using assms(1) unfolding s'
    by (auto simp: OnRequest_def StoreRequestDetails_def SetCallbackHandlers_def server_effects Let_def
        um_emplace_def um_find_def um_set_def update_conv')
  show ?thesis
    using g [of "getMethod request"] g [of "getUrl request"] g [of "getQuery request"] g [of route]
    by (auto simp: HasRequest_def GetRequestMethod_def GetRequestURL_def GetRequestQuery_def
        GetRequestEndpoint_def d)
qed

theorem OnRequest_details_available_witness:
  "\<exists>b. GetRequestURL ''r1'' (replicate 4 NUL) 4 (OnRequest ''r1'' 5 sample_request ''/*'' new_WebServer) = Some (True, b)
     \<and> c_str b = ''/in''"
proof -
  have "no_nul ''/index''" by (simp add: no_nul_def NUL_def)
  then show ?thesis
    using OnRequest_details_available [of "''r1''" new_WebServer 4 "replicate 4 NUL" _ 5 sample_request "''/*''"]
    by (simp add: new_WebServer_def) blast
qed

text \<open>
  A buffer size of zero is not handled: \<open>bufferSize - 1\<close> wraps to \<open>SIZE_MAX\<close>, so for a
  pending request every getter writes outside its buffer.
\<close>

theorem GetRequestURL_zero_size:
  assumes "HasRequest requestID s" "length buffer < SIZE_MAX"
  shows "GetRequestURL requestID buffer 0 s = None \<and> GetRequestMethod requestID buffer 0 s = None
    \<and> GetRequestQuery requestID buffer 0 s = None \<and> GetRequestEndpoint requestID buffer 0 s = None"
  using assms by (auto simp: HasRequest_def GetRequestURL_def GetRequestMethod_def GetRequestQuery_def
      GetRequestEndpoint_def copy_bounded_zero)

theorem GetRequestURL_zero_size_witness:
  "GetRequestURL ''r1'' [] 0 (OnRequest ''r1'' 5 sample_request ''/*'' new_WebServer) = None"
  using GetRequestURL_zero_size [of "''r1''" "OnRequest ''r1'' 5 sample_request ''/*'' new_WebServer" "[]"]
    sample_request_stored by (auto simp: HasRequest_def)

text \<open>
  Serialised headers are all or nothing: the call fails and leaves the buffer alone when the
  text and its terminator do not fit, and otherwise stores the complete text (headers cannot
  contain NUL bytes); even with a size of zero it never writes outside the buffer.
\<close>

theorem GetSerializedRequestHeaders_correct:
  assumes "um_find requestID (m_httpClientsMap s) = Some d" "n \<le> length buffer"
    and "no_nul (serialize_headers (req_headers (requestDetails d)))"
  shows "\<exists>b. GetSerializedRequestHeaders requestID buffer n s =
       Some (length (serialize_headers (req_headers (requestDetails d))) < n, b)
     \<and> (if length (serialize_headers (req_headers (requestDetails d))) < n
        then c_str b = serialize_headers (req_headers (requestDetails d)) else b = buffer)"
proof (cases "length (serialize_headers (req_headers (requestDetails d))) < n")
  case True
  then have "0 < n" by simp
  let ?h = "serialize_headers (req_headers (requestDetails d))"
  obtain b where b: "copy_bounded buffer ?h n = Some b"
    using copy_bounded_Some [OF \<open>0 < n\<close> assms(2), of ?h] by blast
  have "c_str b = ?h"
    using c_str_copy_bounded [OF \<open>0 < n\<close> assms(2) b] True assms(3) by simp
  with b show ?thesis using True assms(1) by (simp add: GetSerializedRequestHeaders_def Let_def)
qed (use assms in \<open>auto simp: GetSerializedRequestHeaders_def Let_def\<close>)

theorem GetSerializedRequestHeaders_correct_witness:
  "\<exists>b. GetSerializedRequestHeaders ''r1'' (replicate 20 CHR ''x'') 20
       (OnRequest ''r1'' 5 sample_request ''/*'' new_WebServer) = Some (True, b)
     \<and> c_str b = ''host: a'' @ [CHR 0x0D, CHR 0x0A]"
proof -
  obtain d where d: "um_find ''r1'' (m_httpClientsMap (OnRequest ''r1'' 5 sample_request ''/*'' new_WebServer)) = Some d"
      "req_headers (requestDetails d) = [(''host'', ''a'')]"
    using sample_request_stored by blast
  then have h: "serialize_headers (req_headers (requestDetails d)) = ''host: a'' @ [CHR 0x0D, CHR 0x0A]"
    by (simp add: serialize_headers_def)
  show ?thesis
    using GetSerializedRequestHeaders_correct [OF d(1), of 20 "replicate 20 CHR ''x''"]
    unfolding h by (simp add: no_nul_def NUL_def)
qed



text \<open>
  A successful \<open>WriteResponse\<close> reports \<open>SentAndEnded\<close> although the request stays pending
  and can still be written to.
\<close>

theorem WriteResponse_reports_ended:
  assumes "um_find requestID (m_httpClientsMap s) = Some d"
    and "write_result env (uws_calls s @ [Res_write (response d) data])"
  shows "fst (WriteResponse env requestID data s) = SentAndEnded
     \<and> HasRequest requestID (snd (WriteResponse env requestID data s))"
  using assms by (simp add: WriteResponse_def HasRequest_def call_uws_def)

theorem WriteResponse_reports_ended_witness:
  "fst (WriteResponse sample_env ''r1'' ''x'' (OnRequest ''r1'' 5 sample_request ''/*'' new_WebServer)) = SentAndEnded"
proof -
  obtain d where "um_find ''r1'' (m_httpClientsMap (OnRequest ''r1'' 5 sample_request ''/*'' new_WebServer)) = Some d"
    using sample_request_stored by blast
  from WriteResponse_reports_ended [OF this, of sample_env "''x''"] show ?thesis by (simp add: sample_env_def)
qed

end
