(* ===== verification/Uws_Exports.thy ===== *)
theory Uws_Exports
  imports Web_Server_Props "HOL-Library.Monad_Syntax"
begin

text \<open>
  The C interface of the web server, \<open>Runtime/Bindings/FFI/uws/uws_ffi.cpp\<close>: what LuaJIT calls.
  A \<open>uws_webserver_t\<close> is the address of a heap-allocated \<open>WebServer\<close>; using an address without a
  live server is undefined (\<open>None\<close>). Character buffers carry the bytes behind the pointer;
  \<open>std::string(p, n)\<close> needs \<open>n\<close> of them and \<open>std::string(p)\<close> a terminator. A \<open>SendStatus\<close> is
  returned as the integer of the library's enumeration; here the value itself is kept.
\<close>

type_synonym server_heap = "nat \<Rightarrow> web_server option"

section \<open>Conversions\<close>

definition std_string_n :: "string \<Rightarrow> nat \<Rightarrow> string option" where
  "std_string_n p n = (if n \<le> length p then Some (take n p) else None)"

definition std_string_z :: "string \<Rightarrow> string option" where
  "std_string_z p = (if NUL \<in> set p then Some (c_str p) else None)"

text \<open>\<open>static_cast<WebServer*>(server)->f(...)\<close>\<close>

definition with_server ::
  "nat \<Rightarrow> (web_server \<Rightarrow> ('a \<times> web_server) option) \<Rightarrow> server_heap \<Rightarrow> ('a \<times> server_heap) option" where
  "with_server server f h =
     (case h server of
        None \<Rightarrow> None
      | Some s \<Rightarrow> (case f s of None \<Rightarrow> None | Some (r, s') \<Rightarrow> Some (r, h(server \<mapsto> s'))))"

definition read_server :: "nat \<Rightarrow> (web_server \<Rightarrow> 'a option) \<Rightarrow> server_heap \<Rightarrow> 'a option" where
  "read_server server f h = (case h server of None \<Rightarrow> None | Some s \<Rightarrow> f s)"

section \<open>Lifetime and events\<close>

text \<open>\<open>a\<close> is the address \<open>new\<close> returns.\<close>

definition uws_webserver_create :: "nat \<Rightarrow> server_heap \<Rightarrow> nat \<times> server_heap" where
  "uws_webserver_create a h = (a, h(a \<mapsto> new_WebServer))"

definition uws_webserver_delete :: "nat \<Rightarrow> server_heap \<Rightarrow> server_heap option" where
  "uws_webserver_delete server h = (if h server = None then None else Some (h(server := None)))"

definition uws_webserver_listen :: "uws_env \<Rightarrow> nat \<Rightarrow> int \<Rightarrow> server_heap \<Rightarrow> (unit \<times> server_heap) option" where
  "uws_webserver_listen env server port = with_server server (\<lambda>s. Some ((), StartListening env port s))"

definition uws_webserver_stop :: "uws_env \<Rightarrow> nat \<Rightarrow> server_heap \<Rightarrow> (unit \<times> server_heap) option" where
  "uws_webserver_stop env server = with_server server (\<lambda>s. map_option (Pair ()) (StopListening env s))"

definition uws_webserver_has_event :: "nat \<Rightarrow> server_heap \<Rightarrow> bool option" where
  "uws_webserver_has_event server = read_server server (\<lambda>s. Some (HasDeferredEvents s))"

definition uws_webserver_get_next_event ::
  "nat \<Rightarrow> uws_webserver_event option \<Rightarrow> server_heap \<Rightarrow> (uws_webserver_event option \<times> server_heap) option" where
  "uws_webserver_get_next_event server event = with_server server (GetNextDeferredEvent event)"

definition uws_webserver_set_echo_mode :: "nat \<Rightarrow> bool \<Rightarrow> server_heap \<Rightarrow> (unit \<times> server_heap) option" where
  "uws_webserver_set_echo_mode server enabled_flag =
     with_server server (\<lambda>s. Some ((), SetEchoMode enabled_flag s))"

definition uws_webserver_dump_events :: "nat \<Rightarrow> server_heap \<Rightarrow> (string list \<times> server_heap) option" where
  "uws_webserver_dump_events server = with_server server (\<lambda>s. Some (DumpDeferredEvents s))"

definition uws_webserver_get_client_count :: "nat \<Rightarrow> server_heap \<Rightarrow> nat option" where
  "uws_webserver_get_client_count server = read_server server (\<lambda>s. Some (GetNumConnectedClients s))"

definition uws_webserver_get_event_count :: "nat \<Rightarrow> server_heap \<Rightarrow> nat option" where
  "uws_webserver_get_event_count server = read_server server (\<lambda>s. Some (GetNumDeferredEvents s))"

definition uws_webserver_payload_size :: "nat \<Rightarrow> server_heap \<Rightarrow> nat option" where
  "uws_webserver_payload_size server = read_server server (\<lambda>s. Some (GetMaxAllowedPayloadSize s))"

definition uws_webserver_purge_connections :: "nat \<Rightarrow> server_heap \<Rightarrow> (nat \<times> server_heap) option" where
  "uws_webserver_purge_connections server = with_server server (\<lambda>s. Some (PurgeFadedClients s))"

section \<open>Messages\<close>

definition uws_webserver_broadcast_text ::
  "uws_env \<Rightarrow> nat \<Rightarrow> string \<Rightarrow> nat \<Rightarrow> server_heap \<Rightarrow> (SendStatus \<times> server_heap) option" where
  "uws_webserver_broadcast_text env server txt len h =
     do { msg \<leftarrow> std_string_n txt len;
          with_server server (\<lambda>s. Some (BroadcastTextMessage env msg s)) h }"

definition uws_webserver_broadcast_binary ::
  "uws_env \<Rightarrow> nat \<Rightarrow> string \<Rightarrow> nat \<Rightarrow> server_heap \<Rightarrow> (SendStatus \<times> server_heap) option" where
  "uws_webserver_broadcast_binary env server binary len h =
     do { msg \<leftarrow> std_string_n binary len;
          with_server server (\<lambda>s. Some (BroadcastBinaryMessage env msg s)) h }"

definition uws_webserver_broadcast_compressed ::
  "uws_env \<Rightarrow> nat \<Rightarrow> string \<Rightarrow> nat \<Rightarrow> server_heap \<Rightarrow> (SendStatus \<times> server_heap) option" where
  "uws_webserver_broadcast_compressed env server compressed len h =
     do { msg \<leftarrow> std_string_n compressed len;
          with_server server (\<lambda>s. Some (BroadcastCompressedTextMessage env msg s)) h }"

definition uws_webserver_send_text ::
  "uws_env \<Rightarrow> nat \<Rightarrow> string \<Rightarrow> nat \<Rightarrow> string \<Rightarrow> server_heap \<Rightarrow> (SendStatus \<times> server_heap) option" where
  "uws_webserver_send_text env server txt len client_id h =
     do { msg \<leftarrow> std_string_n txt len;
          clientID \<leftarrow> std_string_z client_id;
          with_server server (\<lambda>s. Some (SendTextMessageToClient env msg clientID s)) h }"

definition uws_webserver_send_binary ::
  "uws_env \<Rightarrow> nat \<Rightarrow> string \<Rightarrow> nat \<Rightarrow> string \<Rightarrow> server_heap \<Rightarrow> (SendStatus \<times> server_heap) option" where
  "uws_webserver_send_binary env server binary len client_id h =
     do { msg \<leftarrow> std_string_n binary len;
          clientID \<leftarrow> std_string_z client_id;
          with_server server (\<lambda>s. Some (SendBinaryMessageToClient env msg clientID s)) h }"

definition uws_webserver_send_compressed ::
  "uws_env \<Rightarrow> nat \<Rightarrow> string \<Rightarrow> nat \<Rightarrow> string \<Rightarrow> server_heap \<Rightarrow> (SendStatus \<times> server_heap) option" where
  "uws_webserver_send_compressed env server compressed len client_id h =
     do { msg \<leftarrow> std_string_n compressed len;
          clientID \<leftarrow> std_string_z client_id;
          with_server server (\<lambda>s. Some (SendCompressedTextMessageToClient env msg clientID s)) h }"

section \<open>Responses\<close>

definition uws_webserver_response_write ::
  "uws_env \<Rightarrow> nat \<Rightarrow> string \<Rightarrow> string \<Rightarrow> nat \<Rightarrow> server_heap \<Rightarrow> (HttpSendStatus \<times> server_heap) option" where
  "uws_webserver_response_write env server request_id data len h =
     do { requestID \<leftarrow> std_string_z request_id;
          d \<leftarrow> std_string_n data len;
          with_server server (\<lambda>s. Some (WriteResponse env requestID d s)) h }"

definition uws_webserver_response_end ::
  "uws_env \<Rightarrow> nat \<Rightarrow> string \<Rightarrow> string \<Rightarrow> nat \<Rightarrow> server_heap \<Rightarrow> (HttpSendStatus \<times> server_heap) option" where
  "uws_webserver_response_end env server request_id data len h =
     do { requestID \<leftarrow> std_string_z request_id;
          d \<leftarrow> std_string_n data len;
          with_server server (\<lambda>s. Some (EndResponse requestID d s)) h }"

definition uws_webserver_response_try_end ::
  "uws_env \<Rightarrow> nat \<Rightarrow> string \<Rightarrow> string \<Rightarrow> nat \<Rightarrow> server_heap \<Rightarrow> (HttpSendStatus \<times> server_heap) option" where
  "uws_webserver_response_try_end env server request_id data len h =
     do { requestID \<leftarrow> std_string_z request_id;
          d \<leftarrow> std_string_n data len;
          with_server server (\<lambda>s. Some (TryEndResponse env requestID d s)) h }"

definition uws_webserver_response_status ::
  "uws_env \<Rightarrow> nat \<Rightarrow> string \<Rightarrow> string \<Rightarrow> server_heap \<Rightarrow> (bool \<times> server_heap) option" where
  "uws_webserver_response_status env server request_id status_code_and_text h =
     do { requestID \<leftarrow> std_string_z request_id;
          st \<leftarrow> std_string_z status_code_and_text;
          with_server server (\<lambda>s. Some (WriteResponseStatus env requestID st s)) h }"

definition uws_webserver_response_header ::
  "uws_env \<Rightarrow> nat \<Rightarrow> string \<Rightarrow> string \<Rightarrow> string \<Rightarrow> server_heap \<Rightarrow> (bool \<times> server_heap) option" where
  "uws_webserver_response_header env server request_id key val h =
     do { requestID \<leftarrow> std_string_z request_id;
          k \<leftarrow> std_string_z key;
          v \<leftarrow> std_string_z val;
          with_server server (\<lambda>s. Some (WriteResponseHeader env requestID k v s)) h }"

section \<open>Requests\<close>

definition uws_webserver_has_request :: "nat \<Rightarrow> string \<Rightarrow> server_heap \<Rightarrow> bool option" where
  "uws_webserver_has_request server request_id h =
     do { requestID \<leftarrow> std_string_z request_id; read_server server (\<lambda>s. Some (HasRequest requestID s)) h }"

definition uws_webserver_request_method ::
  "nat \<Rightarrow> string \<Rightarrow> string \<Rightarrow> nat \<Rightarrow> server_heap \<Rightarrow> (bool \<times> string) option" where
  "uws_webserver_request_method server request_id data len h =
     do { requestID \<leftarrow> std_string_z request_id; read_server server (GetRequestMethod requestID data len) h }"

definition uws_webserver_request_url ::
  "nat \<Rightarrow> string \<Rightarrow> string \<Rightarrow> nat \<Rightarrow> server_heap \<Rightarrow> (bool \<times> string) option" where
  "uws_webserver_request_url server request_id data len h =
     do { requestID \<leftarrow> std_string_z request_id; read_server server (GetRequestURL requestID data len) h }"

definition uws_webserver_request_query ::
  "nat \<Rightarrow> string \<Rightarrow> string \<Rightarrow> nat \<Rightarrow> server_heap \<Rightarrow> (bool \<times> string) option" where
  "uws_webserver_request_query server request_id data len h =
     do { requestID \<leftarrow> std_string_z request_id; read_server server (GetRequestQuery requestID data len) h }"

definition uws_webserver_request_endpoint ::
  "nat \<Rightarrow> string \<Rightarrow> string \<Rightarrow> nat \<Rightarrow> server_heap \<Rightarrow> (bool \<times> string) option" where
  "uws_webserver_request_endpoint server request_id data len h =
     do { requestID \<leftarrow> std_string_z request_id; read_server server (GetRequestEndpoint requestID data len) h }"

definition uws_webserver_request_serialized_headers ::
  "nat \<Rightarrow> string \<Rightarrow> string \<Rightarrow> nat \<Rightarrow> server_heap \<Rightarrow> (bool \<times> string) option" where
  "uws_webserver_request_serialized_headers server request_id data len h =
     do { requestID \<leftarrow> std_string_z request_id; read_server server (GetSerializedRequestHeaders requestID data len) h }"

definition uws_webserver_request_header_value ::
  "nat \<Rightarrow> string \<Rightarrow> string \<Rightarrow> string \<Rightarrow> nat \<Rightarrow> server_heap \<Rightarrow> (bool \<times> string) option" where
  "uws_webserver_request_header_value server request_id header data len h =
     do { requestID \<leftarrow> std_string_z request_id;
          headerName \<leftarrow> std_string_z header;
          read_server server (GetRequestHeader requestID headerName data len) h }"

section \<open>Routes\<close>

definition uws_webserver_add_websocket_route :: "nat \<Rightarrow> string \<Rightarrow> server_heap \<Rightarrow> (unit \<times> server_heap) option" where
  "uws_webserver_add_websocket_route server route h =
     do { r \<leftarrow> std_string_z route; with_server server (\<lambda>s. Some ((), AddWebSocketRoute r s)) h }"

definition uws_webserver_add_get_route :: "nat \<Rightarrow> string \<Rightarrow> server_heap \<Rightarrow> (unit \<times> server_heap) option" where
  "uws_webserver_add_get_route server route h =
     do { r \<leftarrow> std_string_z route; with_server server (\<lambda>s. Some ((), AddGetRoute r s)) h }"

definition uws_webserver_add_post_route :: "nat \<Rightarrow> string \<Rightarrow> server_heap \<Rightarrow> (unit \<times> server_heap) option" where
  "uws_webserver_add_post_route server route h =
     do { r \<leftarrow> std_string_z route; with_server server (\<lambda>s. Some ((), AddPostRoute r s)) h }"

definition uws_webserver_add_options_route :: "nat \<Rightarrow> string \<Rightarrow> server_heap \<Rightarrow> (unit \<times> server_heap) option" where
  "uws_webserver_add_options_route server route h =
     do { r \<leftarrow> std_string_z route; with_server server (\<lambda>s. Some ((), AddOptionsRoute r s)) h }"

definition uws_webserver_add_delete_route :: "nat \<Rightarrow> string \<Rightarrow> server_heap \<Rightarrow> (unit \<times> server_heap) option" where
  "uws_webserver_add_delete_route server route h =
     do { r \<leftarrow> std_string_z route; with_server server (\<lambda>s. Some ((), AddDeleteRoute r s)) h }"

definition uws_webserver_add_patch_route :: "nat \<Rightarrow> string \<Rightarrow> server_heap \<Rightarrow> (unit \<times> server_heap) option" where
  "uws_webserver_add_patch_route server route h =
     do { r \<leftarrow> std_string_z route; with_server server (\<lambda>s. Some ((), AddPatchRoute r s)) h }"

definition uws_webserver_add_put_route :: "nat \<Rightarrow> string \<Rightarrow> server_heap \<Rightarrow> (unit \<times> server_heap) option" where
  "uws_webserver_add_put_route server route h =
     do { r \<leftarrow> std_string_z route; with_server server (\<lambda>s. Some ((), AddPutRoute r s)) h }"

definition uws_webserver_add_head_route :: "nat \<Rightarrow> string \<Rightarrow> server_heap \<Rightarrow> (unit \<times> server_heap) option" where
  "uws_webserver_add_head_route server route h =
     do { r \<leftarrow> std_string_z route; with_server server (\<lambda>s. Some ((), AddHeadRoute r s)) h }"

definition uws_webserver_add_any_route :: "nat \<Rightarrow> string \<Rightarrow> server_heap \<Rightarrow> (unit \<times> server_heap) option" where
  "uws_webserver_add_any_route server route h =
     do { r \<leftarrow> std_string_z route; with_server server (\<lambda>s. Some ((), AddAnyRoute r s)) h }"

section \<open>Names\<close>

definition eventNameLookupTable :: "(int, string) unordered_map" where
  "eventNameLookupTable =
     [(0, ''UNKNOWN_OR_INVALID_WEBSERVER_EVENT''),
      (1, ''WEBSOCKET_CONNECTION_ESTABLISHED''),
      (2, ''WEBSOCKET_MESSAGE_RECEIVED''),
      (3, ''WEBSOCKET_CONNECTION_CLOSED''),
      (4, ''SERVER_STARTED_LISTENING''),
      (5, ''SERVER_STOPPED_LISTENING''),
      (6, ''HTTP_REQUEST_STARTED''),
      (7, ''HTTP_DATA_RECEIVED''),
      (8, ''HTTP_REQUEST_FINISHED''),
      (9, ''HTTP_CONNECTION_ABORTED''),
      (10, ''HTTP_CONNECTION_WRITABLE'')]"

definition uws_event_name :: "uws_webserver_event \<Rightarrow> string" where
  "uws_event_name event =
     (case um_find (ev_type event) eventNameLookupTable of
        Some nm \<Rightarrow> nm
      | None \<Rightarrow> ''UNKNOWN_OR_INVALID_WEBSERVER_EVENT'')"

fun opCodeToString :: "OpCode \<Rightarrow> string" where
  "opCodeToString TEXT = ''TEXT''"
| "opCodeToString BINARY = ''BINARY''"
| "opCodeToString CLOSE_frame = ''CLOSE''"
| "opCodeToString PING = ''PING''"
| "opCodeToString PONG = ''PONG''"
| "opCodeToString (OtherOp n) = ''UNKNOWN''"

definition compressOptionsToStringMap :: "(CompressOptions, string) unordered_map" where
  "compressOptionsToStringMap =
     [(DISABLED, ''DISABLED''),
      (SHARED_COMPRESSOR, ''SHARED_COMPRESSOR''),
      (SHARED_DECOMPRESSOR, ''SHARED_DECOMPRESSOR''),
      (DEDICATED_DECOMPRESSOR_32KB, ''DEDICATED_DECOMPRESSOR_32KB''),
      (DEDICATED_DECOMPRESSOR_16KB, ''DEDICATED_DECOMPRESSOR_16KB''),
      (DEDICATED_DECOMPRESSOR_8KB, ''DEDICATED_DECOMPRESSOR_8KB''),
      (DEDICATED_DECOMPRESSOR_4KB, ''DEDICATED_DECOMPRESSOR_4KB''),
      (DEDICATED_DECOMPRESSOR_2KB, ''DEDICATED_DECOMPRESSOR_2KB''),
      (DEDICATED_DECOMPRESSOR_1KB, ''DEDICATED_DECOMPRESSOR_1KB''),
      (DEDICATED_DECOMPRESSOR_512B, ''DEDICATED_DECOMPRESSOR_512B''),
      (DEDICATED_COMPRESSOR_3KB, ''DEDICATED_COMPRESSOR_3KB''),
      (DEDICATED_COMPRESSOR_4KB, ''DEDICATED_COMPRESSOR_4KB''),
      (DEDICATED_COMPRESSOR_8KB, ''DEDICATED_COMPRESSOR_8KB''),
      (DEDICATED_COMPRESSOR_16KB, ''DEDICATED_COMPRESSOR_16KB''),
      (DEDICATED_COMPRESSOR_32KB, ''DEDICATED_COMPRESSOR_32KB''),
      (DEDICATED_COMPRESSOR_64KB, ''DEDICATED_COMPRESSOR_64KB''),
      (DEDICATED_COMPRESSOR_128KB, ''DEDICATED_COMPRESSOR_128KB''),
      (DEDICATED_COMPRESSOR_256KB, ''DEDICATED_COMPRESSOR_256KB'')]"

definition compressOptionsToString :: "CompressOptions \<Rightarrow> string" where
  "compressOptionsToString compressOption =
     (case um_find compressOption compressOptionsToStringMap of None \<Rightarrow> ''UNKNOWN'' | Some nm \<Rightarrow> nm)"

section \<open>Settings and time\<close>

text \<open>
  The lines that \<open>DumpConfiguredSettings\<close> prints, with labels padded to 32 columns; \<open>kilobytes n\<close> is how
  the stream renders \<open>n / 1024.0\<close>.
\<close>

definition dump_setting :: "string \<Rightarrow> string \<Rightarrow> string" where
  "dump_setting label v = label @ replicate (32 - length label) CHR '' '' @ v"

definition yes_no :: "bool \<Rightarrow> string" where
  "yes_no b = (if b then ''YES'' else ''NO'')"

definition DumpConfiguredSettings :: "(nat \<Rightarrow> string) \<Rightarrow> web_server \<Rightarrow> string list" where
  "DumpConfiguredSettings kilobytes s =
     [dump_setting ''  Max. Payload Size:'' (kilobytes (m_maxPayloadSize s) @ '' KB''),
      dump_setting ''  Max. Backpressure Limit:'' (kilobytes (m_maxBackpressureLimit s) @ '' KB''),
      dump_setting ''  Idle Timeout:'' (to_string_int (int (m_idleTimeoutInSeconds s)) @ '' seconds''),
      dump_setting ''  Send Pings Automatically:'' (yes_no (m_sendPingsAutomatically s)),
      dump_setting ''  Close on Backpressure:'' (yes_no (m_closeOnBackpressureLimit s)),
      dump_setting ''  Reset Idle Timeout on Send:'' (yes_no (m_resetIdleTimeoutOnSend s)),
      dump_setting ''  Compression Mode:'' (compressOptionsToString (m_compressionMode s)),
      dump_setting ''  Max. Socket Lifetime:'' (to_string_int (int (m_maxSocketLifetimeInMinutes s)) @ '' minutes'')]"

definition uws_webserver_dump_config :: "(nat \<Rightarrow> string) \<Rightarrow> nat \<Rightarrow> server_heap \<Rightarrow> string list option" where
  "uws_webserver_dump_config kilobytes server =
     read_server server (\<lambda>s. Some (DumpConfiguredSettings kilobytes s))"

text \<open>\<open>std::ctime\<close> ends its text with a newline, which is cut off; \<open>pop_back\<close> of an empty string is undefined.\<close>

definition GetCurrentTimeAsText :: "string \<Rightarrow> string option" where
  "GetCurrentTimeAsText ctime = (if ctime = [] then None else Some (butlast ctime))"

section \<open>Calls of the interface as data\<close>

datatype uws_api =
    Api_listen int
  | Api_stop
  | Api_get_next_event "uws_webserver_event option"
  | Api_set_echo_mode bool
  | Api_dump_events
  | Api_purge_connections
  | Api_broadcast_text string nat
  | Api_broadcast_binary string nat
  | Api_broadcast_compressed string nat
  | Api_send_text string nat string
  | Api_send_binary string nat string
  | Api_send_compressed string nat string
  | Api_response_write string string nat
  | Api_response_end string string nat
  | Api_response_try_end string string nat
  | Api_response_status string string
  | Api_response_header string string string
  | Api_add_websocket_route string
  | Api_add_get_route string
  | Api_add_post_route string
  | Api_add_options_route string
  | Api_add_delete_route string
  | Api_add_patch_route string
  | Api_add_put_route string
  | Api_add_head_route string
  | Api_add_any_route string

fun call_api :: "uws_env \<Rightarrow> nat \<Rightarrow> uws_api \<Rightarrow> server_heap \<Rightarrow> server_heap option" where
  "call_api env p (Api_listen port) h = map_option snd (uws_webserver_listen env p port h)"
| "call_api env p Api_stop h = map_option snd (uws_webserver_stop env p h)"
| "call_api env p (Api_get_next_event b) h = map_option snd (uws_webserver_get_next_event p b h)"
| "call_api env p (Api_set_echo_mode flag) h = map_option snd (uws_webserver_set_echo_mode p flag h)"
| "call_api env p Api_dump_events h = map_option snd (uws_webserver_dump_events p h)"
| "call_api env p Api_purge_connections h = map_option snd (uws_webserver_purge_connections p h)"
| "call_api env p (Api_broadcast_text t n) h = map_option snd (uws_webserver_broadcast_text env p t n h)"
| "call_api env p (Api_broadcast_binary t n) h = map_option snd (uws_webserver_broadcast_binary env p t n h)"
| "call_api env p (Api_broadcast_compressed t n) h = map_option snd (uws_webserver_broadcast_compressed env p t n h)"
| "call_api env p (Api_send_text t n c) h = map_option snd (uws_webserver_send_text env p t n c h)"
| "call_api env p (Api_send_binary t n c) h = map_option snd (uws_webserver_send_binary env p t n c h)"
| "call_api env p (Api_send_compressed t n c) h = map_option snd (uws_webserver_send_compressed env p t n c h)"
| "call_api env p (Api_response_write r d n) h = map_option snd (uws_webserver_response_write env p r d n h)"
| "call_api env p (Api_response_end r d n) h = map_option snd (uws_webserver_response_end env p r d n h)"
| "call_api env p (Api_response_try_end r d n) h = map_option snd (uws_webserver_response_try_end env p r d n h)"
| "call_api env p (Api_response_status r t) h = map_option snd (uws_webserver_response_status env p r t h)"
| "call_api env p (Api_response_header r k v) h = map_option snd (uws_webserver_response_header env p r k v h)"
| "call_api env p (Api_add_websocket_route r) h = map_option snd (uws_webserver_add_websocket_route p r h)"
| "call_api env p (Api_add_get_route r) h = map_option snd (uws_webserver_add_get_route p r h)"
| "call_api env p (Api_add_post_route r) h = map_option snd (uws_webserver_add_post_route p r h)"
| "call_api env p (Api_add_options_route r) h = map_option snd (uws_webserver_add_options_route p r h)"
| "call_api env p (Api_add_delete_route r) h = map_option snd (uws_webserver_add_delete_route p r h)"
| "call_api env p (Api_add_patch_route r) h = map_option snd (uws_webserver_add_patch_route p r h)"
| "call_api env p (Api_add_put_route r) h = map_option snd (uws_webserver_add_put_route p r h)"
| "call_api env p (Api_add_head_route r) h = map_option snd (uws_webserver_add_head_route p r h)"
| "call_api env p (Api_add_any_route r) h = map_option snd (uws_webserver_add_any_route p r h)"

text \<open>
  The specification: the operation of the single server that a call stands for, with the
  byte ranges and C strings of the call turned into strings.
\<close>

fun api_op :: "uws_api \<Rightarrow> server_op option" where
  "api_op (Api_listen port) = Some (Op_StartListening port)"
| "api_op Api_stop = Some Op_StopListening"
| "api_op (Api_get_next_event b) = Some (Op_GetNextDeferredEvent b)"
| "api_op (Api_set_echo_mode flag) = Some (Op_SetEchoMode flag)"
| "api_op Api_dump_events = Some Op_DumpDeferredEvents"
| "api_op Api_purge_connections = Some Op_PurgeFadedClients"
| "api_op (Api_broadcast_text t n) = map_option (Op_Broadcast TEXT False) (std_string_n t n)"
| "api_op (Api_broadcast_binary t n) = map_option (Op_Broadcast BINARY False) (std_string_n t n)"
| "api_op (Api_broadcast_compressed t n) = map_option (Op_Broadcast TEXT True) (std_string_n t n)"
| "api_op (Api_send_text t n c) =
     do { m \<leftarrow> std_string_n t n; i \<leftarrow> std_string_z c; Some (Op_SendToClient TEXT False m i) }"
| "api_op (Api_send_binary t n c) =
     do { m \<leftarrow> std_string_n t n; i \<leftarrow> std_string_z c; Some (Op_SendToClient BINARY False m i) }"
| "api_op (Api_send_compressed t n c) =
     do { m \<leftarrow> std_string_n t n; i \<leftarrow> std_string_z c; Some (Op_SendToClient TEXT True m i) }"
| "api_op (Api_response_write r d n) =
     do { i \<leftarrow> std_string_z r; m \<leftarrow> std_string_n d n; Some (Op_WriteResponse i m) }"
| "api_op (Api_response_end r d n) =
     do { i \<leftarrow> std_string_z r; m \<leftarrow> std_string_n d n; Some (Op_EndResponse i m) }"
| "api_op (Api_response_try_end r d n) =
     do { i \<leftarrow> std_string_z r; m \<leftarrow> std_string_n d n; Some (Op_TryEndResponse i m) }"
| "api_op (Api_response_status r t) =
     do { i \<leftarrow> std_string_z r; st \<leftarrow> std_string_z t; Some (Op_WriteResponseStatus i st) }"
| "api_op (Api_response_header r k v) =
     do { i \<leftarrow> std_string_z r; k' \<leftarrow> std_string_z k; v' \<leftarrow> std_string_z v; Some (Op_WriteResponseHeader i k' v') }"
| "api_op (Api_add_websocket_route r) = map_option Op_AddWebSocketRoute (std_string_z r)"
| "api_op (Api_add_get_route r) = map_option (Op_AddRoute ''GET'') (std_string_z r)"
| "api_op (Api_add_post_route r) = map_option (Op_AddRoute ''POST'') (std_string_z r)"
| "api_op (Api_add_options_route r) = map_option (Op_AddRoute ''OPTIONS'') (std_string_z r)"
| "api_op (Api_add_delete_route r) = map_option (Op_AddRoute ''DELETE'') (std_string_z r)"
| "api_op (Api_add_patch_route r) = map_option (Op_AddRoute ''PATCH'') (std_string_z r)"
| "api_op (Api_add_put_route r) = map_option (Op_AddRoute ''PUT'') (std_string_z r)"
| "api_op (Api_add_head_route r) = map_option (Op_AddRoute ''HEAD'') (std_string_z r)"
| "api_op (Api_add_any_route r) = map_option (Op_AddRoute ''ANY'') (std_string_z r)"

text \<open>
  A session: LuaJIT creates, uses and deletes servers, and uWebSockets reports events to the
  servers that are alive, in any order.
\<close>

datatype api_step =
    Create_server nat
  | Delete_server nat
  | Call_api nat uws_api
  | Uws_event nat server_op

fun session_step :: "uws_env \<Rightarrow> api_step \<Rightarrow> server_heap \<Rightarrow> server_heap option" where
  "session_step env (Create_server p) h = Some (snd (uws_webserver_create p h))"
| "session_step env (Delete_server p) h = uws_webserver_delete p h"
| "session_step env (Call_api p a) h = call_api env p a h"
| "session_step env (Uws_event p op) h =
     (case h p of None \<Rightarrow> None | Some s \<Rightarrow> map_option (\<lambda>s'. h(p \<mapsto> s')) (perform env op s))"

fun step_target :: "api_step \<Rightarrow> nat" where
  "step_target (Create_server p) = p"
| "step_target (Delete_server p) = p"
| "step_target (Call_api p a) = p"
| "step_target (Uws_event p op) = p"

fun run_session :: "uws_env \<Rightarrow> api_step list \<Rightarrow> server_heap \<Rightarrow> server_heap option" where
  "run_session env [] h = Some h"
| "run_session env (st # sts) h = (case session_step env st h of None \<Rightarrow> None | Some h' \<Rightarrow> run_session env sts h')"

text \<open>
  What the caller has to respect: fresh addresses from the allocator, calls only on live
  servers and with valid arguments, and the guarantees of uWebSockets for its events.
\<close>

fun step_ok :: "api_step \<Rightarrow> server_heap \<Rightarrow> bool" where
  "step_ok (Create_server p) h = (h p = None)"
| "step_ok (Delete_server p) h = (h p \<noteq> None)"
| "step_ok (Call_api p a) h =
     (case h p of None \<Rightarrow> False
      | Some s \<Rightarrow> (case api_op a of None \<Rightarrow> False | Some op \<Rightarrow> admissible op s))"
| "step_ok (Uws_event p op) h = (case h p of None \<Rightarrow> False | Some s \<Rightarrow> admissible op s)"

fun session_ok :: "uws_env \<Rightarrow> api_step list \<Rightarrow> server_heap \<Rightarrow> bool" where
  "session_ok env [] h = True"
| "session_ok env (st # sts) h =
     (step_ok st h \<and> (case session_step env st h of None \<Rightarrow> True | Some h' \<Rightarrow> session_ok env sts h'))"

text \<open>The operations that a session performs on the server at \<open>p\<close> since it was created.\<close>

fun ops_on :: "nat \<Rightarrow> api_step list \<Rightarrow> server_op list \<Rightarrow> server_op list" where
  "ops_on p [] acc = acc"
| "ops_on p (Create_server q # sts) acc = ops_on p sts (if q = p then [] else acc)"
| "ops_on p (Delete_server q # sts) acc = ops_on p sts (if q = p then [] else acc)"
| "ops_on p (Call_api q a # sts) acc = ops_on p sts (if q = p then acc @ [the (api_op a)] else acc)"
| "ops_on p (Uws_event q op # sts) acc = ops_on p sts (if q = p then acc @ [op] else acc)"

section \<open>Lemmas\<close>

lemma with_server_map:
  "map_option snd (with_server p f h) =
     (case h p of None \<Rightarrow> None | Some s \<Rightarrow> map_option (\<lambda>s'. h(p \<mapsto> s')) (map_option snd (f s)))"
  by (auto simp: with_server_def split: option.splits)

lemma with_server_dead: "h p = None \<Longrightarrow> with_server p f h = None"
  by (simp add: with_server_def)

lemmas uws_write_defs = uws_webserver_listen_def uws_webserver_stop_def uws_webserver_get_next_event_def
  uws_webserver_set_echo_mode_def uws_webserver_dump_events_def uws_webserver_purge_connections_def
  uws_webserver_broadcast_text_def uws_webserver_broadcast_binary_def uws_webserver_broadcast_compressed_def
  uws_webserver_send_text_def uws_webserver_send_binary_def uws_webserver_send_compressed_def
  uws_webserver_response_write_def uws_webserver_response_end_def uws_webserver_response_try_end_def
  uws_webserver_response_status_def uws_webserver_response_header_def
  uws_webserver_add_websocket_route_def uws_webserver_add_get_route_def uws_webserver_add_post_route_def
  uws_webserver_add_options_route_def uws_webserver_add_delete_route_def uws_webserver_add_patch_route_def
  uws_webserver_add_put_route_def uws_webserver_add_head_route_def uws_webserver_add_any_route_def

lemma call_api_spec:
  "call_api env p a h =
     (case api_op a of
        None \<Rightarrow> None
      | Some op \<Rightarrow> (case h p of None \<Rightarrow> None | Some s \<Rightarrow> map_option (\<lambda>s'. h(p \<mapsto> s')) (perform env op s)))"
  by (cases a)
    (auto simp: uws_write_defs with_server_map with_server_dead broadcast_def send_to_client_def add_route_def option.map_comp comp_def
       option.map_ident split: option.splits Option.bind_splits)

lemma run_server_snoc:
  "run_server env (ops @ [op]) s =
     (case run_server env ops s of
        None \<Rightarrow> None
      | Some (ds, es, s1) \<Rightarrow>
          (case perform env op s1 of None \<Rightarrow> None
           | Some s2 \<Rightarrow> Some (ds @ delivered op s1, es @ emits env op s1, s2)))"
  by (induction ops arbitrary: s) (auto split: option.splits prod.splits)

lemma admissible_run_snoc:
  assumes "run_server env ops s = Some (ds, es, s1)"
  shows "admissible_run env (ops @ [op]) s \<longleftrightarrow> admissible_run env ops s \<and> admissible op s1"
  using assms by (induction ops arbitrary: s ds es) (auto split: option.splits prod.splits)

text \<open>
  The invariant of sessions: each live server is where the operations performed on it alone,
  from the fresh server, lead.
\<close>

definition tracks :: "uws_env \<Rightarrow> (nat \<Rightarrow> server_op list) \<Rightarrow> server_heap \<Rightarrow> bool" where
  "tracks env acc h \<longleftrightarrow>
     (\<forall>p s. h p = Some s \<longrightarrow> admissible_run env (acc p) new_WebServer
        \<and> (\<exists>ds es. run_server env (acc p) new_WebServer = Some (ds, es, s)))"

lemma tracks_live:
  assumes "tracks env acc h" "h p = Some s"
  shows "\<exists>ds es. run_server env (acc p) new_WebServer = Some (ds, es, s) \<and> server_inv env s
     \<and> ds @ m_deferredEventsQueue s = es"
proof -
  obtain ds es where r: "run_server env (acc p) new_WebServer = Some (ds, es, s)"
      "admissible_run env (acc p) new_WebServer"
    using assms unfolding tracks_def by blast
  have "m_deferredEventsQueue new_WebServer = []" by (simp add: new_WebServer_def)
  then show ?thesis using run_server_queue [OF server_inv_start r(2)] r(1) by auto
qed

lemma tracks_inv: "tracks env acc h \<Longrightarrow> h p = Some s \<Longrightarrow> server_inv env s"
  using tracks_live by blast

lemma tracks_step:
  assumes "tracks env acc h" "h p = Some s" "admissible op s" "perform env op s = Some s'"
  shows "tracks env (acc(p := acc p @ [op])) (h(p \<mapsto> s'))"
proof -
  obtain ds es where r: "run_server env (acc p) new_WebServer = Some (ds, es, s)"
      "admissible_run env (acc p) new_WebServer"
    using assms(1,2) unfolding tracks_def by blast
  then show ?thesis
    using assms by (auto simp: tracks_def run_server_snoc admissible_run_snoc)
qed

lemma tracks_reset:
  assumes "tracks env acc h"
  shows "tracks env (acc(p := [])) (h(p \<mapsto> new_WebServer))" "tracks env (acc(p := [])) (h(p := None))"
  using assms by (auto simp: tracks_def)

text \<open>How one step extends the operations performed on each server.\<close>

definition next_ops :: "api_step \<Rightarrow> (nat \<Rightarrow> server_op list) \<Rightarrow> nat \<Rightarrow> server_op list" where
  "next_ops st acc = (\<lambda>p. ops_on p [st] (acc p))"

lemma session_step_tracks:
  assumes "tracks env acc h" "step_ok st h"
  shows "\<exists>h'. session_step env st h = Some h' \<and> tracks env (next_ops st acc) h'"
proof (cases st)
  case (Create_server p)
  then have "next_ops st acc = acc(p := [])" by (auto simp: next_ops_def)
  then show ?thesis using Create_server tracks_reset(1) [OF assms(1), of p] by (simp add: uws_webserver_create_def)
next
  case (Delete_server p)
  then have "next_ops st acc = acc(p := [])" by (auto simp: next_ops_def)
  then show ?thesis
    using Delete_server assms(2) tracks_reset(2) [OF assms(1), of p] by (auto simp: uws_webserver_delete_def)
next
  case (Call_api p a)
  then obtain s op where s: "h p = Some s" "api_op a = Some op" "admissible op s"
    using assms(2) by (auto split: option.splits)
  moreover obtain s' where "perform env op s = Some s'"
    using perform_defined [OF tracks_inv [OF assms(1) s(1)] s(3)] by blast
  moreover have "next_ops st acc = acc(p := acc p @ [op])" using Call_api s(2) by (auto simp: next_ops_def)
  ultimately show ?thesis
    using Call_api tracks_step [OF assms(1) s(1,3)] by (simp add: call_api_spec)
next
  case (Uws_event p op)
  then obtain s where s: "h p = Some s" "admissible op s"
    using assms(2) by (auto split: option.splits)
  moreover obtain s' where "perform env op s = Some s'"
    using perform_defined [OF tracks_inv [OF assms(1) s(1)] s(2)] by blast
  moreover have "next_ops st acc = acc(p := acc p @ [op])" using Uws_event by (auto simp: next_ops_def)
  ultimately show ?thesis using Uws_event tracks_step [OF assms(1) s] by simp
qed

lemma ops_on_Cons: "ops_on p (st # sts) acc = ops_on p sts (ops_on p [st] acc)"
  by (cases st) auto

lemma run_session_tracks:
  assumes "tracks env acc h" "session_ok env sts h"
  shows "\<exists>h'. run_session env sts h = Some h' \<and> tracks env (\<lambda>p. ops_on p sts (acc p)) h'"
  using assms
proof (induction sts arbitrary: acc h)
  case (Cons st sts)
  obtain h1 where h1: "session_step env st h = Some h1" "tracks env (next_ops st acc) h1"
    using session_step_tracks [OF Cons.prems(1), of st] Cons.prems(2) by auto
  then show ?case
    using Cons.IH [OF h1(2)] Cons.prems(2) by (auto simp: ops_on_Cons [of _ st sts] next_ops_def)
qed simp

section \<open>Properties\<close>

text \<open>
  C6. Servers do not disturb each other: in a session with any number of servers, created, used
  and deleted in any order and interleaved with network events, every step is defined and each
  live server is in the state that the operations on this server alone lead to; the events LuaJIT
  got from it followed by those still queued are exactly those it produced, in order.
\<close>

theorem uws_session_isolated:
  assumes "session_ok env sts (\<lambda>p. None)"
  shows "\<exists>h. run_session env sts (\<lambda>p. None) = Some h \<and>
     (\<forall>p s. h p = Some s \<longrightarrow> (\<exists>ds es. run_server env (ops_on p sts []) new_WebServer = Some (ds, es, s)
        \<and> ds @ m_deferredEventsQueue s = es))"
proof -
  have "tracks env (\<lambda>p. []) (\<lambda>p. None)" by (simp add: tracks_def)
  from run_session_tracks [OF this assms] obtain h where
    h: "run_session env sts (\<lambda>p. None) = Some h" "tracks env (\<lambda>p. ops_on p sts []) h" by blast
  moreover have "\<exists>ds es. run_server env (ops_on p sts []) new_WebServer = Some (ds, es, s)
      \<and> ds @ m_deferredEventsQueue s = es" if "h p = Some s" for p s
    using tracks_live [OF h(2) that] by blast
  ultimately show ?thesis by blast
qed

theorem uws_session_isolated_witness:
  "\<exists>h. run_session sample_env [Create_server 1, Create_server 2, Call_api 1 (Api_listen 80),
       Uws_event 2 (Op_OnWebSocketOpen sample_client), Delete_server 1] (\<lambda>p. None) = Some h
     \<and> (\<forall>s. h 2 = Some s \<longrightarrow> (\<exists>ds es. run_server sample_env [Op_OnWebSocketOpen sample_client] new_WebServer = Some (ds, es, s)
         \<and> ds @ m_deferredEventsQueue s = es))"
proof -
  let ?sts = "[Create_server 1, Create_server 2, Call_api 1 (Api_listen 80),
    Uws_event 2 (Op_OnWebSocketOpen sample_client), Delete_server 1]"
  have "session_ok sample_env ?sts (\<lambda>p. None)"
    by (simp add: call_api_spec uws_webserver_create_def uws_webserver_delete_def)
  from uws_session_isolated [OF this] obtain h where
    "run_session sample_env ?sts (\<lambda>p. None) = Some h"
    "\<forall>p s. h p = Some s \<longrightarrow> (\<exists>ds es. run_server sample_env (ops_on p ?sts []) new_WebServer = Some (ds, es, s)
        \<and> ds @ m_deferredEventsQueue s = es)" by blast
  moreover have "ops_on 2 ?sts [] = [Op_OnWebSocketOpen sample_client]" by simp
  ultimately show ?thesis by metis
qed

text \<open>The names handed to Lua distinguish all event types, and cover them.\<close>

lemma uws_event_name_distinguishes:
  assumes "ev_type b = event_code t" "ev_type b' = event_code t'"
  shows "uws_event_name b = uws_event_name b' \<longleftrightarrow> t = t'"
  using assms by (cases t; cases t') (simp_all add: uws_event_name_def eventNameLookupTable_def um_find_def)

lemma uws_event_name_unknown:
  assumes "\<forall>t. ev_type b \<noteq> event_code t"
  shows "uws_event_name b = ''UNKNOWN_OR_INVALID_WEBSERVER_EVENT''"
  using assms [THEN spec, of OPEN] assms [THEN spec, of MESSAGE] assms [THEN spec, of CLOSE] assms [THEN spec, of LISTEN]
    assms [THEN spec, of SHUTDOWN] assms [THEN spec, of HTTP_START] assms [THEN spec, of HTTP_DATA]
    assms [THEN spec, of HTTP_END] assms [THEN spec, of HTTP_ABORT] assms [THEN spec, of HTTP_WRITABLE]
    assms [THEN spec, of INVALID]
  by (simp add: uws_event_name_def eventNameLookupTable_def um_find_def)

lemma compressOptionsToString_inverse:
  assumes "compressOptionsToString c \<noteq> ''UNKNOWN''"
  shows "map_of (map prod.swap compressOptionsToStringMap) (compressOptionsToString c) = Some c"
  using assms by (cases c) (simp_all add: compressOptionsToString_def compressOptionsToStringMap_def um_find_def)

lemma compressOptionsToString_inj:
  assumes "compressOptionsToString c \<noteq> ''UNKNOWN''" "compressOptionsToString c = compressOptionsToString d"
  shows "c = d"
  using compressOptionsToString_inverse [of c] compressOptionsToString_inverse [of d] assms by simp

text \<open>All labels of the settings fit their column, so that every value starts in column 33.\<close>

lemma dump_setting_value: "length label \<le> 32 \<Longrightarrow> drop 32 (dump_setting label v) = v"
  by (simp add: dump_setting_def)

lemma settings_aligned:
  "map (drop 32) (DumpConfiguredSettings kilobytes s) =
     [kilobytes (m_maxPayloadSize s) @ '' KB'', kilobytes (m_maxBackpressureLimit s) @ '' KB'',
      to_string_int (int (m_idleTimeoutInSeconds s)) @ '' seconds'', yes_no (m_sendPingsAutomatically s),
      yes_no (m_closeOnBackpressureLimit s), yes_no (m_resetIdleTimeoutOnSend s),
      compressOptionsToString (m_compressionMode s),
      to_string_int (int (m_maxSocketLifetimeInMinutes s)) @ '' minutes'']"
  by (simp add: DumpConfiguredSettings_def dump_setting_value)

end
