(* ===== verification/Interop_Queue.thy ===== *)
theory Interop_Queue
  imports Std_Containers
begin

text \<open>
  The deferred event queues that C++ callbacks share with LuaJIT:
  \<open>Runtime/Bindings/FFI/interop/interop_exports.h\<close> (the event structures and their union) and
  \<open>interop_ffi.cpp\<close> (the queue operations).

  A \<open>deferred_event_t\<close> is a union of structures that all begin with an \<open>int type\<close>; LuaJIT reads
  that field first and then the member that belongs to it. The model keeps the member that was
  stored as a constructor and the stored \<open>type\<close> as its first argument, so that a wrong pairing can
  be expressed; \<open>well_tagged\<close> says that there is none. Floats are their bit patterns, handles and
  pointers are addresses, with 0 for \<open>nullptr\<close>. Queues live in a heap, because a window or a
  renderer keeps only the address of its queue; \<open>None\<close> is undefined behaviour (the use of an
  address at which no queue lives).
\<close>

section \<open>Events\<close>

datatype EventType =
    ERROR_EVENT | WINDOW_MOVE_EVENT | WINDOW_RESIZE_EVENT | WINDOW_CLOSE_EVENT
  | FRAMEBUFFER_RESIZE_EVENT | CONTENT_SCALE_EVENT | WINDOW_REFRESH_EVENT | WINDOW_FOCUS_EVENT
  | WINDOW_ICONIFY_EVENT | WINDOW_MAXIMIZE_EVENT | MOUSE_BUTTON_EVENT | CURSOR_MOVE_EVENT
  | CURSOR_ENTER_EVENT | SCROLL_EVENT | KEYBOARD_EVENT | CHARACTER_INPUT_EVENT
  | GEOMETRY_COMPILATION_EVENT | GEOMETRY_RENDER_EVENT | GEOMETRY_RELEASE_EVENT
  | SCISSORTEST_STATUS_EVENT | SCISSORTEST_REGION_EVENT | TEXTURE_LOAD_EVENT
  | TEXTURE_GENERATION_EVENT | TEXTURE_RELEASE_EVENT | TRANSFORMATION_UPDATE_EVENT

definition UNKNOWN_ERROR :: int where
  "UNKNOWN_ERROR = 0"

definition ERROR_POPPING_EMPTY_QUEUE :: int where
  "ERROR_POPPING_EMPTY_QUEUE = 1"

type_synonym c_float = "32 word"
type_synonym c_double = "64 word"
type_synonym address = nat

record rml_geometry_info =
  vertex_buffer :: address
  num_vertices :: int
  index_buffer :: address
  num_indices :: int

datatype deferred_event =
    Error_details EventType int
  | Window_move_details EventType int int
  | Window_resize_details EventType int int
  | Window_close_details EventType
  | Framebuffer_resize_details EventType int int
  | Content_scale_details EventType c_float c_float
  | Window_refresh_details EventType
  | Window_focus_details EventType int
  | Window_iconify_details EventType int
  | Window_maximize_details EventType int
  | Mouse_button_details EventType int int int
  | Cursor_move_details EventType c_double c_double
  | Cursor_enter_details EventType int
  | Scroll_details EventType c_double c_double
  | Key_details EventType int int int int
  | Character_input_details EventType u32
  | Geometry_compilation_details EventType rml_geometry_info
  | Geometry_render_details EventType rml_geometry_info c_float c_float address
  | Geometry_release_details EventType rml_geometry_info
  | Scissortest_status_details EventType bool
  | Scissortest_region_details EventType int int int int
  | Texture_load_details EventType address
  | Texture_generation_details EventType address
  | Texture_release_details EventType address
  | Transformation_update_details EventType "c_float list"

text \<open>The sixteen floats \<open>x1\<close> to \<open>w4\<close> of a transformation update are kept as a list.

  The \<open>type\<close> member that LuaJIT reads, whatever member of the union was stored.\<close>

fun event_tag :: "deferred_event \<Rightarrow> EventType" where
  "event_tag (Error_details t c) = t"
| "event_tag (Window_move_details t x y) = t"
| "event_tag (Window_resize_details t x y) = t"
| "event_tag (Window_close_details t) = t"
| "event_tag (Framebuffer_resize_details t x y) = t"
| "event_tag (Content_scale_details t x y) = t"
| "event_tag (Window_refresh_details t) = t"
| "event_tag (Window_focus_details t x) = t"
| "event_tag (Window_iconify_details t x) = t"
| "event_tag (Window_maximize_details t x) = t"
| "event_tag (Mouse_button_details t b a ms) = t"
| "event_tag (Cursor_move_details t x y) = t"
| "event_tag (Cursor_enter_details t x) = t"
| "event_tag (Scroll_details t x y) = t"
| "event_tag (Key_details t k s a ms) = t"
| "event_tag (Character_input_details t c) = t"
| "event_tag (Geometry_compilation_details t g) = t"
| "event_tag (Geometry_render_details t g u v x) = t"
| "event_tag (Geometry_release_details t g) = t"
| "event_tag (Scissortest_status_details t b) = t"
| "event_tag (Scissortest_region_details t u v w h) = t"
| "event_tag (Texture_load_details t x) = t"
| "event_tag (Texture_generation_details t x) = t"
| "event_tag (Texture_release_details t x) = t"
| "event_tag (Transformation_update_details t xs) = t"

text \<open>The type a reader expects for the member that was stored.\<close>

fun member_type :: "deferred_event \<Rightarrow> EventType" where
  "member_type (Error_details t c) = ERROR_EVENT"
| "member_type (Window_move_details t x y) = WINDOW_MOVE_EVENT"
| "member_type (Window_resize_details t x y) = WINDOW_RESIZE_EVENT"
| "member_type (Window_close_details t) = WINDOW_CLOSE_EVENT"
| "member_type (Framebuffer_resize_details t x y) = FRAMEBUFFER_RESIZE_EVENT"
| "member_type (Content_scale_details t x y) = CONTENT_SCALE_EVENT"
| "member_type (Window_refresh_details t) = WINDOW_REFRESH_EVENT"
| "member_type (Window_focus_details t x) = WINDOW_FOCUS_EVENT"
| "member_type (Window_iconify_details t x) = WINDOW_ICONIFY_EVENT"
| "member_type (Window_maximize_details t x) = WINDOW_MAXIMIZE_EVENT"
| "member_type (Mouse_button_details t b a ms) = MOUSE_BUTTON_EVENT"
| "member_type (Cursor_move_details t x y) = CURSOR_MOVE_EVENT"
| "member_type (Cursor_enter_details t x) = CURSOR_ENTER_EVENT"
| "member_type (Scroll_details t x y) = SCROLL_EVENT"
| "member_type (Key_details t k s a ms) = KEYBOARD_EVENT"
| "member_type (Character_input_details t c) = CHARACTER_INPUT_EVENT"
| "member_type (Geometry_compilation_details t g) = GEOMETRY_COMPILATION_EVENT"
| "member_type (Geometry_render_details t g u v x) = GEOMETRY_RENDER_EVENT"
| "member_type (Geometry_release_details t g) = GEOMETRY_RELEASE_EVENT"
| "member_type (Scissortest_status_details t b) = SCISSORTEST_STATUS_EVENT"
| "member_type (Scissortest_region_details t u v w h) = SCISSORTEST_REGION_EVENT"
| "member_type (Texture_load_details t x) = TEXTURE_LOAD_EVENT"
| "member_type (Texture_generation_details t x) = TEXTURE_GENERATION_EVENT"
| "member_type (Texture_release_details t x) = TEXTURE_RELEASE_EVENT"
| "member_type (Transformation_update_details t xs) = TRANSFORMATION_UPDATE_EVENT"

definition well_tagged :: "deferred_event \<Rightarrow> bool" where
  "well_tagged e = (event_tag e = member_type e)"

section \<open>Queues on the heap\<close>

type_synonym queue_heap = "address \<rightharpoonup> deferred_event list"

text \<open>\<open>new\<close> returns the address \<open>a\<close> that the allocator chose.\<close>

definition queue_create :: "address \<Rightarrow> queue_heap \<Rightarrow> address \<times> queue_heap" where
  "queue_create a h = (a, h(a \<mapsto> []))"

definition queue_size :: "address \<Rightarrow> queue_heap \<Rightarrow> nat option" where
  "queue_size q h = (if q = 0 then Some 0 else map_option length (h q))"

definition queue_push_event :: "address \<Rightarrow> deferred_event \<Rightarrow> queue_heap \<Rightarrow> (bool \<times> queue_heap) option" where
  "queue_push_event q event h =
     (if q = 0 then Some (False, h)
      else (case h q of
              None \<Rightarrow> None
            | Some es \<Rightarrow> Some (True, h(q \<mapsto> std_push event es))))"

text \<open>There is no null check here: \<open>queue->empty()\<close> on \<open>nullptr\<close> is undefined.\<close>

definition queue_pop_event :: "address \<Rightarrow> queue_heap \<Rightarrow> (deferred_event \<times> queue_heap) option" where
  "queue_pop_event q h =
     (if q = 0 then None
      else (case h q of
              None \<Rightarrow> None
            | Some es \<Rightarrow>
                (case std_pop es of
                   None \<Rightarrow> Some (Error_details ERROR_EVENT ERROR_POPPING_EMPTY_QUEUE, h)
                 | Some (event, rest) \<Rightarrow> Some (event, h(q \<mapsto> rest)))))"

text \<open>\<open>delete\<close> of \<open>nullptr\<close> is allowed, of a dangling address it is not.\<close>

definition queue_destroy :: "address \<Rightarrow> queue_heap \<Rightarrow> queue_heap option" where
  "queue_destroy q h =
     (if q = 0 then Some h else (case h q of None \<Rightarrow> None | Some es \<Rightarrow> Some (h(q := None))))"

text \<open>Pushing through an address, as the callbacks do (no null check).\<close>

definition heap_push :: "address \<Rightarrow> deferred_event \<Rightarrow> queue_heap \<Rightarrow> queue_heap option" where
  "heap_push q event h =
     (case h q of None \<Rightarrow> None | Some es \<Rightarrow> Some (h(q \<mapsto> std_push event es)))"

section \<open>A live queue as an event queue\<close>

definition heap_contents :: "address \<Rightarrow> queue_heap \<Rightarrow> deferred_event list" where
  "heap_contents q h = (case h q of None \<Rightarrow> [] | Some es \<Rightarrow> es)"

definition live_queue :: "address \<Rightarrow> queue_heap \<Rightarrow> bool" where
  "live_queue q h \<longleftrightarrow> q \<noteq> 0 \<and> h q \<noteq> None"

text \<open>The two exported operations as LuaJIT uses them: a push, and a pop guarded by the size.\<close>

definition lua_push :: "address \<Rightarrow> deferred_event \<Rightarrow> queue_heap \<Rightarrow> queue_heap" where
  "lua_push q e h = (case queue_push_event q e h of None \<Rightarrow> h | Some (ok, h') \<Rightarrow> h')"

definition lua_poll :: "address \<Rightarrow> queue_heap \<Rightarrow> (deferred_event \<times> queue_heap) option" where
  "lua_poll q h = (if queue_size q h = Some 0 then None else queue_pop_event q h)"

lemma heap_push_live:
  "live_queue q h \<Longrightarrow> heap_push q e h = Some (h(q \<mapsto> heap_contents q h @ [e]))"
  by (auto simp: live_queue_def heap_push_def heap_contents_def std_push_def split: option.splits)

lemma live_queue_upd [simp]: "live_queue q (h(p \<mapsto> es)) \<longleftrightarrow> q \<noteq> 0 \<and> (q = p \<or> h q \<noteq> None)"
  by (simp add: live_queue_def)

lemma heap_contents_upd [simp]:
  "heap_contents q (h(p \<mapsto> es)) = (if q = p then es else heap_contents q h)"
  by (simp add: heap_contents_def)

lemma queue_push_event_live:
  "live_queue q h \<Longrightarrow> queue_push_event q e h = Some (True, h(q \<mapsto> heap_contents q h @ [e]))"
  by (auto simp: live_queue_def queue_push_event_def heap_contents_def std_push_def split: option.splits)

interpretation interop_queue: event_queue "\<lambda>e. e" "heap_contents q" "live_queue q" "lua_push q" "lua_poll q"
  by unfold_locales
    (auto simp: lua_push_def queue_push_event_live live_queue_def lua_poll_def queue_size_def
      queue_pop_event_def heap_contents_def std_pop_def split: option.splits)

section \<open>Properties\<close>

text \<open>
  A deferred event queue is first in, first out: for any sequence of pushes and guarded pops
  on a live queue, the popped events followed by the remaining ones are the initial ones followed
  by the pushed ones, and the queue stays alive.
\<close>

theorem interop_queue_fifo:
  assumes "live_queue q h" "run_queue (lua_push q) (lua_poll q) cmds h = (es, h')"
  shows "es @ heap_contents q h' = heap_contents q h @ pushed cmds \<and> live_queue q h'"
  using interop_queue.fifo_order [OF assms] by simp

theorem interop_queue_fifo_witness:
  "let r = run_queue (lua_push 8) (lua_poll 8) [Push_cmd (Window_close_details WINDOW_CLOSE_EVENT), Poll_cmd, Poll_cmd]
         (snd (queue_create 8 Map.empty))
   in fst r @ heap_contents 8 (snd r) = [Window_close_details WINDOW_CLOSE_EVENT]"
proof -
  have "live_queue 8 (snd (queue_create 8 Map.empty))" by (simp add: live_queue_def queue_create_def)
  from interop_queue_fifo [OF this prod.collapse [symmetric],
      of "[Push_cmd (Window_close_details WINDOW_CLOSE_EVENT), Poll_cmd, Poll_cmd]"] show ?thesis
    by (simp add: Let_def queue_create_def del: run_queue.simps)
qed

text \<open>
  Popping from an empty queue is reported as an error event and leaves the queue as it was;
  size and push accept \<open>nullptr\<close> (0 and \<open>false\<close>), but a pop from \<open>nullptr\<close> and any use of a
  destroyed queue are undefined.
\<close>

theorem queue_edge_cases:
  "(heap_contents q h = [] \<longrightarrow> live_queue q h \<longrightarrow>
      queue_pop_event q h = Some (Error_details ERROR_EVENT ERROR_POPPING_EMPTY_QUEUE, h))
   \<and> queue_size 0 h = Some 0 \<and> queue_push_event 0 e h = Some (False, h) \<and> queue_destroy 0 h = Some h
   \<and> queue_pop_event 0 h = None
   \<and> (live_queue q h \<longrightarrow> (\<exists>h'. queue_destroy q h = Some h' \<and> queue_size q h' = None
        \<and> queue_push_event q e h' = None \<and> queue_pop_event q h' = None \<and> queue_destroy q h' = None
        \<and> (\<forall>p. p \<noteq> q \<longrightarrow> h' p = h p)))"
  by (auto simp: live_queue_def heap_contents_def queue_pop_event_def std_pop_def queue_size_def
      queue_push_event_def queue_destroy_def split: option.splits)

theorem queue_edge_cases_witness:
  "queue_pop_event 8 (snd (queue_create 8 Map.empty))
     = Some (Error_details ERROR_EVENT ERROR_POPPING_EMPTY_QUEUE, snd (queue_create 8 Map.empty))"
  using queue_edge_cases [of 8 "snd (queue_create 8 Map.empty)"]
  by (simp add: live_queue_def queue_create_def heap_contents_def)

end
