(* ===== verification/Glfw_Events.thy ===== *)
theory Glfw_Events
  imports Interop_Queue
begin

text \<open>
  The window event callbacks of \<open>Runtime/Bindings/FFI/glfw/glfw_ffi.cpp\<close> and the lookup of GLFW
  constants. GLFW itself is not part of the repository; what the model uses of it is documented:
  a window stores one user pointer and at most one callback per kind of input, and an input
  calls the callback that is registered for its kind. A window is an address; its user pointer
  is the address of a queue on the heap of \<^const>\<open>heap_push\<close>.
\<close>

section \<open>Windows\<close>

datatype callback_kind =
    WindowPos_cb | WindowSize_cb | WindowClose_cb | FramebufferSize_cb | WindowContentScale_cb
  | WindowRefresh_cb | WindowFocus_cb | WindowIconify_cb | WindowMaximize_cb | MouseButton_cb
  | CursorPos_cb | CursorEnter_cb | Scroll_cb | Key_cb | Char_cb

record glfw_state =
  user_pointer :: "address \<Rightarrow> address"
  callbacks :: "address \<Rightarrow> callback_kind list"
  queues :: queue_heap

definition glfwSetWindowUserPointer :: "address \<Rightarrow> address \<Rightarrow> glfw_state \<Rightarrow> glfw_state" where
  "glfwSetWindowUserPointer window p s = s\<lparr>user_pointer := (user_pointer s)(window := p)\<rparr>"

definition set_callback :: "callback_kind \<Rightarrow> address \<Rightarrow> glfw_state \<Rightarrow> glfw_state" where
  "set_callback k window s =
     s\<lparr>callbacks := (callbacks s)(window := List.insert k (callbacks s window))\<rparr>"

text \<open>Reading the user pointer and pushing to the queue it points to, as every callback does.\<close>

definition push_to_window_queue :: "address \<Rightarrow> deferred_event \<Rightarrow> glfw_state \<Rightarrow> glfw_state option" where
  "push_to_window_queue window event s =
     map_option (\<lambda>h. s\<lparr>queues := h\<rparr>) (heap_push (user_pointer s window) event (queues s))"

section \<open>Registration and callbacks\<close>

definition glfw_set_window_move_callback :: "address \<Rightarrow> address \<Rightarrow> glfw_state \<Rightarrow> glfw_state" where
  "glfw_set_window_move_callback window queue = set_callback WindowPos_cb window"

definition on_window_move :: "address \<Rightarrow> int \<Rightarrow> int \<Rightarrow> glfw_state \<Rightarrow> glfw_state option" where
  "on_window_move window screenX screenY =
     push_to_window_queue window (Window_move_details WINDOW_MOVE_EVENT screenX screenY)"

definition glfw_set_window_resize_callback :: "address \<Rightarrow> address \<Rightarrow> glfw_state \<Rightarrow> glfw_state" where
  "glfw_set_window_resize_callback window queue = set_callback WindowSize_cb window"

definition on_window_resize :: "address \<Rightarrow> int \<Rightarrow> int \<Rightarrow> glfw_state \<Rightarrow> glfw_state option" where
  "on_window_resize window width height =
     push_to_window_queue window (Window_resize_details WINDOW_RESIZE_EVENT width height)"

definition glfw_set_window_close_callback :: "address \<Rightarrow> address \<Rightarrow> glfw_state \<Rightarrow> glfw_state" where
  "glfw_set_window_close_callback window queue = set_callback WindowClose_cb window"

definition on_window_close :: "address \<Rightarrow> glfw_state \<Rightarrow> glfw_state option" where
  "on_window_close window = push_to_window_queue window (Window_close_details WINDOW_CLOSE_EVENT)"

definition glfw_set_framebuffer_resize_callback :: "address \<Rightarrow> address \<Rightarrow> glfw_state \<Rightarrow> glfw_state" where
  "glfw_set_framebuffer_resize_callback window queue = set_callback FramebufferSize_cb window"

definition on_framebuffer_resize :: "address \<Rightarrow> int \<Rightarrow> int \<Rightarrow> glfw_state \<Rightarrow> glfw_state option" where
  "on_framebuffer_resize window width height =
     push_to_window_queue window (Framebuffer_resize_details FRAMEBUFFER_RESIZE_EVENT width height)"

definition glfw_set_content_scale_callback :: "address \<Rightarrow> address \<Rightarrow> glfw_state \<Rightarrow> glfw_state" where
  "glfw_set_content_scale_callback window queue = set_callback WindowContentScale_cb window"

definition on_content_scale :: "address \<Rightarrow> c_float \<Rightarrow> c_float \<Rightarrow> glfw_state \<Rightarrow> glfw_state option" where
  "on_content_scale window xScale yScale =
     push_to_window_queue window (Content_scale_details CONTENT_SCALE_EVENT xScale yScale)"

definition glfw_set_window_refresh_callback :: "address \<Rightarrow> address \<Rightarrow> glfw_state \<Rightarrow> glfw_state" where
  "glfw_set_window_refresh_callback window queue = set_callback WindowRefresh_cb window"

definition on_window_refresh :: "address \<Rightarrow> glfw_state \<Rightarrow> glfw_state option" where
  "on_window_refresh window = push_to_window_queue window (Window_refresh_details WINDOW_REFRESH_EVENT)"

definition glfw_set_window_focus_callback :: "address \<Rightarrow> address \<Rightarrow> glfw_state \<Rightarrow> glfw_state" where
  "glfw_set_window_focus_callback window queue = set_callback WindowFocus_cb window"

definition on_window_focus :: "address \<Rightarrow> int \<Rightarrow> glfw_state \<Rightarrow> glfw_state option" where
  "on_window_focus window focused =
     push_to_window_queue window (Window_focus_details WINDOW_FOCUS_EVENT focused)"

definition glfw_set_window_iconify_callback :: "address \<Rightarrow> address \<Rightarrow> glfw_state \<Rightarrow> glfw_state" where
  "glfw_set_window_iconify_callback window queue = set_callback WindowIconify_cb window"

definition on_window_iconify :: "address \<Rightarrow> int \<Rightarrow> glfw_state \<Rightarrow> glfw_state option" where
  "on_window_iconify window iconified =
     push_to_window_queue window (Window_iconify_details WINDOW_ICONIFY_EVENT iconified)"

definition glfw_set_window_maximize_callback :: "address \<Rightarrow> address \<Rightarrow> glfw_state \<Rightarrow> glfw_state" where
  "glfw_set_window_maximize_callback window queue = set_callback WindowMaximize_cb window"

definition on_window_maximize :: "address \<Rightarrow> int \<Rightarrow> glfw_state \<Rightarrow> glfw_state option" where
  "on_window_maximize window maximized =
     push_to_window_queue window (Window_maximize_details WINDOW_MAXIMIZE_EVENT maximized)"

definition glfw_set_mouse_button_callback :: "address \<Rightarrow> address \<Rightarrow> glfw_state \<Rightarrow> glfw_state" where
  "glfw_set_mouse_button_callback window queue = set_callback MouseButton_cb window"

definition on_mouse_button :: "address \<Rightarrow> int \<Rightarrow> int \<Rightarrow> int \<Rightarrow> glfw_state \<Rightarrow> glfw_state option" where
  "on_mouse_button window button action mods =
     push_to_window_queue window (Mouse_button_details MOUSE_BUTTON_EVENT button action mods)"

definition glfw_set_cursor_move_callback :: "address \<Rightarrow> address \<Rightarrow> glfw_state \<Rightarrow> glfw_state" where
  "glfw_set_cursor_move_callback window queue = set_callback CursorPos_cb window"

definition on_cursor_move :: "address \<Rightarrow> c_double \<Rightarrow> c_double \<Rightarrow> glfw_state \<Rightarrow> glfw_state option" where
  "on_cursor_move window screenX screenY =
     push_to_window_queue window (Cursor_move_details CURSOR_MOVE_EVENT screenX screenY)"

definition glfw_set_cursor_enter_callback :: "address \<Rightarrow> address \<Rightarrow> glfw_state \<Rightarrow> glfw_state" where
  "glfw_set_cursor_enter_callback window queue = set_callback CursorEnter_cb window"

definition on_cursor_enter :: "address \<Rightarrow> int \<Rightarrow> glfw_state \<Rightarrow> glfw_state option" where
  "on_cursor_enter window entered =
     push_to_window_queue window (Cursor_enter_details CURSOR_ENTER_EVENT entered)"

definition glfw_set_scroll_callback :: "address \<Rightarrow> address \<Rightarrow> glfw_state \<Rightarrow> glfw_state" where
  "glfw_set_scroll_callback window queue = set_callback Scroll_cb window"

definition on_scroll :: "address \<Rightarrow> c_double \<Rightarrow> c_double \<Rightarrow> glfw_state \<Rightarrow> glfw_state option" where
  "on_scroll window xoffset yoffset =
     push_to_window_queue window (Scroll_details SCROLL_EVENT xoffset yoffset)"

definition glfw_set_keyboard_callback :: "address \<Rightarrow> address \<Rightarrow> glfw_state \<Rightarrow> glfw_state" where
  "glfw_set_keyboard_callback window queue = set_callback Key_cb window"

definition on_keyboard :: "address \<Rightarrow> int \<Rightarrow> int \<Rightarrow> int \<Rightarrow> int \<Rightarrow> glfw_state \<Rightarrow> glfw_state option" where
  "on_keyboard window key scancode action mods =
     push_to_window_queue window (Key_details KEYBOARD_EVENT key scancode action mods)"

definition glfw_set_character_input_callback :: "address \<Rightarrow> address \<Rightarrow> glfw_state \<Rightarrow> glfw_state" where
  "glfw_set_character_input_callback window queue = set_callback Char_cb window"

definition on_character_input :: "address \<Rightarrow> u32 \<Rightarrow> glfw_state \<Rightarrow> glfw_state option" where
  "on_character_input window codepoint =
     push_to_window_queue window (Character_input_details CHARACTER_INPUT_EVENT codepoint)"

definition glfw_register_events :: "address \<Rightarrow> address \<Rightarrow> glfw_state \<Rightarrow> glfw_state" where
  "glfw_register_events window queue s0 =
     (if window = 0 \<or> queue = 0 then s0
      else
       (let s = glfwSetWindowUserPointer window queue s0;
            s = glfw_set_window_move_callback window queue s;
            s = glfw_set_window_resize_callback window queue s;
            s = glfw_set_window_close_callback window queue s;
            s = glfw_set_framebuffer_resize_callback window queue s;
            s = glfw_set_content_scale_callback window queue s;
            s = glfw_set_window_refresh_callback window queue s;
            s = glfw_set_window_focus_callback window queue s;
            s = glfw_set_window_iconify_callback window queue s;
            s = glfw_set_window_maximize_callback window queue s;
            s = glfw_set_mouse_button_callback window queue s;
            s = glfw_set_cursor_move_callback window queue s;
            s = glfw_set_cursor_enter_callback window queue s;
            s = glfw_set_scroll_callback window queue s;
            s = glfw_set_keyboard_callback window queue s
        in glfw_set_character_input_callback window queue s))"

section \<open>Input\<close>

datatype glfw_input =
    In_WindowPos int int
  | In_WindowSize int int
  | In_WindowClose
  | In_FramebufferSize int int
  | In_ContentScale c_float c_float
  | In_WindowRefresh
  | In_WindowFocus int
  | In_WindowIconify int
  | In_WindowMaximize int
  | In_MouseButton int int int
  | In_CursorPos c_double c_double
  | In_CursorEnter int
  | In_Scroll c_double c_double
  | In_Key int int int int
  | In_Char u32

fun input_kind :: "glfw_input \<Rightarrow> callback_kind" where
  "input_kind (In_WindowPos x y) = WindowPos_cb"
| "input_kind (In_WindowSize w h) = WindowSize_cb"
| "input_kind In_WindowClose = WindowClose_cb"
| "input_kind (In_FramebufferSize w h) = FramebufferSize_cb"
| "input_kind (In_ContentScale x y) = WindowContentScale_cb"
| "input_kind In_WindowRefresh = WindowRefresh_cb"
| "input_kind (In_WindowFocus f) = WindowFocus_cb"
| "input_kind (In_WindowIconify i) = WindowIconify_cb"
| "input_kind (In_WindowMaximize x) = WindowMaximize_cb"
| "input_kind (In_MouseButton b a ms) = MouseButton_cb"
| "input_kind (In_CursorPos x y) = CursorPos_cb"
| "input_kind (In_CursorEnter e) = CursorEnter_cb"
| "input_kind (In_Scroll x y) = Scroll_cb"
| "input_kind (In_Key k s a ms) = Key_cb"
| "input_kind (In_Char c) = Char_cb"

text \<open>An input of a kind without a callback is ignored.\<close>

fun run_callback :: "address \<Rightarrow> glfw_input \<Rightarrow> glfw_state \<Rightarrow> glfw_state option" where
  "run_callback w (In_WindowPos x y) s = on_window_move w x y s"
| "run_callback w (In_WindowSize x y) s = on_window_resize w x y s"
| "run_callback w In_WindowClose s = on_window_close w s"
| "run_callback w (In_FramebufferSize x y) s = on_framebuffer_resize w x y s"
| "run_callback w (In_ContentScale x y) s = on_content_scale w x y s"
| "run_callback w In_WindowRefresh s = on_window_refresh w s"
| "run_callback w (In_WindowFocus f) s = on_window_focus w f s"
| "run_callback w (In_WindowIconify i) s = on_window_iconify w i s"
| "run_callback w (In_WindowMaximize x) s = on_window_maximize w x s"
| "run_callback w (In_MouseButton b a ms) s = on_mouse_button w b a ms s"
| "run_callback w (In_CursorPos x y) s = on_cursor_move w x y s"
| "run_callback w (In_CursorEnter e) s = on_cursor_enter w e s"
| "run_callback w (In_Scroll x y) s = on_scroll w x y s"
| "run_callback w (In_Key k sc a ms) s = on_keyboard w k sc a ms s"
| "run_callback w (In_Char c) s = on_character_input w c s"

definition glfw_input_event :: "address \<Rightarrow> glfw_input \<Rightarrow> glfw_state \<Rightarrow> glfw_state option" where
  "glfw_input_event window i s =
     (if input_kind i \<in> set (callbacks s window) then run_callback window i s else Some s)"

fun glfw_inputs :: "(address \<times> glfw_input) list \<Rightarrow> glfw_state \<Rightarrow> glfw_state option" where
  "glfw_inputs [] s = Some s"
| "glfw_inputs ((w, i) # is) s =
     (case glfw_input_event w i s of None \<Rightarrow> None | Some s' \<Rightarrow> glfw_inputs is s')"

section \<open>Constants\<close>

text \<open>\<open>glfw_constants\<close> maps names to the values of GLFW's macros; it is a parameter.\<close>

definition glfw_find_constant :: "(string, int) unordered_map \<Rightarrow> string \<Rightarrow> int" where
  "glfw_find_constant glfw_constants nm =
     (case um_find (c_str nm) glfw_constants of Some v \<Rightarrow> v | None \<Rightarrow> 0xdead)"

section \<open>Specification\<close>

text \<open>The event an input is reported as.\<close>

fun input_event :: "glfw_input \<Rightarrow> deferred_event" where
  "input_event (In_WindowPos x y) = Window_move_details WINDOW_MOVE_EVENT x y"
| "input_event (In_WindowSize w h) = Window_resize_details WINDOW_RESIZE_EVENT w h"
| "input_event In_WindowClose = Window_close_details WINDOW_CLOSE_EVENT"
| "input_event (In_FramebufferSize w h) = Framebuffer_resize_details FRAMEBUFFER_RESIZE_EVENT w h"
| "input_event (In_ContentScale x y) = Content_scale_details CONTENT_SCALE_EVENT x y"
| "input_event In_WindowRefresh = Window_refresh_details WINDOW_REFRESH_EVENT"
| "input_event (In_WindowFocus f) = Window_focus_details WINDOW_FOCUS_EVENT f"
| "input_event (In_WindowIconify i) = Window_iconify_details WINDOW_ICONIFY_EVENT i"
| "input_event (In_WindowMaximize x) = Window_maximize_details WINDOW_MAXIMIZE_EVENT x"
| "input_event (In_MouseButton b a ms) = Mouse_button_details MOUSE_BUTTON_EVENT b a ms"
| "input_event (In_CursorPos x y) = Cursor_move_details CURSOR_MOVE_EVENT x y"
| "input_event (In_CursorEnter e) = Cursor_enter_details CURSOR_ENTER_EVENT e"
| "input_event (In_Scroll x y) = Scroll_details SCROLL_EVENT x y"
| "input_event (In_Key k s a ms) = Key_details KEYBOARD_EVENT k s a ms"
| "input_event (In_Char c) = Character_input_details CHARACTER_INPUT_EVENT c"

text \<open>Window \<open>w\<close> reports all its inputs to the live queue \<open>q\<close>.\<close>

definition reports_to :: "glfw_state \<Rightarrow> address \<Rightarrow> address \<Rightarrow> bool" where
  "reports_to s w q \<longleftrightarrow>
     user_pointer s w = q \<and> live_queue q (queues s) \<and> (\<forall>i. input_kind i \<in> set (callbacks s w))"

lemmas callback_defs = on_window_move_def on_window_resize_def on_window_close_def
  on_framebuffer_resize_def on_content_scale_def on_window_refresh_def on_window_focus_def
  on_window_iconify_def on_window_maximize_def on_mouse_button_def on_cursor_move_def
  on_cursor_enter_def on_scroll_def on_keyboard_def on_character_input_def

lemmas registration_defs = glfw_set_window_move_callback_def glfw_set_window_resize_callback_def
  glfw_set_window_close_callback_def glfw_set_framebuffer_resize_callback_def
  glfw_set_content_scale_callback_def glfw_set_window_refresh_callback_def
  glfw_set_window_focus_callback_def glfw_set_window_iconify_callback_def
  glfw_set_window_maximize_callback_def glfw_set_mouse_button_callback_def
  glfw_set_cursor_move_callback_def glfw_set_cursor_enter_callback_def glfw_set_scroll_callback_def
  glfw_set_keyboard_callback_def glfw_set_character_input_callback_def

lemma run_callback_event: "run_callback w i s = push_to_window_queue w (input_event i) s"
  by (cases i) (simp_all add: callback_defs)

lemma well_tagged_input_event: "well_tagged (input_event i)"
  by (cases i) (simp_all add: well_tagged_def)

lemma set_callback_fields:
  "user_pointer (set_callback k w s) = user_pointer s"
  "queues (set_callback k w s) = queues s"
  "set (callbacks (set_callback k w s) x) = (if x = w then insert k (set (callbacks s x)) else set (callbacks s x))"
  by (simp_all add: set_callback_def)

lemma glfw_register_events_fields:
  assumes "w \<noteq> 0" "q \<noteq> 0"
  shows "user_pointer (glfw_register_events w q s) = (user_pointer s)(w := q)"
    and "queues (glfw_register_events w q s) = queues s"
    and "x \<noteq> w \<Longrightarrow> set (callbacks (glfw_register_events w q s) x) = set (callbacks s x)"
    and "input_kind i \<in> set (callbacks (glfw_register_events w q s) w)"
  using assms
  by (simp_all add: glfw_register_events_def registration_defs set_callback_fields
      glfwSetWindowUserPointer_def Let_def) (cases i; simp)

lemma glfw_register_reports:
  assumes "w \<noteq> 0" "live_queue q (queues s)"
  shows "reports_to (glfw_register_events w q s) w q"
  using assms glfw_register_events_fields(1,2,4) [where w = w and q = q and s = s]
  by (simp add: reports_to_def live_queue_def)

lemma glfw_input_event_run:
  assumes "reports_to s w q"
  shows "glfw_input_event w i s =
     Some (s\<lparr>queues := (queues s)(q \<mapsto> heap_contents q (queues s) @ [input_event i])\<rparr>)"
  using assms
  by (simp add: reports_to_def glfw_input_event_def run_callback_event push_to_window_queue_def heap_push_live)

lemma reports_to_push:
  "reports_to s w q \<Longrightarrow> live_queue p (queues s) \<Longrightarrow> reports_to (s\<lparr>queues := (queues s)(p \<mapsto> es)\<rparr>) w q"
  by (auto simp: reports_to_def live_queue_def)

section \<open>Properties\<close>

text \<open>
  C23. Registration connects a window with a queue completely: afterwards each of the fifteen
  kinds of input on that window appends exactly one event to that queue, with the values of the
  input and the tag that belongs to the stored union member, and leaves all other queues alone.
\<close>

theorem glfw_registered_input:
  assumes "w \<noteq> 0" "live_queue q (queues s)" "s' = glfw_register_events w q s"
  shows "\<exists>s''. glfw_input_event w i s' = Some s''
     \<and> heap_contents q (queues s'') = heap_contents q (queues s) @ [input_event i]
     \<and> well_tagged (input_event i) \<and> (\<forall>p. p \<noteq> q \<longrightarrow> queues s'' p = queues s p)
     \<and> reports_to s'' w q"
proof -
  have q: "queues s' = queues s" using assms glfw_register_events_fields(2) [of w q s] by (simp add: live_queue_def)
  have r: "reports_to s' w q" using glfw_register_reports [OF assms(1,2)] assms(3) by simp
  show ?thesis
    using glfw_input_event_run [OF r, of i] reports_to_push [OF r, of q] assms(2) q well_tagged_input_event
    by (auto simp: live_queue_def)
qed

theorem glfw_registered_input_witness:
  "\<exists>s''. glfw_input_event 3 In_WindowClose
       (glfw_register_events 3 8 \<lparr>user_pointer = (\<lambda>w. 0), callbacks = (\<lambda>w. []), queues = [8 \<mapsto> []]\<rparr>) = Some s''
     \<and> heap_contents 8 (queues s'') = [Window_close_details WINDOW_CLOSE_EVENT]"
  using glfw_registered_input [of 3 8 "\<lparr>user_pointer = (\<lambda>w. 0), callbacks = (\<lambda>w. []), queues = [8 \<mapsto> []]\<rparr>"
      _ In_WindowClose] by (auto simp: live_queue_def heap_contents_def)

text \<open>
  Several windows can share the heap: for any interleaving of inputs on windows that report
  to live queues, nothing is undefined, and every queue receives exactly the events of its own
  windows, in the order of the inputs.
\<close>

theorem glfw_inputs_routed:
  assumes "\<forall>(w, i) \<in> set is. reports_to s w (route w)"
  shows "\<exists>s'. glfw_inputs is s = Some s' \<and> (\<forall>q. heap_contents q (queues s') =
      heap_contents q (queues s) @ map (input_event \<circ> snd) (filter (\<lambda>(w, i). route w = q) is))"
  using assms
proof (induction "is" arbitrary: s)
  case (Cons p "is")
  obtain w i where p: "p = (w, i)" by fastforce
  let ?s1 = "s\<lparr>queues := (queues s)(route w \<mapsto> heap_contents (route w) (queues s) @ [input_event i])\<rparr>"
  have r: "reports_to s w (route w)" using Cons.prems p by auto
  then have "live_queue (route w) (queues s)" by (simp add: reports_to_def)
  then have "\<forall>(w, i) \<in> set is. reports_to ?s1 w (route w)"
    using Cons.prems by (auto intro!: reports_to_push)
  from Cons.IH [OF this] show ?case
    using glfw_input_event_run [OF r, of i] p by (auto simp: heap_contents_def)
qed simp

theorem glfw_inputs_routed_witness:
  "\<exists>s'. glfw_inputs [(3, In_WindowFocus 1), (4, In_WindowClose), (3, In_Char 97)]
      \<lparr>user_pointer = (\<lambda>w. w + 5), callbacks = (\<lambda>w. map input_kind [In_WindowPos 0 0, In_WindowSize 0 0,
         In_WindowClose, In_FramebufferSize 0 0, In_ContentScale 0 0, In_WindowRefresh, In_WindowFocus 0,
         In_WindowIconify 0, In_WindowMaximize 0, In_MouseButton 0 0 0, In_CursorPos 0 0, In_CursorEnter 0,
         In_Scroll 0 0, In_Key 0 0 0 0, In_Char 0]), queues = [8 \<mapsto> [], 9 \<mapsto> []]\<rparr> = Some s'
     \<and> heap_contents 9 (queues s') = [Window_close_details WINDOW_CLOSE_EVENT]"
proof -
  let ?s = "\<lparr>user_pointer = (\<lambda>w. w + 5), callbacks = (\<lambda>w. map input_kind [In_WindowPos 0 0, In_WindowSize 0 0,
         In_WindowClose, In_FramebufferSize 0 0, In_ContentScale 0 0, In_WindowRefresh, In_WindowFocus 0,
         In_WindowIconify 0, In_WindowMaximize 0, In_MouseButton 0 0 0, In_CursorPos 0 0, In_CursorEnter 0,
         In_Scroll 0 0, In_Key 0 0 0 0, In_Char 0]), queues = [8 \<mapsto> [], 9 \<mapsto> []]\<rparr>"
  have "input_kind i \<in> set (callbacks ?s w)" for i w by (cases i) simp_all
  then have "reports_to ?s 3 8" "reports_to ?s 4 9" by (auto simp: reports_to_def live_queue_def)
  then show ?thesis
    using glfw_inputs_routed [of "[(3, In_WindowFocus 1), (4, In_WindowClose), (3, In_Char 97)]" ?s "\<lambda>w. w + 5"]
    by (auto simp: heap_contents_def)
qed

end
