(* ===== verification/Rml_Renderer.thy ===== *)
theory Rml_Renderer
  imports Interop_Queue
begin

text \<open>
  The render interface between RmlUi and WebGPU:
  \<open>Runtime/Bindings/FFI/RmlUi_Renderer_WebGPU.cpp\<close> and its header. RmlUi calls the render
  interface, which creates GPU resources at once and forwards the draw commands to LuaJIT as
  deferred events. The calls into WebGPU are recorded in order in \<open>gpu_calls\<close>; the handles they
  return are taken from the record \<open>gpu_env\<close> as functions of that history. Geometry objects
  live on a heap of their own. The debug switches of the header are constant \<open>false\<close>, so the
  code they guard is left out.
\<close>

section \<open>Data\<close>

datatype rml_fault = Assertion_failed | Undefined_behavior

datatype gpu_call =
    Create_buffer_vertex u64
  | Create_buffer_index u64
  | Write_buffer address u64
  | Create_texture u32 u32
  | Write_texture address u64 u32 u32 u32 u32

record gpu_env =
  new_buffer :: "gpu_call list \<Rightarrow> address"
  new_texture :: "gpu_call list \<Rightarrow> address"
  sizeof_vertex :: u64
  load_image :: "string \<Rightarrow> (byte list \<times> int \<times> int) option"

record render_state =
  event_queues :: queue_heap
  geometries :: "address \<rightharpoonup> rml_geometry_info"
  gpu_calls :: "gpu_call list"

record RenderInterface_WebGPU =
  m_wgpuDevice :: address
  m_eventQueue :: address

section \<open>Buffers and textures\<close>

definition GetAlignedBufferSize :: "u64 \<Rightarrow> u64" where
  "GetAlignedBufferSize unalignedSize =
     (let numUnalignedBytes = unalignedSize mod 4;
          numRequiredPaddingBytes = (4 - numUnalignedBytes) mod 4
      in unalignedSize + numRequiredPaddingBytes)"

text \<open>
  \<open>wgpuQueueWriteBuffer\<close> reads \<open>rawBufferSizeInBytes\<close> bytes from the elements; reading past their
  end is undefined. The number of elements arrives as an \<open>int\<close> and is widened to \<open>size_t\<close>.
\<close>

definition CreateVertexBuffer ::
  "gpu_env \<Rightarrow> 'v list \<Rightarrow> int \<Rightarrow> render_state \<Rightarrow> rml_fault + (address \<times> render_state)" where
  "CreateVertexBuffer env vertices n s =
     (let rawBufferSizeInBytes = word_of_int n * sizeof_vertex env;
          alignedBufferSizeInBytes = GetAlignedBufferSize rawBufferSizeInBytes;
          c1 = gpu_calls s @ [Create_buffer_vertex alignedBufferSizeInBytes];
          vertexBuffer = new_buffer env c1
      in if unat rawBufferSizeInBytes \<le> length vertices * unat (sizeof_vertex env)
         then Inr (vertexBuffer, s\<lparr>gpu_calls := c1 @ [Write_buffer vertexBuffer rawBufferSizeInBytes]\<rparr>)
         else Inl Undefined_behavior)"

definition CreateIndexBuffer ::
  "gpu_env \<Rightarrow> int list \<Rightarrow> int \<Rightarrow> render_state \<Rightarrow> rml_fault + (address \<times> render_state)" where
  "CreateIndexBuffer env indices n s =
     (let rawBufferSizeInBytes = word_of_int n * 4;
          alignedBufferSizeInBytes = GetAlignedBufferSize rawBufferSizeInBytes;
          c1 = gpu_calls s @ [Create_buffer_index alignedBufferSizeInBytes];
          indexBuffer = new_buffer env c1
      in if unat rawBufferSizeInBytes \<le> length indices * 4
         then Inr (indexBuffer, s\<lparr>gpu_calls := c1 @ [Write_buffer indexBuffer rawBufferSizeInBytes]\<rparr>)
         else Inl Undefined_behavior)"

text \<open>
  \<open>wgpuQueueWriteTexture\<close> reads \<open>textureBufferSize\<close> bytes from the image; reading past its end is
  undefined. The call is recorded with the size, the bytes per row, the rows and the extent.
\<close>

definition CreateTexture ::
  "gpu_env \<Rightarrow> byte list \<Rightarrow> u32 \<Rightarrow> u32 \<Rightarrow> render_state \<Rightarrow> rml_fault + (address \<times> render_state)" where
  "CreateTexture env rgbaImageBytes textureWidth textureHeight s =
     (let textureBufferSize = (ucast textureWidth :: u64) * ucast textureHeight * 4;
          c1 = gpu_calls s @ [Create_texture textureWidth textureHeight];
          wgpuTexture = new_texture env c1
      in if unat textureBufferSize \<le> length rgbaImageBytes
         then Inr (wgpuTexture, s\<lparr>gpu_calls := c1 @
                [Write_texture wgpuTexture textureBufferSize (4 * textureWidth) textureHeight
                   textureWidth textureHeight]\<rparr>)
         else Inl Undefined_behavior)"

section \<open>Render commands\<close>

definition push_render_event ::
  "RenderInterface_WebGPU \<Rightarrow> deferred_event \<Rightarrow> render_state \<Rightarrow> rml_fault + render_state" where
  "push_render_event r event s =
     (case heap_push (m_eventQueue r) event (event_queues s) of
        None \<Rightarrow> Inl Undefined_behavior
      | Some h \<Rightarrow> Inr (s\<lparr>event_queues := h\<rparr>))"

text \<open>
  \<open>num_vertices\<close> and \<open>num_indices\<close> are \<open>size_t\<close> here and narrowed to \<open>int\<close> when they are passed
  on and stored. \<open>a\<close> is the address \<open>new\<close> returns.
\<close>

definition size_to_int :: "nat \<Rightarrow> int" where
  "size_to_int n = signed_take_bit 31 (int n)"

definition CompileGeometry ::
  "gpu_env \<Rightarrow> address \<Rightarrow> RenderInterface_WebGPU \<Rightarrow> 'v list \<Rightarrow> int list \<Rightarrow> render_state \<Rightarrow>
   rml_fault + (address \<times> render_state)" where
  "CompileGeometry env a r vertices indices s =
     (if vertices = [] \<or> indices = [] then Inl Assertion_failed
      else
       (case CreateVertexBuffer env vertices (size_to_int (length vertices)) s of
          Inl e \<Rightarrow> Inl e
        | Inr (vertexBuffer, s1) \<Rightarrow>
       (case CreateIndexBuffer env indices (size_to_int (length indices)) s1 of
          Inl e \<Rightarrow> Inl e
        | Inr (indexBuffer, s2) \<Rightarrow>
         (let geometry = \<lparr>vertex_buffer = vertexBuffer, num_vertices = size_to_int (length vertices),
                          index_buffer = indexBuffer, num_indices = size_to_int (length indices)\<rparr>;
              s3 = s2\<lparr>geometries := (geometries s2)(a \<mapsto> geometry)\<rparr>
          in case push_render_event r (Geometry_compilation_details GEOMETRY_COMPILATION_EVENT geometry) s3 of
               Inl e \<Rightarrow> Inl e
             | Inr s4 \<Rightarrow> Inr (a, s4)))))"

definition RenderGeometry ::
  "RenderInterface_WebGPU \<Rightarrow> address \<Rightarrow> c_float \<times> c_float \<Rightarrow> address \<Rightarrow> render_state \<Rightarrow>
   rml_fault + render_state" where
  "RenderGeometry r geometryHandle translation textureHandle s =
     (case geometries s geometryHandle of
        None \<Rightarrow> Inl Undefined_behavior
      | Some geometry \<Rightarrow>
          push_render_event r (Geometry_render_details GEOMETRY_RENDER_EVENT geometry
            (fst translation) (snd translation) textureHandle) s)"

definition ReleaseGeometry ::
  "RenderInterface_WebGPU \<Rightarrow> address \<Rightarrow> render_state \<Rightarrow> rml_fault + render_state" where
  "ReleaseGeometry r geometryHandle s =
     (case geometries s geometryHandle of
        None \<Rightarrow> Inl Undefined_behavior
      | Some geometry \<Rightarrow>
          push_render_event r (Geometry_release_details GEOMETRY_RELEASE_EVENT geometry) s)"

definition EnableScissorRegion ::
  "RenderInterface_WebGPU \<Rightarrow> bool \<Rightarrow> render_state \<Rightarrow> rml_fault + render_state" where
  "EnableScissorRegion r enabledFlag =
     push_render_event r (Scissortest_status_details SCISSORTEST_STATUS_EVENT enabledFlag)"

definition SetScissorRegion ::
  "RenderInterface_WebGPU \<Rightarrow> int \<Rightarrow> int \<Rightarrow> int \<Rightarrow> int \<Rightarrow> render_state \<Rightarrow> rml_fault + render_state" where
  "SetScissorRegion r x y width height =
     push_render_event r (Scissortest_region_details SCISSORTEST_REGION_EVENT x y width height)"

text \<open>The result is the texture handle (0 when the image could not be loaded) and the size.\<close>

definition LoadTexture ::
  "gpu_env \<Rightarrow> RenderInterface_WebGPU \<Rightarrow> string \<Rightarrow> render_state \<Rightarrow>
   rml_fault + (address \<times> (int \<times> int) option \<times> render_state)" where
  "LoadTexture env r source s =
     (case load_image env source of
        None \<Rightarrow> Inr (0, None, s)
      | Some (rgbaImageBytes, x, y) \<Rightarrow>
          (case CreateTexture env rgbaImageBytes (word_of_int x) (word_of_int y) s of
             Inl e \<Rightarrow> Inl e
           | Inr (wgpuTexture, s1) \<Rightarrow>
               (case push_render_event r (Texture_load_details TEXTURE_LOAD_EVENT wgpuTexture) s1 of
                  Inl e \<Rightarrow> Inl e
                | Inr s2 \<Rightarrow> Inr (wgpuTexture, Some (x, y), s2))))"

definition GenerateTexture ::
  "gpu_env \<Rightarrow> RenderInterface_WebGPU \<Rightarrow> byte list \<Rightarrow> int \<Rightarrow> int \<Rightarrow> render_state \<Rightarrow>
   rml_fault + (address \<times> render_state)" where
  "GenerateTexture env r rgbaImageBytes x y s =
     (case CreateTexture env rgbaImageBytes (word_of_int x) (word_of_int y) s of
        Inl e \<Rightarrow> Inl e
      | Inr (wgpuTexture, s1) \<Rightarrow>
          (case push_render_event r (Texture_generation_details TEXTURE_GENERATION_EVENT wgpuTexture) s1 of
             Inl e \<Rightarrow> Inl e
           | Inr s2 \<Rightarrow> Inr (wgpuTexture, s2)))"

definition ReleaseTexture ::
  "RenderInterface_WebGPU \<Rightarrow> address \<Rightarrow> render_state \<Rightarrow> rml_fault + render_state" where
  "ReleaseTexture r textureHandle =
     push_render_event r (Texture_release_details TEXTURE_RELEASE_EVENT textureHandle)"

text \<open>\<open>Rml::Matrix4f::Identity()\<close>; 1.0f has the bit pattern \<open>0x3F800000\<close>.\<close>

definition identity_matrix :: "c_float list" where
  "identity_matrix = (let u = 0x3F800000 in
     [u, 0, 0, 0,  0, u, 0, 0,  0, 0, u, 0,  0, 0, 0, u])"

text \<open>The elements of the matrix that are copied to \<open>x1\<close> to \<open>w4\<close>, in this order.\<close>

definition transform_indices :: "nat list" where
  "transform_indices = [0, 1, 2, 4, 5, 6, 7, 8, 9, 10, 11, 12, 13, 14, 15, 16]"

fun read_all :: "'a list \<Rightarrow> nat list \<Rightarrow> 'a list option" where
  "read_all xs [] = Some []"
| "read_all xs (i # is) =
     (if i < length xs then map_option (Cons (xs ! i)) (read_all xs is) else None)"

definition SetTransform ::
  "RenderInterface_WebGPU \<Rightarrow> c_float list option \<Rightarrow> render_state \<Rightarrow> rml_fault + render_state" where
  "SetTransform r matrix s =
     (let transform = (case matrix of None \<Rightarrow> identity_matrix | Some t \<Rightarrow> t) in
      case read_all transform transform_indices of
        None \<Rightarrow> Inl Undefined_behavior
      | Some xs \<Rightarrow>
          push_render_event r (Transformation_update_details TRANSFORMATION_UPDATE_EVENT xs) s)"

section \<open>Lemmas\<close>

lemma unat_pad:
  assumes "unat n + 3 < 2 ^ 64"
  shows "unat (GetAlignedBufferSize n) = unat n + (4 - unat n mod 4) mod 4"
proof -
  let ?m = "unat n mod 4"
  have m: "unat (n mod 4) = ?m" by (simp add: unat_mod)
  have l: "?m < 4" by simp
  have "unat (4 - n mod 4) = 4 - ?m"
    using l m by (subst unat_sub) (simp_all add: word_le_nat_alt)
  then have p: "unat ((4 - n mod 4) mod 4) = (4 - ?m) mod 4" by (simp add: unat_mod)
  have "(4 - ?m) mod 4 \<le> 3" using mod_less_divisor [of 4 "4 - ?m"] by linarith
  then have "unat n + (4 - ?m) mod 4 < 2 ^ 64" using assms by linarith
  moreover have "unat (GetAlignedBufferSize n) = (unat n + (4 - ?m) mod 4) mod 2 ^ 64"
    unfolding GetAlignedBufferSize_def Let_def p [symmetric] unat_word_ariths by simp
  ultimately show ?thesis by simp
qed

lemma pad4:
  fixes n p :: nat
  assumes "p = n + (4 - n mod 4) mod 4"
  shows "p mod 4 = 0" "n \<le> p" "n \<le> k \<Longrightarrow> k mod 4 = 0 \<Longrightarrow> p \<le> k"
proof -
  obtain q r where qr: "n = q * 4 + r" "r < 4"
    using div_mult_mod_eq [of n 4] mod_less_divisor [of 4 n] by (metis zero_less_numeral)
  then have r: "n mod 4 = r" by simp
  have "(4 - r) mod 4 = (if r = 0 then 0 else 4 - r)" using qr(2) by simp
  then have p: "p = (if r = 0 then q * 4 else (q + 1) * 4)"
    using assms qr unfolding r by simp
  show "p mod 4 = 0" by (simp add: p)
  show "n \<le> p" using qr by (simp add: p)
  assume k: "n \<le> k" "k mod 4 = 0"
  then obtain j where j: "k = j * 4" using div_mult_mod_eq [of k 4] by (metis add_0_right)
  show "p \<le> k"
  proof (cases "r = 0")
    case False
    then have "q * 4 < j * 4" using k(1) qr(1) j by linarith
    then have "(q + 1) * 4 \<le> j * 4" by (intro mult_le_mono1) simp
    then show ?thesis using False p j by simp
  qed (use k qr j p in simp)
qed

lemma push_render_event_live:
  "live_queue (m_eventQueue r) (event_queues s) \<Longrightarrow>
   push_render_event r e s = Inr (s\<lparr>event_queues := (event_queues s)(m_eventQueue r \<mapsto>
      heap_contents (m_eventQueue r) (event_queues s) @ [e])\<rparr>)"
  by (simp add: push_render_event_def heap_push_live)

lemma size_to_int_small: "n < 2 ^ 31 \<Longrightarrow> size_to_int n = int n"
  by (simp add: size_to_int_def signed_take_bit_int_eq_self)

text \<open>A copy of all elements stays inside them as long as their number fits an \<open>int\<close>.\<close>

lemma copy_within:
  assumes "n < 2 ^ 31"
  shows "unat (word_of_int (size_to_int n) * k :: u64) \<le> n * unat k"
proof -
  have "unat (of_nat n * k :: u64) \<le> unat (of_nat n :: u64) * unat k"
    by (simp only: unat_word_ariths mod_less_eq_dividend)
  also have "\<dots> = n * unat k" using assms by (simp add: unsigned_of_nat take_bit_nat_eq_self)
  finally show ?thesis using assms by (simp add: size_to_int_small)
qed

lemma CreateVertexBuffer_small:
  "length vertices < 2 ^ 31 \<Longrightarrow> \<exists>b s'. CreateVertexBuffer env vertices (size_to_int (length vertices)) s = Inr (b, s')"
  using copy_within [of "length vertices" "sizeof_vertex env"] by (simp add: CreateVertexBuffer_def Let_def)

lemma CreateIndexBuffer_small:
  "length indices < 2 ^ 31 \<Longrightarrow> \<exists>b s'. CreateIndexBuffer env indices (size_to_int (length indices)) s = Inr (b, s')"
  using copy_within [of "length indices" 4] by (simp add: CreateIndexBuffer_def Let_def)

section \<open>Properties\<close>

text \<open>
  Buffer sizes are aligned as WebGPU requires: up to the last three sizes of the 64-bit
  range the padded size is the least multiple of four that is not below the requested size.
\<close>

theorem GetAlignedBufferSize_correct:
  assumes "unat n + 3 < 2 ^ 64"
  shows "unat (GetAlignedBufferSize n) mod 4 = 0 \<and> n \<le> GetAlignedBufferSize n
     \<and> (\<forall>k. unat n \<le> k \<longrightarrow> k mod 4 = 0 \<longrightarrow> unat (GetAlignedBufferSize n) \<le> k)"
  using pad4 [OF unat_pad [OF assms]] by (simp add: word_le_nat_alt)

theorem GetAlignedBufferSize_correct_witness:
  "unat (GetAlignedBufferSize 5) mod 4 = 0 \<and> 5 \<le> GetAlignedBufferSize 5 \<and> unat (GetAlignedBufferSize 5) \<le> 8"
  using GetAlignedBufferSize_correct [of 5] by simp

text \<open>
  Compiling non-empty geometry never fails on a live queue: it creates one vertex and one
  index buffer, writes each at most at its aligned size, stores the geometry under the returned
  handle and announces exactly one well-tagged event that carries it.
\<close>

theorem CompileGeometry_correct:
  assumes "live_queue (m_eventQueue r) (event_queues s)" "vertices \<noteq> []" "indices \<noteq> []"
    and "length vertices < 2 ^ 31" "length indices < 2 ^ 31"
  shows "\<exists>g s'. CompileGeometry env a r vertices indices s = Inr (a, s')
     \<and> geometries s' = (geometries s)(a \<mapsto> g)
     \<and> num_vertices g = int (length vertices) \<and> num_indices g = int (length indices)
     \<and> event_queues s' = (event_queues s)(m_eventQueue r \<mapsto> heap_contents (m_eventQueue r) (event_queues s)
          @ [Geometry_compilation_details GEOMETRY_COMPILATION_EVENT g])
     \<and> gpu_calls s' = gpu_calls s
          @ [Create_buffer_vertex (GetAlignedBufferSize (of_nat (length vertices) * sizeof_vertex env)),
             Write_buffer (vertex_buffer g) (of_nat (length vertices) * sizeof_vertex env),
             Create_buffer_index (GetAlignedBufferSize (of_nat (length indices) * 4)),
             Write_buffer (index_buffer g) (of_nat (length indices) * 4)]"
proof -
  have i: "size_to_int (length vertices) = int (length vertices)"
    "size_to_int (length indices) = int (length indices)" using assms(4,5) by (simp_all add: size_to_int_small)
  have c: "unat (word_of_nat (length vertices) * sizeof_vertex env) \<le> length vertices * unat (sizeof_vertex env)"
    "unat (word_of_nat (length indices) * 4 :: u64) \<le> length indices * 4"
    using copy_within [OF assms(4), of "sizeof_vertex env"] copy_within [OF assms(5), of 4] i by simp_all
  show ?thesis
    using assms(1-3) c
    by (simp add: CompileGeometry_def CreateVertexBuffer_def CreateIndexBuffer_def Let_def i
        push_render_event_live) (rule exI, rule conjI, rule refl, simp)
qed

theorem CompileGeometry_correct_witness:
  "\<exists>g s'. CompileGeometry \<lparr>new_buffer = length, new_texture = length, sizeof_vertex = 20, load_image = Map.empty\<rparr>
      77 \<lparr>m_wgpuDevice = 1, m_eventQueue = 8\<rparr> [(), (), ()] [0, 1, 2]
      \<lparr>event_queues = [8 \<mapsto> []], geometries = Map.empty, gpu_calls = []\<rparr> = Inr (77, s')
    \<and> geometries s' = [77 \<mapsto> g]"
  using CompileGeometry_correct [of "\<lparr>m_wgpuDevice = 1, m_eventQueue = 8\<rparr>"
      "\<lparr>event_queues = [8 \<mapsto> []], geometries = Map.empty, gpu_calls = []\<rparr>" "[(), (), ()]" "[0, 1, 2]"
      "\<lparr>new_buffer = length, new_texture = length, sizeof_vertex = 20, load_image = Map.empty\<rparr>" 77]
  by (auto simp: live_queue_def)

text \<open>
  From two to the 31 vertices on, the number becomes negative when it is narrowed to \<open>int\<close>, and the
  size it is widened to makes the upload read outside the vertices.
\<close>

theorem CompileGeometry_too_many:
  assumes "2 ^ 31 \<le> length vertices" "length vertices < 2 ^ 32" "indices \<noteq> []"
    and "0 < unat (sizeof_vertex env)" "unat (sizeof_vertex env) < 2 ^ 31"
  shows "CompileGeometry env a r vertices indices s = Inl Undefined_behavior"
proof -
  define l where "l = int (length vertices)"
  define k where "k = uint (sizeof_vertex env)"
  have l: "2 ^ 31 \<le> l" "l < 2 ^ 32" unfolding l_def using assms(1,2) by simp_all
  define j where "j = unat (sizeof_vertex env)"
  have kj: "k = int j" by (simp add: k_def j_def)
  have k: "0 < k" "k < 2 ^ 31" using assms(4,5) by (simp_all add: kj flip: j_def)
  have n: "size_to_int (length vertices) = l - 2 ^ 32"
  proof -
    have "(l + 2 ^ 31) mod 2 ^ 32 = (l + 2 ^ 31 - 2 ^ 32) mod 2 ^ 32" by (simp only: minus_mod_self2)
    also have "\<dots> = l + 2 ^ 31 - 2 ^ 32" using l by (intro mod_pos_pos_trivial) simp_all
    finally show ?thesis by (simp add: size_to_int_def signed_take_bit_eq_take_bit_shift l_def [symmetric] take_bit_eq_mod)
  qed
  have m: "(2 ^ 32 - l) * k \<le> 2 ^ 31 * 2 ^ 31" using l k by (intro mult_mono) auto
  have "uint (word_of_int z * w) = (z * uint w) mod 2 ^ 64" for z and w :: u64
    by (simp add: uint_word_ariths unsigned_of_int take_bit_eq_mod mod_mult_left_eq)
  then have "uint (word_of_int (l - 2 ^ 32) * sizeof_vertex env) = ((l - 2 ^ 32) * k) mod 2 ^ 64"
    unfolding k_def .
  also have "\<dots> = ((l - 2 ^ 32) * k + 2 ^ 64) mod 2 ^ 64" by simp
  also have "\<dots> = (l - 2 ^ 32) * k + 2 ^ 64"
    using m l k by (intro mod_pos_pos_trivial) (auto simp: algebra_simps)
  finally have u: "uint (word_of_int (l - 2 ^ 32) * sizeof_vertex env) = l * k + (2 ^ 64 - 2 ^ 32 * k)"
    by (simp add: algebra_simps)
  have "l * k < uint (word_of_int (l - 2 ^ 32) * sizeof_vertex env)" unfolding u using k by simp
  moreover have int_size: "int (length vertices * unat (sizeof_vertex env)) = l * k"
    by (simp add: l_def k_def)
  moreover have "int (unat w) = uint w" for w :: u64 by simp
  ultimately have "\<not> unat (word_of_int (l - 2 ^ 32) * sizeof_vertex env) \<le> length vertices * unat (sizeof_vertex env)"
    by (metis of_nat_le_iff not_less)
  then show ?thesis using assms(1,3) n
    by (auto simp: CompileGeometry_def CreateVertexBuffer_def Let_def)
qed

text \<open>
  Releasing compiled geometry only announces it: the object that \<open>CompileGeometry\<close> allocated
  stays on the heap, and the event carries a copy without its address.
\<close>

theorem ReleaseGeometry_keeps_object:
  assumes "live_queue (m_eventQueue r) (event_queues s)" "geometries s a = Some g"
  shows "\<exists>s'. ReleaseGeometry r a s = Inr s' \<and> geometries s' = geometries s
     \<and> heap_contents (m_eventQueue r) (event_queues s') = heap_contents (m_eventQueue r) (event_queues s)
          @ [Geometry_release_details GEOMETRY_RELEASE_EVENT g]"
  using assms by (simp add: ReleaseGeometry_def push_render_event_live)

theorem ReleaseGeometry_keeps_object_witness:
  "\<exists>s'. ReleaseGeometry \<lparr>m_wgpuDevice = 1, m_eventQueue = 8\<rparr> 77 \<lparr>event_queues = [8 \<mapsto> []], geometries = [77 \<mapsto>
        \<lparr>vertex_buffer = 1, num_vertices = 3, index_buffer = 2, num_indices = 3\<rparr>], gpu_calls = []\<rparr> = Inr s'
     \<and> geometries s' 77 \<noteq> None"
  using ReleaseGeometry_keeps_object [of "\<lparr>m_wgpuDevice = 1, m_eventQueue = 8\<rparr>" "\<lparr>event_queues = [8 \<mapsto> []],
      geometries = [77 \<mapsto> \<lparr>vertex_buffer = 1, num_vertices = 3, index_buffer = 2, num_indices = 3\<rparr>], gpu_calls = []\<rparr>" 77]
  by (auto simp: live_queue_def)

text \<open>
  \<open>SetTransform\<close> always reads outside the matrix: element 3 is skipped and element 16 of the
  sixteen is read, also for the identity that replaces a null matrix.
\<close>

theorem SetTransform_out_of_bounds:
  assumes "case matrix of None \<Rightarrow> True | Some t \<Rightarrow> length t = 16"
  shows "SetTransform r matrix s = Inl Undefined_behavior"
proof -
  have "read_all t transform_indices = None" if "length t = 16" for t :: "c_float list"
    using that by (simp add: transform_indices_def)
  moreover have "length identity_matrix = 16" by (simp add: identity_matrix_def Let_def)
  ultimately show ?thesis using assms by (simp add: SetTransform_def Let_def split: option.splits)
qed

theorem SetTransform_out_of_bounds_witness:
  "SetTransform \<lparr>m_wgpuDevice = 1, m_eventQueue = 8\<rparr> (Some (replicate 16 0))
     \<lparr>event_queues = [8 \<mapsto> []], geometries = Map.empty, gpu_calls = []\<rparr> = Inl Undefined_behavior"
  by (rule SetTransform_out_of_bounds) simp

text \<open>
  Texture uploads are sized right: for an image with at least four bytes per pixel the whole
  picture is uploaded with \<open>4 * width\<close> bytes per row as long as the row size fits 32 bits, and the
  size does not wrap in 64 bits.
\<close>

theorem GenerateTexture_correct:
  assumes "live_queue (m_eventQueue r) (event_queues s)" "0 \<le> x" "x < 2 ^ 30" "0 \<le> y" "y < 2 ^ 31"
    and "nat (x * y * 4) \<le> length bytes"
  shows "\<exists>t s' n. GenerateTexture env r bytes x y s = Inr (t, s')
     \<and> gpu_calls s' = gpu_calls s @ [Create_texture (word_of_int x) (word_of_int y),
          Write_texture t n (word_of_int (4 * x)) (word_of_int y) (word_of_int x) (word_of_int y)]
     \<and> uint n = x * y * 4
     \<and> event_queues s' = (event_queues s)(m_eventQueue r \<mapsto> heap_contents (m_eventQueue r) (event_queues s)
          @ [Texture_generation_details TEXTURE_GENERATION_EVENT t])"
proof -
  let ?n = "(ucast (word_of_int x :: u32) :: u64) * ucast (word_of_int y :: u32) * 4"
  have u: "uint (ucast (word_of_int i :: u32) :: u64) = i" if "0 \<le> i" "i < 2 ^ 32" for i
    using that by (simp add: unsigned_ucast_eq unsigned_of_int take_bit_int_eq_self)
  have ux: "uint (ucast (word_of_int x :: u32) :: u64) = x" "uint (ucast (word_of_int y :: u32) :: u64) = y"
    using assms(2-5) by (auto intro!: u)
  have "x * y \<le> 2 ^ 30 * 2 ^ 31" using assms(2-5) by (intro mult_mono) auto
  then have b: "x * y * 4 < 2 ^ 64" "x * y < 2 ^ 64" "0 \<le> x * y" using assms(2-5) by auto
  have n: "uint ?n = x * y * 4"
    using b by (simp add: uint_word_ariths ux)
  have "unat ?n = nat (x * y * 4)" using n by (metis unat_eq_nat_uint)
  then have "unat ?n \<le> length bytes" using assms(6) by simp
  moreover have "4 * (word_of_int x :: u32) = word_of_int (4 * x)" by simp
  ultimately show ?thesis
    using assms(1) n by (simp add: GenerateTexture_def CreateTexture_def Let_def push_render_event_live)
qed

theorem GenerateTexture_correct_witness:
  "\<exists>t s'. GenerateTexture \<lparr>new_buffer = length, new_texture = length, sizeof_vertex = 20, load_image = Map.empty\<rparr>
      \<lparr>m_wgpuDevice = 1, m_eventQueue = 8\<rparr> (replicate 16 0) 2 2
      \<lparr>event_queues = [8 \<mapsto> []], geometries = Map.empty, gpu_calls = []\<rparr> = Inr (t, s')"
  using GenerateTexture_correct [of "\<lparr>m_wgpuDevice = 1, m_eventQueue = 8\<rparr>"
      "\<lparr>event_queues = [8 \<mapsto> []], geometries = Map.empty, gpu_calls = []\<rparr>" 2 2 "replicate 16 0"
      "\<lparr>new_buffer = length, new_texture = length, sizeof_vertex = 20, load_image = Map.empty\<rparr>"]
  by (auto simp: live_queue_def)

end
