(* ===== verification/Lua_State.thy ===== *)
theory Lua_State
  imports Prelude
begin

text \<open>
  The part of the Lua C API that the runtime uses, as the Lua 5.1 reference manual documents it:
  a stack of values (top first), tables on a heap, the table of globals and the registry. An
  operation that would raise a Lua error outside a protected call (indexing a value that is not
  a table, an index outside the stack) returns \<open>None\<close>; metatables are not modelled, the runtime
  accesses only plain tables through these calls.
\<close>

datatype lua_value =
    LNil
  | LBool bool
  | LInteger int
  | LString string
  | LTable nat
  | LFunction nat
  | LCFunction nat
  | LLightUserdata nat

datatype lua_key = KField string | KIndex int

record lua_state =
  lstack :: "lua_value list"
  ltables :: "nat \<Rightarrow> lua_key \<Rightarrow> lua_value"
  lnext :: nat
  lglobals :: nat
  lregistry :: nat

abbreviation upd_table :: "nat \<Rightarrow> lua_key \<Rightarrow> lua_value \<Rightarrow> lua_state \<Rightarrow> lua_state" where
  "upd_table t k v L \<equiv> L\<lparr>ltables := (ltables L)(t := (ltables L t)(k := v))\<rparr>"

definition lua_pushv :: "lua_value \<Rightarrow> lua_state \<Rightarrow> lua_state" where
  "lua_pushv v L = L\<lparr>lstack := v # lstack L\<rparr>"

definition lua_gettop :: "lua_state \<Rightarrow> nat" where
  "lua_gettop L = length (lstack L)"

text \<open>A relative index \<open>-n\<close> is the \<open>n\<close>-th value from the top.\<close>

definition lua_at :: "nat \<Rightarrow> lua_state \<Rightarrow> lua_value option" where
  "lua_at n L = (if 0 < n \<and> n \<le> length (lstack L) then Some (lstack L ! (n - 1)) else None)"

definition lua_getfield_of :: "lua_value \<Rightarrow> string \<Rightarrow> lua_state \<Rightarrow> lua_state option" where
  "lua_getfield_of v k L =
     (case v of LTable t \<Rightarrow> Some (lua_pushv (ltables L t (KField k)) L) | _ \<Rightarrow> None)"

definition lua_getfield :: "nat \<Rightarrow> string \<Rightarrow> lua_state \<Rightarrow> lua_state option" where
  "lua_getfield n k L = (case lua_at n L of None \<Rightarrow> None | Some v \<Rightarrow> lua_getfield_of v k L)"

text \<open>\<open>lua_setfield\<close> pops the value it stores; \<open>n\<close> counts before the pop.\<close>

definition lua_setkey_of :: "lua_value \<Rightarrow> lua_key \<Rightarrow> lua_state \<Rightarrow> lua_state option" where
  "lua_setkey_of v k L =
     (case (v, lstack L) of
        (LTable t, x # xs) \<Rightarrow> Some (upd_table t k x (L\<lparr>lstack := xs\<rparr>))
      | _ \<Rightarrow> None)"

definition lua_setfield :: "nat \<Rightarrow> string \<Rightarrow> lua_state \<Rightarrow> lua_state option" where
  "lua_setfield n k L = (case lua_at n L of None \<Rightarrow> None | Some v \<Rightarrow> lua_setkey_of v (KField k) L)"

definition lua_rawseti :: "nat \<Rightarrow> int \<Rightarrow> lua_state \<Rightarrow> lua_state option" where
  "lua_rawseti n i L = (case lua_at n L of None \<Rightarrow> None | Some v \<Rightarrow> lua_setkey_of v (KIndex i) L)"

definition lua_getglobal :: "string \<Rightarrow> lua_state \<Rightarrow> lua_state option" where
  "lua_getglobal k L = lua_getfield_of (LTable (lglobals L)) k L"

definition lua_setglobal :: "string \<Rightarrow> lua_state \<Rightarrow> lua_state option" where
  "lua_setglobal k L = lua_setkey_of (LTable (lglobals L)) (KField k) L"

definition lua_getregistry :: "string \<Rightarrow> lua_state \<Rightarrow> lua_state option" where
  "lua_getregistry k L = lua_getfield_of (LTable (lregistry L)) k L"

definition lua_setregistry :: "string \<Rightarrow> lua_state \<Rightarrow> lua_state option" where
  "lua_setregistry k L = lua_setkey_of (LTable (lregistry L)) (KField k) L"

definition lua_newtable :: "lua_state \<Rightarrow> lua_state" where
  "lua_newtable L =
     lua_pushv (LTable (lnext L)) (L\<lparr>ltables := (ltables L)(lnext L := (\<lambda>k. LNil)), lnext := lnext L + 1\<rparr>)"

definition lua_remove :: "nat \<Rightarrow> lua_state \<Rightarrow> lua_state option" where
  "lua_remove n L =
     (if 0 < n \<and> n \<le> length (lstack L)
      then Some (L\<lparr>lstack := take (n - 1) (lstack L) @ drop n (lstack L)\<rparr>) else None)"

definition lua_pop :: "nat \<Rightarrow> lua_state \<Rightarrow> lua_state option" where
  "lua_pop n L = (if n \<le> length (lstack L) then Some (L\<lparr>lstack := drop n (lstack L)\<rparr>) else None)"

definition lua_istable :: "lua_value \<Rightarrow> bool" where
  "lua_istable v = (case v of LTable t \<Rightarrow> True | _ \<Rightarrow> False)"

lemmas lua_api = lua_pushv_def lua_at_def lua_getfield_of_def lua_getfield_def lua_setkey_of_def
  lua_setfield_def lua_rawseti_def lua_getglobal_def lua_setglobal_def lua_getregistry_def
  lua_setregistry_def lua_newtable_def lua_remove_def lua_pop_def lua_istable_def

end
