(* ===== verification/Rml_Bindings.thy ===== *)
theory Rml_Bindings
  imports Rml_Renderer Lua_State "HOL-Library.Monad_Syntax"
begin

text \<open>
  The C interface of the RmlUi bindings, \<open>Runtime/Bindings/FFI/rml/rml_ffi.cpp\<close>. The calls into
  RmlUi are recorded in order in \<open>rml_calls\<close>; what they return is taken from the record \<open>rml_lib\<close>
  as a function of that history. Pointers are addresses, 0 is null. The objects the bindings
  allocate themselves live in the state; deleting an address that is neither null nor alive is
  undefined (\<open>None\<close>). A \<open>const char*\<close> is the string behind it, or \<open>None\<close> for null.
\<close>

datatype rml_call =
    Rml_Initialise
  | Rml_Lua_Initialise
  | Rml_Shutdown
  | Rml_SetSystemInterface address
  | Rml_SetRenderInterface address
  | Rml_GetFontEngineInterface
  | Rml_LoadFontFace string bool
  | Rml_CreateContext string "16 word" "16 word"
  | Context_LoadDocument address string
  | Document_Show address
  | Context_Update address
  | Context_Render address
  | Rml_RemoveContext string
  | ProcessKeyCallback address int int int
  | ProcessCharCallback address u32
  | ProcessCursorEnterCallback address int
  | ProcessCursorPosCallback address address c_double c_double int
  | ProcessMouseButtonCallback address int int int
  | ProcessScrollCallback address c_double int
  | ProcessFramebufferSizeCallback address int int
  | ProcessContentScaleCallback address c_float

text \<open>\<open>lua_initialise\<close> is what \<open>Rml::Lua::Initialise\<close> does to the Lua state.\<close>

record rml_lib =
  bool_result :: "rml_call list \<Rightarrow> bool"
  pointer_result :: "rml_call list \<Rightarrow> address"
  lua_initialise :: "lua_state \<Rightarrow> lua_state"

record rml_state =
  rml_calls :: "rml_call list"
  assignedLuaState :: lua_state
  system_interfaces :: "address list"
  render_interfaces :: "address \<rightharpoonup> RenderInterface_WebGPU"
  geometry_objects :: "address \<rightharpoonup> rml_geometry_info"

definition call_rml :: "rml_call \<Rightarrow> rml_state \<Rightarrow> rml_state" where
  "call_rml c s = s\<lparr>rml_calls := rml_calls s @ [c]\<rparr>"

definition call_bool :: "rml_lib \<Rightarrow> rml_call \<Rightarrow> rml_state \<Rightarrow> bool \<times> rml_state" where
  "call_bool lib c s = (let s' = call_rml c s in (bool_result lib (rml_calls s'), s'))"

definition call_pointer :: "rml_lib \<Rightarrow> rml_call \<Rightarrow> rml_state \<Rightarrow> address \<times> rml_state" where
  "call_pointer lib c s = (let s' = call_rml c s in (pointer_result lib (rml_calls s'), s'))"

section \<open>Initialisation\<close>

definition rml_initialise :: "rml_lib \<Rightarrow> rml_state \<Rightarrow> (bool \<times> rml_state) option" where
  "rml_initialise lib s =
     (let (success, s1) = call_bool lib Rml_Initialise s in
      do { L1 \<leftarrow> lua_getglobal ''print'' (assignedLuaState s1);
           L2 \<leftarrow> lua_setregistry ''original_print'' L1;
           let s2 = call_rml Rml_Lua_Initialise s1;
           let L3 = lua_initialise lib L2;
           L4 \<leftarrow> lua_getregistry ''original_print'' L3;
           L5 \<leftarrow> lua_setglobal ''print'' L4;
           L6 \<leftarrow> lua_setregistry ''original_print'' (lua_pushv LNil L5);
           Some (success, s2\<lparr>assignedLuaState := L6\<rparr>) })"

definition rml_shutdown :: "rml_state \<Rightarrow> rml_state" where
  "rml_shutdown s = call_rml Rml_Shutdown s"

section \<open>Interfaces and geometry\<close>

text \<open>\<open>a\<close> is the address \<open>new\<close> returns.\<close>

definition rml_create_glfw_system_interface :: "address \<Rightarrow> rml_state \<Rightarrow> address \<times> rml_state" where
  "rml_create_glfw_system_interface a s = (a, s\<lparr>system_interfaces := a # system_interfaces s\<rparr>)"

definition rml_destroy_glfw_system_interface :: "address \<Rightarrow> rml_state \<Rightarrow> rml_state option" where
  "rml_destroy_glfw_system_interface p s =
     (if p = 0 then Some s
      else if p \<in> set (system_interfaces s) then Some (s\<lparr>system_interfaces := removeAll p (system_interfaces s)\<rparr>)
      else None)"

definition rml_set_system_interface :: "address \<Rightarrow> rml_state \<Rightarrow> rml_state" where
  "rml_set_system_interface p s = (if p = 0 then s else call_rml (Rml_SetSystemInterface p) s)"

definition rml_create_wgpu_render_interface :: "address \<Rightarrow> address \<Rightarrow> address \<Rightarrow> rml_state \<Rightarrow> address \<times> rml_state" where
  "rml_create_wgpu_render_interface a wgpuDevice queue s =
     (if wgpuDevice = 0 then (0, s)
      else if queue = 0 then (0, s)
      else (a, s\<lparr>render_interfaces := (render_interfaces s)(a \<mapsto> \<lparr>m_wgpuDevice = wgpuDevice, m_eventQueue = queue\<rparr>)\<rparr>))"

definition rml_destroy_wgpu_render_interface :: "address \<Rightarrow> rml_state \<Rightarrow> rml_state option" where
  "rml_destroy_wgpu_render_interface p s =
     (if p = 0 then Some s
      else if render_interfaces s p = None then None
      else Some (s\<lparr>render_interfaces := (render_interfaces s)(p := None)\<rparr>))"

definition rml_set_render_interface :: "address \<Rightarrow> rml_state \<Rightarrow> rml_state" where
  "rml_set_render_interface p s = (if p = 0 then s else call_rml (Rml_SetRenderInterface p) s)"

definition rml_release_compiled_geometry :: "address \<Rightarrow> rml_state \<Rightarrow> rml_state option" where
  "rml_release_compiled_geometry p s =
     (if p = 0 then Some s
      else if geometry_objects s p = None then None
      else Some (s\<lparr>geometry_objects := (geometry_objects s)(p := None)\<rparr>))"

section \<open>Fonts, contexts and documents\<close>

definition rml_load_font_face :: "rml_lib \<Rightarrow> string option \<Rightarrow> bool \<Rightarrow> rml_state \<Rightarrow> bool \<times> rml_state" where
  "rml_load_font_face lib file_path is_fallback_face s =
     (let (engine, s1) = call_bool lib Rml_GetFontEngineInterface s in
      if \<not> engine then (False, s1)
      else case file_path of
             None \<Rightarrow> (False, s1)
           | Some path \<Rightarrow> call_bool lib (Rml_LoadFontFace path is_fallback_face) s1)"

definition rml_context_create ::
  "rml_lib \<Rightarrow> string option \<Rightarrow> 16 word \<Rightarrow> 16 word \<Rightarrow> rml_state \<Rightarrow> address \<times> rml_state" where
  "rml_context_create lib nm width height s =
     (case nm of None \<Rightarrow> (0, s) | Some n \<Rightarrow> call_pointer lib (Rml_CreateContext n width height) s)"

definition rml_context_load_document :: "rml_lib \<Rightarrow> address \<Rightarrow> string option \<Rightarrow> rml_state \<Rightarrow> address \<times> rml_state" where
  "rml_context_load_document lib context_pointer file_path s =
     (if context_pointer = 0 then (0, s)
      else case file_path of
             None \<Rightarrow> (0, s)
           | Some path \<Rightarrow> call_pointer lib (Context_LoadDocument context_pointer path) s)"

definition rml_document_show :: "address \<Rightarrow> rml_state \<Rightarrow> rml_state" where
  "rml_document_show document s = (if document = 0 then s else call_rml (Document_Show document) s)"

definition rml_context_update :: "address \<Rightarrow> rml_state \<Rightarrow> rml_state" where
  "rml_context_update context_pointer s =
     (if context_pointer = 0 then s else call_rml (Context_Update context_pointer) s)"

definition rml_context_render :: "address \<Rightarrow> rml_state \<Rightarrow> rml_state" where
  "rml_context_render context_pointer s =
     (if context_pointer = 0 then s else call_rml (Context_Render context_pointer) s)"

definition rml_context_remove :: "string option \<Rightarrow> rml_state \<Rightarrow> rml_state" where
  "rml_context_remove nm s = (case nm of None \<Rightarrow> s | Some n \<Rightarrow> call_rml (Rml_RemoveContext n) s)"

section \<open>Input\<close>

text \<open>The result \<open>true\<close> means that the event was not consumed.\<close>

definition rml_process_key_callback ::
  "rml_lib \<Rightarrow> address \<Rightarrow> int \<Rightarrow> int \<Rightarrow> int \<Rightarrow> rml_state \<Rightarrow> bool \<times> rml_state" where
  "rml_process_key_callback lib context_pointer key action mods s =
     (if context_pointer = 0 then (True, s) else call_bool lib (ProcessKeyCallback context_pointer key action mods) s)"

definition rml_process_char_callback ::
  "rml_lib \<Rightarrow> address \<Rightarrow> u32 \<Rightarrow> rml_state \<Rightarrow> bool \<times> rml_state" where
  "rml_process_char_callback lib context_pointer codepoint s =
     (if context_pointer = 0 then (True, s) else call_bool lib (ProcessCharCallback context_pointer codepoint) s)"

definition rml_process_cursor_enter_callback ::
  "rml_lib \<Rightarrow> address \<Rightarrow> int \<Rightarrow> rml_state \<Rightarrow> bool \<times> rml_state" where
  "rml_process_cursor_enter_callback lib context_pointer entered s =
     (if context_pointer = 0 then (True, s) else call_bool lib (ProcessCursorEnterCallback context_pointer entered) s)"

definition rml_process_cursor_pos_callback ::
  "rml_lib \<Rightarrow> address \<Rightarrow> address \<Rightarrow> c_double \<Rightarrow> c_double \<Rightarrow> int \<Rightarrow> rml_state \<Rightarrow> bool \<times> rml_state" where
  "rml_process_cursor_pos_callback lib context_pointer window xpos ypos mods s =
     (if context_pointer = 0 then (True, s) else call_bool lib (ProcessCursorPosCallback context_pointer window xpos ypos mods) s)"

definition rml_process_mouse_button_callback ::
  "rml_lib \<Rightarrow> address \<Rightarrow> int \<Rightarrow> int \<Rightarrow> int \<Rightarrow> rml_state \<Rightarrow> bool \<times> rml_state" where
  "rml_process_mouse_button_callback lib context_pointer button action mods s =
     (if context_pointer = 0 then (True, s) else call_bool lib (ProcessMouseButtonCallback context_pointer button action mods) s)"

definition rml_process_scroll_callback ::
  "rml_lib \<Rightarrow> address \<Rightarrow> c_double \<Rightarrow> int \<Rightarrow> rml_state \<Rightarrow> bool \<times> rml_state" where
  "rml_process_scroll_callback lib context_pointer yoffset mods s =
     (if context_pointer = 0 then (True, s) else call_bool lib (ProcessScrollCallback context_pointer yoffset mods) s)"

definition rml_process_framebuffer_size_callback ::
  "address \<Rightarrow> int \<Rightarrow> int \<Rightarrow> rml_state \<Rightarrow> rml_state" where
  "rml_process_framebuffer_size_callback context_pointer width height s =
     (if context_pointer = 0 then s else call_rml (ProcessFramebufferSizeCallback context_pointer width height) s)"

definition rml_process_content_scale_callback ::
  "address \<Rightarrow> c_float \<Rightarrow> rml_state \<Rightarrow> rml_state" where
  "rml_process_content_scale_callback context_pointer xscale s =
     (if context_pointer = 0 then s else call_rml (ProcessContentScaleCallback context_pointer xscale) s)"

section \<open>Calls as data\<close>

datatype rml_op =
    Op_initialise
  | Op_shutdown
  | Op_create_system address
  | Op_destroy_system address
  | Op_set_system address
  | Op_create_render address address address
  | Op_destroy_render address
  | Op_set_render address
  | Op_release_geometry address
  | Op_load_font "string option" bool
  | Op_context_create "string option" "16 word" "16 word"
  | Op_load_document address "string option"
  | Op_document_show address
  | Op_context_update address
  | Op_context_render address
  | Op_context_remove "string option"
  | Op_key address int int int
  | Op_char address u32
  | Op_cursor_enter address int
  | Op_cursor_pos address address c_double c_double int
  | Op_mouse_button address int int int
  | Op_scroll address c_double int
  | Op_framebuffer_size address int int
  | Op_content_scale address c_float

fun rml_perform :: "rml_lib \<Rightarrow> rml_op \<Rightarrow> rml_state \<Rightarrow> rml_state option" where
  "rml_perform lib Op_initialise s = map_option snd (rml_initialise lib s)"
| "rml_perform lib Op_shutdown s = Some (rml_shutdown s)"
| "rml_perform lib (Op_create_system a) s = Some (snd (rml_create_glfw_system_interface a s))"
| "rml_perform lib (Op_destroy_system p) s = rml_destroy_glfw_system_interface p s"
| "rml_perform lib (Op_set_system p) s = Some (rml_set_system_interface p s)"
| "rml_perform lib (Op_create_render a d q) s = Some (snd (rml_create_wgpu_render_interface a d q s))"
| "rml_perform lib (Op_destroy_render p) s = rml_destroy_wgpu_render_interface p s"
| "rml_perform lib (Op_set_render p) s = Some (rml_set_render_interface p s)"
| "rml_perform lib (Op_release_geometry p) s = rml_release_compiled_geometry p s"
| "rml_perform lib (Op_load_font f b) s = Some (snd (rml_load_font_face lib f b s))"
| "rml_perform lib (Op_context_create n w h) s = Some (snd (rml_context_create lib n w h s))"
| "rml_perform lib (Op_load_document c f) s = Some (snd (rml_context_load_document lib c f s))"
| "rml_perform lib (Op_document_show d) s = Some (rml_document_show d s)"
| "rml_perform lib (Op_context_update c) s = Some (rml_context_update c s)"
| "rml_perform lib (Op_context_render c) s = Some (rml_context_render c s)"
| "rml_perform lib (Op_context_remove n) s = Some (rml_context_remove n s)"
| "rml_perform lib (Op_key c k a m) s = Some (snd (rml_process_key_callback lib c k a m s))"
| "rml_perform lib (Op_char c u) s = Some (snd (rml_process_char_callback lib c u s))"
| "rml_perform lib (Op_cursor_enter c e) s = Some (snd (rml_process_cursor_enter_callback lib c e s))"
| "rml_perform lib (Op_cursor_pos c w x y m) s = Some (snd (rml_process_cursor_pos_callback lib c w x y m s))"
| "rml_perform lib (Op_mouse_button c b a m) s = Some (snd (rml_process_mouse_button_callback lib c b a m s))"
| "rml_perform lib (Op_scroll c y m) s = Some (snd (rml_process_scroll_callback lib c y m s))"
| "rml_perform lib (Op_framebuffer_size c w h) s = Some (rml_process_framebuffer_size_callback c w h s)"
| "rml_perform lib (Op_content_scale c x) s = Some (rml_process_content_scale_callback c x s)"

fun rml_run :: "rml_lib \<Rightarrow> rml_op list \<Rightarrow> rml_state \<Rightarrow> rml_state option" where
  "rml_run lib [] s = Some s"
| "rml_run lib (op # ops) s = (case rml_perform lib op s of None \<Rightarrow> None | Some s' \<Rightarrow> rml_run lib ops s')"

section \<open>Lemmas\<close>

text \<open>The object a call is made on or registers.\<close>

fun receiver :: "rml_call \<Rightarrow> address option" where
  "receiver (Rml_SetSystemInterface p) = Some p"
| "receiver (Rml_SetRenderInterface p) = Some p"
| "receiver (Context_LoadDocument p f) = Some p"
| "receiver (Document_Show p) = Some p"
| "receiver (Context_Update p) = Some p"
| "receiver (Context_Render p) = Some p"
| "receiver (ProcessKeyCallback p k a m) = Some p"
| "receiver (ProcessCharCallback p c) = Some p"
| "receiver (ProcessCursorEnterCallback p e) = Some p"
| "receiver (ProcessCursorPosCallback p w x y m) = Some p"
| "receiver (ProcessMouseButtonCallback p b a m) = Some p"
| "receiver (ProcessScrollCallback p y m) = Some p"
| "receiver (ProcessFramebufferSizeCallback p w h) = Some p"
| "receiver (ProcessContentScaleCallback p x) = Some p"
| "receiver c = None"

definition no_null_receiver :: "rml_call list \<Rightarrow> bool" where
  "no_null_receiver cs \<longleftrightarrow> (\<forall>c \<in> set cs. receiver c \<noteq> Some 0)"

lemmas rml_effects = call_rml_def call_bool_def call_pointer_def Let_def

lemmas rml_ops = rml_shutdown_def rml_create_glfw_system_interface_def rml_destroy_glfw_system_interface_def
  rml_set_system_interface_def rml_create_wgpu_render_interface_def rml_destroy_wgpu_render_interface_def
  rml_set_render_interface_def rml_release_compiled_geometry_def rml_load_font_face_def rml_context_create_def
  rml_context_load_document_def rml_document_show_def rml_context_update_def rml_context_render_def
  rml_context_remove_def rml_process_key_callback_def rml_process_char_callback_def
  rml_process_cursor_enter_callback_def rml_process_cursor_pos_callback_def rml_process_mouse_button_callback_def
  rml_process_scroll_callback_def rml_process_framebuffer_size_callback_def rml_process_content_scale_callback_def

lemma rml_initialise_calls:
  assumes "rml_initialise lib s = Some (b, s')"
  shows "rml_calls s' = rml_calls s @ [Rml_Initialise, Rml_Lua_Initialise]"
  using assms by (auto simp: rml_initialise_def rml_effects split: Option.bind_splits)

lemma no_null_receiver_snoc [simp]:
  "no_null_receiver (cs @ [c]) \<longleftrightarrow> no_null_receiver cs \<and> receiver c \<noteq> Some 0"
  "no_null_receiver (cs @ [c, d]) \<longleftrightarrow> no_null_receiver cs \<and> receiver c \<noteq> Some 0 \<and> receiver d \<noteq> Some 0"
  by (auto simp: no_null_receiver_def)

lemma rml_perform_receivers:
  "no_null_receiver (rml_calls s) \<Longrightarrow>
     pred_option (\<lambda>s'. no_null_receiver (rml_calls s')) (rml_perform lib op s)"
proof (cases op)
  case Op_initialise
  assume "no_null_receiver (rml_calls s)"
  then have "no_null_receiver (rml_calls s')" if "rml_initialise lib s = Some (b, s')" for b s'
    using rml_initialise_calls [OF that] by (auto simp: no_null_receiver_def)
  then show ?thesis using Op_initialise by (cases "rml_initialise lib s") auto
qed (simp_all add: rml_ops rml_effects split: option.split)

lemma rml_run_receivers:
  assumes "rml_run lib ops s = Some s'" "no_null_receiver (rml_calls s)"
  shows "no_null_receiver (rml_calls s')"
  using assms
proof (induction ops arbitrary: s)
  case (Cons op ops)
  then obtain s1 where "rml_perform lib op s = Some s1" "rml_run lib ops s1 = Some s'"
    by (auto split: option.splits)
  then show ?case using Cons.IH [of s1] rml_perform_receivers [OF Cons.prems(2), of lib op] by simp
qed simp

text \<open>
  What the bindings rely on in \<open>Rml::Lua::Initialise\<close>: it leaves the stack as it found it, works
  on the same globals and registry, and does not touch the registry entry of the bindings.
\<close>

definition lua_init_ok :: "(lua_state \<Rightarrow> lua_state) \<Rightarrow> bool" where
  "lua_init_ok f \<longleftrightarrow>
     (\<forall>L. lstack (f L) = lstack L \<and> lglobals (f L) = lglobals L \<and> lregistry (f L) = lregistry L
        \<and> ltables (f L) (lregistry L) (KField ''original_print'') = ltables L (lregistry L) (KField ''original_print''))"

section \<open>Properties\<close>

text \<open>
  Initialising RmlUi keeps the global \<open>print\<close>: whatever the library installs, afterwards
  \<open>print\<close> is the function it was before, the Lua stack is balanced, the registry entry used
  as a temporary is nil again, and the result is that of \<open>Rml::Initialise\<close>.
\<close>

theorem rml_initialise_keeps_print:
  assumes "lua_init_ok (lua_initialise lib)"
    and "lglobals (assignedLuaState s) \<noteq> lregistry (assignedLuaState s)"
  shows "\<exists>s'. rml_initialise lib s = Some (bool_result lib (rml_calls s @ [Rml_Initialise]), s')
     \<and> ltables (assignedLuaState s') (lglobals (assignedLuaState s')) (KField ''print'') =
         ltables (assignedLuaState s) (lglobals (assignedLuaState s)) (KField ''print'')
     \<and> ltables (assignedLuaState s') (lregistry (assignedLuaState s')) (KField ''original_print'') = LNil
     \<and> lstack (assignedLuaState s') = lstack (assignedLuaState s)
     \<and> rml_calls s' = rml_calls s @ [Rml_Initialise, Rml_Lua_Initialise]"
proof -
  let ?L = "assignedLuaState s"
  define L2 where "L2 = upd_table (lregistry ?L) (KField ''original_print'') (ltables ?L (lglobals ?L) (KField ''print'')) ?L"
  have L2: "do { L1 \<leftarrow> lua_getglobal ''print'' ?L; lua_setregistry ''original_print'' L1 } = Some L2"
    by (simp add: lua_api L2_def)
  define L3 where "L3 = lua_initialise lib L2"
  have L3: "lstack L3 = lstack ?L" "lglobals L3 = lglobals ?L" "lregistry L3 = lregistry ?L"
      "ltables L3 (lregistry ?L) (KField ''original_print'') = ltables ?L (lglobals ?L) (KField ''print'')"
    using assms(1) [unfolded lua_init_ok_def, rule_format, of L2] by (simp_all add: L3_def L2_def)
  show ?thesis
    using L2 L3 assms(2)
    by (auto simp: rml_initialise_def rml_effects lua_api L3_def [symmetric] split: Option.bind_splits)
qed

definition sample_rml :: rml_lib where
  "sample_rml = \<lparr>bool_result = (\<lambda>cs. True), pointer_result = length,
     lua_initialise = (\<lambda>L. upd_table (lglobals L) (KField ''print'') (LCFunction 99) L)\<rparr>"

theorem rml_initialise_keeps_print_witness:
  "\<exists>s'. rml_initialise sample_rml
      \<lparr>rml_calls = [], assignedLuaState = \<lparr>lstack = [], ltables = (\<lambda>t k. if t = 0 \<and> k = KField ''print'' then LCFunction 5 else LNil),
         lnext = 2, lglobals = 0, lregistry = 1\<rparr>, system_interfaces = [], render_interfaces = Map.empty, geometry_objects = Map.empty\<rparr>
      = Some (True, s')
    \<and> ltables (assignedLuaState s') (lglobals (assignedLuaState s')) (KField ''print'') = LCFunction 5"
proof -
  have "lua_init_ok (lua_initialise sample_rml)" by (simp add: lua_init_ok_def sample_rml_def)
  from rml_initialise_keeps_print [OF this, of "\<lparr>rml_calls = [], assignedLuaState = \<lparr>lstack = [],
      ltables = (\<lambda>t k. if t = 0 \<and> k = KField ''print'' then LCFunction 5 else LNil), lnext = 2, lglobals = 0, lregistry = 1\<rparr>,
      system_interfaces = [], render_interfaces = Map.empty, geometry_objects = Map.empty\<rparr>"]
  show ?thesis by (auto simp: sample_rml_def)
qed

text \<open>
  C34. In every sequence of calls from LuaJIT, RmlUi is never called on a null object: null
  contexts, documents and interfaces stop at the bindings.
\<close>

theorem rml_never_calls_null:
  assumes "rml_run lib ops s = Some s'" "rml_calls s = []"
  shows "\<forall>c \<in> set (rml_calls s'). receiver c \<noteq> Some 0"
  using rml_run_receivers [OF assms(1)] assms(2) by (simp add: no_null_receiver_def)

definition sample_rml_state :: rml_state where
  "sample_rml_state = \<lparr>rml_calls = [],
     assignedLuaState = \<lparr>lstack = [], ltables = (\<lambda>t k. LNil), lnext = 2, lglobals = 0, lregistry = 1\<rparr>,
     system_interfaces = [], render_interfaces = Map.empty, geometry_objects = Map.empty\<rparr>"

theorem rml_never_calls_null_witness:
  "rml_run sample_rml [Op_context_update 0, Op_context_update 4] sample_rml_state
     = Some (sample_rml_state\<lparr>rml_calls := [Context_Update 4]\<rparr>)
   \<and> receiver (Context_Update 4) \<noteq> Some 0"
proof -
  have run: "rml_run sample_rml [Op_context_update 0, Op_context_update 4] sample_rml_state
     = Some (sample_rml_state\<lparr>rml_calls := [Context_Update 4]\<rparr>)"
    by (simp add: rml_ops rml_effects sample_rml_state_def)
  have "rml_calls sample_rml_state = []" by (simp add: sample_rml_state_def)
  from rml_never_calls_null [OF run this] run show ?thesis by simp
qed

end
