(* ===== verification/Lua_VM.thy ===== *)
theory Lua_VM
  imports Lua_State "HOL-Library.Monad_Syntax"
begin

text \<open>
  The Lua virtual machine wrapper of \<open>Runtime/LuaVirtualMachine.cpp\<close>, the event loop of
  \<open>Runtime/SharedEventLoop.hpp\<close> and the startup sequence of \<open>Runtime/main.cpp\<close>. C functions
  registered with Lua (\<open>luaopen_*\<close>), the compiler (\<open>luaL_loadbuffer\<close>) and the interpreter
  (\<open>lua_pcall\<close>) are third-party: they are parameters. \<open>None\<close> is an unprotected Lua error. The
  functions that run Lua code are total: the theorems speak of runs in which the code returns (what
  happens otherwise is modelled for the interactive loop, in \<open>Lua_Repl\<close>).
\<close>

section \<open>The wrapper\<close>

record LuaVirtualMachine =
  m_luaState :: lua_state
  m_onLuaErrorIndex :: nat
  m_numExpectedArgsFromLuaMain :: int
  m_relativeStackOffset :: int
  vm_cerr :: "string list"

text \<open>
  A C function called without arguments: the value it returns and the state afterwards. The engine
  is the Lua compiler and interpreter: \<open>loadbuffer\<close> and \<open>loadfile\<close> return an error message or a
  function; \<open>run_function\<close> runs one for a single result and \<open>run_multret\<close> for all of its results,
  with the message left by the error handler on a failure; \<open>call_error\<close> is that message when
  the called value is not a function; \<open>traceback\<close> is \<open>debug.traceback\<close>.
\<close>

type_synonym lua_loader = "lua_state \<Rightarrow> lua_value \<times> lua_state"

record lua_engine =
  loadbuffer :: "string \<Rightarrow> string \<Rightarrow> lua_state \<Rightarrow> string + nat"
  loadfile :: "string \<Rightarrow> lua_state \<Rightarrow> string + nat"
  run_function :: "nat \<Rightarrow> lua_state \<Rightarrow> (string + lua_value) \<times> lua_state"
  run_multret :: "nat \<Rightarrow> lua_state \<Rightarrow> (string + lua_value list) \<times> lua_state"
  call_error :: "lua_value \<Rightarrow> string"
  traceback :: "lua_value \<Rightarrow> int \<Rightarrow> lua_value"

definition quoted :: "string \<Rightarrow> string" where
  "quoted s = CHR 0x27 # s @ [CHR 0x27]"

definition vm_report :: "string \<Rightarrow> LuaVirtualMachine \<Rightarrow> LuaVirtualMachine" where
  "vm_report msg vm = vm\<lparr>vm_cerr := vm_cerr vm @ [msg]\<rparr>"

definition CheckStack :: "LuaVirtualMachine \<Rightarrow> bool \<times> LuaVirtualMachine" where
  "CheckStack vm =
     (if m_relativeStackOffset vm \<noteq> 0
      then (False, vm_report (''m_relativeStackOffset should be zero, but is ''
              @ to_string_int (m_relativeStackOffset vm)
              @ '' (LuaVirtualMachine stack may be corrupted?)'') vm)
      else (True, vm))"

text \<open>
  The error handler runs on a stack that holds only the error value (index 1). It pushes the
  globals, fetches \<open>debug.traceback\<close>, calls it with the error value and level 2 and returns the
  constant \<open>EXIT_FAILURE\<close>, which Lua takes as the number of results.
\<close>

definition onLuaError :: "lua_engine \<Rightarrow> lua_state \<Rightarrow> (nat \<times> lua_state) option" where
  "onLuaError eng L =
      do { L1 \<leftarrow> lua_getfield 1 ''debug'' (lua_pushv (LTable (lglobals L)) L);
           L2 \<leftarrow> lua_remove 2 L1;
           L3 \<leftarrow> lua_getfield 1 ''traceback'' L2;
           msg \<leftarrow> lua_at (lua_gettop L3) L3;
           let L4 = lua_pushv (LInteger 2) (lua_pushv msg L3);
           L5 \<leftarrow> lua_pop 3 L4;
           Some (1, lua_pushv (traceback eng msg 2) L5) }"

text \<open>\<open>new_state\<close> is what \<open>luaL_newstate\<close> and \<open>luaL_openlibs\<close> produce; \<open>onError\<close> is the address
  of \<open>onLuaError\<close>.\<close>

definition new_LuaVirtualMachine :: "lua_state \<Rightarrow> nat \<Rightarrow> LuaVirtualMachine" where
  "new_LuaVirtualMachine new_state onError =
     (let L = lua_pushv (LCFunction onError) new_state in
      snd (CheckStack
        \<lparr>m_luaState = L, m_onLuaErrorIndex = lua_gettop L, m_numExpectedArgsFromLuaMain = 1,
         m_relativeStackOffset = 0, vm_cerr = []\<rparr>))"

definition emptyPackageLoader :: lua_loader where
  "emptyPackageLoader L = (LTable (lnext L), L\<lparr>ltables := (ltables L)(lnext L := (\<lambda>k. LNil)), lnext := lnext L + 1\<rparr>)"

text \<open>\<open>lua_pushcfunction\<close> and \<open>lua_call(L, 0, 1)\<close>: the loader runs, its result is pushed.\<close>

definition call_loader :: "lua_loader \<Rightarrow> lua_state \<Rightarrow> lua_state" where
  "call_loader loader L = (case loader L of (v, L') \<Rightarrow> lua_pushv v L')"

definition LoadPackage ::
  "string \<Rightarrow> lua_loader option \<Rightarrow> LuaVirtualMachine \<Rightarrow> (bool \<times> LuaVirtualMachine) option" where
  "LoadPackage packageName packageLoader vm =
     (let loader = (case packageLoader of None \<Rightarrow> emptyPackageLoader | Some l \<Rightarrow> l) in
      do { L1 \<leftarrow> lua_getglobal ''package'' (m_luaState vm);
           L2 \<leftarrow> lua_getfield 1 ''loaded'' L1;
           L3 \<leftarrow> lua_setfield 2 packageName (call_loader loader L2);
           L4 \<leftarrow> lua_remove 1 L3;
           Some (True, vm\<lparr>m_luaState := L4\<rparr>) })"

definition BindStaticLibraryExports ::
  "string \<Rightarrow> nat \<Rightarrow> LuaVirtualMachine \<Rightarrow> LuaVirtualMachine option" where
  "BindStaticLibraryExports fieldName staticExportsTable vm =
      do { L1 \<leftarrow> lua_getglobal ''package'' (m_luaState vm);
           L2 \<leftarrow> lua_getfield 1 ''loaded'' L1;
           L3 \<leftarrow> lua_getfield 1 ''bindings'' L2;
           L4 \<leftarrow> (case lua_at 1 L3 of
                   None \<Rightarrow> None
                 | Some v \<Rightarrow>
                     if lua_istable v
                     then lua_setfield 2 fieldName (lua_pushv (LLightUserdata staticExportsTable) L3)
                     else Some L3);
           L5 \<leftarrow> lua_pop 3 L4;
           Some (vm\<lparr>m_luaState := L5\<rparr>) }"

definition CreateGlobalNamespace :: "string \<Rightarrow> LuaVirtualMachine \<Rightarrow> LuaVirtualMachine option" where
  "CreateGlobalNamespace nm vm =
     map_option (\<lambda>L. vm\<lparr>m_luaState := L\<rparr>) (lua_setglobal nm (lua_newtable (m_luaState vm)))"

text \<open>
  \<open>argv[argc]\<close> is the null pointer that ends the vector, for which \<open>lua_pushstring\<close> pushes nil;
  \<open>args\<close> are the \<open>argc\<close> strings before it.
\<close>

definition argv_value :: "string list \<Rightarrow> nat \<Rightarrow> lua_value" where
  "argv_value args i = (if i < length args then LString (args ! i) else LNil)"

fun set_args_loop :: "string list \<Rightarrow> nat list \<Rightarrow> lua_state \<Rightarrow> lua_state option" where
  "set_args_loop args [] L = Some L"
| "set_args_loop args (i # is) L =
     (case lua_rawseti 2 (int i - 1) (lua_pushv (argv_value args i) L) of
        None \<Rightarrow> None
      | Some L' \<Rightarrow> set_args_loop args is L')"

definition SetGlobalArgs :: "string list \<Rightarrow> LuaVirtualMachine \<Rightarrow> (bool \<times> LuaVirtualMachine) option" where
  "SetGlobalArgs args vm =
     (let vm1 = vm\<lparr>m_luaState := lua_newtable (m_luaState vm),
                   m_relativeStackOffset := m_relativeStackOffset vm + 1\<rparr> in
      do { L2 \<leftarrow> set_args_loop args [1..<length args + 1] (m_luaState vm1);
           L3 \<leftarrow> lua_setglobal ''arg'' L2;
           Some (True, vm1\<lparr>m_luaState := L3, m_relativeStackOffset := m_relativeStackOffset vm1 - 1\<rparr>) })"

definition CompileChunk ::
  "lua_engine \<Rightarrow> string \<Rightarrow> string \<Rightarrow> LuaVirtualMachine \<Rightarrow> bool \<times> LuaVirtualMachine" where
  "CompileChunk eng chunk chunkName vm =
     (case loadbuffer eng (c_str chunk) chunkName (m_luaState vm) of
        Inl err \<Rightarrow>
          (False, vm_report (''Failed to compile chunk: '' @ err)
             (vm\<lparr>m_luaState := lua_pushv (LString err) (m_luaState vm)\<rparr>))
      | Inr f \<Rightarrow>
          (True, vm\<lparr>m_luaState := lua_pushv (LFunction f) (m_luaState vm),
                    m_relativeStackOffset := m_relativeStackOffset vm + 1\<rparr>))"

text \<open>\<open>lua_pcall(L, 0, 1, errfunc)\<close> pops the value it calls and pushes one result or the error.\<close>

definition lua_pcall_0_1 :: "lua_engine \<Rightarrow> lua_state \<Rightarrow> (bool \<times> lua_state) option" where
  "lua_pcall_0_1 eng L =
     (case lstack L of
        [] \<Rightarrow> None
      | v # rest \<Rightarrow>
          (case v of
             LFunction f \<Rightarrow>
               (case run_function eng f (L\<lparr>lstack := rest\<rparr>) of
                  (Inl err, L') \<Rightarrow> Some (False, L'\<lparr>lstack := LString err # rest\<rparr>)
                | (Inr r, L') \<Rightarrow> Some (True, L'\<lparr>lstack := r # rest\<rparr>))
           | _ \<Rightarrow> Some (False, L\<lparr>lstack := LString (call_error eng v) # rest\<rparr>)))"

text \<open>\<open>lua_tostring(L, -1)\<close> where the top of the stack is an error message.\<close>

definition top_message :: "lua_state \<Rightarrow> string" where
  "top_message L = (case lstack L of LString msg # rest \<Rightarrow> msg | _ \<Rightarrow> [])"

definition RunCompiledChunk :: "lua_engine \<Rightarrow> LuaVirtualMachine \<Rightarrow> (bool \<times> LuaVirtualMachine) option" where
  "RunCompiledChunk eng vm =
     (case lua_pcall_0_1 eng (m_luaState vm) of
        None \<Rightarrow> None
      | Some (ok, L) \<Rightarrow>
          (if \<not> ok
           then Some (False, vm_report (''in function '' @ quoted ''RunCompiledChunk'')
             (vm_report (''[C]: in function '' @ quoted ''lua_pcall'')
             (vm_report (top_message L) (vm\<lparr>m_luaState := L\<rparr>))))
           else Some (CheckStack (vm\<lparr>m_luaState := L, m_relativeStackOffset := m_relativeStackOffset vm - 1\<rparr>))))"

definition DoString ::
  "lua_engine \<Rightarrow> string \<Rightarrow> string \<Rightarrow> LuaVirtualMachine \<Rightarrow> (bool \<times> LuaVirtualMachine) option" where
  "DoString eng chunk chunkName vm =
     (case RunCompiledChunk eng (snd (CompileChunk eng chunk chunkName vm)) of
        None \<Rightarrow> None
      | Some (success, vm1) \<Rightarrow>
          (if \<not> success then Some (False, vm_report (''in function '' @ quoted ''DoString'') vm1)
           else Some (CheckStack vm1)))"

text \<open>\<open>luaL_dofile\<close> loads the file and calls it with \<open>LUA_MULTRET\<close>; its results stay on the stack.\<close>

definition DoFile :: "lua_engine \<Rightarrow> string \<Rightarrow> LuaVirtualMachine \<Rightarrow> bool \<times> LuaVirtualMachine" where
  "DoFile eng filePath vm =
     (let L = m_luaState vm;
          (status, L') =
            (case loadfile eng (c_str filePath) L of
               Inl err \<Rightarrow> (False, lua_pushv (LString err) L)
             | Inr f \<Rightarrow>
                 (case run_multret eng f L of
                    (Inl err, L1) \<Rightarrow> (False, L1\<lparr>lstack := LString err # lstack L\<rparr>)
                  | (Inr rs, L1) \<Rightarrow> (True, L1\<lparr>lstack := rev rs @ lstack L\<rparr>)))
      in if \<not> status
         then (False, vm_report (''Error executing script: '' @ top_message L') (vm\<lparr>m_luaState := L'\<rparr>))
         else CheckStack (vm\<lparr>m_luaState := L'\<rparr>))"

section \<open>The event loop\<close>

text \<open>
  Which libraries currently use the shared loop. \<open>loop_env\<close> holds the results of libuv, uws and
  libcurl. A failing constructor throws: the destructor does not run then.
\<close>

datatype loop_fault = Runtime_error string | Assert_failed

record SharedEventLoop =
  uv_loop_ready :: bool
  luv_loop_set :: bool
  uws_loop_assigned :: bool
  curl_ready :: bool

record loop_env =
  uv_loop_init :: int
  uws_assign_ok :: bool
  curl_init :: int
  uv_run :: int

definition no_loop :: SharedEventLoop where
  "no_loop = \<lparr>uv_loop_ready = False, luv_loop_set = False, uws_loop_assigned = False, curl_ready = False\<rparr>"

definition new_SharedEventLoop :: "loop_env \<Rightarrow> loop_fault option \<times> SharedEventLoop" where
  "new_SharedEventLoop env =
     (if uv_loop_init env \<noteq> 0
      then (Some (Runtime_error ''Failed to initialize shared event loop''), no_loop)
      else if \<not> uws_assign_ok env
      then (Some Assert_failed, no_loop\<lparr>uv_loop_ready := True, luv_loop_set := True\<rparr>)
      else if curl_init env \<noteq> 0
      then (Some (Runtime_error ''Failed to initialize libcurl environment''),
            no_loop\<lparr>uv_loop_ready := True, luv_loop_set := True, uws_loop_assigned := True\<rparr>)
      else (None, \<lparr>uv_loop_ready = True, luv_loop_set = True, uws_loop_assigned = True, curl_ready = True\<rparr>))"

definition delete_SharedEventLoop :: "SharedEventLoop \<Rightarrow> SharedEventLoop" where
  "delete_SharedEventLoop l = l\<lparr>luv_loop_set := False, uws_loop_assigned := False, curl_ready := False\<rparr>"

definition RunMainLoopUntilDone :: "loop_env \<Rightarrow> loop_fault option" where
  "RunMainLoopUntilDone env =
     (if uv_run env \<noteq> 0
      then Some (Runtime_error (''Main loop finished running, but there'' @ CHR 0x27 # ''s '' @ to_string_int (uv_run env)
             @ '' active references''))
      else None)"

section \<open>Startup\<close>

fun load_packages ::
  "(string \<times> lua_loader option) list \<Rightarrow> LuaVirtualMachine \<Rightarrow> LuaVirtualMachine option" where
  "load_packages [] vm = Some vm"
| "load_packages ((nm, loader) # ps) vm =
     (case LoadPackage nm loader vm of None \<Rightarrow> None | Some (ok, vm1) \<Rightarrow> load_packages ps vm1)"

fun bind_exports :: "(string \<times> nat) list \<Rightarrow> LuaVirtualMachine \<Rightarrow> LuaVirtualMachine option" where
  "bind_exports [] vm = Some vm"
| "bind_exports ((nm, e) # es) vm =
     (case BindStaticLibraryExports nm e vm of None \<Rightarrow> None | Some vm1 \<Rightarrow> bind_exports es vm1)"

text \<open>The packages and bindings of \<open>main\<close>, in its order.\<close>

definition main_package_loaders :: "(string \<times> string) list" where
  "main_package_loaders =
     [(''uv'', ''luaopen_luv''), (''lpeg'', ''luaopen_lpeg''), (''miniz'', ''luaopen_miniz''),
      (''openssl'', ''luaopen_openssl''), (''regex'', ''luaopen_rex_pcre2''),
      (''json'', ''luaopen_rapidjson_modified''), (''utf8'', ''luaopen_utf8''), (''zlib'', ''luaopen_zlib'')]"

definition main_packages :: "(string \<Rightarrow> lua_loader) \<Rightarrow> (string \<times> lua_loader option) list" where
  "main_packages loader_named =
     map (\<lambda>(nm, f). (nm, Some (loader_named f))) main_package_loaders @ [(''bindings'', None)]"

definition main_bindings :: "string list" where
  "main_bindings = [''cpp'', ''crypto'', ''curl'', ''glfw'', ''iconv'', ''interop'', ''labsound'',
     ''webview'', ''uws'', ''rml'', ''runtime'', ''stbi'', ''stduuid'', ''wgpu'']"

datatype main_result = EXIT_SUCCESS | EXIT_FAILURE | Terminated loop_fault

definition main_setup ::
  "(string \<Rightarrow> lua_loader) \<Rightarrow> (string \<Rightarrow> nat) \<Rightarrow> LuaVirtualMachine \<Rightarrow> LuaVirtualMachine option" where
  "main_setup luaopen getExportsTable vm =
     do { vm1 \<leftarrow> load_packages (main_packages luaopen) vm;
          vm2 \<leftarrow> bind_exports (map (\<lambda>nm. (nm, getExportsTable nm)) main_bindings) vm1;
          CreateGlobalNamespace ''C_Runtime'' vm2 }"

text \<open>The static pointers of the runtime and RML bindings: whether they hold the VM's state.\<close>

record ffi_globals =
  runtime_assigned :: bool
  rml_assigned :: bool

definition runtime_assignLuaState :: "ffi_globals \<Rightarrow> ffi_globals" where
  "runtime_assignLuaState g = g\<lparr>runtime_assigned := True\<rparr>"

definition rml_assignLuaState :: "ffi_globals \<Rightarrow> ffi_globals" where
  "rml_assignLuaState g = g\<lparr>rml_assigned := True\<rparr>"

definition entry_point :: string where
  "entry_point = ''local evo = require('' @ quoted ''evo'' @ ''); return evo.run()''"

text \<open>
  The event loop is owned by a local \<open>unique_ptr\<close>: its destructor runs when \<open>main\<close> returns, but
  not when an exception ends the program. The VM is shown as it is before \<open>lua_close\<close>.
\<close>

definition main ::
  "lua_engine \<Rightarrow> loop_env \<Rightarrow> (string \<Rightarrow> lua_loader) \<Rightarrow> (string \<Rightarrow> nat) \<Rightarrow> lua_state \<Rightarrow> nat \<Rightarrow>
   string list \<Rightarrow> string \<Rightarrow> (main_result \<times> LuaVirtualMachine \<times> SharedEventLoop \<times> ffi_globals) option" where
  "main eng env luaopen getExportsTable new_state onError args chunkName =
     (let g0 = \<lparr>runtime_assigned = False, rml_assigned = False\<rparr> in
     (case SetGlobalArgs args (new_LuaVirtualMachine new_state onError) of
        None \<Rightarrow> None
      | Some (ok, vm1) \<Rightarrow>
     (case new_SharedEventLoop env of
        (Some e, l) \<Rightarrow> Some (Terminated e, vm1, l, g0)
      | (None, l) \<Rightarrow>
     (case main_setup luaopen getExportsTable vm1 of
        None \<Rightarrow> None
      | Some vm2 \<Rightarrow>
     (let g = rml_assignLuaState (runtime_assignLuaState g0) in
     (case DoString eng entry_point chunkName vm2 of
        None \<Rightarrow> None
      | Some (success, vm3) \<Rightarrow>
          (if \<not> success
           then Some (EXIT_FAILURE, vm_report (''in function '' @ quoted ''main'') vm3, delete_SharedEventLoop l, g)
           else
             (case RunMainLoopUntilDone env of
                Some e \<Rightarrow> Some (Terminated e, vm3, l, g)
              | None \<Rightarrow> Some (EXIT_SUCCESS, vm3, delete_SharedEventLoop l, g)))))))))"

section \<open>Well-formed states\<close>

text \<open>
  After \<open>luaL_openlibs\<close> the global \<open>package\<close> is a table \<open>pk\<close> whose field \<open>loaded\<close> is a table \<open>ld\<close>;
  the three tables differ and were allocated before.
\<close>

definition has_packages :: "nat \<Rightarrow> nat \<Rightarrow> lua_state \<Rightarrow> bool" where
  "has_packages pk ld L \<longleftrightarrow>
     ltables L (lglobals L) (KField ''package'') = LTable pk \<and> ltables L pk (KField ''loaded'') = LTable ld \<and>
     distinct [lglobals L, pk, ld] \<and> lglobals L < lnext L \<and> pk < lnext L \<and> ld < lnext L"

text \<open>
  What the runtime relies on of a package loader: it leaves the stack balanced, keeps the global
  \<open>package\<close> and its field \<open>loaded\<close>, and of the packages that are registered there changes at most those
  with names of its \<open>own\<close>: loaders written for Lua 5.1 register their package themselves, through
  \<open>luaL_register\<close>.
\<close>

definition well_behaved :: "string list \<Rightarrow> lua_loader \<Rightarrow> bool" where
  "well_behaved own loader \<longleftrightarrow>
     (\<forall>pk ld L. has_packages pk ld L \<longrightarrow>
        has_packages pk ld (snd (loader L)) \<and> lstack (snd (loader L)) = lstack L
        \<and> lglobals (snd (loader L)) = lglobals L
        \<and> (\<forall>k. k \<notin> KField ` set own \<longrightarrow> ltables (snd (loader L)) ld k = ltables L ld k))"

lemma well_behaved_empty: "well_behaved [] emptyPackageLoader"
  by (auto simp: well_behaved_def emptyPackageLoader_def has_packages_def)

lemma CheckStack_zero [simp]: "m_relativeStackOffset vm = 0 \<Longrightarrow> CheckStack vm = (True, vm)"
  by (simp add: CheckStack_def)

lemma CheckStack_fst: "fst (CheckStack vm) \<longleftrightarrow> m_relativeStackOffset vm = 0"
  by (simp add: CheckStack_def)

lemma CheckStack_fields [simp]:
  "m_luaState (snd (CheckStack vm)) = m_luaState vm"
  "m_relativeStackOffset (snd (CheckStack vm)) = m_relativeStackOffset vm"
  by (simp_all add: CheckStack_def vm_report_def)

lemma well_behavedD:
  assumes "well_behaved own l" "has_packages pk ld L"
  shows "has_packages pk ld (snd (l L))" "lstack (snd (l L)) = lstack L" "lglobals (snd (l L)) = lglobals L"
    "k \<notin> KField ` set own \<Longrightarrow> ltables (snd (l L)) ld k = ltables L ld k"
  using assms unfolding well_behaved_def by blast+

abbreviation loader_of :: "lua_loader option \<Rightarrow> lua_loader" where
  "loader_of loader \<equiv> (case loader of None \<Rightarrow> emptyPackageLoader | Some f \<Rightarrow> f)"

text \<open>The state in which the loader runs: \<open>package\<close> and \<open>package.loaded\<close> are on the stack.\<close>

abbreviation loader_state :: "nat \<Rightarrow> nat \<Rightarrow> LuaVirtualMachine \<Rightarrow> lua_state" where
  "loader_state pk ld vm \<equiv> lua_pushv (LTable ld) (lua_pushv (LTable pk) (m_luaState vm))"

lemma has_packages_stack [simp]: "has_packages pk ld (L\<lparr>lstack := xs\<rparr>) = has_packages pk ld L"
  by (simp add: has_packages_def)

lemma has_packages_loaded:
  "has_packages pk ld L \<Longrightarrow> has_packages pk ld (upd_table ld k v L)"
  by (auto simp: has_packages_def)

lemma LoadPackage_run:
  assumes "has_packages pk ld (m_luaState vm)" "well_behaved own (loader_of loader)"
    and r: "loader_of loader (loader_state pk ld vm) = (v, L)"
  shows "LoadPackage nm loader vm = Some (True, vm\<lparr>m_luaState :=
      upd_table ld (KField nm) v (L\<lparr>lstack := LTable pk # lstack (m_luaState vm)\<rparr>)\<rparr>)"
    and "has_packages pk ld L" "lglobals L = lglobals (m_luaState vm)"
    and "\<And>k. k \<notin> KField ` set own \<Longrightarrow> ltables L ld k = ltables (m_luaState vm) ld k"
proof -
  have p: "has_packages pk ld (loader_state pk ld vm)" using assms(1) by (simp add: lua_pushv_def)
  note w = well_behavedD [OF assms(2) p, unfolded r snd_conv]
  show "LoadPackage nm loader vm = Some (True, vm\<lparr>m_luaState :=
      upd_table ld (KField nm) v (L\<lparr>lstack := LTable pk # lstack (m_luaState vm)\<rparr>)\<rparr>)"
    using assms(1) w(1-3) r unfolding LoadPackage_def Let_def
    by (simp add: has_packages_def lua_api call_loader_def)
  show "has_packages pk ld L" "lglobals L = lglobals (m_luaState vm)"
    "\<And>k. k \<notin> KField ` set own \<Longrightarrow> ltables L ld k = ltables (m_luaState vm) ld k"
    using w by (simp_all add: lua_pushv_def)
qed

text \<open>
  Loading several packages whose loaders keep to names that are not those of the others: each
  name ends up with the value that its loader returned, in the state \<open>at\<close> in which it was called.
\<close>

definition keeps_to :: "(string \<Rightarrow> string list) \<Rightarrow> string list \<Rightarrow> string \<times> lua_loader option \<Rightarrow> bool" where
  "keeps_to own names p \<longleftrightarrow>
     well_behaved (own (fst p)) (loader_of (snd p)) \<and> set (own (fst p)) \<inter> set names \<subseteq> {fst p}"

lemma load_packages_run:
  assumes "has_packages pk ld (m_luaState vm)" "distinct (map fst ps)" "set (map fst ps) \<subseteq> set names"
    and "list_all (keeps_to own names) ps"
  shows "\<exists>L at. load_packages ps vm = Some (vm\<lparr>m_luaState := L\<rparr>) \<and> has_packages pk ld L
    \<and> lstack L = replicate (length ps) (LTable pk) @ lstack (m_luaState vm) \<and> lglobals L = lglobals (m_luaState vm)
    \<and> list_all (\<lambda>(nm, l). has_packages pk ld (at nm) \<and> ltables L ld (KField nm) = fst (loader_of l (at nm))) ps
    \<and> (\<forall>nm \<in> set names - set (map fst ps). ltables L ld (KField nm) = ltables (m_luaState vm) ld (KField nm))"
  using assms
proof (induction ps arbitrary: vm)
  case (Cons p ps)
  obtain nm l where p: "p = (nm, l)" by fastforce
  define S where "S = loader_state pk ld vm"
  obtain v L1 where r: "loader_of l (loader_state pk ld vm) = (v, L1)" by fastforce
  have wl: "well_behaved (own nm) (loader_of l)" "set (own nm) \<inter> set names \<subseteq> {nm}"
    using Cons.prems(4) p by (auto simp: keeps_to_def)
  let ?vm = "vm\<lparr>m_luaState := upd_table ld (KField nm) v (L1\<lparr>lstack := LTable pk # lstack (m_luaState vm)\<rparr>)\<rparr>"
  note run = LoadPackage_run(1) [OF Cons.prems(1) wl(1) r, of nm] LoadPackage_run(2-4) [OF Cons.prems(1) wl(1) r]
  have "has_packages pk ld (m_luaState ?vm)"
    using has_packages_loaded [of pk ld "L1\<lparr>lstack := LTable pk # lstack (m_luaState vm)\<rparr>"] run(2) by simp
  then obtain L at where L: "load_packages ps ?vm = Some (?vm\<lparr>m_luaState := L\<rparr>)" "has_packages pk ld L"
    "lstack L = replicate (length ps) (LTable pk) @ lstack (m_luaState ?vm)" "lglobals L = lglobals (m_luaState ?vm)"
    "list_all (\<lambda>(nm, l). has_packages pk ld (at nm) \<and> ltables L ld (KField nm) = fst (loader_of l (at nm))) ps"
    "\<forall>nm \<in> set names - set (map fst ps). ltables L ld (KField nm) = ltables (m_luaState ?vm) ld (KField nm)"
    using Cons.IH [of ?vm] Cons.prems(2-4) by auto
  have new: "nm \<notin> set (map fst ps)" "nm \<in> set names" using Cons.prems(2,3) p by auto
  have "has_packages pk ld S" using Cons.prems(1) by (simp add: S_def lua_pushv_def)
  moreover have "ltables L ld (KField nm) = v" using L(6) new by simp
  moreover have "list_all (\<lambda>(x, l). has_packages pk ld ((at(nm := S)) x)
      \<and> ltables L ld (KField x) = fst (loader_of l ((at(nm := S)) x))) ps"
    using L(5) new(1) by (force simp: list_all_iff)
  moreover have "ltables L ld (KField x) = ltables (m_luaState vm) ld (KField x)"
    if "x \<in> set names - set (map fst (p # ps))" for x
    using that L(6) run(4) [of "KField x"] wl(2) p by auto
  ultimately show ?case
    using L(1-4) p run r by (intro exI [of _ L] exI [of _ "at(nm := S)"])
      (auto simp: replicate_append_same [symmetric] S_def)
next
  case Nil
  then show ?case by (intro exI [of _ "m_luaState vm"]) simp
qed

lemma load_packages_append:
  "load_packages (ps @ qs) vm = (case load_packages ps vm of None \<Rightarrow> None | Some vm1 \<Rightarrow> load_packages qs vm1)"
  by (induction ps vm rule: load_packages.induct) (auto split: option.splits)

text \<open>The table \<open>b\<close> of the bindings, and the effect of one and of several bindings.\<close>

definition has_bindings :: "nat \<Rightarrow> nat \<Rightarrow> nat \<Rightarrow> lua_state \<Rightarrow> bool" where
  "has_bindings pk ld b L \<longleftrightarrow>
     has_packages pk ld L \<and> ltables L ld (KField ''bindings'') = LTable b \<and> b \<notin> {lglobals L, pk, ld} \<and> b < lnext L"

lemma BindStaticLibraryExports_run:
  assumes "has_bindings pk ld b (m_luaState vm)"
  shows "BindStaticLibraryExports nm e vm =
     Some (vm\<lparr>m_luaState := upd_table b (KField nm) (LLightUserdata e) (m_luaState vm)\<rparr>)"
  using assms unfolding BindStaticLibraryExports_def has_bindings_def has_packages_def
  by (simp add: lua_api)

lemma bind_exports_run:
  assumes "has_bindings pk ld b (m_luaState vm)"
  shows "\<exists>t. bind_exports es vm = Some (vm\<lparr>m_luaState := (m_luaState vm)\<lparr>ltables := (ltables (m_luaState vm))(b := t)\<rparr>\<rparr>)
     \<and> (\<forall>nm. t (KField nm) = (case map_of (rev es) nm of None \<Rightarrow> ltables (m_luaState vm) b (KField nm)
          | Some e \<Rightarrow> LLightUserdata e))"
  using assms
proof (induction es arbitrary: vm)
  case Nil
  then show ?case by (intro exI [of _ "ltables (m_luaState vm) b"]) simp
next
  case (Cons p es)
  obtain nm e where p: "p = (nm, e)" by fastforce
  let ?vm = "vm\<lparr>m_luaState := upd_table b (KField nm) (LLightUserdata e) (m_luaState vm)\<rparr>"
  have "has_bindings pk ld b (m_luaState ?vm)"
    using Cons.prems by (auto simp: has_bindings_def has_packages_def)
  then obtain t where t: "bind_exports es ?vm = Some (?vm\<lparr>m_luaState := (m_luaState ?vm)\<lparr>ltables :=
        (ltables (m_luaState ?vm))(b := t)\<rparr>\<rparr>)"
    "\<forall>nm. t (KField nm) = (case map_of (rev es) nm of None \<Rightarrow> ltables (m_luaState ?vm) b (KField nm)
          | Some e \<Rightarrow> LLightUserdata e)"
    using Cons.IH by blast
  have "bind_exports (p # es) vm = Some (vm\<lparr>m_luaState := (m_luaState vm)\<lparr>ltables := (ltables (m_luaState vm))(b := t)\<rparr>\<rparr>)"
    using BindStaticLibraryExports_run [OF Cons.prems, of nm e] p t(1) by (simp del: fun_upd_apply)
  moreover have "\<forall>x. t (KField x) = (case map_of (rev (p # es)) x of
        None \<Rightarrow> ltables (m_luaState vm) b (KField x) | Some e \<Rightarrow> LLightUserdata e)"
    using t(2) p by (auto simp: map_add_def split: option.splits)
  ultimately show ?case by blast
qed

lemma set_args_loop_run:
  assumes "lstack L = LTable a # xs"
  shows "set_args_loop args is L = Some (L\<lparr>ltables := (ltables L)(a := (\<lambda>k.
     case k of KIndex j \<Rightarrow> if j + 1 \<in> int ` set is then argv_value args (nat (j + 1)) else ltables L a k
       | KField f \<Rightarrow> ltables L a k))\<rparr>)"
  using assms
proof (induction "is" arbitrary: L)
  case Nil
  have "(ltables L)(a := (\<lambda>k. case k of KIndex j \<Rightarrow> if j + 1 \<in> int ` set [] then argv_value args (nat (j + 1))
      else ltables L a k | KField f \<Rightarrow> ltables L a k)) = ltables L"
    by (auto simp: fun_eq_iff split: lua_key.splits)
  then show ?case by (simp only: set_args_loop.simps) simp
next
  case (Cons i "is")
  let ?L = "upd_table a (KIndex (int i - 1)) (argv_value args i) L"
  have "lua_rawseti 2 (int i - 1) (lua_pushv (argv_value args i) L) = Some ?L"
    using Cons.prems by (simp add: lua_api)
  then have "set_args_loop args (i # is) L = set_args_loop args is ?L" by simp
  also have "\<dots> = Some (?L\<lparr>ltables := (ltables ?L)(a := (\<lambda>k.
     case k of KIndex j \<Rightarrow> if j + 1 \<in> int ` set is then argv_value args (nat (j + 1)) else ltables ?L a k
       | KField f \<Rightarrow> ltables ?L a k))\<rparr>)" by (rule Cons.IH) (use Cons.prems in simp)
  also have "(ltables ?L)(a := (\<lambda>k.
     case k of KIndex j \<Rightarrow> if j + 1 \<in> int ` set is then argv_value args (nat (j + 1)) else ltables ?L a k
       | KField f \<Rightarrow> ltables ?L a k)) = (ltables L)(a := (\<lambda>k.
     case k of KIndex j \<Rightarrow> if j + 1 \<in> int ` set (i # is) then argv_value args (nat (j + 1)) else ltables L a k
       | KField f \<Rightarrow> ltables L a k))"
    by (auto simp: fun_eq_iff split: lua_key.splits)
  finally show ?case by simp
qed

lemma DoString_cases:
  "DoString eng chunk nm vm =
     (case loadbuffer eng (c_str chunk) nm (m_luaState vm) of
        Inl err \<Rightarrow> Some (False, vm\<lparr>
            m_luaState := (m_luaState vm)\<lparr>lstack := LString (call_error eng (LString err)) # lstack (m_luaState vm)\<rparr>,
            vm_cerr := vm_cerr vm @ [''Failed to compile chunk: '' @ err, call_error eng (LString err),
              ''[C]: in function '' @ quoted ''lua_pcall'', ''in function '' @ quoted ''RunCompiledChunk'',
              ''in function '' @ quoted ''DoString'']\<rparr>)
      | Inr f \<Rightarrow>
          (case run_function eng f (m_luaState vm) of
             (Inl err, L) \<Rightarrow> Some (False, vm\<lparr>
                 m_luaState := L\<lparr>lstack := LString err # lstack (m_luaState vm)\<rparr>,
                 m_relativeStackOffset := m_relativeStackOffset vm + 1,
                 vm_cerr := vm_cerr vm @ [err, ''[C]: in function '' @ quoted ''lua_pcall'',
                   ''in function '' @ quoted ''RunCompiledChunk'', ''in function '' @ quoted ''DoString'']\<rparr>)
           | (Inr r, L) \<Rightarrow>
               (let vm1 = vm\<lparr>m_luaState := L\<lparr>lstack := r # lstack (m_luaState vm)\<rparr>\<rparr> in
                if m_relativeStackOffset vm = 0 then Some (True, vm1)
                else Some (False, vm_report (''in function '' @ quoted ''DoString'') (snd (CheckStack vm1))))))"
  by (auto simp: DoString_def RunCompiledChunk_def CompileChunk_def lua_pcall_0_1_def lua_pushv_def vm_report_def
      CheckStack_def Let_def top_message_def split: sum.splits prod.splits)

lemma DoString_defined: "\<exists>ok vm'. DoString eng chunk nm vm = Some (ok, vm')"
  by (auto simp: DoString_cases Let_def split: sum.splits prod.splits)

text \<open>A small state with the three tables, for the examples.\<close>

definition sample_lua :: lua_state where
  "sample_lua = \<lparr>lstack = [], ltables = (\<lambda>t k. if t = 0 \<and> k = KField ''package'' then LTable 1
     else if t = 1 \<and> k = KField ''loaded'' then LTable 2 else LNil), lnext = 4, lglobals = 0, lregistry = 3\<rparr>"

definition sample_engine :: lua_engine where
  "sample_engine = \<lparr>loadbuffer = (\<lambda>c n L. if c = [] then Inl ''syntax error'' else Inr (length c)),
     loadfile = (\<lambda>n L. Inl ''cannot open''),
     run_function = (\<lambda>f L. (if f = 1 then Inr LNil else Inl ''error'', L)),
     run_multret = (\<lambda>f L. (Inr [], L)), call_error = (\<lambda>v. ''attempt to call''), traceback = (\<lambda>v i. v)\<rparr>"

lemma new_LuaVirtualMachine_fields [simp]:
  "m_relativeStackOffset (new_LuaVirtualMachine st e) = 0"
  "m_luaState (new_LuaVirtualMachine st e) = lua_pushv (LCFunction e) st"
  by (simp_all add: new_LuaVirtualMachine_def Let_def)

lemma sample_engine_fields [simp]:
  "loadbuffer sample_engine c n L = (if c = [] then Inl ''syntax error'' else Inr (length c))"
  "run_function sample_engine f L = (if f = 1 then Inr LNil else Inl ''error'', L)"
  by (simp_all add: sample_engine_def)

lemma sample_lua_packages: "has_packages 1 2 (m_luaState (new_LuaVirtualMachine sample_lua 9))"
  by (simp add: has_packages_def sample_lua_def lua_pushv_def)

text \<open>The names of the nine packages; the loaders keep to their own.\<close>

definition main_names :: "string list" where
  "main_names = map fst main_package_loaders @ [''bindings'']"

definition main_loaders_ok :: "(string \<Rightarrow> lua_loader) \<Rightarrow> (string \<Rightarrow> string list) \<Rightarrow> bool" where
  "main_loaders_ok loader_named own \<longleftrightarrow>
     list_all (\<lambda>(nm, f). keeps_to own main_names (nm, Some (loader_named f))) main_package_loaders"

lemma main_setup_run:
  assumes "has_packages pk ld (m_luaState vm)" "main_loaders_ok loader_named own"
  shows "\<exists>vm' at b ns. main_setup loader_named exports vm = Some vm'
     \<and> list_all (\<lambda>(nm, f). has_packages pk ld (at nm)
          \<and> ltables (m_luaState vm') ld (KField nm) = fst (loader_named f (at nm))) main_package_loaders
     \<and> ltables (m_luaState vm') ld (KField ''bindings'') = LTable b
     \<and> list_all (\<lambda>nm. ltables (m_luaState vm') b (KField nm) = LLightUserdata (exports nm)) main_bindings
     \<and> ltables (m_luaState vm') (lglobals (m_luaState vm')) (KField ''C_Runtime'') = LTable ns
     \<and> m_relativeStackOffset vm' = m_relativeStackOffset vm
     \<and> length (lstack (m_luaState vm')) = length (lstack (m_luaState vm)) + 9"
proof -
  let ?ps = "map (\<lambda>(nm, f). (nm, Some (loader_named f))) main_package_loaders"
  have n8: "length main_package_loaders = 8" "distinct (map fst ?ps)" "''bindings'' \<notin> set (map fst ?ps)"
    "set (map fst ?ps) \<subseteq> set main_names"
    by (auto simp: main_package_loaders_def main_names_def)
  have ok: "list_all (keeps_to own main_names) ?ps"
    using assms(2) by (auto simp: main_loaders_ok_def list_all_iff)
  have l: "list_all (\<lambda>(nm, l). has_packages pk ld (at nm) \<and> ltables L ld (KField nm) = fst (loader_of l (at nm))) ?ps
      \<longleftrightarrow> list_all (\<lambda>(nm, f). has_packages pk ld (at nm) \<and> ltables L ld (KField nm) = fst (loader_named f (at nm)))
            main_package_loaders" for at L
    by (auto simp: list_all_iff)
  from load_packages_run [OF assms(1) n8(2,4) ok]
  obtain L1 at where L1: "load_packages ?ps vm = Some (vm\<lparr>m_luaState := L1\<rparr>)" "has_packages pk ld L1"
      "lstack L1 = replicate 8 (LTable pk) @ lstack (m_luaState vm)"
      "list_all (\<lambda>(nm, f). has_packages pk ld (at nm) \<and> ltables L1 ld (KField nm) = fst (loader_named f (at nm)))
         main_package_loaders"
    unfolding length_map n8(1) l by blast
  define b where "b = lnext L1"
  define L2 where "L2 = L1\<lparr>lnext := Suc b, lstack := LTable pk # lstack L1,
     ltables := (ltables L1)(b := (\<lambda>k. LNil), ld := (ltables L1 ld)(KField ''bindings'' := LTable b))\<rparr>"
  have bd: "b \<noteq> ld" "b \<noteq> pk" "b \<noteq> lglobals L1" using L1(2) by (auto simp: has_packages_def b_def)
  have "LoadPackage ''bindings'' None (vm\<lparr>m_luaState := L1\<rparr>) = Some (True, vm\<lparr>m_luaState := L2\<rparr>)"
    using LoadPackage_run(1) [of pk ld "vm\<lparr>m_luaState := L1\<rparr>" "[]" None, OF _ _ prod.collapse [symmetric], of "''bindings''"]
      L1(2) well_behaved_empty bd
    by (simp add: emptyPackageLoader_def lua_pushv_def L2_def b_def fun_upd_twist)
  then have lp: "load_packages (main_packages loader_named) vm = Some (vm\<lparr>m_luaState := L2\<rparr>)"
    using L1(1) by (simp only: main_packages_def load_packages_append) simp
  have hb: "has_bindings pk ld b L2"
    using L1(2) bd by (auto simp: has_bindings_def has_packages_def L2_def b_def)
  let ?es = "map (\<lambda>nm. (nm, exports nm)) main_bindings"
  obtain t where t: "bind_exports ?es (vm\<lparr>m_luaState := L2\<rparr>) = Some (vm\<lparr>m_luaState := L2\<lparr>ltables := (ltables L2)(b := t)\<rparr>\<rparr>)"
      "\<forall>nm. t (KField nm) = (case map_of (rev ?es) nm of None \<Rightarrow> ltables L2 b (KField nm) | Some e \<Rightarrow> LLightUserdata e)"
  proof -
    define w where "w = vm\<lparr>m_luaState := L2\<rparr>"
    have w: "m_luaState w = L2" "w\<lparr>m_luaState := x\<rparr> = vm\<lparr>m_luaState := x\<rparr>" for x by (simp_all add: w_def)
    from bind_exports_run [of pk ld b w ?es, unfolded w] hb that show thesis
      unfolding w_def by blast
  qed
  have "map_of (rev ?es) nm = Some (exports nm)" if "nm \<in> set main_bindings" for nm
    using that map_of_map_restrict [of exports "rev main_bindings"] by (simp add: rev_map restrict_map_def)
  then have tb: "\<forall>nm \<in> set main_bindings. t (KField nm) = LLightUserdata (exports nm)" using t(2) by simp
  let ?L3 = "L2\<lparr>ltables := (ltables L2)(b := t)\<rparr>"
  define L4 where "L4 = upd_table (lglobals L2) (KField ''C_Runtime'') (LTable (Suc b))
     (?L3\<lparr>ltables := (ltables ?L3)(Suc b := (\<lambda>k. LNil)), lnext := Suc (Suc b)\<rparr>)"
  have "main_setup loader_named exports vm = Some (vm\<lparr>m_luaState := L4\<rparr>)"
    using lp t(1) by (simp add: main_setup_def CreateGlobalNamespace_def lua_api L2_def L4_def)
  moreover have "ltables L4 ld (KField nm) = ltables L1 ld (KField nm)" if "nm \<noteq> ''bindings''" for nm
    using L1(2) bd that by (auto simp: L4_def L2_def has_packages_def b_def)
  then have "list_all (\<lambda>(nm, f). has_packages pk ld (at nm)
      \<and> ltables L4 ld (KField nm) = fst (loader_named f (at nm))) main_package_loaders"
    using L1(4) by (simp add: main_package_loaders_def)
  moreover have "ltables L4 ld (KField ''bindings'') = LTable b" "lglobals L4 = lglobals L1"
    "list_all (\<lambda>nm. ltables L4 b (KField nm) = LLightUserdata (exports nm)) main_bindings"
    "ltables L4 (lglobals L4) (KField ''C_Runtime'') = LTable (Suc b)" "length (lstack L4) = length (lstack (m_luaState vm)) + 9"
    using L1(2,3) bd tb by (auto simp: L4_def L2_def has_packages_def b_def list_all_iff)
  ultimately show ?thesis
    by (intro exI [of _ "vm\<lparr>m_luaState := L4\<rparr>"] exI [of _ at] exI [of _ b] exI [of _ "Suc b"]) simp
qed

lemma SetGlobalArgs_run:
  assumes "has_packages pk ld (m_luaState vm)"
  shows "\<exists>L a t. SetGlobalArgs args vm = Some (True, vm\<lparr>m_luaState := L\<rparr>) \<and> has_packages pk ld L
     \<and> lstack L = lstack (m_luaState vm) \<and> lglobals L = lglobals (m_luaState vm)
     \<and> ltables L (lglobals L) (KField ''arg'') = LTable a \<and> ltables L a = t
     \<and> (\<forall>i. t (KIndex (int i)) = (if i + 1 < length args then LString (args ! (i + 1)) else LNil))"
proof -
  let ?L = "m_luaState vm" and ?a = "lnext (m_luaState vm)"
  let ?t = "\<lambda>k. case k of KIndex j \<Rightarrow> if j + 1 \<in> int ` set [1..<length args + 1]
      then argv_value args (nat (j + 1)) else LNil | KField f \<Rightarrow> LNil"
  let ?L1 = "(lua_newtable ?L)\<lparr>ltables := (ltables ?L)(?a := ?t)\<rparr>"
  have "set_args_loop args [1..<length args + 1] (lua_newtable ?L) = Some ?L1"
  proof -
    have st: "lstack (lua_newtable ?L) = LTable ?a # lstack ?L" by (simp add: lua_newtable_def lua_pushv_def)
    have "(ltables (lua_newtable ?L))(?a := (\<lambda>k. case k of KIndex j \<Rightarrow> if j + 1 \<in> int ` set [1..<length args + 1]
       then argv_value args (nat (j + 1)) else ltables (lua_newtable ?L) ?a k | KField f \<Rightarrow> ltables (lua_newtable ?L) ?a k))
       = (ltables ?L)(?a := ?t)"
      by (rule ext) (auto simp: lua_newtable_def lua_pushv_def fun_eq_iff simp del: upt_Suc split: lua_key.splits)
    then show ?thesis by (simp only: set_args_loop_run [OF st])
  qed
  then have "SetGlobalArgs args vm = Some (True, vm\<lparr>m_luaState :=
      upd_table (lglobals ?L) (KField ''arg'') (LTable ?a) (?L1\<lparr>lstack := lstack ?L\<rparr>)\<rparr>)"
    by (simp add: SetGlobalArgs_def lua_api del: upt_Suc)
  moreover have "?t (KIndex (int i)) = (if i + 1 < length args then LString (args ! (i + 1)) else LNil)" for i
  proof -
    have "int i + 1 \<in> int ` set [1..<length args + 1] \<longleftrightarrow> i + 1 \<le> length args"
      by (auto simp: image_iff simp del: upt_Suc intro!: bexI [of _ "i + 1"])
    then show ?thesis by (simp add: argv_value_def nat_add_distrib del: upt_Suc set_upt)
  qed
  ultimately show ?thesis using assms
    by (intro exI [of _ "upd_table (lglobals ?L) (KField ''arg'') (LTable ?a) (?L1\<lparr>lstack := lstack ?L\<rparr>)"]
        exI [of _ ?a] exI [of _ ?t])
      (auto simp: lua_newtable_def lua_pushv_def has_packages_def simp del: upt_Suc)
qed

section \<open>Properties\<close>

text \<open>
  A loader that allocates a table and registers it in \<open>package.loaded\<close> itself, as \<open>luaL_register\<close> does.
\<close>

definition registering_loader :: "string \<Rightarrow> lua_loader" where
  "registering_loader nm L =
     (case ltables L (lglobals L) (KField ''package'') of
        LTable pk \<Rightarrow>
          (case ltables L pk (KField ''loaded'') of
             LTable ld \<Rightarrow> (LTable (lnext L), upd_table ld (KField nm) (LTable (lnext L)) (L\<lparr>lnext := lnext L + 1\<rparr>))
           | _ \<Rightarrow> (LNil, L))
      | _ \<Rightarrow> (LNil, L))"

lemma well_behaved_registering: "well_behaved [nm] (registering_loader nm)"
  by (auto simp: well_behaved_def registering_loader_def has_packages_def)

lemma sample_loaders_ok: "main_loaders_ok registering_loader (\<lambda>nm. [the (map_of main_package_loaders nm)])"
proof -
  have "keeps_to (\<lambda>nm. [the (map_of main_package_loaders nm)]) main_names (nm, Some (registering_loader f))"
    if "(nm, f) \<in> set main_package_loaders" for nm f
    using that well_behaved_registering [of f]
    by (auto simp: keeps_to_def main_names_def main_package_loaders_def)
  then show ?thesis by (auto simp: main_loaders_ok_def list_all_iff)
qed

text \<open>
  C27. After the startup sequence of \<open>main\<close> everything the Lua side requires is in place: under each
  of the eight package names \<open>package.loaded\<close> has the value that the loader given for it returned,
  also when loaders register packages themselves; each of the fourteen export tables is stored
  under its name in the bindings, the global namespace \<open>C_Runtime\<close> is a table, and the tracked
  stack offset is unchanged, while nine values were left on the Lua stack.
\<close>

theorem main_setup_complete:
  assumes "has_packages pk ld (m_luaState vm)" "main_loaders_ok loader_named own"
  shows "\<exists>vm' at b ns. main_setup loader_named exports vm = Some vm'
     \<and> list_all (\<lambda>(nm, f). has_packages pk ld (at nm)
          \<and> ltables (m_luaState vm') ld (KField nm) = fst (loader_named f (at nm)))
         [(''uv'', ''luaopen_luv''), (''lpeg'', ''luaopen_lpeg''), (''miniz'', ''luaopen_miniz''),
          (''openssl'', ''luaopen_openssl''), (''regex'', ''luaopen_rex_pcre2''),
          (''json'', ''luaopen_rapidjson_modified''), (''utf8'', ''luaopen_utf8''), (''zlib'', ''luaopen_zlib'')]
     \<and> ltables (m_luaState vm') ld (KField ''bindings'') = LTable b
     \<and> list_all (\<lambda>nm. ltables (m_luaState vm') b (KField nm) = LLightUserdata (exports nm))
         [''cpp'', ''crypto'', ''curl'', ''glfw'', ''iconv'', ''interop'', ''labsound'', ''webview'', ''uws'', ''rml'',
          ''runtime'', ''stbi'', ''stduuid'', ''wgpu'']
     \<and> ltables (m_luaState vm') (lglobals (m_luaState vm')) (KField ''C_Runtime'') = LTable ns
     \<and> m_relativeStackOffset vm' = m_relativeStackOffset vm
     \<and> length (lstack (m_luaState vm')) = length (lstack (m_luaState vm)) + 9"
  using main_setup_run [OF assms, of exports] unfolding main_package_loaders_def main_bindings_def .

theorem main_setup_complete_witness:
  "\<exists>vm' b. main_setup registering_loader (\<lambda>nm. length nm) (new_LuaVirtualMachine sample_lua 9) = Some vm'
     \<and> ltables (m_luaState vm') 2 (KField ''lpeg'') \<noteq> LNil
     \<and> ltables (m_luaState vm') 2 (KField ''bindings'') = LTable b
     \<and> ltables (m_luaState vm') b (KField ''wgpu'') = LLightUserdata 4"
proof -
  have "fst (registering_loader nm L) \<noteq> LNil" if "has_packages 1 2 L" for nm L
    using that by (simp add: has_packages_def registering_loader_def)
  then show ?thesis
    using main_setup_complete [OF sample_lua_packages sample_loaders_ok, of "\<lambda>nm. length nm"] by fastforce
qed

text \<open>
  \<open>LoadPackage\<close> registers the loader's result under the package name and nothing else, but
  leaves the table \<open>package\<close> on the Lua stack without counting it, so that \<open>CheckStack\<close> does not
  notice.
\<close>

theorem LoadPackage_leaks_slot:
  assumes "has_packages pk ld (m_luaState vm)" "well_behaved own (loader_of loader)"
  shows "\<exists>vm'. LoadPackage nm loader vm = Some (True, vm')
     \<and> ltables (m_luaState vm') ld (KField nm) = fst (loader_of loader (loader_state pk ld vm))
     \<and> (\<forall>k. k \<notin> KField ` set (nm # own) \<longrightarrow> ltables (m_luaState vm') ld k = ltables (m_luaState vm) ld k)
     \<and> lstack (m_luaState vm') = LTable pk # lstack (m_luaState vm)
     \<and> m_relativeStackOffset vm' = m_relativeStackOffset vm \<and> fst (CheckStack vm') = fst (CheckStack vm)"
  using LoadPackage_run [OF assms prod.collapse [symmetric]] by (auto simp: CheckStack_fst)

theorem LoadPackage_leaks_slot_witness:
  "\<exists>vm'. LoadPackage ''bindings'' None (new_LuaVirtualMachine sample_lua 9) = Some (True, vm')
     \<and> lstack (m_luaState vm') = [LTable 1, LCFunction 9]"
  using LoadPackage_leaks_slot [of 1 2 "new_LuaVirtualMachine sample_lua 9" "[]" None "''bindings''"]
    sample_lua_packages well_behaved_empty by (auto simp: sample_lua_def lua_pushv_def)


text \<open>Running chunks one after the other, with the value that each call returns.\<close>

fun do_strings :: "lua_engine \<Rightarrow> (string \<times> string) list \<Rightarrow> LuaVirtualMachine \<Rightarrow>
    (bool list \<times> LuaVirtualMachine) option" where
  "do_strings eng [] vm = Some ([], vm)"
| "do_strings eng ((chunk, nm) # cs) vm =
     (case DoString eng chunk nm vm of
        None \<Rightarrow> None
      | Some (ok, vm1) \<Rightarrow> map_option (\<lambda>(oks, vm2). (ok # oks, vm2)) (do_strings eng cs vm1))"

lemma DoString_positive_offset:
  assumes "0 < m_relativeStackOffset vm"
  shows "\<exists>vm'. DoString eng chunk nm vm = Some (False, vm') \<and> 0 < m_relativeStackOffset vm'"
  using assms by (auto simp: DoString_cases Let_def vm_report_def CheckStack_def split: sum.splits prod.splits)

lemma do_strings_positive_offset:
  "0 < m_relativeStackOffset vm \<Longrightarrow> \<exists>vm'. do_strings eng cs vm = Some (replicate (length cs) False, vm')"
proof (induction cs arbitrary: vm)
  case (Cons c cs)
  obtain chunk nm where c: "c = (chunk, nm)" by fastforce
  obtain vm1 where "DoString eng chunk nm vm = Some (False, vm1)" "0 < m_relativeStackOffset vm1"
    using DoString_positive_offset [OF Cons.prems] by blast
  with Cons.IH [of vm1] show ?case using c by auto
qed simp

text \<open>
  C32. A chunk that fails at run time leaves the tracked offset at one although the interpreter
  removed the chunk. From then on every call reports failure, however many chunks are run and
  also for those that run fine.
\<close>

theorem failed_run_is_permanent:
  assumes "m_relativeStackOffset vm = 0"
    and "loadbuffer eng (c_str chunk) nm (m_luaState vm) = Inr f"
    and "run_function eng f (m_luaState vm) = (Inl err, L)"
  shows "\<exists>vm'. DoString eng chunk nm vm = Some (False, vm') \<and> m_relativeStackOffset vm' = 1
     \<and> (\<forall>cs. \<exists>vm''. do_strings eng cs vm' = Some (replicate (length cs) False, vm''))"
proof -
  obtain vm' where "DoString eng chunk nm vm = Some (False, vm')" "m_relativeStackOffset vm' = 1"
    using assms by (auto simp: DoString_cases)
  with do_strings_positive_offset [of vm' eng] show ?thesis by auto
qed

theorem failed_run_is_permanent_witness:
  "\<exists>vm' vm''. DoString sample_engine ''error()'' ''c'' (new_LuaVirtualMachine sample_lua 9) = Some (False, vm')
     \<and> do_strings sample_engine [(''x'', ''c''), (''x'', ''c'')] vm' = Some ([False, False], vm'')
     \<and> (\<exists>vm3. DoString sample_engine ''x'' ''c'' (new_LuaVirtualMachine sample_lua 9) = Some (True, vm3))"
proof -
  have c: "c_str ''error()'' = ''error()''" "c_str ''x'' = ''x''" by (simp_all add: no_nul_def NUL_def)
  obtain vm' where v: "DoString sample_engine ''error()'' ''c'' (new_LuaVirtualMachine sample_lua 9) = Some (False, vm')"
    "\<forall>cs. \<exists>vm''. do_strings sample_engine cs vm' = Some (replicate (length cs) False, vm'')"
    using failed_run_is_permanent [of "new_LuaVirtualMachine sample_lua 9" sample_engine "''error()''" "''c''" 7 "''error''"
      "m_luaState (new_LuaVirtualMachine sample_lua 9)"] c by auto
  moreover have "\<exists>vm3. DoString sample_engine ''x'' ''c'' (new_LuaVirtualMachine sample_lua 9) = Some (True, vm3)"
    by (simp add: DoString_cases c)
  ultimately show ?thesis using v(2) [rule_format, of "[(''x'', ''c''), (''x'', ''c'')]"] by auto
qed

text \<open>
  \<open>SetGlobalArgs\<close> stores the arguments after the program name as \<open>arg[0]\<close>, \<open>arg[1]\<close>, ... and
  a nil behind them, keeps the stack balanced and the offset unchanged.
\<close>

theorem SetGlobalArgs_correct:
  assumes "has_packages pk ld (m_luaState vm)"
  shows "\<exists>vm' a. SetGlobalArgs args vm = Some (True, vm')
     \<and> ltables (m_luaState vm') (lglobals (m_luaState vm')) (KField ''arg'') = LTable a
     \<and> (\<forall>i. ltables (m_luaState vm') a (KIndex (int i)) = (if i + 1 < length args then LString (args ! (i + 1)) else LNil))
     \<and> lstack (m_luaState vm') = lstack (m_luaState vm) \<and> has_packages pk ld (m_luaState vm')
     \<and> m_relativeStackOffset vm' = m_relativeStackOffset vm"
  using SetGlobalArgs_run [OF assms, of args] by fastforce

theorem SetGlobalArgs_correct_witness:
  "\<exists>vm' a. SetGlobalArgs [''evo'', ''app.lua''] (new_LuaVirtualMachine sample_lua 9) = Some (True, vm')
     \<and> ltables (m_luaState vm') (lglobals (m_luaState vm')) (KField ''arg'') = LTable a
     \<and> ltables (m_luaState vm') a (KIndex (int 0)) = LString ''app.lua''"
proof -
  from SetGlobalArgs_correct [OF sample_lua_packages, of "[''evo'', ''app.lua'']"] obtain vm' a where
    "SetGlobalArgs [''evo'', ''app.lua''] (new_LuaVirtualMachine sample_lua 9) = Some (True, vm')"
    "ltables (m_luaState vm') (lglobals (m_luaState vm')) (KField ''arg'') = LTable a"
    and i: "\<forall>i. ltables (m_luaState vm') a (KIndex (int i)) =
      (if i + 1 < length [''evo'', ''app.lua''] then LString ([''evo'', ''app.lua''] ! (i + 1)) else LNil)"
    by blast
  moreover have "ltables (m_luaState vm') a (KIndex (int 0)) = LString ''app.lua''" using i [rule_format, of 0] by simp
  ultimately show ?thesis by blast
qed

text \<open>
  C25. The exit code tells the truth. Take a Lua state that has its standard libraries, loaders that
  keep to their own packages, and an entry point that returns. If the event loop cannot be set up,
  \<open>main\<close> ends with that exception and loads nothing. Otherwise it gets to the entry point, with all
  packages and bindings in place and the tracked stack offset at zero, so that the result is
  \<open>EXIT_FAILURE\<close> exactly when the entry point does not compile or raises an error, without running the
  loop; \<open>EXIT_SUCCESS\<close> when the loop then ends without active handles; and an exception when handles
  are left. On both exit codes libuv, uWebSockets and libcurl are detached and both bindings have
  been given the Lua state.
\<close>

theorem main_exit_code:
  assumes "has_packages pk ld st" "main_loaders_ok loader_named own"
  shows "\<exists>vm1 vm2 result vm3 l g. SetGlobalArgs args (new_LuaVirtualMachine st onError) = Some (True, vm1)
     \<and> main_setup loader_named exports vm1 = Some vm2
     \<and> main eng env loader_named exports st onError args nm = Some (result, vm3, l, g)
     \<and> result =
         (if uv_loop_init env \<noteq> 0 then Terminated (Runtime_error ''Failed to initialize shared event loop'')
          else if \<not> uws_assign_ok env then Terminated Assert_failed
          else if curl_init env \<noteq> 0 then Terminated (Runtime_error ''Failed to initialize libcurl environment'')
          else case loadbuffer eng (c_str entry_point) nm (m_luaState vm2) of
                 Inl msg \<Rightarrow> EXIT_FAILURE
               | Inr f \<Rightarrow>
                   (case fst (run_function eng f (m_luaState vm2)) of
                      Inl err \<Rightarrow> EXIT_FAILURE
                    | Inr r \<Rightarrow>
                        if uv_run env = 0 then EXIT_SUCCESS
                        else Terminated (Runtime_error (''Main loop finished running, but there'' @ CHR 0x27 # ''s ''
                          @ to_string_int (uv_run env) @ '' active references''))))
     \<and> (result = EXIT_SUCCESS \<or> result = EXIT_FAILURE \<longrightarrow>
          l = no_loop\<lparr>uv_loop_ready := True\<rparr> \<and> g = \<lparr>runtime_assigned = True, rml_assigned = True\<rparr>)"
proof -
  have "has_packages pk ld (m_luaState (new_LuaVirtualMachine st onError))"
    using assms(1) by (simp add: has_packages_def lua_pushv_def)
  from SetGlobalArgs_run [OF this, of args] obtain L1 where
    vm1: "SetGlobalArgs args (new_LuaVirtualMachine st onError)
        = Some (True, (new_LuaVirtualMachine st onError)\<lparr>m_luaState := L1\<rparr>)" "has_packages pk ld L1"
    by blast
  let ?vm1 = "(new_LuaVirtualMachine st onError)\<lparr>m_luaState := L1\<rparr>"
  have p: "has_packages pk ld (m_luaState ?vm1)" using vm1(2) by simp
  from main_setup_run [OF p assms(2), of exports] obtain vm2 where
    vm2: "main_setup loader_named exports ?vm1 = Some vm2" "m_relativeStackOffset vm2 = 0"
    by (auto simp: new_LuaVirtualMachine_def Let_def)
  define ok where "ok = (case loadbuffer eng (c_str entry_point) nm (m_luaState vm2) of
          Inl msg \<Rightarrow> False
        | Inr f \<Rightarrow> (case fst (run_function eng f (m_luaState vm2)) of Inl err \<Rightarrow> False | Inr r \<Rightarrow> True))"
  have "\<exists>vm3. DoString eng entry_point nm vm2 = Some (ok, vm3)"
    using vm2(2) by (auto simp: ok_def DoString_cases Let_def split: sum.splits prod.splits)
  then obtain vm3 where d: "DoString eng entry_point nm vm2 = Some (ok, vm3)" by blast
  have ok: "(case loadbuffer eng (c_str entry_point) nm (m_luaState vm2) of
          Inl msg \<Rightarrow> EXIT_FAILURE
        | Inr f \<Rightarrow> (case fst (run_function eng f (m_luaState vm2)) of Inl err \<Rightarrow> EXIT_FAILURE | Inr r \<Rightarrow> x))
      = (if ok then x else EXIT_FAILURE)" for x
    by (simp add: ok_def split: sum.splits)
  show ?thesis
    by (intro exI [of _ ?vm1] exI [of _ vm2], unfold ok)
      (simp add: vm1(1) vm2(1) d main_def new_SharedEventLoop_def RunMainLoopUntilDone_def Let_def
        delete_SharedEventLoop_def no_loop_def runtime_assignLuaState_def rml_assignLuaState_def)
qed

theorem main_exit_code_witness:
  "\<exists>vm l g. main sample_engine \<lparr>uv_loop_init = 0, uws_assign_ok = True, curl_init = 0, uv_run = 0\<rparr>
     registering_loader (\<lambda>nm. 0) sample_lua 9 [] ''c'' = Some (EXIT_FAILURE, vm, l, g) \<and> \<not> curl_ready l"
proof -
  have p: "has_packages 1 2 sample_lua" by (simp add: has_packages_def sample_lua_def)
  have c: "c_str entry_point = entry_point" "length entry_point \<noteq> 1" "entry_point \<noteq> []"
    by (simp_all add: entry_point_def no_nul_def NUL_def quoted_def)
  show ?thesis
    using main_exit_code [OF p sample_loaders_ok, of "[]" 9 "\<lambda>nm. 0" sample_engine
        "\<lparr>uv_loop_init = 0, uws_assign_ok = True, curl_init = 0, uv_run = 0\<rparr>" "''c''"] c
    by (auto simp: no_loop_def)
qed

end
