(* ===== verification/Lua_Repl.thy ===== *)
theory Lua_Repl
  imports Lua_State "HOL-Library.Monad_Syntax"
begin

text \<open>
  The interactive interpreter of \<open>Runtime/luajit_repl.c\<close> on the model of the Lua C API. The state
  adds the standard streams, the program name used in messages and the signal handling. What the
  compiler and the interpreter do is the record \<open>repl_engine\<close>; code run in the interpreter does not
  read the standard input. \<open>None\<close> is an access outside the Lua stack.
\<close>

section \<open>State\<close>

datatype load_result = Loaded nat | Syntax_error string | Load_error string

text \<open>
  Code that runs in the interpreter need not return: it may run forever or end the process. This is
  \<open>None\<close> for \<open>r_call\<close>, which runs a function for all of its results (an error is the value before the
  message handler sees it), and for \<open>r_print\<close>, which calls the given value with the arguments and
  gives the error, if any. \<open>r_callmeta\<close> is \<open>luaL_callmeta\<close> with \<open>__tostring\<close>; an error in the message
  handler itself is reported with a fixed text.
\<close>

datatype callmeta = No_metamethod | Meta_value lua_value | Meta_error | Meta_never_returns

record repl_engine =
  r_load :: "string \<Rightarrow> load_result"
  r_call :: "nat \<Rightarrow> lua_state \<Rightarrow> ((lua_value + lua_value list) \<times> lua_state) option"
  r_print :: "lua_value \<Rightarrow> lua_value list \<Rightarrow> lua_state \<Rightarrow> (lua_value option \<times> lua_state) option"
  r_callmeta :: "lua_value \<Rightarrow> callmeta"
  r_luaL_traceback :: "string \<Rightarrow> string"

text \<open>An operation of the loop that runs code: it returns, or the code does not.\<close>

datatype 'a run = Returned 'a | Does_not_return

record repl_state =
  rl_lua :: lua_state
  rl_stdin :: string
  rl_stdout :: "string list"
  rl_stderr :: "string list"
  progname :: "string option"
  sigint_handled :: bool
  hook_set :: bool

datatype repl_status = LUA_OK | LUA_FAILED | No_input

definition newline :: char where
  "newline = CHR 0x0A"

definition eof_mark :: string where
  "eof_mark = CHR 0x27 # ''<eof>'' @ [CHR 0x27]"

section \<open>Stack operations with absolute indices\<close>

text \<open>Index 1 is the bottom of the stack; the stack lists the top first.\<close>

definition lua_insert_abs :: "nat \<Rightarrow> lua_state \<Rightarrow> lua_state option" where
  "lua_insert_abs i L =
     (case lstack L of
        [] \<Rightarrow> None
      | t # rest \<Rightarrow>
          if 0 < i \<and> i \<le> length (lstack L)
          then Some (L\<lparr>lstack := take (length (lstack L) - i) rest @ t # drop (length (lstack L) - i) rest\<rparr>)
          else None)"

definition lua_remove_abs :: "nat \<Rightarrow> lua_state \<Rightarrow> lua_state option" where
  "lua_remove_abs i L = (if 0 < i \<and> i \<le> length (lstack L) then lua_remove (length (lstack L) - i + 1) L else None)"

definition lua_isstring :: "lua_value \<Rightarrow> bool" where
  "lua_isstring v = (case v of LString s \<Rightarrow> True | LInteger i \<Rightarrow> True | _ \<Rightarrow> False)"

definition lua_tostring :: "lua_value \<Rightarrow> string option" where
  "lua_tostring v = (case v of LString s \<Rightarrow> Some s | LInteger i \<Rightarrow> Some (to_string_int i) | _ \<Rightarrow> None)"

definition on_lua :: "(lua_state \<Rightarrow> lua_state option) \<Rightarrow> repl_state \<Rightarrow> repl_state option" where
  "on_lua f s = map_option (\<lambda>L. s\<lparr>rl_lua := L\<rparr>) (f (rl_lua s))"

definition push_lua :: "lua_value \<Rightarrow> repl_state \<Rightarrow> repl_state" where
  "push_lua v s = s\<lparr>rl_lua := lua_pushv v (rl_lua s)\<rparr>"

definition set_stack :: "lua_value list \<Rightarrow> repl_state \<Rightarrow> repl_state" where
  "set_stack vs s = s\<lparr>rl_lua := (rl_lua s)\<lparr>lstack := vs\<rparr>\<rparr>"

section \<open>Signals and messages\<close>

definition lstop :: "string \<Rightarrow> repl_state \<Rightarrow> lua_value \<times> repl_state" where
  "lstop position s = (LString (position @ ''interrupted!''), s\<lparr>hook_set := False\<rparr>)"

definition laction :: "repl_state \<Rightarrow> repl_state" where
  "laction s = s\<lparr>sigint_handled := False, hook_set := True\<rparr>"

definition l_message :: "string \<Rightarrow> repl_state \<Rightarrow> repl_state" where
  "l_message msg s =
     s\<lparr>rl_stderr := rl_stderr s @ [(case progname s of None \<Rightarrow> [] | Some p \<Rightarrow> p @ '': '') @ c_str msg @ [newline]]\<rparr>"

definition repl_report :: "repl_status \<Rightarrow> repl_state \<Rightarrow> repl_state option" where
  "repl_report status s =
     (if status = LUA_OK then Some s
      else do { v \<leftarrow> lua_at 1 (rl_lua s);
                if v = LNil then Some s
                else (let msg = (case lua_tostring v of None \<Rightarrow> ''(error object is not a string)'' | Some m \<Rightarrow> m)
                      in on_lua (lua_pop 1) (l_message msg s)) })"

definition repl_traceback :: "repl_engine \<Rightarrow> lua_value \<Rightarrow> lua_value run" where
  "repl_traceback eng v =
     (case lua_tostring v of
        Some msg \<Rightarrow> Returned (LString (r_luaL_traceback eng msg))
      | None \<Rightarrow>
          if v = LNil then Returned v
          else (case r_callmeta eng v of
                  No_metamethod \<Rightarrow> Returned v
                | Meta_never_returns \<Rightarrow> Does_not_return
                | Meta_error \<Rightarrow> Returned (LString ''error in error handling'')
                | Meta_value w \<Rightarrow>
                    Returned (case lua_tostring w of None \<Rightarrow> w | Some msg \<Rightarrow> LString (r_luaL_traceback eng msg))))"

text \<open>
  \<open>docall(L, 0, 0)\<close>: the chunk on top is called with the message handler below it. \<open>finish_call\<close> is
  what follows the call.
\<close>

definition finish_call :: "nat \<Rightarrow> repl_status \<Rightarrow> repl_state \<Rightarrow> (repl_status \<times> repl_state) run option" where
  "finish_call base status s =
     map_option (\<lambda>s'. Returned (status, s')) (on_lua (lua_remove_abs base) (s\<lparr>sigint_handled := False\<rparr>))"

definition docall :: "repl_engine \<Rightarrow> repl_state \<Rightarrow> (repl_status \<times> repl_state) run option" where
  "docall eng s =
     (let base = lua_gettop (rl_lua s) in
      case on_lua (lua_insert_abs base) (push_lua (LCFunction 0) s) of
        None \<Rightarrow> None
      | Some s1 \<Rightarrow>
     (let s2 = s1\<lparr>sigint_handled := True\<rparr> in
      case lstack (rl_lua s2) of
        LFunction f # rest \<Rightarrow>
          (case r_call eng f ((rl_lua s2)\<lparr>lstack := rest\<rparr>) of
             None \<Rightarrow> Some Does_not_return
           | Some (Inl err, L) \<Rightarrow>
               (case repl_traceback eng err of
                  Does_not_return \<Rightarrow> Some Does_not_return
                | Returned v \<Rightarrow> finish_call base LUA_FAILED (s2\<lparr>rl_lua := L\<lparr>lstack := v # rest\<rparr>\<rparr>))
           | Some (Inr rs, L) \<Rightarrow> finish_call base LUA_OK (s2\<lparr>rl_lua := L\<lparr>lstack := rev rs @ rest\<rparr>\<rparr>))
      | _ \<Rightarrow> None))"

section \<open>Reading a chunk\<close>

definition LUA_MAXINPUT :: nat where
  "LUA_MAXINPUT = 512"

fun fgets_loop :: "nat \<Rightarrow> string \<Rightarrow> string \<times> string" where
  "fgets_loop 0 s = ([], s)"
| "fgets_loop n [] = ([], [])"
| "fgets_loop (Suc n) (c # s) =
     (if c = newline then ([c], s) else (case fgets_loop n s of (l, r) \<Rightarrow> (c # l, r)))"

definition fgets :: "nat \<Rightarrow> string \<Rightarrow> (string \<times> string) option" where
  "fgets n s = (if s = [] then None else Some (fgets_loop (n - 1) s))"

definition write_prompt :: "bool \<Rightarrow> repl_state \<Rightarrow> repl_state option" where
  "write_prompt firstline s =
     do { s1 \<leftarrow> on_lua (lua_getglobal (if firstline then ''_PROMPT'' else ''_PROMPT2'')) s;
          v \<leftarrow> lua_at 1 (rl_lua s1);
          let p = (case lua_tostring v of None \<Rightarrow> if firstline then ''> '' else ''>> '' | Some q \<Rightarrow> q);
          on_lua (lua_pop 1) (s1\<lparr>rl_stdout := rl_stdout s1 @ [c_str p]\<rparr>) }"

text \<open>\<open>strstr(msg, mark) == tp\<close>: the first occurrence of the mark is at the end of the message.\<close>

fun first_at_end :: "string \<Rightarrow> string \<Rightarrow> bool" where
  "first_at_end mark [] = (mark = [])"
| "first_at_end mark (c # cs) =
     (if take (length mark) (c # cs) = mark then length (c # cs) = length mark else first_at_end mark cs)"

definition incomplete :: "load_result \<Rightarrow> repl_state \<Rightarrow> (bool \<times> repl_state) option" where
  "incomplete r s =
     (case r of
        Syntax_error msg \<Rightarrow>
          if first_at_end eof_mark msg then map_option (Pair True) (on_lua (lua_pop 1) s) else Some (False, s)
      | _ \<Rightarrow> Some (False, s))"

text \<open>The text pushed for a line that \<open>fgets\<close> read.\<close>

definition line_text :: "bool \<Rightarrow> string \<Rightarrow> string" where
  "line_text firstline line =
     (let buf = c_str line;
          buf = (if buf \<noteq> [] \<and> last buf = newline then butlast buf else buf)
      in if firstline \<and> buf \<noteq> [] \<and> hd buf = CHR ''='' then ''return '' @ tl buf else buf)"

definition pushline :: "bool \<Rightarrow> repl_state \<Rightarrow> (bool \<times> repl_state) option" where
  "pushline firstline s =
     do { s1 \<leftarrow> write_prompt firstline s;
          case fgets LUA_MAXINPUT (rl_stdin s1) of
            None \<Rightarrow> Some (False, s1)
          | Some (line, rest) \<Rightarrow> Some (True, push_lua (LString (line_text firstline line)) (s1\<lparr>rl_stdin := rest\<rparr>)) }"

definition lua_concat3 :: "lua_state \<Rightarrow> lua_state option" where
  "lua_concat3 L =
     (case lstack L of
        LString c # LString b # LString a # rest \<Rightarrow> Some (L\<lparr>lstack := LString (a @ b @ c) # rest\<rparr>)
      | _ \<Rightarrow> None)"

lemma fgets_loop_length: "length (snd (fgets_loop n s)) \<le> length s"
  by (induction n s rule: fgets_loop.induct) (auto split: prod.splits)

lemma fgets_shorter: "fgets n s = Some (l, r) \<Longrightarrow> 1 < n \<Longrightarrow> length r < length s"
  using fgets_loop_length [of "n - 2" "tl s"]
  by (cases s; cases n; cases "n - 1")
    (auto simp: fgets_def numeral_2_eq_2 split: if_splits prod.splits)

text \<open>The operations on the Lua state leave the input and the program name alone.\<close>

abbreviation same_input :: "repl_state \<Rightarrow> repl_state \<Rightarrow> bool" where
  "same_input s s' \<equiv> rl_stdin s' = rl_stdin s \<and> progname s' = progname s"

lemma on_lua_keeps: "on_lua f s = Some s' \<Longrightarrow> same_input s s'"
  by (auto simp: on_lua_def)

lemma push_lua_keeps [simp]:
  "rl_stdin (push_lua v s) = rl_stdin s" "progname (push_lua v s) = progname s"
  by (simp_all add: push_lua_def)

definition prompt_text :: "bool \<Rightarrow> repl_state \<Rightarrow> string" where
  "prompt_text firstline s =
     (let L = rl_lua s; v = ltables L (lglobals L) (KField (if firstline then ''_PROMPT'' else ''_PROMPT2''))
      in c_str (case lua_tostring v of None \<Rightarrow> if firstline then ''> '' else ''>> '' | Some q \<Rightarrow> q))"

lemma write_prompt_run: "write_prompt b s = Some (s\<lparr>rl_stdout := rl_stdout s @ [prompt_text b s]\<rparr>)"
  by (simp add: write_prompt_def on_lua_def lua_api prompt_text_def Let_def)

lemma pushline_run:
  "pushline b s = Some
     (case fgets LUA_MAXINPUT (rl_stdin s) of
        None \<Rightarrow> (False, s\<lparr>rl_stdout := rl_stdout s @ [prompt_text b s]\<rparr>)
      | Some (line, rest) \<Rightarrow>
          (True, push_lua (LString (line_text b line))
             (s\<lparr>rl_stdout := rl_stdout s @ [prompt_text b s], rl_stdin := rest\<rparr>)))"
  by (simp add: pushline_def write_prompt_run split: option.split)

lemma pushline_stdin:
  assumes "pushline b s = Some (got, s')"
  shows "got \<Longrightarrow> length (rl_stdin s') < length (rl_stdin s)" "\<not> got \<Longrightarrow> rl_stdin s' = [] \<and> rl_stdin s = []"
    "progname s' = progname s"
  using assms fgets_shorter [of LUA_MAXINPUT "rl_stdin s"]
  by (auto simp: pushline_run fgets_def LUA_MAXINPUT_def split: option.splits if_splits prod.splits)

lemma incomplete_keeps:
  assumes "incomplete r s = Some (b, s')"
  shows "same_input s s'"
  using assms by (auto simp: incomplete_def dest: on_lua_keeps split: load_result.splits if_splits)

text \<open>What \<open>luaL_loadbuffer\<close> leaves on the stack and returns.\<close>

fun loaded_value :: "load_result \<Rightarrow> lua_value" where
  "loaded_value (Loaded f) = LFunction f"
| "loaded_value (Syntax_error msg) = LString msg"
| "loaded_value (Load_error msg) = LString msg"

fun load_status :: "load_result \<Rightarrow> repl_status" where
  "load_status (Loaded f) = LUA_OK"
| "load_status (Syntax_error msg) = LUA_FAILED"
| "load_status (Load_error msg) = LUA_FAILED"

definition bottom_text :: "lua_state \<Rightarrow> string option" where
  "bottom_text L = do { v \<leftarrow> lua_at (lua_gettop L) L; lua_tostring v }"

text \<open>The loop of \<open>loadline\<close>: it ends because every further line consumes input.\<close>

function load_loop :: "repl_engine \<Rightarrow> repl_state \<Rightarrow> (repl_status \<times> repl_state) option" where
  "load_loop eng s =
     (case bottom_text (rl_lua s) of
        None \<Rightarrow> None
      | Some line \<Rightarrow>
     (let r = r_load eng line in
      case incomplete r (push_lua (loaded_value r) s) of
        None \<Rightarrow> None
      | Some (inc, s1) \<Rightarrow>
          if \<not> inc then map_option (Pair (load_status r)) (on_lua (lua_remove_abs 1) s1)
          else
     (case pushline False s1 of
        None \<Rightarrow> None
      | Some (got, s2) \<Rightarrow>
          if \<not> got then Some (No_input, s2)
          else
     (case on_lua (\<lambda>L. lua_insert_abs (lua_gettop L - 1) L) (push_lua (LString [newline]) s2) of
        None \<Rightarrow> None
      | Some s3 \<Rightarrow>
     (case on_lua lua_concat3 s3 of
        None \<Rightarrow> None
      | Some s4 \<Rightarrow> load_loop eng s4)))))"
  by pat_completeness auto

termination
proof (relation "measure (\<lambda>(eng, s). length (rl_stdin s))", goal_cases)
  case (2 eng s line r p inc s1 q got s2 s3 s4)
  have "rl_stdin s4 = rl_stdin s2" using 2 on_lua_keeps by (metis push_lua_keeps(1))
  moreover have "length (rl_stdin s2) < length (rl_stdin s1)" using 2 pushline_stdin(1) [of False s1 got s2] by auto
  moreover have "rl_stdin s1 = rl_stdin s" using 2 incomplete_keeps [of r _ inc s1] by auto
  ultimately show ?case by simp
qed simp

declare load_loop.simps [simp del]

definition loadline :: "repl_engine \<Rightarrow> repl_state \<Rightarrow> (repl_status \<times> repl_state) option" where
  "loadline eng s =
     (case pushline True (set_stack [] s) of
        None \<Rightarrow> None
      | Some (got, s1) \<Rightarrow> if \<not> got then Some (No_input, s1) else load_loop eng s1)"

section \<open>The main loop\<close>

text \<open>Printing the results of a chunk: the global \<open>print\<close> is put below them and called.\<close>

definition print_results :: "repl_engine \<Rightarrow> repl_state \<Rightarrow> repl_state run option" where
  "print_results eng s =
     do { s1 \<leftarrow> on_lua (lua_getglobal ''print'') s;
          s2 \<leftarrow> on_lua (lua_insert_abs 1) s1;
          let vs = lstack (rl_lua s2);
          (case r_print eng (last vs) (rev (butlast vs)) ((rl_lua s2)\<lparr>lstack := []\<rparr>) of
             None \<Rightarrow> Some Does_not_return
           | Some (None, L) \<Rightarrow> Some (Returned (s2\<lparr>rl_lua := L\<lparr>lstack := []\<rparr>\<rparr>))
           | Some (Some err, L) \<Rightarrow>
               (let msg = ''error calling '' @ CHR 0x27 # ''print'' @ CHR 0x27 # '' (''
                        @ (case lua_tostring err of None \<Rightarrow> ''(null)'' | Some m \<Rightarrow> m) @ '')''
                in Some (Returned (l_message msg (s2\<lparr>rl_lua := L\<lparr>lstack := [LString msg, err]\<rparr>\<rparr>))))) }"

definition eval_chunk :: "repl_engine \<Rightarrow> repl_status \<Rightarrow> repl_state \<Rightarrow> repl_state run option" where
  "eval_chunk eng status s =
     (case (if status = LUA_OK then docall eng s else Some (Returned (status, s))) of
        None \<Rightarrow> None
      | Some Does_not_return \<Rightarrow> Some Does_not_return
      | Some (Returned (st, s1)) \<Rightarrow>
          (case repl_report st s1 of
             None \<Rightarrow> None
           | Some s2 \<Rightarrow>
               if st = LUA_OK \<and> 0 < lua_gettop (rl_lua s2) then print_results eng s2 else Some (Returned s2)))"

lemma repl_report_keeps: "repl_report st s = Some s' \<Longrightarrow> same_input s s'"
  by (auto simp: repl_report_def l_message_def Let_def dest!: on_lua_keeps split: if_splits Option.bind_splits)

lemma finish_call_keeps: "finish_call b st0 s = Some (Returned (st, s')) \<Longrightarrow> same_input s s'"
  by (auto simp: finish_call_def dest: on_lua_keeps)

lemma docall_keeps:
  assumes "docall eng s = Some (Returned (st, s'))"
  shows "same_input s s'"
proof -
  obtain s1 where s1: "on_lua (lua_insert_abs (lua_gettop (rl_lua s))) (push_lua (LCFunction 0) s) = Some s1"
    using assms by (auto simp: docall_def Let_def split: option.splits)
  obtain f rest where f: "lstack (rl_lua s1) = LFunction f # rest"
    using assms s1 by (auto simp: docall_def Let_def split: list.splits lua_value.splits)
  have "\<exists>L vs st0. finish_call (lua_gettop (rl_lua s)) st0 (s1\<lparr>sigint_handled := True, rl_lua := L\<lparr>lstack := vs\<rparr>\<rparr>)
      = Some (Returned (st, s'))"
    using assms s1 f by (auto simp: docall_def Let_def split: option.splits prod.splits sum.splits run.splits)
  then have "same_input s1 s'" using finish_call_keeps by fastforce
  then show ?thesis using on_lua_keeps [OF s1] by simp
qed

lemma print_results_keeps: "print_results eng s = Some (Returned s') \<Longrightarrow> same_input s s'"
  by (auto simp: print_results_def l_message_def Let_def dest!: on_lua_keeps split: Option.bind_splits prod.splits option.splits)

lemma eval_chunk_keeps: "eval_chunk eng st s = Some (Returned s') \<Longrightarrow> same_input s s'"
  by (auto simp: eval_chunk_def dest!: docall_keeps repl_report_keeps print_results_keeps
      split: option.splits if_splits run.splits)

text \<open>A message that asks for more input.\<close>

fun wants_more :: "load_result \<Rightarrow> bool" where
  "wants_more (Syntax_error msg) = first_at_end eof_mark msg"
| "wants_more r = False"

lemma incomplete_run:
  assumes "lstack (rl_lua s) = x # xs"
  shows "incomplete r s = Some (wants_more r, if wants_more r then set_stack xs s else s)"
  using assms by (cases r) (auto simp: incomplete_def on_lua_def lua_pop_def set_stack_def)

text \<open>One round of the loop, started with the text so far on the stack.\<close>

lemma load_loop_round:
  assumes "lstack (rl_lua s) = [LString src]"
  shows "load_loop eng s =
     (let r = r_load eng src in
      if \<not> wants_more r then Some (load_status r, set_stack [loaded_value r] s)
      else case fgets LUA_MAXINPUT (rl_stdin s) of
             None \<Rightarrow> Some (No_input, s\<lparr>rl_stdout := rl_stdout s @ [prompt_text False s]\<rparr>)
           | Some (line, rest) \<Rightarrow>
               load_loop eng (set_stack [LString (src @ newline # line_text False line)]
                 (s\<lparr>rl_stdout := rl_stdout s @ [prompt_text False s], rl_stdin := rest\<rparr>)))"
proof -
  let ?r = "r_load eng src"
  have b: "bottom_text (rl_lua s) = Some src"
    using assms by (simp add: bottom_text_def lua_gettop_def lua_at_def lua_tostring_def)
  have st: "lstack (rl_lua (push_lua (loaded_value ?r) s)) = [loaded_value ?r, LString src]"
    using assms by (simp add: push_lua_def lua_pushv_def)
  have popped: "set_stack [LString src] (push_lua v s) = s" for v
    using assms by (simp add: set_stack_def push_lua_def lua_pushv_def)
  have rm: "on_lua (lua_remove_abs 1) (push_lua (loaded_value ?r) s) = Some (set_stack [loaded_value ?r] s)"
    using assms by (simp add: on_lua_def lua_remove_abs_def lua_remove_def push_lua_def lua_pushv_def set_stack_def)
  show ?thesis
    by (subst load_loop.simps)
      (use assms in \<open>simp add: b incomplete_run [OF st] rm popped pushline_run Let_def split: option.split,
        auto simp: on_lua_def push_lua_def lua_pushv_def lua_insert_abs_def lua_gettop_def lua_concat3_def set_stack_def
         lua_remove_abs_def lua_remove_def\<close>)
qed

text \<open>Every chunk that was read consumed input.\<close>

lemma load_loop_stdin:
  assumes "load_loop eng s = Some (st, s')" "lstack (rl_lua s) = [LString src]"
  shows "length (rl_stdin s') \<le> length (rl_stdin s) \<and> progname s' = progname s
     \<and> (st = No_input \<longrightarrow> rl_stdin s' = [])
     \<and> (st \<noteq> No_input \<longrightarrow> (\<exists>r. st = load_status r \<and> lstack (rl_lua s') = [loaded_value r]))"
  using assms
proof (induction "length (rl_stdin s)" arbitrary: s src rule: less_induct)
  case less
  let ?r = "r_load eng src"
  note rnd = load_loop_round [OF less.prems(2), of eng]
  show ?case
  proof (cases "wants_more ?r")
    case False
    then have "st = load_status ?r" "s' = set_stack [loaded_value ?r] s"
      using less.prems(1) rnd by (simp_all add: Let_def)
    moreover have "load_status ?r \<noteq> No_input" by (cases ?r) auto
    ultimately show ?thesis by (auto simp: set_stack_def)
  next
    case True
    show ?thesis
    proof (cases "fgets LUA_MAXINPUT (rl_stdin s)")
      case None
      then show ?thesis using less.prems(1) rnd True by (auto simp: Let_def fgets_def split: if_splits)
    next
      case (Some p)
      obtain line rest where p: "p = (line, rest)" by fastforce
      have l: "length rest < length (rl_stdin s)" using fgets_shorter Some p by (simp add: LUA_MAXINPUT_def)
      define s1 where "s1 = set_stack [LString (src @ newline # line_text False line)]
          (s\<lparr>rl_stdout := rl_stdout s @ [prompt_text False s], rl_stdin := rest\<rparr>)"
      have "load_loop eng s1 = Some (st, s')" using less.prems(1) rnd True Some p by (simp add: Let_def s1_def)
      moreover have "lstack (rl_lua s1) = [LString (src @ newline # line_text False line)]" "rl_stdin s1 = rest"
        "progname s1 = progname s" by (simp_all add: s1_def set_stack_def)
      ultimately show ?thesis using less.hyps [of s1] l by auto
    qed
  qed
qed

lemma loadline_stdin:
  assumes "loadline eng s = Some (st, s')"
  shows "progname s' = progname s \<and> (st = No_input \<longrightarrow> rl_stdin s' = [])
     \<and> (st \<noteq> No_input \<longrightarrow> length (rl_stdin s') < length (rl_stdin s)
          \<and> (\<exists>r. st = load_status r \<and> lstack (rl_lua s') = [loaded_value r]))"
proof (cases "fgets LUA_MAXINPUT (rl_stdin s)")
  case None
  then show ?thesis
    using assms by (auto simp: loadline_def pushline_run set_stack_def fgets_def split: if_splits)
next
  case (Some p)
  obtain line rest where p: "p = (line, rest)" by fastforce
  define s1 where "s1 = push_lua (LString (line_text True line))
      (set_stack [] s\<lparr>rl_stdout := rl_stdout s @ [prompt_text True (set_stack [] s)], rl_stdin := rest\<rparr>)"
  have l: "load_loop eng s1 = Some (st, s')"
    using assms Some p by (simp add: loadline_def pushline_run s1_def) (simp add: set_stack_def)
  have "lstack (rl_lua s1) = [LString (line_text True line)]" "rl_stdin s1 = rest" "progname s1 = progname s"
    by (simp_all add: s1_def push_lua_def lua_pushv_def set_stack_def)
  then show ?thesis
    using load_loop_stdin [OF l] fgets_shorter [of LUA_MAXINPUT "rl_stdin s" line rest] Some p
    by (auto simp: LUA_MAXINPUT_def)
qed

function dotty_loop :: "repl_engine \<Rightarrow> repl_state \<Rightarrow> repl_state run option" where
  "dotty_loop eng s =
     (case loadline eng s of
        None \<Rightarrow> None
      | Some (status, s1) \<Rightarrow>
          if status = No_input then Some (Returned s1)
          else (case eval_chunk eng status s1 of
                  None \<Rightarrow> None
                | Some Does_not_return \<Rightarrow> Some Does_not_return
                | Some (Returned s2) \<Rightarrow> dotty_loop eng s2))"
  by pat_completeness auto

termination
proof (relation "measure (\<lambda>(eng, s). length (rl_stdin s))", goal_cases)
  case (2 eng s p status s1 r s2)
  then show ?case using loadline_stdin [of eng s status s1] eval_chunk_keeps [of eng status s1 s2] by auto
qed simp

declare dotty_loop.simps [simp del]

definition dotty :: "repl_engine \<Rightarrow> repl_state \<Rightarrow> repl_state run option" where
  "dotty eng s =
     (case dotty_loop eng (s\<lparr>progname := None\<rparr>) of
        None \<Rightarrow> None
      | Some Does_not_return \<Rightarrow> Some Does_not_return
      | Some (Returned s1) \<Rightarrow>
          Some (Returned ((set_stack [] s1)\<lparr>rl_stdout := rl_stdout s1 @ [[newline]], progname := progname s\<rparr>)))"

text \<open>The exported entry point of \<open>runtime_ffi.cpp\<close>, on the Lua state assigned at startup.\<close>

definition runtime_repl_start :: "repl_engine \<Rightarrow> repl_state \<Rightarrow> repl_state run option" where
  "runtime_repl_start eng s = dotty eng s"

section \<open>Every step is defined\<close>

lemma load_loop_defined: "lstack (rl_lua s) = [LString src] \<Longrightarrow> load_loop eng s \<noteq> None"
proof (induction "length (rl_stdin s)" arbitrary: s src rule: less_induct)
  case less
  show ?case
  proof (cases "fgets LUA_MAXINPUT (rl_stdin s)")
    case None
    then show ?thesis using load_loop_round [OF less.prems, of eng] by (simp add: Let_def)
  next
    case (Some p)
    obtain line rest where p: "p = (line, rest)" by fastforce
    have "length rest < length (rl_stdin s)" using fgets_shorter Some p by (simp add: LUA_MAXINPUT_def)
    then have "load_loop eng (set_stack [LString (src @ newline # line_text False line)]
        (s\<lparr>rl_stdout := rl_stdout s @ [prompt_text False s], rl_stdin := rest\<rparr>)) \<noteq> None"
      by (intro less.hyps) (simp_all add: set_stack_def)
    then show ?thesis using load_loop_round [OF less.prems, of eng] Some p by (simp add: Let_def)
  qed
qed

lemma loadline_defined: "loadline eng s \<noteq> None"
proof -
  have "load_loop eng (push_lua (LString src) (set_stack [] s\<lparr>rl_stdout := out, rl_stdin := rest\<rparr>)) \<noteq> None" for src out rest
    by (rule load_loop_defined) (simp add: push_lua_def lua_pushv_def set_stack_def)
  then show ?thesis by (simp add: loadline_def pushline_run split: option.split)
qed

lemma docall_run:
  assumes "lstack (rl_lua s) = [LFunction f]"
  shows "case r_call eng f ((rl_lua s)\<lparr>lstack := [LCFunction 0]\<rparr>) of
       None \<Rightarrow> docall eng s = Some Does_not_return
     | Some (Inl err, L) \<Rightarrow>
         (case repl_traceback eng err of
            Does_not_return \<Rightarrow> docall eng s = Some Does_not_return
          | Returned v \<Rightarrow> \<exists>s1. docall eng s = Some (Returned (LUA_FAILED, s1)) \<and> lstack (rl_lua s1) = [v])
     | Some (Inr rs, L) \<Rightarrow> \<exists>s1. docall eng s = Some (Returned (LUA_OK, s1)) \<and> rl_lua s1 = L\<lparr>lstack := rev rs\<rparr>"
proof -
  have "take (length rs) (rev rs @ [LCFunction 0]) = rev rs" for rs by simp
  then show ?thesis using assms
    by (auto simp: docall_def finish_call_def on_lua_def push_lua_def lua_pushv_def lua_insert_abs_def lua_gettop_def
        lua_remove_abs_def lua_remove_def Let_def split: prod.splits sum.splits option.splits run.splits)
qed

lemma repl_report_defined: "st = LUA_OK \<or> lstack (rl_lua s) = [v] \<Longrightarrow> \<exists>s'. repl_report st s = Some s'"
  by (auto simp: repl_report_def lua_at_def on_lua_def lua_pop_def l_message_def Let_def)

lemma print_results_run:
  "case r_print eng (ltables (rl_lua s) (lglobals (rl_lua s)) (KField ''print'')) (rev (lstack (rl_lua s)))
       ((rl_lua s)\<lparr>lstack := []\<rparr>) of
     None \<Rightarrow> print_results eng s = Some Does_not_return
   | Some r \<Rightarrow> \<exists>s'. print_results eng s = Some (Returned s')"
  by (auto simp: print_results_def on_lua_def lua_api lua_insert_abs_def Let_def split: prod.splits option.splits)

text \<open>
  A compiled chunk hangs if its code, the conversion of its error object or the printing of its
  results does not return.
\<close>

definition call_hangs :: "repl_engine \<Rightarrow> nat \<Rightarrow> lua_state \<Rightarrow> bool" where
  "call_hangs eng f L =
     (case r_call eng f (L\<lparr>lstack := [LCFunction 0]\<rparr>) of
        None \<Rightarrow> True
      | Some (Inl err, L') \<Rightarrow> repl_traceback eng err = Does_not_return
      | Some (Inr rs, L') \<Rightarrow>
          rs \<noteq> [] \<and> r_print eng (ltables L' (lglobals L') (KField ''print'')) rs (L'\<lparr>lstack := []\<rparr>) = None)"

lemma eval_chunk_call:
  assumes "lstack (rl_lua s) = [LFunction f]"
  shows "if call_hangs eng f (rl_lua s) then eval_chunk eng LUA_OK s = Some Does_not_return
         else \<exists>s'. eval_chunk eng LUA_OK s = Some (Returned s')"
proof (cases "r_call eng f ((rl_lua s)\<lparr>lstack := [LCFunction 0]\<rparr>)")
  case None
  then show ?thesis using docall_run [OF assms, of eng] by (simp add: call_hangs_def eval_chunk_def)
next
  case (Some p)
  obtain res L where p: "p = (res, L)" by fastforce
  show ?thesis
  proof (cases res)
    case (Inl err)
    show ?thesis
    proof (cases "repl_traceback eng err")
      case (Returned v)
      then obtain s1 where "docall eng s = Some (Returned (LUA_FAILED, s1))" "lstack (rl_lua s1) = [v]"
        using docall_run [OF assms, of eng] Some p Inl by auto
      then show ?thesis using Some p Inl Returned repl_report_defined [of LUA_FAILED s1 v]
        by (auto simp: call_hangs_def eval_chunk_def)
    qed (use docall_run [OF assms, of eng] Some p Inl in \<open>simp add: call_hangs_def eval_chunk_def\<close>)
  next
    case (Inr rs)
    then obtain s1 where "docall eng s = Some (Returned (LUA_OK, s1))" "rl_lua s1 = L\<lparr>lstack := rev rs\<rparr>"
      using docall_run [OF assms, of eng] Some p by auto
    then show ?thesis using Some p Inr print_results_run [of eng s1]
      by (auto simp: call_hangs_def eval_chunk_def repl_report_def lua_gettop_def split: option.splits)
  qed
qed

lemma eval_chunk_message:
  assumes "lstack (rl_lua s) = [v]" "st \<noteq> LUA_OK"
  shows "\<exists>s'. eval_chunk eng st s = Some (Returned s')"
  using repl_report_defined [of st s v] assms by (auto simp: eval_chunk_def)

text \<open>The interactive session comes to a chunk that hangs.\<close>

inductive runs_forever :: "repl_engine \<Rightarrow> repl_state \<Rightarrow> bool" for eng :: repl_engine where
  hangs_now: "loadline eng s = Some (LUA_OK, s1) \<Longrightarrow> lstack (rl_lua s1) = [LFunction f] \<Longrightarrow>
    call_hangs eng f (rl_lua s1) \<Longrightarrow> runs_forever eng s"
| hangs_later: "loadline eng s = Some (st, s1) \<Longrightarrow> st \<noteq> No_input \<Longrightarrow> eval_chunk eng st s1 = Some (Returned s2) \<Longrightarrow>
    runs_forever eng s2 \<Longrightarrow> runs_forever eng s"

lemma runs_forever_step:
  assumes "loadline eng s = Some (st, s1)" "st \<noteq> No_input" "eval_chunk eng st s1 = Some (Returned s2)"
  shows "runs_forever eng s \<longleftrightarrow> runs_forever eng s2"
proof
  assume "runs_forever eng s"
  then show "runs_forever eng s2"
  proof (cases rule: runs_forever.cases)
    case (hangs_now s' f)
    then show ?thesis using eval_chunk_call [of s1 f eng] assms by auto
  qed (use assms in auto)
qed (rule hangs_later [OF assms])

lemma dotty_loop_outcome:
  "if runs_forever eng s then dotty_loop eng s = Some Does_not_return
   else \<exists>s'. dotty_loop eng s = Some (Returned s') \<and> rl_stdin s' = [] \<and> progname s' = progname s"
proof (induction eng s rule: dotty_loop.induct)
  case (1 eng s)
  obtain st s1 where l: "loadline eng s = Some (st, s1)" using loadline_defined [of eng s] by auto
  note ls = loadline_stdin [OF l]
  show ?case
  proof (cases "st = No_input")
    case True
    then have "\<not> runs_forever eng s" using l by (auto elim: runs_forever.cases)
    then show ?thesis using True l ls by (simp add: dotty_loop.simps [of eng s])
  next
    case False
    then obtain r where r: "st = load_status r" "lstack (rl_lua s1) = [loaded_value r]" using ls by blast
    show ?thesis
    proof (cases "eval_chunk eng st s1 = Some Does_not_return")
      case True
      then obtain f where f: "r = Loaded f"
        using eval_chunk_message [OF r(2), of st eng] r(1) by (cases r) auto
      then have "runs_forever eng s"
        using hangs_now [of eng s s1 f] l r True eval_chunk_call [of s1 f eng] by (auto split: if_splits)
      then show ?thesis using True l False by (simp add: dotty_loop.simps [of eng s])
    next
      case ret: False
      obtain s2 where e: "eval_chunk eng st s1 = Some (Returned s2)"
        using ret r eval_chunk_call [of s1 _ eng] eval_chunk_message [OF r(2), of st eng]
        by (cases r) (auto split: if_splits)
      then show ?thesis
        using 1 [OF l refl False e refl] l ls False eval_chunk_keeps [OF e] runs_forever_step [OF l False e]
        by (simp add: dotty_loop.simps [of eng s] split: if_splits)
    qed
  qed
qed

section \<open>Specification of reading a chunk\<close>

text \<open>The lines that successive calls of \<open>fgets\<close> deliver.\<close>

function lines_of :: "string \<Rightarrow> string list" where
  "lines_of s = (case fgets LUA_MAXINPUT s of None \<Rightarrow> [] | Some (l, r) \<Rightarrow> l # lines_of r)"
  by pat_completeness auto

termination
  by (relation "measure length") (auto simp: LUA_MAXINPUT_def dest: fgets_shorter)

declare lines_of.simps [simp del]

text \<open>
  The chunk is the first prefix of the lines, joined by newlines, that the compiler does not call
  incomplete; the result is what the compiler says about it and the lines that are left.
\<close>

fun chunk_of :: "(string \<Rightarrow> load_result) \<Rightarrow> string \<Rightarrow> string list \<Rightarrow> (load_result \<times> string list) option" where
  "chunk_of load src [] = (if wants_more (load src) then None else Some (load src, []))"
| "chunk_of load src (l # ls) =
     (if wants_more (load src) then chunk_of load (src @ newline # line_text False l) ls
      else Some (load src, l # ls))"

lemma lines_of_fgets: "fgets LUA_MAXINPUT s = Some (l, r) \<Longrightarrow> lines_of s = l # lines_of r"
  by (subst lines_of.simps) simp

lemma lines_of_none: "fgets LUA_MAXINPUT s = None \<Longrightarrow> lines_of s = []"
  by (subst lines_of.simps) simp

lemma load_loop_spec:
  assumes "lstack (rl_lua s) = [LString src]"
  shows "\<exists>s'. load_loop eng s = Some ((case chunk_of (r_load eng) src (lines_of (rl_stdin s)) of
            None \<Rightarrow> No_input | Some (r, ls) \<Rightarrow> load_status r), s')
     \<and> (case chunk_of (r_load eng) src (lines_of (rl_stdin s)) of
            None \<Rightarrow> rl_stdin s' = []
          | Some (r, ls) \<Rightarrow> lstack (rl_lua s') = [loaded_value r] \<and> lines_of (rl_stdin s') = ls)"
  using assms
proof (induction "length (rl_stdin s)" arbitrary: s src rule: less_induct)
  case less
  note rnd = load_loop_round [OF less.prems, of eng]
  show ?case
  proof (cases "fgets LUA_MAXINPUT (rl_stdin s)")
    case None
    then have "lines_of (rl_stdin s) = []" "rl_stdin s = []"
      by (simp_all add: lines_of_none) (simp add: fgets_def split: if_splits)
    then show ?thesis using rnd None by (auto simp: Let_def set_stack_def)
  next
    case (Some p)
    obtain line rest where p: "p = (line, rest)" by fastforce
    have ls: "lines_of (rl_stdin s) = line # lines_of rest" using Some p by (simp add: lines_of_fgets)
    define s1 where "s1 = set_stack [LString (src @ newline # line_text False line)]
        (s\<lparr>rl_stdout := rl_stdout s @ [prompt_text False s], rl_stdin := rest\<rparr>)"
    have s1: "lstack (rl_lua s1) = [LString (src @ newline # line_text False line)]" "rl_stdin s1 = rest"
      by (simp_all add: s1_def set_stack_def)
    have "length rest < length (rl_stdin s)" using fgets_shorter Some p by (simp add: LUA_MAXINPUT_def)
    then have ih: "\<exists>s'. load_loop eng s1 = Some ((case chunk_of (r_load eng) (src @ newline # line_text False line) (lines_of rest) of
            None \<Rightarrow> No_input | Some (r, ls) \<Rightarrow> load_status r), s')
     \<and> (case chunk_of (r_load eng) (src @ newline # line_text False line) (lines_of rest) of
            None \<Rightarrow> rl_stdin s' = []
          | Some (r, ls) \<Rightarrow> lstack (rl_lua s') = [loaded_value r] \<and> lines_of (rl_stdin s') = ls)"
      using less.hyps [of s1, OF _ s1(1)] s1(2) by simp
    show ?thesis
    proof (cases "wants_more (r_load eng src)")
      case True
      then show ?thesis using ih rnd Some p ls by (simp add: Let_def s1_def)
    next
      case False
      then show ?thesis using rnd ls by (simp add: Let_def set_stack_def)
    qed
  qed
qed

section \<open>Properties\<close>

text \<open>
  C12. The interactive interpreter comes to an end exactly if the code it is given does. On every
  finite input it either reaches a chunk whose code (or the conversion of its error object, or the
  printing of its results) does not return, and then does not return itself; or it
  returns after it used up the input, with an empty stack and the program name that was set
  before. In both cases no operation on the Lua stack is out of range.
\<close>

theorem dotty_terminates:
  "if runs_forever eng (s\<lparr>progname := None\<rparr>) then dotty eng s = Some Does_not_return
   else \<exists>s'. dotty eng s = Some (Returned s') \<and> rl_stdin s' = [] \<and> lstack (rl_lua s') = [] \<and> progname s' = progname s"
  using dotty_loop_outcome [of eng "s\<lparr>progname := None\<rparr>"] by (auto simp: dotty_def set_stack_def)

text \<open>
  C22. Reading a chunk joins the input lines with newlines until the compiler no longer reports
  the end of the input as its only problem; a leading equals sign of the first line becomes a
  return statement. The compiled function or the error message is then alone on the stack, and
  the remaining lines are still to be read. Without input nothing is compiled.
\<close>

theorem loadline_reads_chunk:
  "\<exists>s'. loadline eng s = Some
       ((case lines_of (rl_stdin s) of
           [] \<Rightarrow> No_input
         | l # ls \<Rightarrow> (case chunk_of (r_load eng) (line_text True l) ls of
                        None \<Rightarrow> No_input | Some (r, ls') \<Rightarrow> load_status r)), s')
     \<and> (case lines_of (rl_stdin s) of
           [] \<Rightarrow> rl_stdin s' = []
         | l # ls \<Rightarrow> (case chunk_of (r_load eng) (line_text True l) ls of
                        None \<Rightarrow> rl_stdin s' = []
                      | Some (r, ls') \<Rightarrow> lstack (rl_lua s') = [loaded_value r] \<and> lines_of (rl_stdin s') = ls'))"
proof (cases "fgets LUA_MAXINPUT (rl_stdin s)")
  case None
  then have "lines_of (rl_stdin s) = []" "rl_stdin s = []"
    by (simp_all add: lines_of_none) (simp add: fgets_def split: if_splits)
  then show ?thesis using None by (auto simp: loadline_def pushline_run set_stack_def)
next
  case (Some p)
  obtain line rest where p: "p = (line, rest)" by fastforce
  have ls: "lines_of (rl_stdin s) = line # lines_of rest" using Some p by (simp add: lines_of_fgets)
  define s1 where "s1 = push_lua (LString (line_text True line))
      (set_stack [] s\<lparr>rl_stdout := rl_stdout s @ [prompt_text True (set_stack [] s)], rl_stdin := rest\<rparr>)"
  have "loadline eng s = load_loop eng s1"
    using Some p by (simp add: loadline_def pushline_run s1_def) (simp add: set_stack_def)
  moreover have "lstack (rl_lua s1) = [LString (line_text True line)]" "rl_stdin s1 = rest"
    by (simp_all add: s1_def push_lua_def lua_pushv_def set_stack_def)
  ultimately show ?thesis using load_loop_spec [of s1 "line_text True line" eng] ls by simp
qed

end
