(* ===== verification/Json_Encoder.thy ===== *)
theory Json_Encoder
  imports Lua_State "HOL-Library.List_Lexorder" "HOL-Library.Multiset" "HOL-Library.Monad_Syntax"
begin

text \<open>
  The JSON encoder of \<open>Runtime/Bindings/rapidjson.hpp\<close>. Lua tables live on a heap and may be
  cyclic; the encoder walks them and sends events to a writer of the RapidJSON library. The
  writer is the list of the events it got, and the text it produces is a parameter. The helpers
  of lua-rapidjson (\<open>values::isarray\<close>, \<open>values::isnull\<close>, \<open>luax::isinteger\<close>, \<open>luax::rawlen\<close>), the
  iteration order of \<open>lua_next\<close>, the metamethods and the checks of numbers by the writer are
  fields of the record \<open>json_env\<close>; metamethods are taken not to change the tables. An error raised
  in Lua abandons the encoding. Keys that \<open>strcmp\<close> cannot tell apart keep their order here, where
  \<open>std::sort\<close> leaves it open; no theorem depends on it.
\<close>

section \<open>Data\<close>

datatype json_arg =
    VNil
  | VBool bool
  | VNumber "64 word"
  | VString string
  | VTable nat
  | VLightuserdata nat
  | VOther nat

datatype json_table_key = KeyString string | KeyInt int | KeyOther nat

datatype json_event =
    Ev_Null
  | Ev_Bool bool
  | Ev_Int64 int
  | Ev_Double "64 word"
  | Ev_String string
  | Ev_Key string
  | Ev_StartObject
  | Ev_EndObject
  | Ev_StartArray
  | Ev_EndArray

datatype json_error =
    Nested_too_depth
  | Json_stack_overflow
  | Bad_double
  | Cannot_encode string
  | Bad_options
  | Not_a_string

text \<open>
  \<open>table_entries\<close> lists the fields of a table in the order of \<open>lua_next\<close>; \<open>raw_geti\<close> and \<open>raw_len\<close>
  are the array accesses. \<open>meta_tostring\<close> is what \<open>lua_tolstring\<close> makes of the result of the metamethod,
  when there is one; for a result that is not a string that is the null pointer, which the
  writer's assertion rejects (\<open>Not_a_string\<close>).
\<close>

record json_env =
  table_entries :: "nat \<Rightarrow> (json_table_key \<times> json_arg) list"
  raw_geti :: "nat \<Rightarrow> int \<Rightarrow> json_arg"
  raw_len :: "nat \<Rightarrow> nat"
  is_array :: "nat \<Rightarrow> bool \<Rightarrow> bool"
  isinteger :: "64 word \<Rightarrow> int option"
  isnull :: "nat \<Rightarrow> bool"
  check_stack :: "int \<Rightarrow> bool"
  double_ok :: "64 word \<Rightarrow> bool"
  meta_tostring :: "json_arg \<Rightarrow> string option option"
  global_tostring :: "json_arg \<Rightarrow> string option"

record CustomizedEncoder =
  pretty :: bool
  prettier :: bool
  sort_keys :: bool
  empty_table_as_array :: bool
  max_depth :: int

definition MAX_DEPTH_DEFAULT :: int where
  "MAX_DEPTH_DEFAULT = 128"

text \<open>The second argument of \<open>json.encode\<close>: absent, a table of options, or something else.\<close>

datatype encode_options = No_options | Options "string \<Rightarrow> bool option" "int option" | Not_a_table

definition new_CustomizedEncoder :: "encode_options \<Rightarrow> json_error + CustomizedEncoder" where
  "new_CustomizedEncoder opt =
     (case opt of
        No_options \<Rightarrow> Inr \<lparr>pretty = False, prettier = False, sort_keys = False, empty_table_as_array = False,
                          max_depth = MAX_DEPTH_DEFAULT\<rparr>
      | Options flag depth \<Rightarrow>
          (let optboolfield = (\<lambda>nm. case flag nm of None \<Rightarrow> False | Some b \<Rightarrow> b) in
           Inr \<lparr>pretty = optboolfield ''pretty'', prettier = optboolfield ''prettier'',
                sort_keys = optboolfield ''sort_keys'', empty_table_as_array = optboolfield ''empty_table_as_array'',
                max_depth = (case depth of None \<Rightarrow> MAX_DEPTH_DEFAULT | Some n \<Rightarrow> signed_take_bit 31 n)\<rparr>)
      | Not_a_table \<Rightarrow> Inl Bad_options)"

section \<open>Scalars\<close>

definition encodeBoolean :: "bool \<Rightarrow> json_event list" where
  "encodeBoolean b = [Ev_Bool b]"

definition encodeNumber :: "json_env \<Rightarrow> 64 word \<Rightarrow> json_error + json_event list" where
  "encodeNumber env d =
     (case isinteger env d of
        Some i \<Rightarrow> Inr [Ev_Int64 i]
      | None \<Rightarrow> (if \<not> double_ok env d then Inl Bad_double else Inr [Ev_Double d]))"

text \<open>\<open>SizeType\<close> has 32 bits: the length of a string is cut to them.\<close>

definition size_cast :: "string \<Rightarrow> string" where
  "size_cast s = take (length s mod 2 ^ 32) s"

definition encodeString :: "string \<Rightarrow> json_event list" where
  "encodeString s = [Ev_String (size_cast s)]"

text \<open>Values that are neither scalars nor tables: only those with a \<open>__tostring\<close> metamethod.\<close>

definition encodeOther :: "json_env \<Rightarrow> json_arg \<Rightarrow> json_error + json_event list" where
  "encodeOther env v =
     (case meta_tostring env v of
        None \<Rightarrow> Inl (Cannot_encode (case global_tostring env v of None \<Rightarrow> ''nil'' | Some t \<Rightarrow> t))
      | Some None \<Rightarrow> Inl Not_a_string
      | Some (Some t) \<Rightarrow> Inr (encodeString t))"

section \<open>Tables\<close>

text \<open>Running the encodings of the elements one after the other; the first error wins.\<close>

fun seq_results :: "('e + 'a list) list \<Rightarrow> 'e + 'a list" where
  "seq_results [] = Inr []"
| "seq_results (Inl e # rs) = Inl e"
| "seq_results (Inr xs # rs) = (case seq_results rs of Inl e \<Rightarrow> Inl e | Inr ys \<Rightarrow> Inr (xs @ ys))"

definition map_events :: "('a \<Rightarrow> 'b) \<Rightarrow> 'e + 'a \<Rightarrow> 'e + 'b" where
  "map_events f r = (case r of Inl e \<Rightarrow> Inl e | Inr x \<Rightarrow> Inr (f x))"

lemma map_events_simps [simp]: "map_events f (Inl e) = Inl e" "map_events f (Inr x) = Inr (f x)"
  by (simp_all add: map_events_def)

lemma map_events_cong [fundef_cong]:
  "r = r' \<Longrightarrow> (\<And>x. r' = Inr x \<Longrightarrow> f x = f' x) \<Longrightarrow> map_events f r = map_events f' r'"
  by (cases r') auto

text \<open>The string keys of a table, and the order of \<open>strcmp\<close>.\<close>

fun string_fields :: "(json_table_key \<times> json_arg) list \<Rightarrow> (string \<times> json_arg) list" where
  "string_fields [] = []"
| "string_fields ((KeyString k, v) # es) = (k, v) # string_fields es"
| "string_fields (e # es) = string_fields es"

definition strcmp_key :: "string \<Rightarrow> nat list" where
  "strcmp_key k = map of_char (c_str k)"

text \<open>\<open>lua_gettable\<close> on a key that the iteration just delivered.\<close>

definition field_value :: "json_env \<Rightarrow> nat \<Rightarrow> string \<Rightarrow> json_arg" where
  "field_value env t k = (case map_of (string_fields (table_entries env t)) k of None \<Rightarrow> VNil | Some v \<Rightarrow> v)"

text \<open>
  Every call of \<open>encodeTable\<close> from a value is one level deeper, and no table below the maximum
  depth is opened: the walk ends even on a cyclic table.
\<close>

definition json_measure ::
  "(((json_env \<times> CustomizedEncoder \<times> int \<times> json_arg) + (json_env \<times> CustomizedEncoder \<times> int \<times> nat))
    + ((json_env \<times> CustomizedEncoder \<times> int \<times> nat)
       + (json_env \<times> CustomizedEncoder \<times> int \<times> nat \<times> string list)
         + (json_env \<times> CustomizedEncoder \<times> int \<times> nat))) \<Rightarrow> nat \<times> nat" where
  "json_measure x = (let room = (\<lambda>cfg d. nat (max_depth cfg + 2 - d)) in
     case x of
       Inl (Inl (env, cfg, d, v)) \<Rightarrow> (room cfg d, 1)
     | Inl (Inr (env, cfg, d, t)) \<Rightarrow> (room cfg d, if max_depth cfg < d then 0 else 3)
     | Inr (Inl (env, cfg, d, t)) \<Rightarrow> (room cfg d, 2)
     | Inr (Inr (Inl (env, cfg, d, t, ks))) \<Rightarrow> (room cfg d, 2)
     | Inr (Inr (Inr (env, cfg, d, t))) \<Rightarrow> (room cfg d, 2))"

function encodeValue :: "json_env \<Rightarrow> CustomizedEncoder \<Rightarrow> int \<Rightarrow> json_arg \<Rightarrow> json_error + json_event list"
  and encodeTable :: "json_env \<Rightarrow> CustomizedEncoder \<Rightarrow> int \<Rightarrow> nat \<Rightarrow> json_error + json_event list"
  and encodeObject :: "json_env \<Rightarrow> CustomizedEncoder \<Rightarrow> int \<Rightarrow> nat \<Rightarrow> json_error + json_event list"
  and encodeObject_sorted :: "json_env \<Rightarrow> CustomizedEncoder \<Rightarrow> int \<Rightarrow> nat \<Rightarrow> string list \<Rightarrow> json_error + json_event list"
  and encodeArray :: "json_env \<Rightarrow> CustomizedEncoder \<Rightarrow> int \<Rightarrow> nat \<Rightarrow> json_error + json_event list"
where
  "encodeValue env cfg depth v =
     (case v of
        VBool b \<Rightarrow> Inr (encodeBoolean b)
      | VNumber d \<Rightarrow> encodeNumber env d
      | VString s \<Rightarrow> Inr (encodeString s)
      | VTable t \<Rightarrow> encodeTable env cfg (depth + 1) t
      | VNil \<Rightarrow> Inr [Ev_Null]
      | VLightuserdata p \<Rightarrow> (if isnull env p then Inr [Ev_Null] else encodeOther env v)
      | VOther n \<Rightarrow> encodeOther env v)"
| "encodeTable env cfg depth t =
     (if max_depth cfg < depth then Inl Nested_too_depth
      else if \<not> check_stack env depth then Inl Json_stack_overflow
      else if is_array env t (empty_table_as_array cfg) then encodeArray env cfg depth t
      else if \<not> sort_keys cfg then encodeObject env cfg depth t
      else encodeObject_sorted env cfg depth t (map fst (string_fields (table_entries env t))))"
| "encodeObject env cfg depth t =
     (map_events (\<lambda>evs. Ev_StartObject # evs @ [Ev_EndObject])
             (seq_results (map (\<lambda>(k, v). map_events (\<lambda>evs. Ev_Key (size_cast k) # evs) (encodeValue env cfg depth v))
                (string_fields (table_entries env t)))))"
| "encodeObject_sorted env cfg depth t keys =
     (map_events (\<lambda>evs. Ev_StartObject # evs @ [Ev_EndObject])
             (seq_results (map (\<lambda>k. map_events (\<lambda>evs. Ev_Key (size_cast k) # evs)
                  (encodeValue env cfg depth (field_value env t (size_cast k))))
                (sort_key strcmp_key keys))))"
| "encodeArray env cfg depth t =
     (map_events (\<lambda>evs. Ev_StartArray # evs @ [Ev_EndArray])
             (seq_results (map (\<lambda>n. encodeValue env cfg depth (raw_geti env t n)) [1..signed_take_bit 31 (int (raw_len env t))])))"
  by pat_completeness auto

termination
  by (relation "inv_image (less_than <*lex*> less_than) json_measure")
     (auto simp: json_measure_def Let_def)

declare encodeValue.simps [simp del] encodeTable.simps [simp del] encodeObject.simps [simp del]
  encodeObject_sorted.simps [simp del] encodeArray.simps [simp del]

section \<open>The entry points\<close>

text \<open>The three writers; \<open>None\<close> is the indentation the library chooses.\<close>

datatype json_writer = Writer_compact | PrettyWriter "(char \<times> nat) option"

definition encode :: "json_env \<Rightarrow> CustomizedEncoder \<Rightarrow> json_arg \<Rightarrow> json_error + json_writer \<times> json_event list" where
  "encode env cfg v =
     (let writer = (if prettier cfg then PrettyWriter (Some (CHR 0x09, 1))
                    else if pretty cfg then PrettyWriter None else Writer_compact)
      in map_events (Pair writer) (encodeValue env cfg 0 v))"

definition json_encode_custom ::
  "(json_writer \<Rightarrow> json_event list \<Rightarrow> string) \<Rightarrow> json_env \<Rightarrow> json_arg \<Rightarrow> encode_options \<Rightarrow> json_error + string" where
  "json_encode_custom written env v opt =
     (case new_CustomizedEncoder opt of
        Inl e \<Rightarrow> Inl e
      | Inr cfg \<Rightarrow> map_events (\<lambda>(w, evs). written w evs) (encode env cfg v))"

text \<open>
  Opening the library: two functions of the table that \<open>luaopen_rapidjson\<close> leaves on the stack are
  replaced. \<open>None\<close> is a Lua error; the two numbers are the addresses of the C functions.
\<close>

definition luaopen_rapidjson_modified ::
  "(lua_state \<Rightarrow> int \<times> lua_state) \<Rightarrow> nat \<Rightarrow> nat \<Rightarrow> lua_state \<Rightarrow> (int \<times> lua_state) option" where
  "luaopen_rapidjson_modified luaopen_rapidjson encode_fn version_fn L =
     (case luaopen_rapidjson L of
        (success, L1) \<Rightarrow>
          if success \<noteq> 1 then None
          else do {
            L2 \<leftarrow> lua_setfield 2 ''encode'' (lua_pushv (LCFunction encode_fn) L1);
            L3 \<leftarrow> lua_setfield 2 ''version'' (lua_pushv (LCFunction version_fn) L2);
            Some (success, L3) })"

section \<open>What the encoder writes\<close>

text \<open>A JSON document and the events that write it.\<close>

datatype json =
    JNull
  | JBool bool
  | JInt int
  | JDouble "64 word"
  | JString string
  | JArray "json list"
  | JObject "(string \<times> json) list"

fun events_of :: "json \<Rightarrow> json_event list" where
  "events_of JNull = [Ev_Null]"
| "events_of (JBool b) = [Ev_Bool b]"
| "events_of (JInt i) = [Ev_Int64 i]"
| "events_of (JDouble d) = [Ev_Double d]"
| "events_of (JString s) = [Ev_String s]"
| "events_of (JArray js) = Ev_StartArray # concat (map events_of js) @ [Ev_EndArray]"
| "events_of (JObject kvs) =
     Ev_StartObject # concat (map (\<lambda>(k, j). Ev_Key k # events_of j) kvs) @ [Ev_EndObject]"

fun nesting :: "json \<Rightarrow> nat" where
  "nesting (JArray js) = 1 + Max (insert 0 (nesting ` set js))"
| "nesting (JObject kvs) = 1 + Max (insert 0 ((\<lambda>(k, j). nesting j) ` set kvs))"
| "nesting _ = 0"

text \<open>The keys a table is written with, in the order of the output.\<close>

definition member_keys :: "json_env \<Rightarrow> CustomizedEncoder \<Rightarrow> nat \<Rightarrow> (string \<times> json_arg) list" where
  "member_keys env cfg t =
     (if sort_keys cfg
      then map (\<lambda>k. (k, field_value env t (size_cast k)))
             (sort_key strcmp_key (map fst (string_fields (table_entries env t))))
      else string_fields (table_entries env t))"

text \<open>
  Which document represents a Lua value: a specification with no depth, no stack and no
  writer. A cyclic table is represented by nothing, because documents are finite.
\<close>

inductive represents :: "json_env \<Rightarrow> CustomizedEncoder \<Rightarrow> json_arg \<Rightarrow> json \<Rightarrow> bool" for env cfg where
  nil: "represents env cfg VNil JNull"
| null: "isnull env p \<Longrightarrow> represents env cfg (VLightuserdata p) JNull"
| bool: "represents env cfg (VBool b) (JBool b)"
| int: "isinteger env d = Some i \<Longrightarrow> represents env cfg (VNumber d) (JInt i)"
| double: "isinteger env d = None \<Longrightarrow> double_ok env d \<Longrightarrow> represents env cfg (VNumber d) (JDouble d)"
| string: "represents env cfg (VString s) (JString (size_cast s))"
| light: "\<not> isnull env p \<Longrightarrow> meta_tostring env (VLightuserdata p) = Some (Some s)
    \<Longrightarrow> represents env cfg (VLightuserdata p) (JString (size_cast s))"
| other: "meta_tostring env (VOther n) = Some (Some s) \<Longrightarrow> represents env cfg (VOther n) (JString (size_cast s))"
| array: "is_array env t (empty_table_as_array cfg)
    \<Longrightarrow> list_all2 (\<lambda>n j. represents env cfg (raw_geti env t n) j) [1..signed_take_bit 31 (int (raw_len env t))] js
    \<Longrightarrow> represents env cfg (VTable t) (JArray js)"
| object: "\<not> is_array env t (empty_table_as_array cfg)
    \<Longrightarrow> list_all2 (\<lambda>m w. fst w = size_cast (fst m) \<and> represents env cfg (snd m) (snd w)) (member_keys env cfg t) kvs
    \<Longrightarrow> represents env cfg (VTable t) (JObject kvs)"
  monos list_all2_mono


lemma seq_results_represented:
  assumes "seq_results (map f xs) = Inr evs"
    and "\<And>x e. x \<in> set xs \<Longrightarrow> f x = Inr e \<Longrightarrow> \<exists>w. R x w \<and> e = ev w"
  shows "\<exists>ws. list_all2 R xs ws \<and> evs = concat (map ev ws)"
  using assms
proof (induction xs arbitrary: evs)
  case (Cons x xs)
  obtain e es where fx: "f x = Inr e" and rest: "seq_results (map f xs) = Inr es" and evs: "evs = e @ es"
    using Cons.prems(1) by (cases "f x") (auto split: sum.splits)
  obtain w where "R x w" "e = ev w"
    using Cons.prems(2) [OF _ fx] by auto
  moreover obtain ws where "list_all2 R xs ws" "es = concat (map ev ws)"
    using Cons.IH [OF rest] Cons.prems(2) by auto
  ultimately show ?case
    using evs by (intro exI [of _ "w # ws"]) simp
qed simp

lemma map_events_eq_Inr [simp]: "map_events f r = Inr y \<longleftrightarrow> (\<exists>x. r = Inr x \<and> y = f x)"
  by (cases r) auto

text \<open>A document that fits the room the depth limit leaves below a value at \<open>depth\<close>.\<close>

definition fits :: "CustomizedEncoder \<Rightarrow> int \<Rightarrow> json \<Rightarrow> bool" where
  "fits cfg depth j \<longleftrightarrow> int (nesting j) \<le> max 0 (max_depth cfg - depth)"

lemma nesting_JArray: "nesting (JArray js) \<le> 1 + n \<longleftrightarrow> (\<forall>j\<in>set js. nesting j \<le> n)"
  by simp

lemma nesting_JObject: "nesting (JObject kvs) \<le> 1 + n \<longleftrightarrow> (\<forall>w\<in>set kvs. nesting (snd w) \<le> n)"
  by (simp add: case_prod_beta)

lemma fits_JArray:
  assumes "depth \<le> max_depth cfg" and "\<forall>j\<in>set js. fits cfg depth j"
  shows "fits cfg (depth - 1) (JArray js)"
proof -
  have "nesting (JArray js) \<le> 1 + nat (max_depth cfg - depth)"
    unfolding nesting_JArray using assms by (auto simp: fits_def)
  then show ?thesis using assms(1) by (simp add: fits_def del: nesting.simps)
qed

lemma fits_JObject:
  assumes "depth \<le> max_depth cfg" and "\<forall>w\<in>set kvs. fits cfg depth (snd w)"
  shows "fits cfg (depth - 1) (JObject kvs)"
proof -
  have "nesting (JObject kvs) \<le> 1 + nat (max_depth cfg - depth)"
    unfolding nesting_JObject using assms by (auto simp: fits_def)
  then show ?thesis using assms(1) by (simp add: fits_def del: nesting.simps)
qed

lemma list_all2_set2: "list_all2 (\<lambda>x y. R x y \<and> Q y) xs ys \<longleftrightarrow> list_all2 R xs ys \<and> (\<forall>y\<in>set ys. Q y)"
  by (auto simp: list_all2_conv_all_nth all_set_conv_all_nth)

abbreviation member_matches :: "json_env \<Rightarrow> CustomizedEncoder \<Rightarrow> string \<times> json_arg \<Rightarrow> string \<times> json \<Rightarrow> bool" where
  "member_matches env cfg m w \<equiv> fst w = size_cast (fst m) \<and> represents env cfg (snd m) (snd w)"

abbreviation member_events :: "string \<times> json \<Rightarrow> json_event list" where
  "member_events w \<equiv> Ev_Key (fst w) # events_of (snd w)"

lemma events_of_JObject: "events_of (JObject kvs) = Ev_StartObject # concat (map member_events kvs) @ [Ev_EndObject]"
  by (simp add: case_prod_unfold)

text \<open>The contract of each of the five functions, proved together by computation induction.\<close>

definition value_ok :: "json_env \<Rightarrow> CustomizedEncoder \<Rightarrow> int \<Rightarrow> json_arg \<Rightarrow> json_error + json_event list \<Rightarrow> bool" where
  "value_ok env cfg depth v r \<longleftrightarrow>
     (\<forall>evs. r = Inr evs \<longrightarrow> (\<exists>j. represents env cfg v j \<and> evs = events_of j \<and> fits cfg depth j))"

definition members_ok :: "json_env \<Rightarrow> CustomizedEncoder \<Rightarrow> int \<Rightarrow> (string \<times> json_arg) list
    \<Rightarrow> json_error + json_event list \<Rightarrow> bool" where
  "members_ok env cfg depth ms r \<longleftrightarrow>
     (\<forall>evs. r = Inr evs \<longrightarrow>
        (\<exists>kvs. list_all2 (member_matches env cfg) ms kvs \<and> evs = events_of (JObject kvs)
             \<and> (\<forall>w\<in>set kvs. fits cfg depth (snd w))))"

definition elements_ok :: "json_env \<Rightarrow> CustomizedEncoder \<Rightarrow> int \<Rightarrow> nat \<Rightarrow> json_error + json_event list \<Rightarrow> bool" where
  "elements_ok env cfg depth t r \<longleftrightarrow>
     (\<forall>evs. r = Inr evs \<longrightarrow>
        (\<exists>js. list_all2 (\<lambda>n. represents env cfg (raw_geti env t n)) [1..signed_take_bit 31 (int (raw_len env t))] js
             \<and> evs = events_of (JArray js) \<and> (\<forall>j\<in>set js. fits cfg depth j)))"

lemma members_ok_step:
  assumes "\<And>k v. (k, v) \<in> set ms \<Longrightarrow> value_ok env cfg depth v (encodeValue env cfg depth v)"
  shows "members_ok env cfg depth ms
     (map_events (\<lambda>evs. Ev_StartObject # evs @ [Ev_EndObject])
        (seq_results (map (\<lambda>(k, v). map_events (\<lambda>evs. Ev_Key (size_cast k) # evs) (encodeValue env cfg depth v)) ms)))"
  unfolding members_ok_def
proof (intro allI impI)
  fix evs
  let ?f = "\<lambda>(k, v). map_events (\<lambda>evs. Ev_Key (size_cast k) # evs) (encodeValue env cfg depth v)"
  let ?R = "\<lambda>m w. member_matches env cfg m w \<and> fits cfg depth (snd w)"
  assume "map_events (\<lambda>evs. Ev_StartObject # evs @ [Ev_EndObject]) (seq_results (map ?f ms)) = Inr evs"
  then obtain es where es: "seq_results (map ?f ms) = Inr es" and evs: "evs = Ev_StartObject # es @ [Ev_EndObject]"
    by auto
  have "\<exists>kvs. list_all2 ?R ms kvs \<and> es = concat (map member_events kvs)"
  proof (rule seq_results_represented [OF es])
    fix x e assume x: "x \<in> set ms" and fx: "?f x = Inr e"
    obtain k v where kv: "x = (k, v)" by (cases x)
    from fx kv obtain e' where "encodeValue env cfg depth v = Inr e'" "e = Ev_Key (size_cast k) # e'"
      by auto
    with assms [of k v] x kv obtain j where "represents env cfg v j" "e' = events_of j" "fits cfg depth j"
      by (auto simp: value_ok_def)
    with kv \<open>e = _\<close> show "\<exists>w. ?R x w \<and> e = member_events w"
      by (intro exI [of _ "(size_cast k, j)"]) simp
  qed
  then show "\<exists>kvs. list_all2 (member_matches env cfg) ms kvs \<and> evs = events_of (JObject kvs)
             \<and> (\<forall>w\<in>set kvs. fits cfg depth (snd w))"
    using evs unfolding list_all2_set2 events_of_JObject by blast
qed

lemma encode_represents:
  "value_ok env cfg depth v (encodeValue env cfg depth v)"
  "value_ok env cfg (depth - 1) (VTable t) (encodeTable env cfg depth t)"
  "members_ok env cfg depth (string_fields (table_entries env t)) (encodeObject env cfg depth t)"
  "members_ok env cfg depth (map (\<lambda>k. (k, field_value env t (size_cast k))) (sort_key strcmp_key keys))
     (encodeObject_sorted env cfg depth t keys)"
  "elements_ok env cfg depth t (encodeArray env cfg depth t)"
proof (induction env cfg depth v and env cfg depth t and env cfg depth t and env cfg depth t keys and env cfg depth t
    rule: encodeValue_encodeTable_encodeObject_encodeObject_sorted_encodeArray.induct)
  case (1 env cfg depth v)
  then show ?case
    by (auto simp: value_ok_def encodeValue.simps [of env cfg depth v] encodeBoolean_def encodeNumber_def
        encodeOther_def encodeString_def fits_def represents.intros
        split: json_arg.splits option.splits if_splits intro!: exI represents.intros)
next
  case (2 env cfg depth t)
  show ?case
    unfolding value_ok_def
  proof (intro allI impI)
    fix evs assume run: "encodeTable env cfg depth t = Inr evs"
    then have depth: "\<not> max_depth cfg < depth" and stack: "\<not> \<not> check_stack env depth"
      by (auto simp: encodeTable.simps split: if_splits)
    show "\<exists>j. represents env cfg (VTable t) j \<and> evs = events_of j \<and> fits cfg (depth - 1) j"
    proof (cases "is_array env t (empty_table_as_array cfg)")
      case True
      with run depth stack have "encodeArray env cfg depth t = Inr evs"
        by (simp add: encodeTable.simps)
      with 2(1) [OF depth stack True] depth show ?thesis
        unfolding elements_ok_def by (metis array [OF True] fits_JArray linorder_not_less)
    next
      case False
      define ms where "ms = member_keys env cfg t"
      have "\<exists>r. members_ok env cfg depth ms r \<and> r = Inr evs"
        using 2(2,3) [OF depth stack False] run depth stack False
        by (cases "sort_keys cfg") (auto simp: encodeTable.simps ms_def member_keys_def)
      then show ?thesis
        using object [OF False] depth unfolding members_ok_def ms_def
        by (metis (no_types, lifting) fits_JObject linorder_not_less)
    qed
  qed
next
  case (3 env cfg depth t)
  then show ?case
    unfolding encodeObject.simps by (intro members_ok_step) auto
next
  case (4 env cfg depth t keys)
  have "members_ok env cfg depth (map (\<lambda>k. (k, field_value env t (size_cast k))) (sort_key strcmp_key keys))
     (map_events (\<lambda>evs. Ev_StartObject # evs @ [Ev_EndObject])
        (seq_results (map (\<lambda>(k, v). map_events (\<lambda>evs. Ev_Key (size_cast k) # evs) (encodeValue env cfg depth v))
           (map (\<lambda>k. (k, field_value env t (size_cast k))) (sort_key strcmp_key keys)))))"
    using 4 by (intro members_ok_step) auto
  then show ?case
    by (simp add: encodeObject_sorted.simps comp_def)
next
  case (5 env cfg depth t)
  show ?case
    unfolding elements_ok_def encodeArray.simps
  proof (intro allI impI)
    let ?f = "\<lambda>n. encodeValue env cfg depth (raw_geti env t n)"
    let ?is = "[1..signed_take_bit 31 (int (raw_len env t))]"
    let ?R = "\<lambda>n j. represents env cfg (raw_geti env t n) j \<and> fits cfg depth j"
    fix evs assume "map_events (\<lambda>evs. Ev_StartArray # evs @ [Ev_EndArray]) (seq_results (map ?f ?is)) = Inr evs"
    then obtain es where es: "seq_results (map ?f ?is) = Inr es" and evs: "evs = Ev_StartArray # es @ [Ev_EndArray]"
      by auto
    have "\<exists>js. list_all2 ?R ?is js \<and> es = concat (map events_of js)"
      by (rule seq_results_represented [OF es]) (use 5 in \<open>auto simp: value_ok_def\<close>)
    then show "\<exists>js. list_all2 (\<lambda>n. represents env cfg (raw_geti env t n)) ?is js
        \<and> evs = events_of (JArray js) \<and> (\<forall>j\<in>set js. fits cfg depth j)"
      using evs unfolding list_all2_set2 by auto
  qed
qed

lemma seq_results_concat:
  "list_all2 (\<lambda>x w. f x = Inr (ev w)) xs ws \<Longrightarrow> seq_results (map f xs) = Inr (concat (map ev ws))"
  by (induction rule: list_all2_induct) auto

lemma fits_deeper:
  assumes "fits cfg depth j" and "nesting j = Suc m" and "\<And>w. w \<in> A \<Longrightarrow> nesting (g w) \<le> m"
  shows "depth + 1 \<le> max_depth cfg \<and> (\<forall>w\<in>A. fits cfg (depth + 1) (g w))"
proof -
  have "int m + 1 \<le> max_depth cfg - depth"
    using assms(1,2) by (simp add: fits_def)
  then show ?thesis
    using assms(3) by (fastforce simp: fits_def)
qed

lemma fits_JArrayD:
  "fits cfg depth (JArray js) \<Longrightarrow> depth + 1 \<le> max_depth cfg \<and> (\<forall>j\<in>set js. fits cfg (depth + 1) j)"
  by (rule fits_deeper) auto

lemma fits_JObjectD:
  "fits cfg depth (JObject kvs) \<Longrightarrow> depth + 1 \<le> max_depth cfg \<and> (\<forall>w\<in>set kvs. fits cfg (depth + 1) (snd w))"
  by (rule fits_deeper) (auto simp: case_prod_beta intro!: Max_ge)

text \<open>The converse: a value with a document that fits is encoded, when the Lua stack suffices.\<close>

lemma represents_encodes:
  assumes "represents env cfg v j" and "\<And>d. check_stack env d" and "fits cfg depth j"
  shows "encodeValue env cfg depth v = Inr (events_of j)"
  using assms(1,3)
proof (induction arbitrary: depth rule: represents.induct)
  case (array t js)
  from fits_JArrayD [OF array.prems]
  have room: "\<not> max_depth cfg < depth + 1" and js: "\<forall>j\<in>set js. fits cfg (depth + 1) j" by auto
  let ?is = "[1..signed_take_bit 31 (int (raw_len env t))]"
  have "list_all2 (\<lambda>n j. encodeValue env cfg (depth + 1) (raw_geti env t n) = Inr (events_of j)) ?is js"
    using array.IH js by (auto simp: list_all2_conv_all_nth)
  from seq_results_concat [OF this] room array.hyps(1) assms(2) show ?case
    by (simp add: encodeValue.simps encodeTable.simps encodeArray.simps)
next
  case (object t kvs)
  from fits_JObjectD [OF object.prems]
  have room: "\<not> max_depth cfg < depth + 1" and kvs: "\<forall>w\<in>set kvs. fits cfg (depth + 1) (snd w)" by auto
  let ?f = "\<lambda>(k, v). map_events (\<lambda>evs. Ev_Key (size_cast k) # evs) (encodeValue env cfg (depth + 1) v)"
  have "list_all2 (\<lambda>m w. ?f m = Inr (member_events w)) (member_keys env cfg t) kvs"
    using object.IH kvs by (auto simp: list_all2_conv_all_nth case_prod_beta)
  from seq_results_concat [OF this]
  have "seq_results (map ?f (member_keys env cfg t)) = Inr (concat (map member_events kvs))" .
  then have "encodeTable env cfg (depth + 1) t = Inr (events_of (JObject kvs))"
    using room object.hyps(1) assms(2) unfolding events_of_JObject
    by (cases "sort_keys cfg")
       (simp_all add: encodeTable.simps encodeObject.simps encodeObject_sorted.simps member_keys_def comp_def)
  then show ?case
    by (simp add: encodeValue.simps del: events_of.simps)
qed (simp_all add: encodeValue.simps encodeBoolean_def encodeNumber_def encodeString_def encodeOther_def)

text \<open>The tables that occur among the elements or members the encoder visits.\<close>

definition visited_values :: "json_env \<Rightarrow> CustomizedEncoder \<Rightarrow> nat \<Rightarrow> json_arg set" where
  "visited_values env cfg t =
     (if is_array env t (empty_table_as_array cfg)
      then raw_geti env t ` {1..signed_take_bit 31 (int (raw_len env t))}
      else snd ` set (member_keys env cfg t))"

definition subtable :: "json_env \<Rightarrow> CustomizedEncoder \<Rightarrow> (nat \<times> nat) set" where
  "subtable env cfg = {(t, t'). VTable t' \<in> visited_values env cfg t}"

inductive_cases represents_tableE: "represents env cfg (VTable t) j"

lemma list_all2_witness: "list_all2 R xs ys \<Longrightarrow> x \<in> set xs \<Longrightarrow> \<exists>y\<in>set ys. R x y"
  by (induction rule: list_all2_induct) auto

lemma size_list_member: "j \<in> set js \<Longrightarrow> size j < size (JArray js)"
  by (induction js) auto

lemma size_list_member_snd: "w \<in> set kvs \<Longrightarrow> size (snd w) < size (JObject kvs)"
  by (induction kvs) auto

lemma represents_visited:
  assumes "represents env cfg (VTable t) j" and "v \<in> visited_values env cfg t"
  shows "\<exists>j'. represents env cfg v j' \<and> size j' < size j"
  using assms(1)
proof (rule represents_tableE)
  fix js
  assume j: "j = JArray js" and arr: "is_array env t (empty_table_as_array cfg)"
    and all: "list_all2 (\<lambda>n. represents env cfg (raw_geti env t n)) [1..signed_take_bit 31 (int (raw_len env t))] js"
  from assms(2) arr obtain n where "v = raw_geti env t n" "n \<in> set [1..signed_take_bit 31 (int (raw_len env t))]"
    by (auto simp: visited_values_def)
  with list_all2_witness [OF all, of n] j show ?thesis
    using size_list_member by blast
next
  fix kvs
  assume j: "j = JObject kvs" and obj: "\<not> is_array env t (empty_table_as_array cfg)"
    and all: "list_all2 (member_matches env cfg) (member_keys env cfg t) kvs"
  from assms(2) obj obtain m where "v = snd m" "m \<in> set (member_keys env cfg t)"
    by (auto simp: visited_values_def)
  with list_all2_witness [OF all, of m] j show ?thesis
    using size_list_member_snd by blast
qed

lemma represents_descend:
  assumes "(t, t') \<in> (subtable env cfg)\<^sup>+" and "represents env cfg (VTable t) j"
  shows "\<exists>j'. represents env cfg (VTable t') j' \<and> size j' < size j"
  using assms(1)
proof (induction rule: trancl_induct)
  case (base y)
  then show ?case using represents_visited [OF assms(2)] by (auto simp: subtable_def)
next
  case (step y z)
  then obtain j' where "represents env cfg (VTable y) j'" "size j' < size j" by blast
  then show ?case using represents_visited [of env cfg y j' "VTable z"] step.hyps(2)
    by (force simp: subtable_def)
qed

lemma cycle_not_represented:
  assumes "(t, t) \<in> (subtable env cfg)\<^sup>+"
  shows "\<not> represents env cfg (VTable t) j"
proof (induction "size j" arbitrary: j rule: less_induct)
  case less
  then show ?case using represents_descend [OF assms] by blast
qed

text \<open>
  C7. The encoder against a specification with no depth, stack or writer: when the Lua stack
  suffices, \<open>encode\<close> succeeds exactly on the values that have a JSON document nested no deeper
  than \<open>max_depth\<close>, and what it sends to the writer is that document, properly bracketed. The
  writer is chosen by the options, \<open>prettier\<close> before \<open>pretty\<close>.
\<close>

theorem encode_refines_document:
  assumes "\<And>d. check_stack env d"
  shows "encode env cfg v = Inr (w, evs) \<longleftrightarrow>
    w = (if prettier cfg then PrettyWriter (Some (CHR 0x09, 1)) else if pretty cfg then PrettyWriter None else Writer_compact)
    \<and> (\<exists>j. represents env cfg v j \<and> evs = events_of j \<and> int (nesting j) \<le> max 0 (max_depth cfg))"
proof -
  have "encodeValue env cfg 0 v = Inr evs \<longleftrightarrow> (\<exists>j. represents env cfg v j \<and> evs = events_of j \<and> fits cfg 0 j)"
    using encode_represents(1) [of env cfg 0 v] represents_encodes [of env cfg v _ 0] assms
    unfolding value_ok_def by blast
  then show ?thesis
    by (auto simp: encode_def Let_def fits_def)
qed

definition sample_json_env :: json_env where
  "sample_json_env =
     \<lparr>table_entries = (\<lambda>t. if t = 0 then [(KeyString ''b'', VBool True), (KeyInt 7, VNil), (KeyString ''a'', VTable 1)]
                       else if t = 2 then [(KeyString ''self'', VTable 2)] else []),
      raw_geti = (\<lambda>t n. if n = 1 then VNumber 1 else VNil),
      raw_len = (\<lambda>t. if t = 1 then 2 else 0),
      is_array = (\<lambda>t e. t = 1),
      isinteger = (\<lambda>d. Some (uint d)),
      isnull = (\<lambda>p. p = 0),
      check_stack = (\<lambda>d. True),
      double_ok = (\<lambda>d. True),
      meta_tostring = (\<lambda>v. None),
      global_tostring = (\<lambda>v. Some ''userdata'')\<rparr>"

definition sample_encoder :: "bool \<Rightarrow> CustomizedEncoder" where
  "sample_encoder by_key = \<lparr>pretty = False, prettier = True, sort_keys = by_key, empty_table_as_array = False, max_depth = 3\<rparr>"

definition sample_document :: json where
  "sample_document = JObject [(''b'', JBool True), (''a'', JArray [JInt 1, JNull])]"

lemma sample_document_represents: "represents sample_json_env (sample_encoder False) (VTable 0) sample_document"
  unfolding sample_document_def
proof (rule represents.object)
  have "represents sample_json_env (sample_encoder False) (VTable 1) (JArray [JInt 1, JNull])"
    by (rule represents.array)
       (auto simp: sample_json_env_def sample_encoder_def signed_take_bit_eq_if_positive upto.simps
          intro!: represents.intros)
  then show "list_all2 (\<lambda>m w. fst w = size_cast (fst m) \<and> represents sample_json_env (sample_encoder False) (snd m) (snd w))
      (member_keys sample_json_env (sample_encoder False) 0) [(''b'', JBool True), (''a'', JArray [JInt 1, JNull])]"
    by (simp add: member_keys_def sample_encoder_def sample_json_env_def size_cast_def represents.bool)
qed (simp add: sample_json_env_def)

theorem encode_refines_document_witness:
  "encode sample_json_env (sample_encoder False) (VTable 0)
     = Inr (PrettyWriter (Some (CHR 0x09, 1)), events_of sample_document)"
proof -
  have "\<And>d. check_stack sample_json_env d" by (simp add: sample_json_env_def)
  from encode_refines_document [OF this, of "sample_encoder False" "VTable 0"] show ?thesis
    using sample_document_represents by (force simp: sample_encoder_def sample_document_def)
qed

text \<open>
  C19. A cyclic table is never encoded: when a table that contains itself, directly or through
  other tables, is reachable from the value, the encoder returns an error. It does not run
  forever, whatever the depth limit, and it does not produce a truncated document.
\<close>

theorem encode_rejects_cycle:
  assumes "(t, c) \<in> (subtable env cfg)\<^sup>*" and "(c, c) \<in> (subtable env cfg)\<^sup>+"
  shows "\<exists>e. encode env cfg (VTable t) = Inl e"
proof -
  have "\<not> represents env cfg (VTable t) j" for j
  proof
    assume "represents env cfg (VTable t) j"
    then have "\<exists>j'. represents env cfg (VTable c) j'"
      using assms(1) represents_descend [of t c env cfg j] by (auto simp: rtrancl_eq_or_trancl)
    then show False using cycle_not_represented [OF assms(2)] by blast
  qed
  then show ?thesis
    using encode_represents(1) [of env cfg 0 "VTable t"]
    by (cases "encodeValue env cfg 0 (VTable t)") (auto simp: encode_def Let_def value_ok_def)
qed

theorem encode_rejects_cycle_witness:
  "\<exists>e. encode sample_json_env (sample_encoder True) (VTable 2) = Inl e"
proof -
  have "(2, 2) \<in> subtable sample_json_env (sample_encoder True)"
    by (simp add: subtable_def visited_values_def member_keys_def sample_json_env_def sample_encoder_def
        field_value_def size_cast_def)
  then show ?thesis
    using encode_rejects_cycle [of 2 2 sample_json_env "sample_encoder True"] by blast
qed
section \<open>Sorted keys\<close>

lemma mset_string_fields_conv:
  "mset (string_fields es) =
     image_mset (\<lambda>e. (case fst e of KeyString s \<Rightarrow> s | _ \<Rightarrow> [], snd e))
       (filter_mset (\<lambda>e. case fst e of KeyString s \<Rightarrow> True | _ \<Rightarrow> False) (mset es))"
  by (induction es rule: string_fields.induct) simp_all

lemma mset_string_fields: "mset es = mset es' \<Longrightarrow> mset (string_fields es) = mset (string_fields es')"
  by (simp add: mset_string_fields_conv)

lemma set_string_fields: "set (string_fields es) = {(k, v). (KeyString k, v) \<in> set es}"
  by (induction es rule: string_fields.induct) auto

lemma distinct_string_fields: "distinct (map fst es) \<Longrightarrow> distinct (map fst (string_fields es))"
proof (induction es rule: string_fields.induct)
  case (2 k v es)
  then show ?case by (force simp: set_string_fields)
qed auto

text \<open>
  Two environments that differ only in the order in which \<open>lua_next\<close> visits the fields; the keys of a
  table are distinct. \<open>strcmp\<close> compares keys up to their first NUL byte: it orders the keys of a table
  strictly if no two of them agree up to there.
\<close>

definition reordered :: "json_env \<Rightarrow> (nat \<Rightarrow> (json_table_key \<times> json_arg) list) \<Rightarrow> bool" where
  "reordered env es \<longleftrightarrow>
     (\<forall>t. mset (es t) = mset (table_entries env t) \<and> distinct (map fst (table_entries env t)))"

definition strictly_ordered :: "json_env \<Rightarrow> bool" where
  "strictly_ordered env \<longleftrightarrow> (\<forall>t. distinct (map (c_str \<circ> fst) (string_fields (table_entries env t))))"

abbreviation reorder :: "(nat \<Rightarrow> (json_table_key \<times> json_arg) list) \<Rightarrow> json_env \<Rightarrow> json_env" where
  "reorder es env \<equiv> env\<lparr>table_entries := es\<rparr>"

lemma reorder_arrays: "raw_geti (reorder es env) = raw_geti env" "raw_len (reorder es env) = raw_len env"
  by simp_all

lemma strcmp_key_inj:
  assumes "distinct (map c_str ks)"
  shows "inj_on strcmp_key (set ks)"
proof (rule inj_onI)
  fix k k' assume k: "k \<in> set ks" "k' \<in> set ks" "strcmp_key k = strcmp_key k'"
  then have "c_str k = c_str k'"
    unfolding strcmp_key_def by (metis inj_map_eq_map inj_of_char)
  then show "k = k'" using assms k by (simp add: distinct_map inj_on_def)
qed

lemma reordered_keys:
  assumes "reordered env es" "strictly_ordered env"
  shows "sort_key strcmp_key (map fst (string_fields (es t))) = sort_key strcmp_key (map fst (string_fields (table_entries env t)))"
proof (rule sort_key_inj_key_eq)
  let ?xs = "map fst (string_fields (es t))" and ?ys = "map fst (string_fields (table_entries env t))"
  have "mset (string_fields (es t)) = mset (string_fields (table_entries env t))"
    using assms by (intro mset_string_fields) (simp add: reordered_def)
  then have eq: "mset ?xs = mset ?ys" by simp
  then show "mset ?xs = mset (sort_key strcmp_key ?ys)" by simp
  have "distinct (map c_str ?ys)"
    using assms(2) by (simp add: strictly_ordered_def)
  then show "inj_on strcmp_key (set ?xs)"
    using strcmp_key_inj mset_eq_setD [OF eq] by metis
qed simp

lemma reordered_field_value:
  assumes "reordered env es"
  shows "field_value (reorder es env) t k = field_value env t k"
proof -
  have eq: "mset (es t) = mset (table_entries env t)" and "distinct (map fst (table_entries env t))"
    using assms by (simp_all add: reordered_def)
  moreover have "distinct (map fst (es t))"
    using calculation by (metis mset_eq_imp_distinct_iff mset_map)
  ultimately have "map_of (string_fields (es t)) = map_of (string_fields (table_entries env t))"
    using mset_eq_setD [OF eq] by (simp add: map_of_inject_set distinct_string_fields set_string_fields)
  then show ?thesis by (simp add: field_value_def)
qed

lemma encode_reorder:
  "reordered env es \<Longrightarrow> strictly_ordered env \<Longrightarrow> sort_keys cfg \<Longrightarrow> encodeValue (reorder es env) cfg depth v = encodeValue env cfg depth v"
  "reordered env es \<Longrightarrow> strictly_ordered env \<Longrightarrow> sort_keys cfg \<Longrightarrow> encodeTable (reorder es env) cfg depth t = encodeTable env cfg depth t"
  "reordered env es \<Longrightarrow> strictly_ordered env \<Longrightarrow> sort_keys cfg \<Longrightarrow> True"
  "reordered env es \<Longrightarrow> strictly_ordered env \<Longrightarrow> sort_keys cfg
     \<Longrightarrow> encodeObject_sorted (reorder es env) cfg depth t keys = encodeObject_sorted env cfg depth t keys"
  "reordered env es \<Longrightarrow> strictly_ordered env \<Longrightarrow> sort_keys cfg \<Longrightarrow> encodeArray (reorder es env) cfg depth t = encodeArray env cfg depth t"
proof (induction env cfg depth v and env cfg depth t and env cfg depth t and env cfg depth t keys and env cfg depth t
    rule: encodeValue_encodeTable_encodeObject_encodeObject_sorted_encodeArray.induct)
  case (1 env cfg depth v)
  then show ?case
    by (cases v) (simp_all add: encodeValue.simps encodeNumber_def encodeOther_def split: option.split)
next
  case (2 env cfg depth t)
  then show ?case
    using reordered_keys [of env es t]
    by (simp add: encodeTable.simps encodeObject_sorted.simps)
next
  case (4 env cfg depth t keys)
  then have "map (\<lambda>k. map_events (\<lambda>evs. Ev_Key (size_cast k) # evs)
                (encodeValue (reorder es env) cfg depth (field_value (reorder es env) t (size_cast k)))) (sort_key strcmp_key keys)
     = map (\<lambda>k. map_events (\<lambda>evs. Ev_Key (size_cast k) # evs)
                (encodeValue env cfg depth (field_value env t (size_cast k)))) (sort_key strcmp_key keys)"
    by (intro map_cong) (simp_all add: reordered_field_value)
  then show ?case by (simp only: encodeObject_sorted.simps)
next
  case (5 env cfg depth t)
  then have "map (\<lambda>n. encodeValue (reorder es env) cfg depth (raw_geti env t n)) [1..signed_take_bit 31 (int (raw_len env t))]
     = map (\<lambda>n. encodeValue env cfg depth (raw_geti env t n)) [1..signed_take_bit 31 (int (raw_len env t))]"
    by (intro map_cong) simp_all
  then show ?case by (simp only: encodeArray.simps reorder_arrays)
qed simp

text \<open>
  C20. With \<open>sort_keys\<close> the output does not depend on the order in which \<open>lua_next\<close> delivers the
  fields, in any of the nested tables, provided that no table has two string keys which agree up to
  their first NUL byte.
\<close>

theorem encode_sorted_deterministic:
  assumes "sort_keys cfg" and "reordered env es" and "strictly_ordered env"
  shows "encode (env\<lparr>table_entries := es\<rparr>) cfg v = encode env cfg v"
  using encode_reorder(1) [OF assms(2,3,1)] by (simp add: encode_def)

theorem encode_sorted_deterministic_witness:
  "encode (sample_json_env\<lparr>table_entries := \<lambda>t. rev (table_entries sample_json_env t)\<rparr>) (sample_encoder True) (VTable 0)
   = encode sample_json_env (sample_encoder True) (VTable 0)"
proof (rule encode_sorted_deterministic)
  show "sort_keys (sample_encoder True)" by (simp add: sample_encoder_def)
  show "reordered sample_json_env (\<lambda>t. rev (table_entries sample_json_env t))"
    by (simp add: reordered_def sample_json_env_def)
  show "strictly_ordered sample_json_env"
    by (simp add: strictly_ordered_def sample_json_env_def c_str_def NUL_def)
qed

text \<open>
  The proviso is needed: two keys that differ only behind a NUL byte tie in \<open>strcmp\<close>, and the order
  of the iteration shows in the output.
\<close>

lemma encode_sorted_tie:
  "let ka = [CHR ''a'', CHR 0x00, CHR ''x'']; kb = [CHR ''a'', CHR 0x00, CHR ''y''];
       env = sample_json_env\<lparr>table_entries := \<lambda>t. [(KeyString ka, VBool True), (KeyString kb, VBool False)],
               is_array := \<lambda>t e. False\<rparr>
   in encode (env\<lparr>table_entries := \<lambda>t. rev (table_entries env t)\<rparr>) (sample_encoder True) (VTable 0)
        \<noteq> encode env (sample_encoder True) (VTable 0)"
  by (simp add: Let_def encode_def encodeValue.simps encodeTable.simps encodeObject_sorted.simps sample_json_env_def
      sample_encoder_def strcmp_key_def c_str_def NUL_def field_value_def size_cast_def encodeBoolean_def)

end
