(* ===== verification/Miniz_Bindings.thy ===== *)
theory Miniz_Bindings
  imports Std_Containers Lua_State "HOL-Library.Monad_Syntax"
begin

text \<open>
  The compression bindings of \<open>Runtime/Bindings/lminiz.cpp\<close>: zip readers and writers, streams and
  one-shot functions. The miniz library and the file system calls of libuv are the record
  \<open>mz_lib\<close>; what they keep in an archive or a stream is a type parameter. Arguments have the types
  that \<open>luaL_check...\<close> demands; an absent optional argument is \<open>None\<close>. A function returns values to
  Lua, raises an error, or its behaviour is undefined.
\<close>

section \<open>Data\<close>

datatype miniz_value =
    MNil
  | MBool bool
  | MInteger int
  | MString string
  | MUserdata nat
  | MTable "(string \<times> miniz_value) list"
  | MFormat string "miniz_value list"

datatype miniz_outcome = Returns "miniz_value list" | Raises string "miniz_value list" | Undefined

record zip_stat =
  m_version_made_by :: int
  m_version_needed :: int
  m_bit_flag :: int
  m_method :: int
  m_time :: int
  m_crc32 :: int
  m_comp_size :: int
  m_uncomp_size :: int
  m_internal_attr :: int
  m_external_attr :: int
  m_filename :: string
  m_comment :: string

text \<open>
  A zip reader: the archive (\<open>None\<close> while it is all zero), the event loop of the file
  descriptor, and the descriptor. Fields that the constructor does not set keep what was in the
  memory of the new userdata.
\<close>

record 'z lmz_file =
  archive :: "'z option"
  lmz_loop :: nat
  fd :: int

record 'c lmz_stream =
  mode :: int
  stream :: 'c

datatype fs_call = Fs_open string | Fs_fstat int | Fs_close int

record ('z, 'w, 'c) mz_lib =
  luv_loop :: nat
  fs_open :: "string \<Rightarrow> int"
  fs_size :: "int \<Rightarrow> nat"
  fs_read :: "int \<Rightarrow> nat \<Rightarrow> nat \<Rightarrow> int \<times> string"
  lib_reader_init :: "(nat \<Rightarrow> nat \<Rightarrow> nat \<Rightarrow> nat \<times> string) \<Rightarrow> nat \<Rightarrow> u32 \<Rightarrow> string + 'z"
  lib_reader_init_mem :: "string \<Rightarrow> u32 \<Rightarrow> string + 'z"
  lib_num_files :: "'z \<Rightarrow> u32"
  lib_locate :: "'z \<Rightarrow> string \<Rightarrow> u32 \<Rightarrow> int"
  lib_file_stat :: "'z \<Rightarrow> u32 \<Rightarrow> zip_stat option"
  lib_get_filename :: "'z \<Rightarrow> u32 \<Rightarrow> nat \<Rightarrow> string option"
  lib_is_directory :: "'z \<Rightarrow> u32 \<Rightarrow> bool"
  lib_extract_to_heap :: "'z \<Rightarrow> u32 \<Rightarrow> u32 \<Rightarrow> string option \<times> nat"
  lib_archive_start :: "'z \<Rightarrow> int"
  lib_writer_init_heap :: "nat \<Rightarrow> nat \<Rightarrow> 'w option"
  lib_add_from_reader :: "'w \<Rightarrow> 'z \<Rightarrow> u32 \<Rightarrow> bool \<times> 'w"
  lib_add_mem :: "'w \<Rightarrow> string \<Rightarrow> string \<Rightarrow> u32 \<Rightarrow> bool \<times> 'w"
  lib_finalize_heap :: "'w \<Rightarrow> string option \<times> 'w"
  lib_deflateInit :: "int \<Rightarrow> int \<times> 'c"
  lib_inflateInit :: "int \<times> 'c"
  lib_step :: "bool \<Rightarrow> 'c \<Rightarrow> nat \<Rightarrow> string \<Rightarrow> nat \<Rightarrow> int \<times> 'c \<times> string \<times> string"
  lib_error :: "int \<Rightarrow> string option"
  lib_infl_to_heap :: "string \<Rightarrow> int \<Rightarrow> string option \<times> nat"
  lib_defl_to_heap :: "string \<Rightarrow> int \<Rightarrow> string option \<times> nat"
  lib_adler32 :: "nat \<Rightarrow> string option \<Rightarrow> nat"
  lib_crc32 :: "nat \<Rightarrow> string option \<Rightarrow> nat"
  lib_compress :: "string \<Rightarrow> nat \<Rightarrow> int \<Rightarrow> int \<times> string"
  lib_compressBound :: "nat \<Rightarrow> nat"
  lib_uncompress :: "string \<Rightarrow> nat \<Rightarrow> int \<times> string"
  lual_buffersize :: nat
  path_max :: nat

record ('z, 'w, 'c) miniz_state =
  mz_readers :: "nat \<rightharpoonup> 'z lmz_file"
  mz_writers :: "nat \<rightharpoonup> 'w option"
  mz_deflators :: "nat \<rightharpoonup> 'c lmz_stream"
  mz_inflators :: "nat \<rightharpoonup> 'c lmz_stream"
  error_messages :: "(nat, string) unordered_map"
  fs_calls :: "fs_call list"
  heap_leaks :: nat

definition MZ_OK :: int where "MZ_OK = 0"
definition MZ_STREAM_END :: int where "MZ_STREAM_END = 1"
definition MZ_BUF_ERROR :: int where "MZ_BUF_ERROR = -5"
definition MZ_DEFAULT_COMPRESSION :: int where "MZ_DEFAULT_COMPRESSION = -1"
definition MZ_BEST_COMPRESSION :: int where "MZ_BEST_COMPRESSION = 9"

abbreviation INT_MAX :: nat where
  "INT_MAX \<equiv> 2147483647"

section \<open>Arguments\<close>

text \<open>Lua counts from one; the subtraction is one of unsigned 32-bit integers.\<close>

definition lua_index :: "int \<Rightarrow> u32" where
  "lua_index i = word_of_int i - 1"

definition opt_uint :: "int option \<Rightarrow> u32" where
  "opt_uint a = (case a of None \<Rightarrow> 0 | Some i \<Rightarrow> word_of_int i)"

definition opt_size :: "int \<Rightarrow> int option \<Rightarrow> nat" where
  "opt_size d a = nat ((case a of None \<Rightarrow> d | Some i \<Rightarrow> i) mod 2 ^ 64)"

definition opt_int :: "int \<Rightarrow> int option \<Rightarrow> int" where
  "opt_int d a = (case a of None \<Rightarrow> d | Some i \<Rightarrow> signed_take_bit 31 i)"

definition lmz_check_compression_level :: "int option \<Rightarrow> miniz_outcome + int" where
  "lmz_check_compression_level a =
     (let level = opt_int MZ_DEFAULT_COMPRESSION a in
      if level < MZ_DEFAULT_COMPRESSION \<or> MZ_BEST_COMPRESSION < level
      then Inl (Raises ''Compression level must be between %d and %d''
             [MInteger MZ_DEFAULT_COMPRESSION, MInteger MZ_BEST_COMPRESSION])
      else Inr level)"

text \<open>\<open>luaL_checkudata\<close>: a value that is not a userdata of the right type raises an error.\<close>

definition with_udata :: "(nat \<rightharpoonup> 'a) \<Rightarrow> string \<Rightarrow> nat \<Rightarrow> ('a \<Rightarrow> miniz_outcome \<times> 's) \<Rightarrow> 's \<Rightarrow> miniz_outcome \<times> 's" where
  "with_udata store name p f s =
     (case store p of None \<Rightarrow> (Raises ''bad argument #1 (%s expected)'' [MString name], s) | Some x \<Rightarrow> f x)"

text \<open>A member of an archive is read only once it has been initialised.\<close>

definition with_archive :: "'z lmz_file \<Rightarrow> ('z \<Rightarrow> miniz_outcome) \<Rightarrow> miniz_outcome" where
  "with_archive r f = (case archive r of None \<Rightarrow> Undefined | Some z \<Rightarrow> f z)"

text \<open>\<open>lua_pushstring\<close> of a pointer that may be null.\<close>

definition push_error_text :: "('z, 'w, 'c) mz_lib \<Rightarrow> int \<Rightarrow> miniz_value" where
  "push_error_text lib status = (case lib_error lib status of None \<Rightarrow> MNil | Some t \<Rightarrow> MString t)"

text \<open>\<open>lua_pushlstring\<close> of a heap block that may be null: no byte of it is read when the length is zero.\<close>

definition push_block :: "string option \<times> nat \<Rightarrow> miniz_outcome" where
  "push_block b =
     (case b of
        (Some block, len) \<Rightarrow> if len \<le> length block then Returns [MString (take len block)] else Undefined
      | (None, len) \<Rightarrow> if len = 0 then Returns [MString []] else Undefined)"

section \<open>Readers\<close>

text \<open>
  The callback through which miniz reads a file: \<open>start\<close> is the archive's own offset in the
  file. A negative result of libuv becomes a huge \<open>size_t\<close>.
\<close>

definition lmz_file_read ::
  "('z, 'w, 'c) mz_lib \<Rightarrow> int \<Rightarrow> nat \<Rightarrow> nat \<Rightarrow> nat \<Rightarrow> nat \<times> string" where
  "lmz_file_read lib fdesc start file_ofs n =
     (case fs_read lib fdesc ((file_ofs + start) mod 2 ^ 64) n of (r, bytes) \<Rightarrow> (nat (r mod 2 ^ 64), bytes))"

definition lmz_last_error :: "nat \<Rightarrow> ('z, 'w, 'c) miniz_state \<Rightarrow> miniz_outcome \<times> ('z, 'w, 'c) miniz_state" where
  "lmz_last_error L s =
     (case um_find L (error_messages s) of
        None \<Rightarrow> (Returns [MNil], s)
      | Some t \<Rightarrow> (Returns [MString (c_str t)], s\<lparr>error_messages := um_erase L (error_messages s)\<rparr>))"

definition lmz_reader_init ::
  "('z, 'w, 'c) mz_lib \<Rightarrow> nat \<Rightarrow> nat \<Rightarrow> string \<Rightarrow> int option \<Rightarrow> ('z, 'w, 'c) miniz_state
    \<Rightarrow> miniz_outcome \<times> ('z, 'w, 'c) miniz_state" where
  "lmz_reader_init lib L p path flags s =
     (let fdesc = fs_open lib (c_str path);
          s1 = s\<lparr>fs_calls := fs_calls s @ [Fs_open (c_str path), Fs_fstat fdesc]\<rparr>;
          size = fs_size lib fdesc
      in case lib_reader_init lib (lmz_file_read lib fdesc) size (opt_uint flags) of
           Inl error_string \<Rightarrow>
             (Returns [MNil, MFormat ''Failed to initialize miniz reader for archive %s (Last error: %s)''
                         [MString (c_str path), MString error_string]],
              s1\<lparr>mz_readers := (mz_readers s1)(p \<mapsto> \<lparr>archive = None, lmz_loop = luv_loop lib, fd = fdesc\<rparr>),
                 error_messages := um_set L error_string (error_messages s1)\<rparr>)
         | Inr z \<Rightarrow>
             (Returns [MUserdata p],
              s1\<lparr>mz_readers := (mz_readers s1)(p \<mapsto> \<lparr>archive = Some z, lmz_loop = luv_loop lib, fd = fdesc\<rparr>)\<rparr>))"

text \<open>\<open>garbage\<close> and \<open>garbage_fd\<close> are what the memory of the new userdata held before.\<close>

definition lmz_reader_init_mem ::
  "('z, 'w, 'c) mz_lib \<Rightarrow> nat \<Rightarrow> nat \<Rightarrow> nat \<Rightarrow> int \<Rightarrow> string \<Rightarrow> int option \<Rightarrow> ('z, 'w, 'c) miniz_state
    \<Rightarrow> miniz_outcome \<times> ('z, 'w, 'c) miniz_state" where
  "lmz_reader_init_mem lib L p garbage garbage_fd buf flags s =
     (case lib_reader_init_mem lib buf (opt_uint flags) of
        Inl error_string \<Rightarrow>
          (Returns [MNil, MFormat ''Failed to initialize miniz reader from memory (Last error: %s)'' [MString error_string]],
           s\<lparr>mz_readers := (mz_readers s)(p \<mapsto> \<lparr>archive = None, lmz_loop = garbage, fd = garbage_fd\<rparr>),
              error_messages := um_set L error_string (error_messages s)\<rparr>)
      | Inr z \<Rightarrow>
          (Returns [MUserdata p],
           s\<lparr>mz_readers := (mz_readers s)(p \<mapsto> \<lparr>archive = Some z, lmz_loop = garbage, fd = garbage_fd\<rparr>)\<rparr>))"

definition lmz_reader_gc ::
  "nat \<Rightarrow> ('z, 'w, 'c) miniz_state \<Rightarrow> miniz_outcome \<times> ('z, 'w, 'c) miniz_state" where
  "lmz_reader_gc p s =
     with_udata (mz_readers s) ''miniz_reader'' p
       (\<lambda>zip. (Returns [],
          (if lmz_loop zip \<noteq> 0 then s\<lparr>fs_calls := fs_calls s @ [Fs_close (fd zip)]\<rparr> else s)
            \<lparr>mz_readers := (mz_readers s)(p := None)\<rparr>)) s"

definition lmz_reader_get_num_files ::
  "('z, 'w, 'c) mz_lib \<Rightarrow> nat \<Rightarrow> ('z, 'w, 'c) miniz_state \<Rightarrow> miniz_outcome \<times> ('z, 'w, 'c) miniz_state" where
  "lmz_reader_get_num_files lib p s =
     with_udata (mz_readers s) ''miniz_reader'' p
       (\<lambda>zip. (with_archive zip (\<lambda>z. Returns [MInteger (uint (lib_num_files lib z))]), s)) s"

text \<open>\<open>index + 1\<close> is computed on \<open>int\<close>.\<close>

definition lmz_reader_locate_file ::
  "('z, 'w, 'c) mz_lib \<Rightarrow> nat \<Rightarrow> string \<Rightarrow> int option \<Rightarrow> ('z, 'w, 'c) miniz_state
    \<Rightarrow> miniz_outcome \<times> ('z, 'w, 'c) miniz_state" where
  "lmz_reader_locate_file lib p path flags s =
     with_udata (mz_readers s) ''miniz_reader'' p
       (\<lambda>zip. (with_archive zip (\<lambda>z.
          let index = lib_locate lib z (c_str path) (opt_uint flags) in
          if index < 0 then Returns [MNil, MFormat ''Can't find file %s.'' [MString (c_str path)]]
          else if index = int INT_MAX then Undefined
          else Returns [MInteger (index + 1)]), s)) s"

definition invalid_index :: "u32 \<Rightarrow> miniz_outcome" where
  "invalid_index file_index = Returns [MNil, MFormat ''%d is an invalid index'' [MInteger (sint file_index)]]"

definition lmz_reader_stat ::
  "('z, 'w, 'c) mz_lib \<Rightarrow> nat \<Rightarrow> int \<Rightarrow> ('z, 'w, 'c) miniz_state \<Rightarrow> miniz_outcome \<times> ('z, 'w, 'c) miniz_state" where
  "lmz_reader_stat lib p i s =
     with_udata (mz_readers s) ''miniz_reader'' p
       (\<lambda>zip. (with_archive zip (\<lambda>z.
          let file_index = lua_index i in
          case lib_file_stat lib z file_index of
            None \<Rightarrow> invalid_index file_index
          | Some st \<Rightarrow>
              Returns [MTable
                [(''index'', MInteger (uint file_index)),
                 (''version_made_by'', MInteger (m_version_made_by st)),
                 (''version_needed'', MInteger (m_version_needed st)),
                 (''bit_flag'', MInteger (m_bit_flag st)),
                 (''method'', MInteger (m_method st)),
                 (''time'', MInteger (m_time st)),
                 (''crc32'', MInteger (m_crc32 st)),
                 (''comp_size'', MInteger (m_comp_size st)),
                 (''uncomp_size'', MInteger (m_uncomp_size st)),
                 (''internal_attr'', MInteger (m_internal_attr st)),
                 (''external_attr'', MInteger (m_external_attr st)),
                 (''filename'', MString (c_str (m_filename st))),
                 (''comment'', MString (c_str (m_comment st)))]]), s)) s"

definition lmz_reader_get_filename ::
  "('z, 'w, 'c) mz_lib \<Rightarrow> nat \<Rightarrow> int \<Rightarrow> ('z, 'w, 'c) miniz_state \<Rightarrow> miniz_outcome \<times> ('z, 'w, 'c) miniz_state" where
  "lmz_reader_get_filename lib p i s =
     with_udata (mz_readers s) ''miniz_reader'' p
       (\<lambda>zip. (with_archive zip (\<lambda>z.
          case lib_get_filename lib z (lua_index i) (path_max lib) of
            None \<Rightarrow> invalid_index (lua_index i)
          | Some pFilename \<Rightarrow> Returns [MString (c_str pFilename)]), s)) s"

definition lmz_reader_is_file_a_directory ::
  "('z, 'w, 'c) mz_lib \<Rightarrow> nat \<Rightarrow> int \<Rightarrow> ('z, 'w, 'c) miniz_state \<Rightarrow> miniz_outcome \<times> ('z, 'w, 'c) miniz_state" where
  "lmz_reader_is_file_a_directory lib p i s =
     with_udata (mz_readers s) ''miniz_reader'' p
       (\<lambda>zip. (with_archive zip (\<lambda>z. Returns [MBool (lib_is_directory lib z (lua_index i))]), s)) s"

definition lmz_reader_extract ::
  "('z, 'w, 'c) mz_lib \<Rightarrow> nat \<Rightarrow> int \<Rightarrow> int option \<Rightarrow> ('z, 'w, 'c) miniz_state
    \<Rightarrow> miniz_outcome \<times> ('z, 'w, 'c) miniz_state" where
  "lmz_reader_extract lib p i flags s =
     with_udata (mz_readers s) ''miniz_reader'' p
       (\<lambda>zip. (with_archive zip (\<lambda>z. push_block (lib_extract_to_heap lib z (lua_index i) (opt_uint flags))), s)) s"

definition lmz_reader_get_offset ::
  "('z, 'w, 'c) mz_lib \<Rightarrow> nat \<Rightarrow> ('z, 'w, 'c) miniz_state \<Rightarrow> miniz_outcome \<times> ('z, 'w, 'c) miniz_state" where
  "lmz_reader_get_offset lib p s =
     with_udata (mz_readers s) ''miniz_reader'' p
       (\<lambda>zip. (with_archive zip (\<lambda>z. Returns [MInteger (lib_archive_start lib z)]), s)) s"

section \<open>Writers\<close>

definition lmz_writer_gc ::
  "nat \<Rightarrow> ('z, 'w, 'c) miniz_state \<Rightarrow> miniz_outcome \<times> ('z, 'w, 'c) miniz_state" where
  "lmz_writer_gc p s =
     with_udata (mz_writers s) ''miniz_writer'' p
       (\<lambda>w. (Returns [], s\<lparr>mz_writers := (mz_writers s)(p := None)\<rparr>)) s"

definition lmz_writer_init ::
  "('z, 'w, 'c) mz_lib \<Rightarrow> nat \<Rightarrow> int option \<Rightarrow> int option \<Rightarrow> ('z, 'w, 'c) miniz_state
    \<Rightarrow> miniz_outcome \<times> ('z, 'w, 'c) miniz_state" where
  "lmz_writer_init lib p reserve initial s =
     (case lib_writer_init_heap lib (opt_size 0 reserve) (opt_size (128 * 1024) initial) of
        None \<Rightarrow> (Raises ''Problem initializing heap writer'' [], s\<lparr>mz_writers := (mz_writers s)(p \<mapsto> None)\<rparr>)
      | Some w \<Rightarrow> (Returns [MUserdata p], s\<lparr>mz_writers := (mz_writers s)(p \<mapsto> Some w)\<rparr>))"

definition on_writer ::
  "nat \<Rightarrow> ('w \<Rightarrow> miniz_outcome \<times> 'w) \<Rightarrow> ('z, 'w, 'c) miniz_state \<Rightarrow> miniz_outcome \<times> ('z, 'w, 'c) miniz_state" where
  "on_writer p f s =
     with_udata (mz_writers s) ''miniz_writer'' p
       (\<lambda>w. case w of
          None \<Rightarrow> (Undefined, s)
        | Some w \<Rightarrow> (case f w of (r, w') \<Rightarrow> (r, s\<lparr>mz_writers := (mz_writers s)(p \<mapsto> Some w')\<rparr>))) s"

definition lmz_writer_add_from_zip_reader ::
  "('z, 'w, 'c) mz_lib \<Rightarrow> nat \<Rightarrow> nat \<Rightarrow> int \<Rightarrow> ('z, 'w, 'c) miniz_state \<Rightarrow> miniz_outcome \<times> ('z, 'w, 'c) miniz_state" where
  "lmz_writer_add_from_zip_reader lib p source i s =
     (case mz_readers s source of
        None \<Rightarrow>
          with_udata (mz_writers s) ''miniz_writer'' p
            (\<lambda>w. (Raises ''bad argument #2 (%s expected)'' [MString ''miniz_reader''], s)) s
      | Some r \<Rightarrow>
          on_writer p (\<lambda>w. case archive r of
              None \<Rightarrow> (Undefined, w)
            | Some z \<Rightarrow> (case lib_add_from_reader lib w z (lua_index i) of
                          (ok, w') \<Rightarrow> (if ok then Returns [] else Raises ''Failure to copy file between zips'' [], w'))) s)"

definition lmz_writer_add_mem ::
  "('z, 'w, 'c) mz_lib \<Rightarrow> nat \<Rightarrow> string \<Rightarrow> string \<Rightarrow> int option \<Rightarrow> ('z, 'w, 'c) miniz_state
    \<Rightarrow> miniz_outcome \<times> ('z, 'w, 'c) miniz_state" where
  "lmz_writer_add_mem lib p path data flags s =
     on_writer p (\<lambda>w. case lib_add_mem lib w (c_str path) data (opt_uint flags) of
         (ok, w') \<Rightarrow> (if ok then Returns [] else Raises ''Failure to add entry to zip'' [], w')) s"

text \<open>The finished archive is a heap block that the caller owns; it is copied and never freed.\<close>

definition lmz_writer_finalize ::
  "('z, 'w, 'c) mz_lib \<Rightarrow> nat \<Rightarrow> ('z, 'w, 'c) miniz_state \<Rightarrow> miniz_outcome \<times> ('z, 'w, 'c) miniz_state" where
  "lmz_writer_finalize lib p s =
     with_udata (mz_writers s) ''miniz_writer'' p
       (\<lambda>w. case w of
          None \<Rightarrow> (Undefined, s)
        | Some w \<Rightarrow>
            (case lib_finalize_heap lib w of
               (None, w') \<Rightarrow> (Raises ''Problem finalizing archive'' [], s\<lparr>mz_writers := (mz_writers s)(p \<mapsto> Some w')\<rparr>)
             | (Some data, w') \<Rightarrow>
                 (Returns [MString data],
                  s\<lparr>mz_writers := (mz_writers s)(p \<mapsto> Some w'), heap_leaks := heap_leaks s + 1\<rparr>))) s"

section \<open>Streams\<close>

definition stream_problem :: "('z, 'w, 'c) mz_lib \<Rightarrow> int \<Rightarrow> miniz_outcome" where
  "stream_problem lib status =
     (case lib_error lib status of
        Some msg \<Rightarrow> Raises ''Problem initializing stream: %s'' [MString msg]
      | None \<Rightarrow> Raises ''Problem initializing stream'' [])"

definition lmz_deflator_init ::
  "('z, 'w, 'c) mz_lib \<Rightarrow> nat \<Rightarrow> int \<Rightarrow> int option \<Rightarrow> ('z, 'w, 'c) miniz_state
    \<Rightarrow> miniz_outcome \<times> ('z, 'w, 'c) miniz_state" where
  "lmz_deflator_init lib p garbage level s =
     (case lmz_check_compression_level level of
        Inl e \<Rightarrow> (e, s)
      | Inr lv \<Rightarrow>
          (case lib_deflateInit lib lv of
             (status, c) \<Rightarrow>
               if status \<noteq> MZ_OK
               then (stream_problem lib status, s\<lparr>mz_deflators := (mz_deflators s)(p \<mapsto> \<lparr>mode = garbage, stream = c\<rparr>)\<rparr>)
               else (Returns [MUserdata p], s\<lparr>mz_deflators := (mz_deflators s)(p \<mapsto> \<lparr>mode = 0, stream = c\<rparr>)\<rparr>)))"

definition lmz_inflator_init ::
  "('z, 'w, 'c) mz_lib \<Rightarrow> nat \<Rightarrow> int \<Rightarrow> ('z, 'w, 'c) miniz_state \<Rightarrow> miniz_outcome \<times> ('z, 'w, 'c) miniz_state" where
  "lmz_inflator_init lib p garbage s =
     (case lib_inflateInit lib of
        (status, c) \<Rightarrow>
          if status \<noteq> MZ_OK
          then (stream_problem lib status, s\<lparr>mz_inflators := (mz_inflators s)(p \<mapsto> \<lparr>mode = garbage, stream = c\<rparr>)\<rparr>)
          else (Returns [MUserdata p], s\<lparr>mz_inflators := (mz_inflators s)(p \<mapsto> \<lparr>mode = 1, stream = c\<rparr>)\<rparr>))"

definition lmz_deflator_gc ::
  "nat \<Rightarrow> ('z, 'w, 'c) miniz_state \<Rightarrow> miniz_outcome \<times> ('z, 'w, 'c) miniz_state" where
  "lmz_deflator_gc p s =
     with_udata (mz_deflators s) ''miniz_deflator'' p
       (\<lambda>st. (Returns [], s\<lparr>mz_deflators := (mz_deflators s)(p := None)\<rparr>)) s"

definition lmz_inflator_gc ::
  "nat \<Rightarrow> ('z, 'w, 'c) miniz_state \<Rightarrow> miniz_outcome \<times> ('z, 'w, 'c) miniz_state" where
  "lmz_inflator_gc p s =
     with_udata (mz_inflators s) ''miniz_inflator'' p
       (\<lambda>st. (Returns [], s\<lparr>mz_inflators := (mz_inflators s)(p := None)\<rparr>)) s"

definition flush_types :: "string list" where
  "flush_types = [''no'', ''partial'', ''sync'', ''full'', ''finish'', ''block'']"

text \<open>\<open>luaL_checkoption\<close>: the position of the name in the list.\<close>

fun check_option :: "string \<Rightarrow> string list \<Rightarrow> nat option" where
  "check_option nm [] = None"
| "check_option nm (x # xs) = (if c_str nm = x then Some 0 else map_option Suc (check_option nm xs))"

text \<open>
  The loop: each round offers the library a buffer of \<open>LUAL_BUFFERSIZE\<close> bytes and goes on while it
  was filled. \<open>None\<close> means that the loop does not end. On any other status than the three
  expected ones two values are pushed before \<open>luaL_pushresult\<close>. Once bytes were added to the buffer
  that is forbidden: the buffer keeps earlier pieces on the stack, and they must be on top.
\<close>

partial_function (option) stream_loop ::
  "('z, 'w, 'c) mz_lib \<Rightarrow> bool \<Rightarrow> nat \<Rightarrow> 'c \<Rightarrow> string \<Rightarrow> string \<Rightarrow> (miniz_outcome \<times> 'c) option" where
  "stream_loop lib inflating flush c inp acc =
     (case lib_step lib inflating c flush inp (lual_buffersize lib) of
        (status, c', inp', added) \<Rightarrow>
          if status = MZ_OK \<or> status = MZ_STREAM_END \<or> status = MZ_BUF_ERROR
          then (let acc' = (if status = MZ_BUF_ERROR then acc else acc @ added) in
                if length added = lual_buffersize lib then stream_loop lib inflating flush c' inp' acc'
                else Some (Returns [MString acc'], c'))
          else Some (if acc = [] then Returns [MNil, push_error_text lib status, MString []] else Undefined, c'))"

text \<open>\<open>avail_in\<close> has 32 bits.\<close>

definition lmz_inflator_deflator_impl ::
  "('z, 'w, 'c) mz_lib \<Rightarrow> 'c lmz_stream \<Rightarrow> string \<Rightarrow> string option \<Rightarrow> (miniz_outcome \<times> 'c lmz_stream) option" where
  "lmz_inflator_deflator_impl lib st data flush =
     (case check_option (case flush of None \<Rightarrow> ''no'' | Some f \<Rightarrow> f) flush_types of
        None \<Rightarrow> Some (Raises ''bad argument #3 (invalid option)'' [], st)
      | Some fl \<Rightarrow>
          map_option (\<lambda>(r, c). (r, st\<lparr>stream := c\<rparr>))
            (stream_loop lib (mode st \<noteq> 0) fl (stream st) (take (length data mod 2 ^ 32) data) []))"

definition lmz_deflator_deflate ::
  "('z, 'w, 'c) mz_lib \<Rightarrow> nat \<Rightarrow> string \<Rightarrow> string option \<Rightarrow> ('z, 'w, 'c) miniz_state
    \<Rightarrow> (miniz_outcome \<times> ('z, 'w, 'c) miniz_state) option" where
  "lmz_deflator_deflate lib p data flush s =
     (case mz_deflators s p of
        None \<Rightarrow> Some (Raises ''bad argument #1 (%s expected)'' [MString ''miniz_deflator''], s)
      | Some st \<Rightarrow> map_option (\<lambda>(r, st'). (r, s\<lparr>mz_deflators := (mz_deflators s)(p \<mapsto> st')\<rparr>))
                    (lmz_inflator_deflator_impl lib st data flush))"

definition lmz_inflator_inflate ::
  "('z, 'w, 'c) mz_lib \<Rightarrow> nat \<Rightarrow> string \<Rightarrow> string option \<Rightarrow> ('z, 'w, 'c) miniz_state
    \<Rightarrow> (miniz_outcome \<times> ('z, 'w, 'c) miniz_state) option" where
  "lmz_inflator_inflate lib p data flush s =
     (case mz_inflators s p of
        None \<Rightarrow> Some (Raises ''bad argument #1 (%s expected)'' [MString ''miniz_inflator''], s)
      | Some st \<Rightarrow> map_option (\<lambda>(r, st'). (r, s\<lparr>mz_inflators := (mz_inflators s)(p \<mapsto> st')\<rparr>))
                    (lmz_inflator_deflator_impl lib st data flush))"

section \<open>One-shot functions\<close>

definition ltinfl :: "('z, 'w, 'c) mz_lib \<Rightarrow> string \<Rightarrow> int option \<Rightarrow> miniz_outcome" where
  "ltinfl lib in_buf flags = push_block (lib_infl_to_heap lib in_buf (opt_int 0 flags))"

definition ltdefl :: "('z, 'w, 'c) mz_lib \<Rightarrow> string \<Rightarrow> int option \<Rightarrow> miniz_outcome" where
  "ltdefl lib in_buf flags = push_block (lib_defl_to_heap lib in_buf (opt_int 0 flags))"

definition lmz_adler32 :: "('z, 'w, 'c) mz_lib \<Rightarrow> string option \<Rightarrow> int option \<Rightarrow> miniz_outcome" where
  "lmz_adler32 lib data adler = Returns [MInteger (int (lib_adler32 lib (opt_size 1 adler) data))]"

definition lmz_crc32 :: "('z, 'w, 'c) mz_lib \<Rightarrow> string option \<Rightarrow> int option \<Rightarrow> miniz_outcome" where
  "lmz_crc32 lib data crc32 = Returns [MInteger (int (lib_crc32 lib (opt_size 0 crc32) data))]"

definition lmz_compress :: "('z, 'w, 'c) mz_lib \<Rightarrow> string \<Rightarrow> int option \<Rightarrow> miniz_outcome" where
  "lmz_compress lib inb level =
     (case lmz_check_compression_level level of
        Inl e \<Rightarrow> e
      | Inr lv \<Rightarrow>
          (case lib_compress lib inb (lib_compressBound lib (length inb)) lv of
             (ret, outb) \<Rightarrow>
               if ret = MZ_OK then Returns [MString outb] else Returns [MNil, push_error_text lib ret]))"

text \<open>The buffer doubles as long as the library finds it too small and it stays below \<open>INT_MAX\<close>.\<close>

function uncompress_loop :: "('z, 'w, 'c) mz_lib \<Rightarrow> string \<Rightarrow> nat \<Rightarrow> int \<times> string" where
  "uncompress_loop lib inb n =
     (case lib_uncompress lib inb n of
        (ret, out) \<Rightarrow>
          if ret = MZ_BUF_ERROR
          then (let out_len = n * 2 in
                if 1 < out_len \<and> out_len < INT_MAX then uncompress_loop lib inb out_len else (ret, out))
          else (ret, out))"
  by pat_completeness auto

termination
  by (relation "measure (\<lambda>(lib, inb, n). INT_MAX - n)") auto

declare uncompress_loop.simps [simp del]

definition lmz_uncompress :: "('z, 'w, 'c) mz_lib \<Rightarrow> string \<Rightarrow> int option \<Rightarrow> miniz_outcome" where
  "lmz_uncompress lib inb initial =
     (let out_len = opt_size (int (length inb * 2)) initial in
      if out_len < 1 \<or> INT_MAX < out_len
      then Raises ''Initial buffer size must be between 1 and %d'' [MInteger (int INT_MAX)]
      else (case uncompress_loop lib inb out_len of
              (ret, out) \<Rightarrow>
                if ret = MZ_OK then Returns [MString out] else Returns [MNil, push_error_text lib ret]))"

section \<open>Opening the package\<close>

text \<open>
  \<open>luaL_newmetatable\<close> creates the table in the registry unless it exists; \<open>luaL_newlib\<close> makes a
  table of C functions, whose addresses \<open>fn\<close> gives by name.
\<close>

definition luaL_newmetatable :: "string \<Rightarrow> lua_state \<Rightarrow> lua_state option" where
  "luaL_newmetatable nm L =
     (case ltables L (lregistry L) (KField nm) of
        LNil \<Rightarrow> do { let L1 = lua_newtable L; L2 \<leftarrow> lua_setregistry nm (lua_pushv (LTable (lnext L)) L1); Some L2 }
      | v \<Rightarrow> Some (lua_pushv v L))"

fun set_functions :: "(string \<Rightarrow> nat) \<Rightarrow> (string \<times> string) list \<Rightarrow> lua_state \<Rightarrow> lua_state option" where
  "set_functions fn [] L = Some L"
| "set_functions fn ((nm, f) # fs) L =
     do { L1 \<leftarrow> lua_setfield 2 nm (lua_pushv (LCFunction (fn f)) L); set_functions fn fs L1 }"

definition luaL_newlib :: "(string \<Rightarrow> nat) \<Rightarrow> (string \<times> string) list \<Rightarrow> lua_state \<Rightarrow> lua_state option" where
  "luaL_newlib fn fs L = set_functions fn fs (lua_newtable L)"

definition lminiz_read_m :: "(string \<times> string) list" where
  "lminiz_read_m =
     [(''get_num_files'', ''lmz_reader_get_num_files''),
      (''stat'', ''lmz_reader_stat''),
      (''get_filename'', ''lmz_reader_get_filename''),
      (''is_directory'', ''lmz_reader_is_file_a_directory''),
      (''extract'', ''lmz_reader_extract''),
      (''locate_file'', ''lmz_reader_locate_file''),
      (''get_offset'', ''lmz_reader_get_offset'')]"

definition lminiz_write_m :: "(string \<times> string) list" where
  "lminiz_write_m =
     [(''add_from_zip'', ''lmz_writer_add_from_zip_reader''),
      (''add'', ''lmz_writer_add_mem''),
      (''finalize'', ''lmz_writer_finalize'')]"

definition lminiz_deflate_m :: "(string \<times> string) list" where
  "lminiz_deflate_m = [(''deflate'', ''lmz_deflator_deflate'')]"

definition lminiz_inflate_m :: "(string \<times> string) list" where
  "lminiz_inflate_m = [(''inflate'', ''lmz_inflator_inflate'')]"

definition lminiz_f :: "(string \<times> string) list" where
  "lminiz_f =
     [(''new_reader'', ''lmz_reader_init''),
      (''new_reader_memory'', ''lmz_reader_init_mem''),
      (''new_writer'', ''lmz_writer_init''),
      (''inflate'', ''ltinfl''),
      (''deflate'', ''ltdefl''),
      (''adler32'', ''lmz_adler32''),
      (''crc32'', ''lmz_crc32''),
      (''compress'', ''lmz_compress''),
      (''uncompress'', ''lmz_uncompress''),
      (''version'', ''lmz_version''),
      (''new_deflator'', ''lmz_deflator_init''),
      (''new_inflator'', ''lmz_inflator_init''),
      (''last_error'', ''lmz_last_error'')]"

definition make_class ::
  "(string \<Rightarrow> nat) \<Rightarrow> string \<Rightarrow> (string \<times> string) list \<Rightarrow> string \<Rightarrow> lua_state \<Rightarrow> lua_state option" where
  "make_class fn nm methods gc L =
     do { L1 \<leftarrow> luaL_newmetatable nm L;
          L2 \<leftarrow> luaL_newlib fn methods L1;
          L3 \<leftarrow> lua_setfield 2 ''__index'' L2;
          L4 \<leftarrow> lua_setfield 2 ''__gc'' (lua_pushv (LCFunction (fn gc)) L3);
          lua_pop 1 L4 }"

definition luaopen_miniz :: "(string \<Rightarrow> nat) \<Rightarrow> lua_state \<Rightarrow> (int \<times> lua_state) option" where
  "luaopen_miniz fn L =
     do { L1 \<leftarrow> make_class fn ''miniz_reader'' lminiz_read_m ''lmz_reader_gc'' L;
          L2 \<leftarrow> make_class fn ''miniz_writer'' lminiz_write_m ''lmz_writer_gc'' L1;
          L3 \<leftarrow> make_class fn ''miniz_deflator'' lminiz_deflate_m ''lmz_deflator_gc'' L2;
          L4 \<leftarrow> make_class fn ''miniz_inflator'' lminiz_inflate_m ''lmz_inflator_gc'' L3;
          L5 \<leftarrow> luaL_newlib fn lminiz_f L4;
          Some (1, L5) }"

section \<open>Properties\<close>

text \<open>
  What \<open>mz_uncompress\<close> promises for a compressed text and a buffer whose size fits 32 bits: the text,
  when the buffer holds it, and \<open>MZ_BUF_ERROR\<close> otherwise.
\<close>

definition uncompresses :: "('z, 'w, 'c) mz_lib \<Rightarrow> string \<Rightarrow> string \<Rightarrow> bool" where
  "uncompresses lib inb text \<longleftrightarrow>
     (\<forall>n. n < 2 ^ 32 \<longrightarrow>
        (if length text \<le> n then lib_uncompress lib inb n = (MZ_OK, text)
         else fst (lib_uncompress lib inb n) = MZ_BUF_ERROR))"

lemma uncompress_loop_fits:
  assumes "uncompresses lib inb txt" and "1 \<le> n" and "2 * length txt \<le> INT_MAX" and "n \<le> INT_MAX"
  shows "uncompress_loop lib inb n = (MZ_OK, txt)"
  using assms
proof (induction lib inb n rule: uncompress_loop.induct)
  case (1 lib inb n)
  show ?case
  proof (cases "length txt \<le> n")
    case True
    then have "lib_uncompress lib inb n = (MZ_OK, txt)"
      using "1.prems"(1,4) by (simp add: uncompresses_def)
    then show ?thesis
      by (simp add: uncompress_loop.simps [of lib inb n] MZ_OK_def MZ_BUF_ERROR_def)
  next
    case False
    have "n < 2 ^ 32" using "1.prems"(4) by simp
    with False have "fst (lib_uncompress lib inb n) = MZ_BUF_ERROR"
      using "1.prems"(1) unfolding uncompresses_def by presburger
    then obtain out where out: "lib_uncompress lib inb n = (MZ_BUF_ERROR, out)" by (metis prod.collapse)
    have room: "1 < n * 2 \<and> n * 2 < INT_MAX"
      using False "1.prems"(2,3) by linarith
    have "uncompress_loop lib inb (n * 2) = (MZ_OK, txt)"
      using "1.IH" out room "1.prems" by auto
    then show ?thesis
      using out room by (simp add: uncompress_loop.simps [of lib inb n])
  qed
qed

text \<open>
  C21. \<open>miniz.uncompress\<close> returns the whole text whatever the initial size of the buffer, up to a
  text of one gibibyte less a byte: the loop ends, and the doubling reaches a buffer that is large
  enough before it reaches \<open>INT_MAX\<close>. An initial size outside the range raises an error.
\<close>

theorem lmz_uncompress_grows:
  assumes "uncompresses lib inb txt" and "2 * length txt \<le> INT_MAX"
  shows "lmz_uncompress lib inb initial =
    (if 1 \<le> opt_size (int (length inb * 2)) initial \<and> opt_size (int (length inb * 2)) initial \<le> INT_MAX
     then Returns [MString txt]
     else Raises ''Initial buffer size must be between 1 and %d'' [MInteger (int INT_MAX)])"
  using uncompress_loop_fits [OF assms(1) _ assms(2), of "opt_size (int (length inb * 2)) initial"]
  by (simp add: lmz_uncompress_def Let_def)

text \<open>
  The contract of a stream: \<open>pending c f inp\<close> is all that the stream in state \<open>c\<close> will produce for
  the input with this flush mode. Each step delivers the next part of it, as much as the buffer
  holds; with nothing left to deliver a step may report \<open>MZ_BUF_ERROR\<close>.
\<close>

definition stream_contract ::
  "('z, 'w, 'c) mz_lib \<Rightarrow> bool \<Rightarrow> nat \<Rightarrow> ('c \<Rightarrow> string \<Rightarrow> string) \<Rightarrow> bool" where
  "stream_contract lib inflating f pending \<longleftrightarrow>
     (\<forall>c inp n. 0 < n \<longrightarrow> (case lib_step lib inflating c f inp n of
        (status, c', inp', added) \<Rightarrow>
          added = take n (pending c inp) \<and> pending c' inp' = drop n (pending c inp)
          \<and> (status = MZ_OK \<or> status = MZ_STREAM_END \<or> status = MZ_BUF_ERROR \<and> added = [])))"

lemma stream_loop_pending:
  assumes "stream_contract lib inflating f pending" and "0 < lual_buffersize lib"
  shows "\<exists>c'. stream_loop lib inflating f c inp acc = Some (Returns [MString (acc @ pending c inp)], c')"
proof (induction "length (pending c inp)" arbitrary: c inp acc rule: less_induct)
  case less
  let ?n = "lual_buffersize lib"
  obtain status c' inp' added where step: "lib_step lib inflating c f inp ?n = (status, c', inp', added)"
    by (metis prod_cases4)
  have added: "added = take ?n (pending c inp)" and rest: "pending c' inp' = drop ?n (pending c inp)"
    and status: "status = MZ_OK \<or> status = MZ_STREAM_END \<or> status = MZ_BUF_ERROR \<and> added = []"
    using assms(1) [unfolded stream_contract_def, rule_format, of ?n c inp] assms(2) step by auto
  define acc' where "acc' = (if status = MZ_BUF_ERROR then acc else acc @ added)"
  have acc': "acc' = acc @ added" using status by (auto simp: acc'_def MZ_OK_def MZ_STREAM_END_def MZ_BUF_ERROR_def)
  have unfold: "stream_loop lib inflating f c inp acc =
     (if length added = ?n then stream_loop lib inflating f c' inp' acc' else Some (Returns [MString acc'], c'))"
    using step status by (subst stream_loop.simps) (auto simp: acc'_def Let_def)
  show ?case
  proof (cases "length added = ?n")
    case True
    then have "length (pending c' inp') < length (pending c inp)"
      using added rest assms(2) by auto
    from less [OF this, of acc'] show ?thesis
      using unfold True acc' added rest by (metis append.assoc append_take_drop_id)
  next
    case False
    then have "added = pending c inp" using added by (metis length_take min_def take_all linorder_le_cases)
    then show ?thesis using unfold False acc' by simp
  qed
qed

lemma check_option_flush [simp]: "check_option ''no'' flush_types = Some 0"
  by (simp add: flush_types_def c_str_def NUL_def)

text \<open>
  A stream returns all that the library produces for a chunk of input, in one string, for
  every size of the transfer buffer: the loop ends, keeps the order of the pieces and loses
  nothing, also when the output fills the last buffer exactly. Only the first 32 bits of the
  input length are passed on.
\<close>

theorem lmz_stream_complete:
  assumes "check_option (case flush of None \<Rightarrow> ''no'' | Some f \<Rightarrow> f) flush_types = Some fl"
    and "stream_contract lib (mode st \<noteq> 0) fl pending" and "0 < lual_buffersize lib" and "length data < 2 ^ 32"
  shows "\<exists>st'. lmz_inflator_deflator_impl lib st data flush = Some (Returns [MString (pending (stream st) data)], st')
     \<and> mode st' = mode st"
  using stream_loop_pending [OF assms(2,3), of "stream st" data "[]"] assms(1,4)
  by (auto simp: lmz_inflator_deflator_impl_def)

text \<open>A library whose archives are association lists and whose streams copy their input.\<close>

definition entry_at :: "(string \<times> string) list \<Rightarrow> u32 \<Rightarrow> (string \<times> string) option" where
  "entry_at z i = (if unat i < length z then Some (z ! unat i) else None)"

fun position_of :: "string \<Rightarrow> (string \<times> string) list \<Rightarrow> nat \<Rightarrow> int" where
  "position_of path [] i = -1"
| "position_of path ((k, v) # z) i = (if k = path then int i else position_of path z (Suc i))"

definition sample_miniz :: "((string \<times> string) list, (string \<times> string) list, string) mz_lib" where
  "sample_miniz =
     \<lparr>luv_loop = 1, fs_open = (\<lambda>path. -2), fs_size = (\<lambda>h. 0), fs_read = (\<lambda>h ofs n. (-9, [])),
      lib_reader_init = (\<lambda>rd n flags. Inl ''invalid header or archive is corrupted''),
      lib_reader_init_mem = (\<lambda>buf flags. if buf = ''zip'' then Inr [(''a'', ''one''), (''b'', ''two'')] else Inl ''not a ZIP archive''),
      lib_num_files = (\<lambda>z. of_nat (length z)),
      lib_locate = (\<lambda>z path flags. position_of path z 0),
      lib_file_stat = (\<lambda>z i. map_option (\<lambda>(k, v). \<lparr>m_version_made_by = 0, m_version_needed = 0, m_bit_flag = 0, m_method = 0,
          m_time = 0, m_crc32 = 0, m_comp_size = int (length v), m_uncomp_size = int (length v), m_internal_attr = 0,
          m_external_attr = 0, m_filename = k, m_comment = []\<rparr>) (entry_at z i)),
      lib_get_filename = (\<lambda>z i n. map_option (\<lambda>(k, v). take (n - 1) k) (entry_at z i)),
      lib_is_directory = (\<lambda>z i. False),
      lib_extract_to_heap = (\<lambda>z i flags. case entry_at z i of None \<Rightarrow> (None, 0) | Some (k, v) \<Rightarrow> (Some v, length v)),
      lib_archive_start = (\<lambda>z. 0),
      lib_writer_init_heap = (\<lambda>n m. Some []),
      lib_add_from_reader = (\<lambda>w z i. case entry_at z i of None \<Rightarrow> (False, w) | Some e \<Rightarrow> (True, w @ [e])),
      lib_add_mem = (\<lambda>w path data flags. (True, w @ [(path, data)])),
      lib_finalize_heap = (\<lambda>w. (Some (concat (map snd w)), w)),
      lib_deflateInit = (\<lambda>level. (0, [])), lib_inflateInit = (0, []),
      lib_step = (\<lambda>inflating c flush inp n.
          (if c @ inp = [] then MZ_BUF_ERROR else MZ_OK, drop n (c @ inp), [], take n (c @ inp))),
      lib_error = (\<lambda>status. None),
      lib_infl_to_heap = (\<lambda>t flags. (None, 0)), lib_defl_to_heap = (\<lambda>t flags. (Some t, length t)),
      lib_adler32 = (\<lambda>a t. a), lib_crc32 = (\<lambda>a t. a),
      lib_compress = (\<lambda>t n level. (0, t)), lib_compressBound = id,
      lib_uncompress = (\<lambda>t n. if 3 \<le> n then (MZ_OK, ''abc'') else (MZ_BUF_ERROR, [])),
      lual_buffersize = 2, path_max = 4096\<rparr>"

theorem lmz_uncompress_grows_witness:
  "lmz_uncompress sample_miniz ''x'' (Some 1) = Returns [MString ''abc'']
   \<and> lmz_uncompress sample_miniz ''x'' (Some 0) = Raises ''Initial buffer size must be between 1 and %d'' [MInteger (int INT_MAX)]"
proof -
  have u: "uncompresses sample_miniz ''x'' ''abc''"
    by (simp add: uncompresses_def sample_miniz_def)
  have "2 * length ''abc'' \<le> INT_MAX" by simp
  from lmz_uncompress_grows [OF u this, of "Some 1"] lmz_uncompress_grows [OF u this, of "Some 0"]
  show ?thesis by (simp add: opt_size_def)
qed

theorem lmz_stream_complete_witness:
  "\<exists>st'. lmz_inflator_deflator_impl sample_miniz \<lparr>mode = 1, stream = []\<rparr> ''abcd'' (Some ''finish'')
     = Some (Returns [MString ''abcd''], st') \<and> mode st' = 1"
proof -
  have c: "stream_contract sample_miniz True 4 (@)"
    by (simp add: stream_contract_def sample_miniz_def)
  have f: "check_option (case Some ''finish'' of None \<Rightarrow> ''no'' | Some f \<Rightarrow> f) flush_types = Some 4"
    by (simp add: flush_types_def c_str_def NUL_def)
  show ?thesis
    using lmz_stream_complete [OF f, of sample_miniz "\<lparr>mode = 1, stream = []\<rparr>" "(@)" "''abcd''"] c
    by (simp add: sample_miniz_def)
qed

lemma lua_index_locate: "0 \<le> i \<Longrightarrow> i < int INT_MAX \<Longrightarrow> lua_index (i + 1) = word_of_int i"
  by (simp add: lua_index_def)

text \<open>
  The index that \<open>locate_file\<close> returns is the one that the other methods of the reader expect:
  \<open>extract\<close>, \<open>get_filename\<close>, \<open>stat\<close> and \<open>is_directory\<close> then ask the library for exactly the entry it
  located. The table that \<open>stat\<close> returns counts from zero.
\<close>

theorem located_entry_used:
  assumes "mz_readers s p = Some r" and "archive r = Some z"
    and "lib_locate lib z (c_str path) (opt_uint flags) = i" and "0 \<le> i" and "i < int INT_MAX"
  shows "fst (lmz_reader_locate_file lib p path flags s) = Returns [MInteger (i + 1)]
    \<and> lmz_reader_extract lib p (i + 1) eflags s = (push_block (lib_extract_to_heap lib z (word_of_int i) (opt_uint eflags)), s)
    \<and> fst (lmz_reader_is_file_a_directory lib p (i + 1) s) = Returns [MBool (lib_is_directory lib z (word_of_int i))]
    \<and> (\<forall>nm. lib_get_filename lib z (word_of_int i) (path_max lib) = Some nm \<longrightarrow>
          fst (lmz_reader_get_filename lib p (i + 1) s) = Returns [MString (c_str nm)])
    \<and> (\<forall>st. lib_file_stat lib z (word_of_int i) = Some st \<longrightarrow>
          (\<exists>fields. fst (lmz_reader_stat lib p (i + 1) s) = Returns [MTable fields]
             \<and> map_of fields ''index'' = Some (MInteger i)
             \<and> map_of fields ''filename'' = Some (MString (c_str (m_filename st)))))"
proof -
  have "uint (word_of_int i :: u32) = i"
    using assms(4,5) by (simp add: uint_word_of_int)
  then show ?thesis
    using assms lua_index_locate [OF assms(4,5)]
    by (simp add: lmz_reader_locate_file_def lmz_reader_extract_def lmz_reader_is_file_a_directory_def
        lmz_reader_get_filename_def lmz_reader_stat_def with_udata_def with_archive_def Let_def)
qed

definition sample_miniz_state :: "((string \<times> string) list, (string \<times> string) list, string) miniz_state" where
  "sample_miniz_state = snd (lmz_reader_init_mem sample_miniz 5 7 0 0 ''zip'' None
     \<lparr>mz_readers = Map.empty, mz_writers = Map.empty, mz_deflators = Map.empty, mz_inflators = Map.empty,
      error_messages = [], fs_calls = [], heap_leaks = 0\<rparr>)"

theorem located_entry_used_witness:
  "fst (lmz_reader_locate_file sample_miniz 7 ''b'' None sample_miniz_state) = Returns [MInteger 2]
   \<and> fst (lmz_reader_extract sample_miniz 7 2 None sample_miniz_state) = Returns [MString ''two'']"
proof -
  have r: "mz_readers sample_miniz_state 7 = Some \<lparr>archive = Some [(''a'', ''one''), (''b'', ''two'')], lmz_loop = 0, fd = 0\<rparr>"
    by (simp add: sample_miniz_state_def lmz_reader_init_mem_def sample_miniz_def)
  have l: "lib_locate sample_miniz [(''a'', ''one''), (''b'', ''two'')] (c_str ''b'') (opt_uint None) = 1"
    by (simp add: sample_miniz_def c_str_def NUL_def)
  have e: "push_block (lib_extract_to_heap sample_miniz [(''a'', ''one''), (''b'', ''two'')] 1 (opt_uint None))
     = Returns [MString ''two'']"
    by (simp add: sample_miniz_def entry_at_def push_block_def)
  show ?thesis
    using located_entry_used [OF r _ l, of None] e by (auto simp: lmz_reader_init_mem_def)
qed

text \<open>
  The memory reader never sets its event loop. When the userdata's memory held something before,
  the finaliser takes it for an event loop and closes a file descriptor that it does not own.
\<close>

lemma memory_reader_closes_garbage:
  assumes "lib_reader_init_mem lib buf (opt_uint flags) = Inr z" and "garbage \<noteq> 0"
  shows "fs_calls (snd (lmz_reader_gc p (snd (lmz_reader_init_mem lib L p garbage garbage_fd buf flags s))))
     = fs_calls s @ [Fs_close garbage_fd]"
  using assms by (simp add: lmz_reader_gc_def lmz_reader_init_mem_def with_udata_def)

text \<open>A failed extraction or decompression is reported as an empty string, like an empty file.\<close>

lemma failed_extract_is_empty:
  assumes "mz_readers s p = Some r" "archive r = Some z" "lib_extract_to_heap lib z (lua_index i) (opt_uint flags) = (None, 0)"
  shows "lmz_reader_extract lib p i flags s = (Returns [MString []], s)"
  using assms by (simp add: lmz_reader_extract_def with_udata_def with_archive_def push_block_def)

lemma failed_inflate_is_empty:
  "lib_infl_to_heap lib t (opt_int 0 flags) = (None, 0) \<Longrightarrow> ltinfl lib t flags = Returns [MString []]"
  by (simp add: ltinfl_def push_block_def)

text \<open>A stream that fails after it produced output misuses the buffer; one that fails at once does not.\<close>

lemma stream_failure:
  assumes "lib_step lib inflating c f inp (lual_buffersize lib) = (status, c', inp', added)"
    and "status \<noteq> MZ_OK" "status \<noteq> MZ_STREAM_END" "status \<noteq> MZ_BUF_ERROR"
  shows "stream_loop lib inflating f c inp acc =
     Some (if acc = [] then Returns [MNil, push_error_text lib status, MString []] else Undefined, c')"
  using assms by (subst stream_loop.simps) simp

text \<open>The error text is kept for \<open>last_error\<close>, which hands it out once.\<close>

lemma last_error_once:
  assumes "lib_reader_init_mem lib buf (opt_uint flags) = Inl msg" and "no_nul msg"
    and "s1 = snd (lmz_reader_init_mem lib L p garbage garbage_fd buf flags s)" and "distinct (map fst (error_messages s))"
  shows "fst (lmz_last_error L s1) = Returns [MString msg]
    \<and> fst (lmz_last_error L (snd (lmz_last_error L s1))) = Returns [MNil]"
proof -
  have "um_find L (error_messages s1) = Some msg" 
    using assms by (simp add: lmz_reader_init_mem_def um.find_assign)
  moreover have "um_find L (um_erase L (error_messages s1)) = None"
    using assms by (simp add: lmz_reader_init_mem_def um.find_erase um.wf_assign)
  ultimately show ?thesis
    using assms(2) by (simp add: lmz_last_error_def)
qed
section \<open>The opened package\<close>

definition with_functions ::
  "(string \<Rightarrow> nat) \<Rightarrow> (string \<times> string) list \<Rightarrow> (lua_key \<Rightarrow> lua_value) \<Rightarrow> lua_key \<Rightarrow> lua_value" where
  "with_functions fn fs tbl = fold (\<lambda>(nm, f) tb. tb(KField nm := LCFunction (fn f))) fs tbl"

lemma set_functions_run:
  "lstack L = LTable t # r \<Longrightarrow>
     set_functions fn fs L = Some (L\<lparr>ltables := (ltables L)(t := with_functions fn fs (ltables L t))\<rparr>)"
  by (induction fs arbitrary: L) (auto simp: lua_api with_functions_def)

lemma with_functions_other: "k \<notin> KField ` fst ` set fs \<Longrightarrow> with_functions fn fs tbl k = tbl k"
  unfolding with_functions_def by (induction fs arbitrary: tbl) auto

lemma with_functions_member:
  "distinct (map fst fs) \<Longrightarrow> (nm, f) \<in> set fs \<Longrightarrow> with_functions fn fs tbl (KField nm) = LCFunction (fn f)"
proof (induction fs arbitrary: tbl)
  case (Cons e fs)
  show ?case
  proof (cases "(nm, f) \<in> set fs")
    case True
    then show ?thesis using Cons by (simp add: with_functions_def case_prod_beta)
  next
    case False
    then have "e = (nm, f)" using Cons.prems by auto
    then have "with_functions fn (e # fs) tbl (KField nm) = (tbl(KField nm := LCFunction (fn f))) (KField nm)"
      using Cons.prems(1) with_functions_other [of "KField nm" fs fn "tbl(KField nm := LCFunction (fn f))"]
      by (auto simp: with_functions_def)
    then show ?thesis by simp
  qed
qed simp

text \<open>A class of userdata: its metatable in the registry, the finaliser and the methods.\<close>

definition has_class :: "(string \<Rightarrow> nat) \<Rightarrow> lua_state \<Rightarrow> string \<times> (string \<times> string) list \<times> string \<Rightarrow> bool" where
  "has_class fn L cls \<longleftrightarrow>
     (case cls of (nm, methods, gc) \<Rightarrow>
        \<exists>mt it. ltables L (lregistry L) (KField nm) = LTable mt \<and> mt < lnext L \<and> it < lnext L \<and> mt \<noteq> lregistry L \<and> it \<noteq> lregistry L
          \<and> ltables L mt (KField ''__gc'') = LCFunction (fn gc) \<and> ltables L mt (KField ''__index'') = LTable it
          \<and> list_all (\<lambda>(m, f). ltables L it (KField m) = LCFunction (fn f)) methods)"

text \<open>Two states that agree on all old tables, except for some fields of the registry.\<close>

definition extends_state :: "string set \<Rightarrow> lua_state \<Rightarrow> lua_state \<Rightarrow> bool" where
  "extends_state ks L L' \<longleftrightarrow>
     lregistry L' = lregistry L \<and> lnext L \<le> lnext L' \<and> lregistry L < lnext L
     \<and> (\<forall>t k. t < lnext L \<longrightarrow> (t = lregistry L \<longrightarrow> k \<notin> KField ` ks) \<longrightarrow> ltables L' t k = ltables L t k)"

lemma make_class_run:
  assumes "lregistry L < lnext L" "ltables L (lregistry L) (KField nm) = LNil" "distinct (map fst methods)"
  shows "\<exists>L'. make_class fn nm methods gc L = Some L' \<and> has_class fn L' (nm, methods, gc)
     \<and> lstack L' = lstack L \<and> extends_state {nm} L L'"
proof -
  let ?t = "lnext L"
  define L1 where "L1 = L\<lparr>ltables := (ltables L)(?t := (\<lambda>k. LNil), lregistry L := (ltables L (lregistry L))(KField nm := LTable ?t)),
      lnext := Suc ?t, lstack := LTable ?t # lstack L\<rparr>"
  have n1: "luaL_newmetatable nm L = Some L1"
    using assms(1,2) by (simp add: luaL_newmetatable_def lua_api L1_def fun_upd_twist)
  define L2 where "L2 = L1\<lparr>ltables := (ltables L1)(Suc ?t := with_functions fn methods (\<lambda>k. LNil)), lnext := Suc (Suc ?t),
      lstack := LTable (Suc ?t) # LTable ?t # lstack L\<rparr>"
  have n2: "luaL_newlib fn methods L1 = Some L2"
    unfolding luaL_newlib_def L2_def
    by (subst set_functions_run [of _ "Suc ?t" "LTable ?t # lstack L"]) (simp_all add: lua_api L1_def)
  define L3 where "L3 = L2\<lparr>ltables := (ltables L2)(?t := (\<lambda>k. LNil)(KField ''__index'' := LTable (Suc ?t), KField ''__gc'' := LCFunction (fn gc))),
      lstack := lstack L\<rparr>"
  have "make_class fn nm methods gc L = Some L3"
    using assms(1) by (simp add: make_class_def n1 n2) (simp add: lua_api L3_def L2_def L1_def)
  moreover have "has_class fn L3 (nm, methods, gc)"
    using assms(1,3) by (auto simp: has_class_def L3_def L2_def L1_def list_all_iff intro: with_functions_member)
  ultimately show ?thesis
    using assms(1) by (auto simp: L3_def L2_def L1_def extends_state_def)
qed

lemma extends_state_bounds: "extends_state ks L L' \<Longrightarrow> lregistry L' < lnext L'"
  by (simp add: extends_state_def)

lemma extends_state_trans:
  "extends_state ks L L1 \<Longrightarrow> extends_state ks' L1 L2 \<Longrightarrow> extends_state (ks \<union> ks') L L2"
  unfolding extends_state_def by (auto simp: image_Un)

lemma has_class_kept:
  assumes "has_class fn L cls" "fst cls \<notin> ks" "extends_state ks L L'"
  shows "has_class fn L' cls"
proof -
  obtain c methods gc where cls: "cls = (c, methods, gc)" by (cases cls)
  obtain mt it where *: "ltables L (lregistry L) (KField c) = LTable mt" "mt < lnext L" "it < lnext L"
      "mt \<noteq> lregistry L" "it \<noteq> lregistry L"
      "ltables L mt (KField ''__gc'') = LCFunction (fn gc)" "ltables L mt (KField ''__index'') = LTable it"
      "list_all (\<lambda>(m, f). ltables L it (KField m) = LCFunction (fn f)) methods"
    using assms(1) by (auto simp: has_class_def cls)
  have "KField c \<notin> KField ` ks" using assms(2) cls by auto
  then have "ltables L' (lregistry L) (KField c) = LTable mt" "\<forall>k. ltables L' mt k = ltables L mt k" "\<forall>k. ltables L' it k = ltables L it k"
    using assms(2,3) * cls by (auto simp: extends_state_def)
  then show ?thesis
    using * assms(3) unfolding has_class_def cls extends_state_def by (intro case_prodI exI [of _ mt] exI [of _ it]) auto
qed

definition miniz_classes :: "(string \<times> (string \<times> string) list \<times> string) list" where
  "miniz_classes =
     [(''miniz_reader'', lminiz_read_m, ''lmz_reader_gc''), (''miniz_writer'', lminiz_write_m, ''lmz_writer_gc''),
      (''miniz_deflator'', lminiz_deflate_m, ''lmz_deflator_gc''), (''miniz_inflator'', lminiz_inflate_m, ''lmz_inflator_gc'')]"

fun make_classes :: "(string \<Rightarrow> nat) \<Rightarrow> (string \<times> (string \<times> string) list \<times> string) list \<Rightarrow> lua_state \<Rightarrow> lua_state option" where
  "make_classes fn [] L = Some L"
| "make_classes fn ((nm, methods, gc) # cs) L = do { L1 \<leftarrow> make_class fn nm methods gc L; make_classes fn cs L1 }"

lemma make_classes_run:
  assumes "lregistry L < lnext L" "list_all (\<lambda>(nm, ms, gc). ltables L (lregistry L) (KField nm) = LNil \<and> distinct (map fst ms)) cs"
    and "distinct (map fst cs)"
  shows "\<exists>L'. make_classes fn cs L = Some L' \<and> list_all (has_class fn L') cs
     \<and> lstack L' = lstack L \<and> extends_state (fst ` set cs) L L'"
  using assms
proof (induction cs arbitrary: L)
  case Nil
  then show ?case by (simp add: extends_state_def)
next
  case (Cons c cs)
  obtain nm ms gc where c: "c = (nm, ms, gc)" by (cases c)
  obtain L1 where L1: "make_class fn nm ms gc L = Some L1" "has_class fn L1 c" "lstack L1 = lstack L"
      "extends_state {nm} L L1"
    using make_class_run [of L nm ms fn gc] Cons.prems(1,2) c by fastforce
  have nm: "nm \<notin> fst ` set cs" using Cons.prems(3) c by simp
  have "ltables L1 (lregistry L1) (KField n) = ltables L (lregistry L) (KField n)" if "n \<noteq> nm" for n
    using L1(4) that by (simp add: extends_state_def)
  moreover have "\<forall>e \<in> set cs. fst e \<noteq> nm" using nm by auto
  ultimately have "list_all (\<lambda>(nm, ms, gc). ltables L1 (lregistry L1) (KField nm) = LNil \<and> distinct (map fst ms)) cs"
    using Cons.prems(2) by (simp add: list_all_iff case_prod_beta)
  then obtain L2 where L2: "make_classes fn cs L1 = Some L2" "list_all (has_class fn L2) cs" "lstack L2 = lstack L1"
      "extends_state (fst ` set cs) L1 L2"
    using Cons.IH [of L1] Cons.prems(3) extends_state_bounds [OF L1(4)] by auto
  have "has_class fn L2 c"
    using has_class_kept [OF L1(2) _ L2(4)] nm c by simp
  moreover have "extends_state (fst ` set (c # cs)) L L2"
    using extends_state_trans [OF L1(4) L2(4)] c by simp
  ultimately show ?case
    using L1 L2 c by simp
qed

lemma luaopen_miniz_classes:
  "luaopen_miniz fn L =
     do { L1 \<leftarrow> make_classes fn miniz_classes L; L2 \<leftarrow> luaL_newlib fn lminiz_f L1; Some (1, L2) }"
  by (simp add: luaopen_miniz_def miniz_classes_def)

text \<open>
  Opening the package leaves one table with all functions on the stack and registers the four
  classes of userdata, each with its finaliser and its methods.
\<close>

theorem luaopen_miniz_complete:
  assumes "lregistry L < lnext L" and "\<forall>nm \<in> set (map fst miniz_classes). ltables L (lregistry L) (KField nm) = LNil"
  shows "\<exists>L' t. luaopen_miniz fn L = Some (1, L') \<and> lstack L' = LTable t # lstack L
     \<and> list_all (\<lambda>(nm, f). ltables L' t (KField nm) = LCFunction (fn f)) lminiz_f
     \<and> list_all (has_class fn L') miniz_classes"
proof -
  have "list_all (\<lambda>(nm, ms, gc). ltables L (lregistry L) (KField nm) = LNil \<and> distinct (map fst ms)) miniz_classes"
    using assms(2) by (simp add: miniz_classes_def lminiz_read_m_def lminiz_write_m_def lminiz_deflate_m_def lminiz_inflate_m_def)
  from make_classes_run [OF assms(1) this, of fn] obtain L1 where
    L1: "make_classes fn miniz_classes L = Some L1" "list_all (has_class fn L1) miniz_classes" "lstack L1 = lstack L"
      "extends_state (fst ` set miniz_classes) L L1"
    by (auto simp: miniz_classes_def)
  define L2 where "L2 = L1\<lparr>ltables := (ltables L1)(lnext L1 := with_functions fn lminiz_f (\<lambda>k. LNil)), lnext := Suc (lnext L1),
      lstack := LTable (lnext L1) # lstack L\<rparr>"
  have "luaL_newlib fn lminiz_f L1 = Some L2"
    unfolding luaL_newlib_def L2_def
    by (subst set_functions_run [of _ "lnext L1" "lstack L"]) (simp_all add: lua_api L1(3))
  then have "luaopen_miniz fn L = Some (1, L2)"
    using L1(1) by (simp add: luaopen_miniz_classes)
  moreover have "has_class fn L2 c" if "has_class fn L1 c" for c
  proof (rule has_class_kept [OF that])
    show "extends_state {} L1 L2"
      using L1(4) by (simp add: extends_state_def L2_def)
  qed simp
  moreover have "list_all (\<lambda>(nm, f). ltables L2 (lnext L1) (KField nm) = LCFunction (fn f)) lminiz_f"
    by (auto simp: L2_def list_all_iff lminiz_f_def intro!: with_functions_member)
  ultimately show ?thesis
    using L1(2) by (auto simp: L2_def list_all_iff)
qed

end
