(* ===== verification/Ffi_Exports.thy ===== *)
theory Ffi_Exports
  imports Lua_VM Glfw_Events
begin

text \<open>
  The tables of function pointers that the bindings hand to LuaJIT: for each binding the fields of
  its struct (\<open><name>_exports.h\<close>) and the pointers that \<open>getExportsTable\<close> (\<open><name>_ffi.cpp\<close>) stores in
  them. A pointer is the name of the function it points to; functions of the libraries are only
  named. LuaJIT reads a pointer by its position in the struct, so a field that is never set
  would be a null pointer that Lua calls. The table of GLFW constants is here as well.
\<close>

section \<open>Static structs\<close>

text \<open>An object of static storage: a field without an initialiser is a null pointer.\<close>

definition static_struct :: "string list \<Rightarrow> (string \<times> string) list \<Rightarrow> (string \<times> string option) list" where
  "static_struct fs inits = map (\<lambda>f. (f, map_of inits f)) fs"

text \<open>The GLFW table is filled by assignments; a later one overwrites an earlier one.\<close>

definition assigned_struct :: "string list \<Rightarrow> (string \<times> string) list \<Rightarrow> (string \<times> string option) list" where
  "assigned_struct fs assigns = static_struct fs (rev assigns)"

section \<open>The tables\<close>

definition static_cpp_exports_table :: "string list" where
  "static_cpp_exports_table =
     [''bit_ceil'', ''bit_floor'', ''bit_width'', ''has_single_bit'']"

definition cpp_exports :: "(string \<times> string) list" where
  "cpp_exports =
     [(''bit_ceil'', ''std::bit_ceil''), (''bit_floor'', ''std::bit_floor''), (''bit_width'', ''std_bit_width''),
      (''has_single_bit'', ''std::has_single_bit'')]"

definition cpp_getExportsTable :: "(string \<times> string option) list" where
  "cpp_getExportsTable = static_struct static_cpp_exports_table cpp_exports"

definition static_crypto_exports_table :: "string list" where
  "static_crypto_exports_table =
     [''version_text'', ''version_number'', ''openssl_to_base64'', ''openssl_from_base64'', ''argon2_to_base64'',
      ''argon2_from_base64'', ''openssl_kdf_derive'', ''openssl_crypto_memcmp'']"

definition crypto_exports :: "(string \<times> string) list" where
  "crypto_exports =
     [(''version_text'', ''getVersionText''), (''version_number'', ''getVersionNumber''),
      (''openssl_to_base64'', ''openssl_to_base64''), (''openssl_from_base64'', ''openssl_from_base64''),
      (''argon2_to_base64'', ''argon2_to_base64''), (''argon2_from_base64'', ''argon2_from_base64''),
      (''openssl_kdf_derive'', ''openssl_kdf_derive''), (''openssl_crypto_memcmp'', ''CRYPTO_memcmp'')]"

definition crypto_getExportsTable :: "(string \<times> string option) list" where
  "crypto_getExportsTable = static_struct static_crypto_exports_table crypto_exports"

definition static_curl_exports_table :: "string list" where
  "static_curl_exports_table =
     [''curl_version_now'', ''curl_version_info'', ''curl_free'', ''curl_url'', ''curl_url_cleanup'',
      ''curl_url_dup'', ''curl_url_get'', ''curl_url_set'', ''curl_url_strerror'']"

definition curl_exports :: "(string \<times> string) list" where
  "curl_exports =
     [(''curl_version_now'', ''curl_version_now''), (''curl_version_info'', ''curl_version_info''),
      (''curl_free'', ''curl_free''), (''curl_url'', ''curl_url''), (''curl_url_cleanup'', ''curl_url_cleanup''),
      (''curl_url_dup'', ''curl_url_dup''), (''curl_url_get'', ''curl_url_get''),
      (''curl_url_set'', ''curl_url_set''), (''curl_url_strerror'', ''curl_url_strerror'')]"

definition curl_getExportsTable :: "(string \<times> string option) list" where
  "curl_getExportsTable = static_struct static_curl_exports_table curl_exports"

definition static_glfw_exports_table :: "string list" where
  "static_glfw_exports_table =
     [''glfw_version'', ''glfw_find_constant'', ''glfw_create_window_wgpu_surface'', ''glfw_init'',
      ''glfw_terminate'', ''glfw_poll_events'', ''glfw_create_window'', ''glfw_destroy_window'',
      ''glfw_window_should_close'', ''glfw_window_hint'', ''glfw_set_window_pos'', ''glfw_get_framebuffer_size'',
      ''glfw_get_window_size'', ''glfw_maximize_window'', ''glfw_restore_window'', ''glfw_hide_window'',
      ''glfw_show_window'', ''glfw_get_window_attrib'', ''glfw_set_window_icon'', ''glfw_register_events'',
      ''glfw_get_primary_monitor'', ''glfw_get_monitors'', ''glfw_get_window_monitor'', ''glfw_set_window_monitor'',
      ''glfw_get_video_mode'', ''glfw_get_cursor_pos'', ''glfw_create_cursor'', ''glfw_destroy_cursor'',
      ''glfw_set_cursor'', ''glfw_get_key'', ''glfw_get_mouse_button'']"

definition glfw_exports :: "(string \<times> string) list" where
  "glfw_exports =
     [(''glfw_version'', ''glfw_version''), (''glfw_find_constant'', ''glfw_find_constant''),
      (''glfw_create_window_wgpu_surface'', ''glfwCreateWindowWGPUSurface''), (''glfw_init'', ''glfwInit''),
      (''glfw_terminate'', ''glfwTerminate''), (''glfw_poll_events'', ''glfwPollEvents''),
      (''glfw_create_window'', ''glfwCreateWindow''), (''glfw_destroy_window'', ''glfwDestroyWindow''),
      (''glfw_window_should_close'', ''glfwWindowShouldClose''), (''glfw_window_hint'', ''glfwWindowHint''),
      (''glfw_set_window_pos'', ''glfwSetWindowPos''), (''glfw_get_framebuffer_size'', ''glfwGetFramebufferSize''),
      (''glfw_get_window_size'', ''glfwGetWindowSize''), (''glfw_maximize_window'', ''glfwMaximizeWindow''),
      (''glfw_restore_window'', ''glfwRestoreWindow''), (''glfw_hide_window'', ''glfwHideWindow''),
      (''glfw_show_window'', ''glfwShowWindow''), (''glfw_get_window_attrib'', ''glfwGetWindowAttrib''),
      (''glfw_set_window_icon'', ''glfwSetWindowIcon''), (''glfw_register_events'', ''glfw_register_events''),
      (''glfw_get_primary_monitor'', ''glfwGetPrimaryMonitor''), (''glfw_get_monitors'', ''glfwGetMonitors''),
      (''glfw_get_window_monitor'', ''glfwGetWindowMonitor''),
      (''glfw_set_window_monitor'', ''glfwSetWindowMonitor''), (''glfw_get_video_mode'', ''glfwGetVideoMode''),
      (''glfw_get_cursor_pos'', ''glfwGetCursorPos''), (''glfw_create_cursor'', ''glfwCreateCursor''),
      (''glfw_set_cursor'', ''glfwSetCursor''), (''glfw_destroy_cursor'', ''glfwDestroyCursor''),
      (''glfw_get_key'', ''glfwGetKey''), (''glfw_get_mouse_button'', ''glfwGetMouseButton'')]"

definition glfw_getExportsTable :: "(string \<times> string option) list" where
  "glfw_getExportsTable = assigned_struct static_glfw_exports_table glfw_exports"

definition static_iconv_exports_table :: "string list" where
  "static_iconv_exports_table =
     [''iconv_open'', ''iconv_close'', ''iconv'', ''iconv_convert'', ''iconv_try_close'', ''iconv_strerror'',
      ''iconv_check_result'']"

definition iconv_exports :: "(string \<times> string) list" where
  "iconv_exports =
     [(''iconv_open'', ''iconv_open''), (''iconv_close'', ''iconv_close''), (''iconv'', ''iconv''),
      (''iconv_convert'', ''iconv_convert''), (''iconv_try_close'', ''iconv_try_close''),
      (''iconv_strerror'', ''iconv_strerror''), (''iconv_check_result'', ''iconv_check_result'')]"

definition iconv_getExportsTable :: "(string \<times> string option) list" where
  "iconv_getExportsTable = static_struct static_iconv_exports_table iconv_exports"

definition static_interop_exports_table :: "string list" where
  "static_interop_exports_table =
     [''queue_create'', ''queue_size'', ''queue_push_event'', ''queue_pop_event'', ''queue_destroy'']"

definition interop_exports :: "(string \<times> string) list" where
  "interop_exports =
     [(''queue_create'', ''queue_create''), (''queue_size'', ''queue_size''),
      (''queue_push_event'', ''queue_push_event''), (''queue_pop_event'', ''queue_pop_event''),
      (''queue_destroy'', ''queue_destroy'')]"

definition interop_getExportsTable :: "(string \<times> string option) list" where
  "interop_getExportsTable = static_struct static_interop_exports_table interop_exports"

definition static_labsound_exports_table :: "string list" where
  "static_labsound_exports_table =
     [''labsound_version'', ''labsound_get_device_count'', ''labsound_get_device_info'',
      ''labsound_get_default_device_config'', ''labsound_device_create'', ''labsound_device_destroy'',
      ''labsound_context_create'', ''labsound_context_destroy'', ''labsound_context_connect'',
      ''labsound_context_disconnect'', ''labsound_context_load_hrtf_database'',
      ''labsound_context_listener_set_forward'', ''labsound_context_listener_set_up_vector'',
      ''labsound_context_listener_set_position'', ''labsound_context_listener_set_velocity'',
      ''labsound_context_synchronize_connections'', ''labsound_destination_node_create'',
      ''labsound_destination_node_destroy'', ''labsound_gain_node_create'', ''labsound_gain_node_destroy'',
      ''labsound_gain_node_set_value'', ''labsound_panner_node_create'', ''labsound_panner_node_destroy'',
      ''labsound_panner_node_set_velocity'', ''labsound_panner_node_set_position'',
      ''labsound_panner_node_set_orientation'', ''labsound_panner_node_set_panning_model'',
      ''labsound_panner_node_set_distance_model'', ''labsound_panner_node_set_ref_distance'',
      ''labsound_panner_node_set_max_distance'', ''labsound_panner_node_set_rolloff_factor'',
      ''labsound_panner_node_set_cone_inner_angle'', ''labsound_panner_node_set_cone_outer_angle'',
      ''labsound_panner_node_set_cone_outer_gain'', ''labsound_sampled_audio_node_from_file'',
      ''labsound_sampled_audio_node_from_memory'', ''labsound_sampled_audio_node_destroy'',
      ''labsound_sampled_audio_node_start'', ''labsound_sampled_audio_node_stop'', ''labsound_log_set_quiet'',
      ''labsound_print_graph'']"

definition labsound_exports :: "(string \<times> string) list" where
  "labsound_exports =
     [(''labsound_version'', ''labsound_version''), (''labsound_get_device_count'', ''labsound_get_device_count''),
      (''labsound_get_device_info'', ''labsound_get_device_info''),
      (''labsound_get_default_device_config'', ''labsound_get_default_device_config''),
      (''labsound_device_create'', ''labsound_device_create''),
      (''labsound_device_destroy'', ''labsound_device_destroy''),
      (''labsound_context_create'', ''labsound_context_create''),
      (''labsound_context_destroy'', ''labsound_context_destroy''),
      (''labsound_context_connect'', ''labsound_context_connect''),
      (''labsound_context_disconnect'', ''labsound_context_disconnect''),
      (''labsound_context_load_hrtf_database'', ''labsound_context_load_hrtf_database''),
      (''labsound_context_listener_set_forward'', ''labsound_context_listener_set_forward''),
      (''labsound_context_listener_set_up_vector'', ''labsound_context_listener_set_up_vector''),
      (''labsound_context_listener_set_position'', ''labsound_context_listener_set_position''),
      (''labsound_context_listener_set_velocity'', ''labsound_context_listener_set_velocity''),
      (''labsound_context_synchronize_connections'', ''labsound_context_synchronize_connections''),
      (''labsound_destination_node_create'', ''labsound_destination_node_create''),
      (''labsound_destination_node_destroy'', ''labsound_destination_node_destroy''),
      (''labsound_gain_node_create'', ''labsound_gain_node_create''),
      (''labsound_gain_node_destroy'', ''labsound_gain_node_destroy''),
      (''labsound_gain_node_set_value'', ''labsound_gain_node_set_value''),
      (''labsound_panner_node_create'', ''labsound_panner_node_create''),
      (''labsound_panner_node_destroy'', ''labsound_panner_node_destroy''),
      (''labsound_panner_node_set_velocity'', ''labsound_panner_node_set_velocity''),
      (''labsound_panner_node_set_position'', ''labsound_panner_node_set_position''),
      (''labsound_panner_node_set_orientation'', ''labsound_panner_node_set_orientation''),
      (''labsound_panner_node_set_panning_model'', ''labsound_panner_node_set_panning_model''),
      (''labsound_panner_node_set_distance_model'', ''labsound_panner_node_set_distance_model''),
      (''labsound_panner_node_set_ref_distance'', ''labsound_panner_node_set_ref_distance''),
      (''labsound_panner_node_set_max_distance'', ''labsound_panner_node_set_max_distance''),
      (''labsound_panner_node_set_rolloff_factor'', ''labsound_panner_node_set_rolloff_factor''),
      (''labsound_panner_node_set_cone_inner_angle'', ''labsound_panner_node_set_cone_inner_angle''),
      (''labsound_panner_node_set_cone_outer_angle'', ''labsound_panner_node_set_cone_outer_angle''),
      (''labsound_panner_node_set_cone_outer_gain'', ''labsound_panner_node_set_cone_outer_gain''),
      (''labsound_sampled_audio_node_from_file'', ''labsound_sampled_audio_node_from_file''),
      (''labsound_sampled_audio_node_from_memory'', ''labsound_sampled_audio_node_from_memory''),
      (''labsound_sampled_audio_node_destroy'', ''labsound_sampled_audio_node_destroy''),
      (''labsound_sampled_audio_node_start'', ''labsound_sampled_audio_node_start''),
      (''labsound_sampled_audio_node_stop'', ''labsound_sampled_audio_node_stop''),
      (''labsound_log_set_quiet'', ''log_set_quiet''), (''labsound_print_graph'', ''labsound_print_graph'')]"

definition labsound_getExportsTable :: "(string \<times> string option) list" where
  "labsound_getExportsTable = static_struct static_labsound_exports_table labsound_exports"

definition static_webview_exports_table :: "string list" where
  "static_webview_exports_table =
     [''webview_create'', ''webview_destroy'', ''webview_toggle_fullscreen'', ''webview_run'', ''webview_run_once'',
      ''webview_terminate'', ''webview_dispatch'', ''webview_get_window'', ''webview_set_title'',
      ''webview_set_size'', ''webview_navigate'', ''webview_set_html'', ''webview_init'', ''webview_eval'',
      ''webview_bind'', ''webview_unbind'', ''webview_return'', ''webview_version'', ''webview_set_icon'',
      ''webview_get_native_handle'']"

definition webview_exports :: "(string \<times> string) list" where
  "webview_exports =
     [(''webview_create'', ''webview_create''), (''webview_destroy'', ''webview_destroy''),
      (''webview_toggle_fullscreen'', ''webview_toggle_fullscreen''), (''webview_run'', ''webview_run''),
      (''webview_run_once'', ''webview_run_once''), (''webview_terminate'', ''webview_terminate''),
      (''webview_dispatch'', ''webview_dispatch''), (''webview_get_window'', ''webview_get_window''),
      (''webview_set_title'', ''webview_set_title''), (''webview_set_size'', ''webview_set_size''),
      (''webview_navigate'', ''webview_navigate''), (''webview_set_html'', ''webview_set_html''),
      (''webview_init'', ''webview_init''), (''webview_eval'', ''webview_eval''),
      (''webview_bind'', ''webview_bind''), (''webview_unbind'', ''webview_unbind''),
      (''webview_return'', ''webview_return''), (''webview_version'', ''webview_version''),
      (''webview_set_icon'', ''webview_set_icon''), (''webview_get_native_handle'', ''webview_get_native_handle'')]"

definition webview_getExportsTable :: "(string \<times> string option) list" where
  "webview_getExportsTable = static_struct static_webview_exports_table webview_exports"

definition static_uws_exports_table :: "string list" where
  "static_uws_exports_table =
     [''uws_version'', ''uws_event_name'', ''uws_webserver_create'', ''uws_webserver_listen'',
      ''uws_webserver_has_event'', ''uws_webserver_get_next_event'', ''uws_webserver_stop'', ''uws_webserver_delete'',
      ''uws_webserver_set_echo_mode'', ''uws_webserver_dump_config'', ''uws_webserver_dump_events'',
      ''uws_webserver_get_client_count'', ''uws_webserver_get_event_count'', ''uws_webserver_payload_size'',
      ''uws_webserver_purge_connections'', ''uws_webserver_broadcast_text'', ''uws_webserver_broadcast_binary'',
      ''uws_webserver_broadcast_compressed'', ''uws_webserver_send_text'', ''uws_webserver_send_binary'',
      ''uws_webserver_send_compressed'', ''uws_webserver_response_write'', ''uws_webserver_response_end'',
      ''uws_webserver_response_try_end'', ''uws_webserver_response_status'', ''uws_webserver_response_header'',
      ''uws_webserver_has_request'', ''uws_webserver_request_method'', ''uws_webserver_request_url'',
      ''uws_webserver_request_query'', ''uws_webserver_request_endpoint'',
      ''uws_webserver_request_serialized_headers'', ''uws_webserver_request_header_value'',
      ''uws_webserver_add_websocket_route'', ''uws_webserver_add_get_route'', ''uws_webserver_add_post_route'',
      ''uws_webserver_add_options_route'', ''uws_webserver_add_delete_route'', ''uws_webserver_add_patch_route'',
      ''uws_webserver_add_put_route'', ''uws_webserver_add_head_route'', ''uws_webserver_add_any_route'']"

definition uws_exports :: "(string \<times> string) list" where
  "uws_exports =
     [(''uws_version'', ''uws_version''), (''uws_event_name'', ''uws_event_name''),
      (''uws_webserver_create'', ''uws_webserver_create''), (''uws_webserver_listen'', ''uws_webserver_listen''),
      (''uws_webserver_has_event'', ''uws_webserver_has_event''),
      (''uws_webserver_get_next_event'', ''uws_webserver_get_next_event''),
      (''uws_webserver_stop'', ''uws_webserver_stop''), (''uws_webserver_delete'', ''uws_webserver_delete''),
      (''uws_webserver_set_echo_mode'', ''uws_webserver_set_echo_mode''),
      (''uws_webserver_dump_config'', ''uws_webserver_dump_config''),
      (''uws_webserver_dump_events'', ''uws_webserver_dump_events''),
      (''uws_webserver_get_client_count'', ''uws_webserver_get_client_count''),
      (''uws_webserver_get_event_count'', ''uws_webserver_get_event_count''),
      (''uws_webserver_payload_size'', ''uws_webserver_payload_size''),
      (''uws_webserver_purge_connections'', ''uws_webserver_purge_connections''),
      (''uws_webserver_broadcast_text'', ''uws_webserver_broadcast_text''),
      (''uws_webserver_broadcast_binary'', ''uws_webserver_broadcast_binary''),
      (''uws_webserver_broadcast_compressed'', ''uws_webserver_broadcast_compressed''),
      (''uws_webserver_send_text'', ''uws_webserver_send_text''),
      (''uws_webserver_send_binary'', ''uws_webserver_send_binary''),
      (''uws_webserver_send_compressed'', ''uws_webserver_send_compressed''),
      (''uws_webserver_response_write'', ''uws_webserver_response_write''),
      (''uws_webserver_response_end'', ''uws_webserver_response_end''),
      (''uws_webserver_response_try_end'', ''uws_webserver_response_try_end''),
      (''uws_webserver_response_status'', ''uws_webserver_response_status''),
      (''uws_webserver_response_header'', ''uws_webserver_response_header''),
      (''uws_webserver_has_request'', ''uws_webserver_has_request''),
      (''uws_webserver_request_method'', ''uws_webserver_request_method''),
      (''uws_webserver_request_url'', ''uws_webserver_request_url''),
      (''uws_webserver_request_query'', ''uws_webserver_request_query''),
      (''uws_webserver_request_endpoint'', ''uws_webserver_request_endpoint''),
      (''uws_webserver_request_serialized_headers'', ''uws_webserver_request_serialized_headers''),
      (''uws_webserver_request_header_value'', ''uws_webserver_request_header_value''),
      (''uws_webserver_add_websocket_route'', ''uws_webserver_add_websocket_route''),
      (''uws_webserver_add_get_route'', ''uws_webserver_add_get_route''),
      (''uws_webserver_add_post_route'', ''uws_webserver_add_post_route''),
      (''uws_webserver_add_options_route'', ''uws_webserver_add_options_route''),
      (''uws_webserver_add_delete_route'', ''uws_webserver_add_delete_route''),
      (''uws_webserver_add_patch_route'', ''uws_webserver_add_patch_route''),
      (''uws_webserver_add_put_route'', ''uws_webserver_add_put_route''),
      (''uws_webserver_add_head_route'', ''uws_webserver_add_head_route''),
      (''uws_webserver_add_any_route'', ''uws_webserver_add_any_route'')]"

definition uws_getExportsTable :: "(string \<times> string option) list" where
  "uws_getExportsTable = static_struct static_uws_exports_table uws_exports"

definition static_rml_exports_table :: "string list" where
  "static_rml_exports_table =
     [''rml_version'', ''rml_initialise'', ''rml_shutdown'', ''rml_create_glfw_system_interface'',
      ''rml_destroy_glfw_system_interface'', ''rml_set_system_interface'', ''rml_process_key_callback'',
      ''rml_process_char_callback'', ''rml_process_cursor_enter_callback'', ''rml_process_cursor_pos_callback'',
      ''rml_process_mouse_button_callback'', ''rml_process_scroll_callback'',
      ''rml_process_framebuffer_size_callback'', ''rml_process_content_scale_callback'',
      ''rml_create_wgpu_render_interface'', ''rml_destroy_wgpu_render_interface'', ''rml_set_render_interface'',
      ''rml_release_compiled_geometry'', ''rml_document_show'', ''rml_context_create'', ''rml_context_update'',
      ''rml_context_render'', ''rml_context_remove'', ''rml_context_load_document'', ''rml_load_font_face'']"

definition rml_exports :: "(string \<times> string) list" where
  "rml_exports =
     [(''rml_version'', ''rml_version''), (''rml_initialise'', ''rml_initialise''),
      (''rml_shutdown'', ''rml_shutdown''),
      (''rml_create_glfw_system_interface'', ''rml_create_glfw_system_interface''),
      (''rml_destroy_glfw_system_interface'', ''rml_destroy_glfw_system_interface''),
      (''rml_set_system_interface'', ''rml_set_system_interface''),
      (''rml_process_key_callback'', ''rml_process_key_callback''),
      (''rml_process_char_callback'', ''rml_process_char_callback''),
      (''rml_process_cursor_enter_callback'', ''rml_process_cursor_enter_callback''),
      (''rml_process_cursor_pos_callback'', ''rml_process_cursor_pos_callback''),
      (''rml_process_mouse_button_callback'', ''rml_process_mouse_button_callback''),
      (''rml_process_scroll_callback'', ''rml_process_scroll_callback''),
      (''rml_process_framebuffer_size_callback'', ''rml_process_framebuffer_size_callback''),
      (''rml_process_content_scale_callback'', ''rml_process_content_scale_callback''),
      (''rml_create_wgpu_render_interface'', ''rml_create_wgpu_render_interface''),
      (''rml_destroy_wgpu_render_interface'', ''rml_destroy_wgpu_render_interface''),
      (''rml_set_render_interface'', ''rml_set_render_interface''),
      (''rml_release_compiled_geometry'', ''rml_release_compiled_geometry''),
      (''rml_document_show'', ''rml_document_show''), (''rml_context_create'', ''rml_context_create''),
      (''rml_context_update'', ''rml_context_update''), (''rml_context_render'', ''rml_context_render''),
      (''rml_context_remove'', ''rml_context_remove''),
      (''rml_context_load_document'', ''rml_context_load_document''), (''rml_load_font_face'', ''rml_load_font_face'')]"

definition rml_getExportsTable :: "(string \<times> string option) list" where
  "rml_getExportsTable = static_struct static_rml_exports_table rml_exports"

definition static_runtime_exports_table :: "string list" where
  "static_runtime_exports_table =
     [''runtime_version'', ''runtime_repl_start'']"

definition runtime_exports :: "(string \<times> string) list" where
  "runtime_exports =
     [(''runtime_version'', ''runtime_version''), (''runtime_repl_start'', ''runtime_repl_start'')]"

definition runtime_getExportsTable :: "(string \<times> string option) list" where
  "runtime_getExportsTable = static_struct static_runtime_exports_table runtime_exports"

definition static_stbi_exports_table :: "string list" where
  "static_stbi_exports_table =
     [''stbi_version'', ''stbi_image_info'', ''stbi_load_image'', ''stbi_image_free'', ''stbi_load_rgb'',
      ''stbi_load_rgba'', ''stbi_load_monochrome'', ''stbi_load_monochrome_with_alpha'', ''stbi_encode_bmp'',
      ''stbi_encode_png'', ''stbi_encode_jpg'', ''stbi_encode_tga'', ''stbi_flip_vertically_on_write'',
      ''stbi_get_required_bmp_size'', ''stbi_get_required_png_size'', ''stbi_get_required_jpg_size'',
      ''stbi_get_required_tga_size'', ''stbi_abgr_to_rgba'', ''stbi_replace_pixel_color_rgba'']"

definition stbi_exports :: "(string \<times> string) list" where
  "stbi_exports =
     [(''stbi_version'', ''stbi_version''), (''stbi_image_info'', ''stbi_image_info''),
      (''stbi_load_image'', ''stbi_load_image''), (''stbi_image_free'', ''stbi_image_free''),
      (''stbi_load_rgb'', ''stbi_load_rgb''), (''stbi_load_rgba'', ''stbi_load_rgba''),
      (''stbi_load_monochrome'', ''stbi_load_monochrome''),
      (''stbi_load_monochrome_with_alpha'', ''stbi_load_monochrome_with_alpha''),
      (''stbi_encode_bmp'', ''stbi_encode_bmp''), (''stbi_encode_png'', ''stbi_encode_png''),
      (''stbi_encode_jpg'', ''stbi_encode_jpg''), (''stbi_encode_tga'', ''stbi_encode_tga''),
      (''stbi_flip_vertically_on_write'', ''stbi_flip_vertically_on_write''),
      (''stbi_get_required_bmp_size'', ''stbi_get_required_bmp_size''),
      (''stbi_get_required_png_size'', ''stbi_get_required_png_size''),
      (''stbi_get_required_jpg_size'', ''stbi_get_required_jpg_size''),
      (''stbi_get_required_tga_size'', ''stbi_get_required_tga_size''),
      (''stbi_abgr_to_rgba'', ''stbi_abgr_to_rgba''),
      (''stbi_replace_pixel_color_rgba'', ''stbi_replace_pixel_color_rgba'')]"

definition stbi_getExportsTable :: "(string \<times> string option) list" where
  "stbi_getExportsTable = static_struct static_stbi_exports_table stbi_exports"

definition static_stduuid_exports_table :: "string list" where
  "static_stduuid_exports_table =
     [''stduuid_version'', ''uuid_create_v4'', ''uuid_create_mt19937'', ''uuid_create_v5'', ''uuid_create_system'']"

definition stduuid_exports :: "(string \<times> string) list" where
  "stduuid_exports =
     [(''stduuid_version'', ''stduuid_version''), (''uuid_create_v4'', ''uuid_create_v4''),
      (''uuid_create_mt19937'', ''uuid_create_mt19937''), (''uuid_create_v5'', ''uuid_create_v5''),
      (''uuid_create_system'', ''uuid_create_system'')]"

definition stduuid_getExportsTable :: "(string \<times> string option) list" where
  "stduuid_getExportsTable = static_struct static_stduuid_exports_table stduuid_exports"

definition static_wgpu_exports_table :: "string list" where
  "static_wgpu_exports_table =
     [''wgpu_version'', ''wgpu_create_instance'', ''wgpu_get_proc_address'', ''wgpu_adapter_enumerate_features'',
      ''wgpu_adapter_get_info'', ''wgpu_adapter_get_limits'', ''wgpu_adapter_has_feature'',
      ''wgpu_adapter_request_device'', ''wgpu_adapter_reference'', ''wgpu_adapter_release'',
      ''wgpu_adapter_info_free_members'', ''wgpu_bind_group_set_label'', ''wgpu_bind_group_reference'',
      ''wgpu_bind_group_release'', ''wgpu_bind_group_layout_set_label'', ''wgpu_bind_group_layout_reference'',
      ''wgpu_bind_group_layout_release'', ''wgpu_buffer_destroy'', ''wgpu_buffer_get_const_mapped_range'',
      ''wgpu_buffer_get_map_state'', ''wgpu_buffer_get_mapped_range'', ''wgpu_buffer_get_size'',
      ''wgpu_buffer_get_usage'', ''wgpu_buffer_map_async'', ''wgpu_buffer_set_label'', ''wgpu_buffer_unmap'',
      ''wgpu_buffer_reference'', ''wgpu_buffer_release'', ''wgpu_command_buffer_set_label'',
      ''wgpu_command_buffer_reference'', ''wgpu_command_buffer_release'', ''wgpu_command_encoder_begin_compute_pass'',
      ''wgpu_command_encoder_begin_render_pass'', ''wgpu_command_encoder_clear_buffer'',
      ''wgpu_command_encoder_copy_buffer_to_buffer'', ''wgpu_command_encoder_copy_buffer_to_texture'',
      ''wgpu_command_encoder_copy_texture_to_buffer'', ''wgpu_command_encoder_copy_texture_to_texture'',
      ''wgpu_command_encoder_finish'', ''wgpu_command_encoder_insert_debug_marker'',
      ''wgpu_command_encoder_pop_debug_group'', ''wgpu_command_encoder_push_debug_group'',
      ''wgpu_command_encoder_resolve_query_set'', ''wgpu_command_encoder_set_label'',
      ''wgpu_command_encoder_write_timestamp'', ''wgpu_command_encoder_reference'', ''wgpu_command_encoder_release'',
      ''wgpu_compute_pass_encoder_dispatch_workgroups'', ''wgpu_compute_pass_encoder_dispatch_workgroups_indirect'',
      ''wgpu_compute_pass_encoder_end'', ''wgpu_compute_pass_encoder_insert_debug_marker'',
      ''wgpu_compute_pass_encoder_pop_debug_group'', ''wgpu_compute_pass_encoder_push_debug_group'',
      ''wgpu_compute_pass_encoder_set_bind_group'', ''wgpu_compute_pass_encoder_set_label'',
      ''wgpu_compute_pass_encoder_set_pipeline'', ''wgpu_compute_pass_encoder_reference'',
      ''wgpu_compute_pass_encoder_release'', ''wgpu_compute_pipeline_get_bind_group_layout'',
      ''wgpu_compute_pipeline_set_label'', ''wgpu_compute_pipeline_reference'', ''wgpu_compute_pipeline_release'',
      ''wgpu_device_create_bind_group'', ''wgpu_device_create_bind_group_layout'', ''wgpu_device_create_buffer'',
      ''wgpu_device_create_command_encoder'', ''wgpu_device_create_compute_pipeline'',
      ''wgpu_device_create_compute_pipeline_async'', ''wgpu_device_create_pipeline_layout'',
      ''wgpu_device_create_query_set'', ''wgpu_device_create_render_bundle_encoder'',
      ''wgpu_device_create_render_pipeline'', ''wgpu_device_create_render_pipeline_async'',
      ''wgpu_device_create_sampler'', ''wgpu_device_create_shader_module'', ''wgpu_device_create_texture'',
      ''wgpu_device_destroy'', ''wgpu_device_enumerate_features'', ''wgpu_device_get_limits'',
      ''wgpu_device_get_queue'', ''wgpu_device_has_feature'', ''wgpu_device_pop_error_scope'',
      ''wgpu_device_push_error_scope'', ''wgpu_device_set_label'', ''wgpu_device_reference'', ''wgpu_device_release'',
      ''wgpu_instance_create_surface'', ''wgpu_instance_has_wgsl_language_feature'', ''wgpu_instance_process_events'',
      ''wgpu_instance_request_adapter'', ''wgpu_instance_reference'', ''wgpu_instance_release'',
      ''wgpu_pipeline_layout_set_label'', ''wgpu_pipeline_layout_reference'', ''wgpu_pipeline_layout_release'',
      ''wgpu_query_set_destroy'', ''wgpu_query_set_get_count'', ''wgpu_query_set_get_type'',
      ''wgpu_query_set_set_label'', ''wgpu_query_set_reference'', ''wgpu_query_set_release'',
      ''wgpu_queue_on_submitted_work_done'', ''wgpu_queue_set_label'', ''wgpu_queue_submit'',
      ''wgpu_queue_write_buffer'', ''wgpu_queue_write_texture'', ''wgpu_queue_reference'', ''wgpu_queue_release'',
      ''wgpu_render_bundle_set_label'', ''wgpu_render_bundle_reference'', ''wgpu_render_bundle_release'',
      ''wgpu_render_bundle_encoder_draw'', ''wgpu_render_bundle_encoder_draw_indexed'',
      ''wgpu_render_bundle_encoder_draw_indexed_indirect'', ''wgpu_render_bundle_encoder_draw_indirect'',
      ''wgpu_render_bundle_encoder_finish'', ''wgpu_render_bundle_encoder_insert_debug_marker'',
      ''wgpu_render_bundle_encoder_pop_debug_group'', ''wgpu_render_bundle_encoder_push_debug_group'',
      ''wgpu_render_bundle_encoder_set_bind_group'', ''wgpu_render_bundle_encoder_set_index_buffer'',
      ''wgpu_render_bundle_encoder_set_label'', ''wgpu_render_bundle_encoder_set_pipeline'',
      ''wgpu_render_bundle_encoder_set_vertex_buffer'', ''wgpu_render_bundle_encoder_reference'',
      ''wgpu_render_bundle_encoder_release'', ''wgpu_render_pass_encoder_begin_occlusion_query'',
      ''wgpu_render_pass_encoder_draw'', ''wgpu_render_pass_encoder_draw_indexed'',
      ''wgpu_render_pass_encoder_draw_indexed_indirect'', ''wgpu_render_pass_encoder_draw_indirect'',
      ''wgpu_render_pass_encoder_end'', ''wgpu_render_pass_encoder_end_occlusion_query'',
      ''wgpu_render_pass_encoder_execute_bundles'', ''wgpu_render_pass_encoder_insert_debug_marker'',
      ''wgpu_render_pass_encoder_pop_debug_group'', ''wgpu_render_pass_encoder_push_debug_group'',
      ''wgpu_render_pass_encoder_set_bind_group'', ''wgpu_render_pass_encoder_set_blend_constant'',
      ''wgpu_render_pass_encoder_set_index_buffer'', ''wgpu_render_pass_encoder_set_label'',
      ''wgpu_render_pass_encoder_set_pipeline'', ''wgpu_render_pass_encoder_set_scissor_rect'',
      ''wgpu_render_pass_encoder_set_stencil_reference'', ''wgpu_render_pass_encoder_set_vertex_buffer'',
      ''wgpu_render_pass_encoder_set_viewport'', ''wgpu_render_pass_encoder_reference'',
      ''wgpu_render_pass_encoder_release'', ''wgpu_render_pipeline_get_bind_group_layout'',
      ''wgpu_render_pipeline_set_label'', ''wgpu_render_pipeline_reference'', ''wgpu_render_pipeline_release'',
      ''wgpu_sampler_set_label'', ''wgpu_sampler_reference'', ''wgpu_sampler_release'',
      ''wgpu_shader_module_get_compilation_info'', ''wgpu_shader_module_set_label'', ''wgpu_shader_module_reference'',
      ''wgpu_shader_module_release'', ''wgpu_surface_configure'', ''wgpu_surface_get_capabilities'',
      ''wgpu_surface_get_current_texture'', ''wgpu_surface_present'', ''wgpu_surface_set_label'',
      ''wgpu_surface_unconfigure'', ''wgpu_surface_reference'', ''wgpu_surface_release'',
      ''wgpu_surface_capabilities_free_members'', ''wgpu_texture_create_view'', ''wgpu_texture_destroy'',
      ''wgpu_texture_get_depth_or_array_layers'', ''wgpu_texture_get_dimension'', ''wgpu_texture_get_format'',
      ''wgpu_texture_get_height'', ''wgpu_texture_get_mip_level_count'', ''wgpu_texture_get_sample_count'',
      ''wgpu_texture_get_usage'', ''wgpu_texture_get_width'', ''wgpu_texture_set_label'', ''wgpu_texture_reference'',
      ''wgpu_texture_release'', ''wgpu_texture_view_set_label'', ''wgpu_texture_view_reference'',
      ''wgpu_texture_view_release'', ''wgpu_generate_report'', ''wgpu_instance_enumerate_adapters'',
      ''wgpu_queue_submit_for_index'', ''wgpu_device_create_shader_module_spirv'', ''wgpu_device_poll'',
      ''wgpu_set_log_callback'', ''wgpu_set_log_level'', ''wgpu_get_version'',
      ''wgpu_compute_pass_encoder_set_push_constants'', ''wgpu_render_pass_encoder_set_push_constants'',
      ''wgpu_render_bundle_encoder_set_push_constants'', ''wgpu_render_pass_encoder_multi_draw_indirect'',
      ''wgpu_render_pass_encoder_multi_draw_indexed_indirect'',
      ''wgpu_render_pass_encoder_multi_draw_indirect_count'',
      ''wgpu_render_pass_encoder_multi_draw_indexed_indirect_count'',
      ''wgpu_compute_pass_encoder_begin_pipeline_statistics_query'',
      ''wgpu_compute_pass_encoder_end_pipeline_statistics_query'',
      ''wgpu_render_pass_encoder_begin_pipeline_statistics_query'',
      ''wgpu_render_pass_encoder_end_pipeline_statistics_query'', ''wgpu_compute_pass_encoder_write_timestamp'',
      ''wgpu_render_pass_encoder_write_timestamp'']"

definition wgpu_exports_compute :: "(string \<times> string) list" where
  "wgpu_exports_compute =
     [(''wgpu_version'', ''wgpu_version''), (''wgpu_create_instance'', ''wgpuCreateInstance''),
      (''wgpu_get_proc_address'', ''wgpuGetProcAddress''),
      (''wgpu_adapter_enumerate_features'', ''wgpuAdapterEnumerateFeatures''),
      (''wgpu_adapter_get_info'', ''wgpuAdapterGetInfo''),
      (''wgpu_adapter_get_limits'', ''wgpuAdapterGetLimits''),
      (''wgpu_adapter_has_feature'', ''wgpuAdapterHasFeature''),
      (''wgpu_adapter_request_device'', ''wgpuAdapterRequestDevice''),
      (''wgpu_adapter_reference'', ''wgpuAdapterReference''),
      (''wgpu_adapter_release'', ''wgpuAdapterRelease''),
      (''wgpu_adapter_info_free_members'', ''wgpuAdapterInfoFreeMembers''),
      (''wgpu_bind_group_set_label'', ''wgpuBindGroupSetLabel''),
      (''wgpu_bind_group_reference'', ''wgpuBindGroupReference''),
      (''wgpu_bind_group_release'', ''wgpuBindGroupRelease''),
      (''wgpu_bind_group_layout_set_label'', ''wgpuBindGroupLayoutSetLabel''),
      (''wgpu_bind_group_layout_reference'', ''wgpuBindGroupLayoutReference''),
      (''wgpu_bind_group_layout_release'', ''wgpuBindGroupLayoutRelease''),
      (''wgpu_buffer_destroy'', ''wgpuBufferDestroy''),
      (''wgpu_buffer_get_const_mapped_range'', ''wgpuBufferGetConstMappedRange''),
      (''wgpu_buffer_get_map_state'', ''wgpuBufferGetMapState''),
      (''wgpu_buffer_get_mapped_range'', ''wgpuBufferGetMappedRange''),
      (''wgpu_buffer_get_size'', ''wgpuBufferGetSize''), (''wgpu_buffer_get_usage'', ''wgpuBufferGetUsage''),
      (''wgpu_buffer_map_async'', ''wgpuBufferMapAsync''), (''wgpu_buffer_set_label'', ''wgpuBufferSetLabel''),
      (''wgpu_buffer_unmap'', ''wgpuBufferUnmap''), (''wgpu_buffer_reference'', ''wgpuBufferReference''),
      (''wgpu_buffer_release'', ''wgpuBufferRelease''),
      (''wgpu_command_buffer_set_label'', ''wgpuCommandBufferSetLabel''),
      (''wgpu_command_buffer_reference'', ''wgpuCommandBufferReference''),
      (''wgpu_command_buffer_release'', ''wgpuCommandBufferRelease''),
      (''wgpu_command_encoder_begin_compute_pass'', ''wgpuCommandEncoderBeginComputePass''),
      (''wgpu_command_encoder_begin_render_pass'', ''wgpuCommandEncoderBeginRenderPass''),
      (''wgpu_command_encoder_clear_buffer'', ''wgpuCommandEncoderClearBuffer''),
      (''wgpu_command_encoder_copy_buffer_to_buffer'', ''wgpuCommandEncoderCopyBufferToBuffer''),
      (''wgpu_command_encoder_copy_buffer_to_texture'', ''wgpuCommandEncoderCopyBufferToTexture''),
      (''wgpu_command_encoder_copy_texture_to_buffer'', ''wgpuCommandEncoderCopyTextureToBuffer''),
      (''wgpu_command_encoder_copy_texture_to_texture'', ''wgpuCommandEncoderCopyTextureToTexture''),
      (''wgpu_command_encoder_finish'', ''wgpuCommandEncoderFinish''),
      (''wgpu_command_encoder_insert_debug_marker'', ''wgpuCommandEncoderInsertDebugMarker''),
      (''wgpu_command_encoder_pop_debug_group'', ''wgpuCommandEncoderPopDebugGroup''),
      (''wgpu_command_encoder_push_debug_group'', ''wgpuCommandEncoderPushDebugGroup''),
      (''wgpu_command_encoder_resolve_query_set'', ''wgpuCommandEncoderResolveQuerySet''),
      (''wgpu_command_encoder_set_label'', ''wgpuCommandEncoderSetLabel''),
      (''wgpu_command_encoder_write_timestamp'', ''wgpuCommandEncoderWriteTimestamp''),
      (''wgpu_command_encoder_reference'', ''wgpuCommandEncoderReference''),
      (''wgpu_command_encoder_release'', ''wgpuCommandEncoderRelease''),
      (''wgpu_compute_pass_encoder_dispatch_workgroups'', ''wgpuComputePassEncoderDispatchWorkgroups''),
      (''wgpu_compute_pass_encoder_dispatch_workgroups_indirect'', ''wgpuComputePassEncoderDispatchWorkgroupsIndirect''),
      (''wgpu_compute_pass_encoder_end'', ''wgpuComputePassEncoderEnd''),
      (''wgpu_compute_pass_encoder_insert_debug_marker'', ''wgpuComputePassEncoderInsertDebugMarker''),
      (''wgpu_compute_pass_encoder_pop_debug_group'', ''wgpuComputePassEncoderPopDebugGroup''),
      (''wgpu_compute_pass_encoder_push_debug_group'', ''wgpuComputePassEncoderPushDebugGroup''),
      (''wgpu_compute_pass_encoder_set_bind_group'', ''wgpuComputePassEncoderSetBindGroup''),
      (''wgpu_compute_pass_encoder_set_label'', ''wgpuComputePassEncoderSetLabel''),
      (''wgpu_compute_pass_encoder_set_pipeline'', ''wgpuComputePassEncoderSetPipeline''),
      (''wgpu_compute_pass_encoder_reference'', ''wgpuComputePassEncoderReference''),
      (''wgpu_compute_pass_encoder_release'', ''wgpuComputePassEncoderRelease''),
      (''wgpu_compute_pipeline_get_bind_group_layout'', ''wgpuComputePipelineGetBindGroupLayout''),
      (''wgpu_compute_pipeline_set_label'', ''wgpuComputePipelineSetLabel''),
      (''wgpu_compute_pipeline_reference'', ''wgpuComputePipelineReference''),
      (''wgpu_compute_pipeline_release'', ''wgpuComputePipelineRelease'')]"

definition wgpu_exports_device :: "(string \<times> string) list" where
  "wgpu_exports_device =
     [(''wgpu_device_create_bind_group'', ''wgpuDeviceCreateBindGroup''),
      (''wgpu_device_create_bind_group_layout'', ''wgpuDeviceCreateBindGroupLayout''),
      (''wgpu_device_create_buffer'', ''wgpuDeviceCreateBuffer''),
      (''wgpu_device_create_command_encoder'', ''wgpuDeviceCreateCommandEncoder''),
      (''wgpu_device_create_compute_pipeline'', ''wgpuDeviceCreateComputePipeline''),
      (''wgpu_device_create_compute_pipeline_async'', ''wgpuDeviceCreateComputePipelineAsync''),
      (''wgpu_device_create_pipeline_layout'', ''wgpuDeviceCreatePipelineLayout''),
      (''wgpu_device_create_query_set'', ''wgpuDeviceCreateQuerySet''),
      (''wgpu_device_create_render_bundle_encoder'', ''wgpuDeviceCreateRenderBundleEncoder''),
      (''wgpu_device_create_render_pipeline'', ''wgpuDeviceCreateRenderPipeline''),
      (''wgpu_device_create_render_pipeline_async'', ''wgpuDeviceCreateRenderPipelineAsync''),
      (''wgpu_device_create_sampler'', ''wgpuDeviceCreateSampler''),
      (''wgpu_device_create_shader_module'', ''wgpuDeviceCreateShaderModule''),
      (''wgpu_device_create_texture'', ''wgpuDeviceCreateTexture''),
      (''wgpu_device_destroy'', ''wgpuDeviceDestroy''),
      (''wgpu_device_enumerate_features'', ''wgpuDeviceEnumerateFeatures''),
      (''wgpu_device_get_limits'', ''wgpuDeviceGetLimits''),
      (''wgpu_device_get_queue'', ''wgpuDeviceGetQueue''),
      (''wgpu_device_has_feature'', ''wgpuDeviceHasFeature''),
      (''wgpu_device_pop_error_scope'', ''wgpuDevicePopErrorScope''),
      (''wgpu_device_push_error_scope'', ''wgpuDevicePushErrorScope''),
      (''wgpu_device_set_label'', ''wgpuDeviceSetLabel''), (''wgpu_device_reference'', ''wgpuDeviceReference''),
      (''wgpu_device_release'', ''wgpuDeviceRelease''),
      (''wgpu_instance_create_surface'', ''wgpuInstanceCreateSurface''),
      (''wgpu_instance_has_wgsl_language_feature'', ''wgpuInstanceHasWGSLLanguageFeature''),
      (''wgpu_instance_process_events'', ''wgpuInstanceProcessEvents''),
      (''wgpu_instance_request_adapter'', ''wgpuInstanceRequestAdapter''),
      (''wgpu_instance_reference'', ''wgpuInstanceReference''),
      (''wgpu_instance_release'', ''wgpuInstanceRelease''),
      (''wgpu_pipeline_layout_set_label'', ''wgpuPipelineLayoutSetLabel''),
      (''wgpu_pipeline_layout_reference'', ''wgpuPipelineLayoutReference''),
      (''wgpu_pipeline_layout_release'', ''wgpuPipelineLayoutRelease''),
      (''wgpu_query_set_destroy'', ''wgpuQuerySetDestroy''),
      (''wgpu_query_set_get_count'', ''wgpuQuerySetGetCount''),
      (''wgpu_query_set_get_type'', ''wgpuQuerySetGetType''),
      (''wgpu_query_set_set_label'', ''wgpuQuerySetSetLabel''),
      (''wgpu_query_set_reference'', ''wgpuQuerySetReference''),
      (''wgpu_query_set_release'', ''wgpuQuerySetRelease''),
      (''wgpu_queue_on_submitted_work_done'', ''wgpuQueueOnSubmittedWorkDone''),
      (''wgpu_queue_set_label'', ''wgpuQueueSetLabel''), (''wgpu_queue_submit'', ''wgpuQueueSubmit''),
      (''wgpu_queue_write_buffer'', ''wgpuQueueWriteBuffer''),
      (''wgpu_queue_write_texture'', ''wgpuQueueWriteTexture''),
      (''wgpu_queue_reference'', ''wgpuQueueReference''), (''wgpu_queue_release'', ''wgpuQueueRelease''),
      (''wgpu_render_bundle_set_label'', ''wgpuRenderBundleSetLabel''),
      (''wgpu_render_bundle_reference'', ''wgpuRenderBundleReference''),
      (''wgpu_render_bundle_release'', ''wgpuRenderBundleRelease'')]"

definition wgpu_exports_render :: "(string \<times> string) list" where
  "wgpu_exports_render =
     [(''wgpu_render_bundle_encoder_draw'', ''wgpuRenderBundleEncoderDraw''),
      (''wgpu_render_bundle_encoder_draw_indexed'', ''wgpuRenderBundleEncoderDrawIndexed''),
      (''wgpu_render_bundle_encoder_draw_indexed_indirect'', ''wgpuRenderBundleEncoderDrawIndexedIndirect''),
      (''wgpu_render_bundle_encoder_draw_indirect'', ''wgpuRenderBundleEncoderDrawIndirect''),
      (''wgpu_render_bundle_encoder_finish'', ''wgpuRenderBundleEncoderFinish''),
      (''wgpu_render_bundle_encoder_insert_debug_marker'', ''wgpuRenderBundleEncoderInsertDebugMarker''),
      (''wgpu_render_bundle_encoder_pop_debug_group'', ''wgpuRenderBundleEncoderPopDebugGroup''),
      (''wgpu_render_bundle_encoder_push_debug_group'', ''wgpuRenderBundleEncoderPushDebugGroup''),
      (''wgpu_render_bundle_encoder_set_bind_group'', ''wgpuRenderBundleEncoderSetBindGroup''),
      (''wgpu_render_bundle_encoder_set_index_buffer'', ''wgpuRenderBundleEncoderSetIndexBuffer''),
      (''wgpu_render_bundle_encoder_set_label'', ''wgpuRenderBundleEncoderSetLabel''),
      (''wgpu_render_bundle_encoder_set_pipeline'', ''wgpuRenderBundleEncoderSetPipeline''),
      (''wgpu_render_bundle_encoder_set_vertex_buffer'', ''wgpuRenderBundleEncoderSetVertexBuffer''),
      (''wgpu_render_bundle_encoder_reference'', ''wgpuRenderBundleEncoderReference''),
      (''wgpu_render_bundle_encoder_release'', ''wgpuRenderBundleEncoderRelease''),
      (''wgpu_render_pass_encoder_begin_occlusion_query'', ''wgpuRenderPassEncoderBeginOcclusionQuery''),
      (''wgpu_render_pass_encoder_draw'', ''wgpuRenderPassEncoderDraw''),
      (''wgpu_render_pass_encoder_draw_indexed'', ''wgpuRenderPassEncoderDrawIndexed''),
      (''wgpu_render_pass_encoder_draw_indexed_indirect'', ''wgpuRenderPassEncoderDrawIndexedIndirect''),
      (''wgpu_render_pass_encoder_draw_indirect'', ''wgpuRenderPassEncoderDrawIndirect''),
      (''wgpu_render_pass_encoder_end'', ''wgpuRenderPassEncoderEnd''),
      (''wgpu_render_pass_encoder_end_occlusion_query'', ''wgpuRenderPassEncoderEndOcclusionQuery''),
      (''wgpu_render_pass_encoder_execute_bundles'', ''wgpuRenderPassEncoderExecuteBundles''),
      (''wgpu_render_pass_encoder_insert_debug_marker'', ''wgpuRenderPassEncoderInsertDebugMarker''),
      (''wgpu_render_pass_encoder_pop_debug_group'', ''wgpuRenderPassEncoderPopDebugGroup''),
      (''wgpu_render_pass_encoder_push_debug_group'', ''wgpuRenderPassEncoderPushDebugGroup''),
      (''wgpu_render_pass_encoder_set_bind_group'', ''wgpuRenderPassEncoderSetBindGroup''),
      (''wgpu_render_pass_encoder_set_blend_constant'', ''wgpuRenderPassEncoderSetBlendConstant''),
      (''wgpu_render_pass_encoder_set_index_buffer'', ''wgpuRenderPassEncoderSetIndexBuffer''),
      (''wgpu_render_pass_encoder_set_label'', ''wgpuRenderPassEncoderSetLabel''),
      (''wgpu_render_pass_encoder_set_pipeline'', ''wgpuRenderPassEncoderSetPipeline''),
      (''wgpu_render_pass_encoder_set_scissor_rect'', ''wgpuRenderPassEncoderSetScissorRect''),
      (''wgpu_render_pass_encoder_set_stencil_reference'', ''wgpuRenderPassEncoderSetStencilReference''),
      (''wgpu_render_pass_encoder_set_vertex_buffer'', ''wgpuRenderPassEncoderSetVertexBuffer''),
      (''wgpu_render_pass_encoder_set_viewport'', ''wgpuRenderPassEncoderSetViewport''),
      (''wgpu_render_pass_encoder_reference'', ''wgpuRenderPassEncoderReference''),
      (''wgpu_render_pass_encoder_release'', ''wgpuRenderPassEncoderRelease''),
      (''wgpu_render_pipeline_get_bind_group_layout'', ''wgpuRenderPipelineGetBindGroupLayout''),
      (''wgpu_render_pipeline_set_label'', ''wgpuRenderPipelineSetLabel''),
      (''wgpu_render_pipeline_reference'', ''wgpuRenderPipelineReference''),
      (''wgpu_render_pipeline_release'', ''wgpuRenderPipelineRelease''),
      (''wgpu_sampler_set_label'', ''wgpuSamplerSetLabel''),
      (''wgpu_sampler_reference'', ''wgpuSamplerReference''),
      (''wgpu_sampler_release'', ''wgpuSamplerRelease''),
      (''wgpu_shader_module_get_compilation_info'', ''wgpuShaderModuleGetCompilationInfo''),
      (''wgpu_shader_module_set_label'', ''wgpuShaderModuleSetLabel''),
      (''wgpu_shader_module_reference'', ''wgpuShaderModuleReference''),
      (''wgpu_shader_module_release'', ''wgpuShaderModuleRelease''),
      (''wgpu_surface_configure'', ''wgpuSurfaceConfigure''),
      (''wgpu_surface_get_capabilities'', ''wgpuSurfaceGetCapabilities''),
      (''wgpu_surface_get_current_texture'', ''wgpuSurfaceGetCurrentTexture''),
      (''wgpu_surface_present'', ''wgpuSurfacePresent''), (''wgpu_surface_set_label'', ''wgpuSurfaceSetLabel''),
      (''wgpu_surface_unconfigure'', ''wgpuSurfaceUnconfigure''),
      (''wgpu_surface_reference'', ''wgpuSurfaceReference''),
      (''wgpu_surface_release'', ''wgpuSurfaceRelease''),
      (''wgpu_surface_capabilities_free_members'', ''wgpuSurfaceCapabilitiesFreeMembers''),
      (''wgpu_texture_create_view'', ''wgpuTextureCreateView''),
      (''wgpu_texture_destroy'', ''wgpuTextureDestroy''),
      (''wgpu_texture_get_depth_or_array_layers'', ''wgpuTextureGetDepthOrArrayLayers''),
      (''wgpu_texture_get_dimension'', ''wgpuTextureGetDimension''),
      (''wgpu_texture_get_format'', ''wgpuTextureGetFormat''),
      (''wgpu_texture_get_height'', ''wgpuTextureGetHeight''),
      (''wgpu_texture_get_mip_level_count'', ''wgpuTextureGetMipLevelCount''),
      (''wgpu_texture_get_sample_count'', ''wgpuTextureGetSampleCount''),
      (''wgpu_texture_get_usage'', ''wgpuTextureGetUsage''),
      (''wgpu_texture_get_width'', ''wgpuTextureGetWidth''),
      (''wgpu_texture_set_label'', ''wgpuTextureSetLabel''),
      (''wgpu_texture_reference'', ''wgpuTextureReference''),
      (''wgpu_texture_release'', ''wgpuTextureRelease''),
      (''wgpu_texture_view_set_label'', ''wgpuTextureViewSetLabel''),
      (''wgpu_texture_view_reference'', ''wgpuTextureViewReference''),
      (''wgpu_texture_view_release'', ''wgpuTextureViewRelease''),
      (''wgpu_generate_report'', ''wgpuGenerateReport''),
      (''wgpu_instance_enumerate_adapters'', ''wgpuInstanceEnumerateAdapters''),
      (''wgpu_queue_submit_for_index'', ''wgpuQueueSubmitForIndex''),
      (''wgpu_device_create_shader_module_spirv'', ''wgpuDeviceCreateShaderModuleSpirV''),
      (''wgpu_device_poll'', ''wgpuDevicePoll''), (''wgpu_set_log_callback'', ''wgpuSetLogCallback''),
      (''wgpu_set_log_level'', ''wgpuSetLogLevel''), (''wgpu_get_version'', ''wgpuGetVersion''),
      (''wgpu_compute_pass_encoder_set_push_constants'', ''wgpuComputePassEncoderSetPushConstants''),
      (''wgpu_render_pass_encoder_set_push_constants'', ''wgpuRenderPassEncoderSetPushConstants''),
      (''wgpu_render_bundle_encoder_set_push_constants'', ''wgpuRenderBundleEncoderSetPushConstants''),
      (''wgpu_render_pass_encoder_multi_draw_indirect'', ''wgpuRenderPassEncoderMultiDrawIndirect''),
      (''wgpu_render_pass_encoder_multi_draw_indexed_indirect'', ''wgpuRenderPassEncoderMultiDrawIndexedIndirect''),
      (''wgpu_render_pass_encoder_multi_draw_indirect_count'', ''wgpuRenderPassEncoderMultiDrawIndirectCount''),
      (''wgpu_render_pass_encoder_multi_draw_indexed_indirect_count'', ''wgpuRenderPassEncoderMultiDrawIndexedIndirectCount''),
      (''wgpu_compute_pass_encoder_begin_pipeline_statistics_query'', ''wgpuComputePassEncoderBeginPipelineStatisticsQuery''),
      (''wgpu_compute_pass_encoder_end_pipeline_statistics_query'', ''wgpuComputePassEncoderEndPipelineStatisticsQuery''),
      (''wgpu_render_pass_encoder_begin_pipeline_statistics_query'', ''wgpuRenderPassEncoderBeginPipelineStatisticsQuery''),
      (''wgpu_render_pass_encoder_end_pipeline_statistics_query'', ''wgpuRenderPassEncoderEndPipelineStatisticsQuery''),
      (''wgpu_compute_pass_encoder_write_timestamp'', ''wgpuComputePassEncoderWriteTimestamp''),
      (''wgpu_render_pass_encoder_write_timestamp'', ''wgpuRenderPassEncoderWriteTimestamp'')]"

definition wgpu_exports :: "(string \<times> string) list" where
  "wgpu_exports = wgpu_exports_compute @ wgpu_exports_device @ wgpu_exports_render"

lemmas wgpu_exports_defs = wgpu_exports_def wgpu_exports_compute_def wgpu_exports_device_def wgpu_exports_render_def

definition wgpu_getExportsTable :: "(string \<times> string option) list" where
  "wgpu_getExportsTable = static_struct static_wgpu_exports_table wgpu_exports"

text \<open>Which table \<open>main\<close> binds under which name.\<close>

definition exports_of :: "(string \<times> (string \<times> string option) list) list" where
  "exports_of =
     [(''cpp'', cpp_getExportsTable), (''crypto'', crypto_getExportsTable), (''curl'', curl_getExportsTable),
      (''glfw'', glfw_getExportsTable), (''iconv'', iconv_getExportsTable), (''interop'', interop_getExportsTable),
      (''labsound'', labsound_getExportsTable), (''webview'', webview_getExportsTable),
      (''uws'', uws_getExportsTable), (''rml'', rml_getExportsTable), (''runtime'', runtime_getExportsTable),
      (''stbi'', stbi_getExportsTable), (''stduuid'', stduuid_getExportsTable), (''wgpu'', wgpu_getExportsTable)]"

section \<open>GLFW constants\<close>

text \<open>The names and the macros whose values they stand for; the values are GLFW's.\<close>

definition glfw_constant_macros_keys :: "(string \<times> string) list" where
  "glfw_constant_macros_keys =
     [(''GLFW_VERSION_MAJOR'', ''GLFW_VERSION_MAJOR''), (''GLFW_VERSION_MINOR'', ''GLFW_VERSION_MINOR''),
      (''GLFW_TRUE'', ''GLFW_TRUE''), (''GLFW_FALSE'', ''GLFW_FALSE''), (''GLFW_RELEASE'', ''GLFW_RELEASE''),
      (''GLFW_PRESS'', ''GLFW_PRESS''), (''GLFW_REPEAT'', ''GLFW_REPEAT''),
      (''GLFW_HAT_CENTERED'', ''GLFW_HAT_CENTERED''), (''GLFW_HAT_UP'', ''GLFW_HAT_UP''),
      (''GLFW_HAT_RIGHT'', ''GLFW_HAT_RIGHT''), (''GLFW_HAT_DOWN'', ''GLFW_HAT_DOWN''),
      (''GLFW_HAT_LEFT'', ''GLFW_HAT_LEFT''), (''GLFW_HAT_RIGHT_UP'', ''GLFW_HAT_RIGHT_UP''),
      (''GLFW_HAT_RIGHT_DOWN'', ''GLFW_HAT_RIGHT_DOWN''), (''GLFW_HAT_LEFT_UP'', ''GLFW_HAT_LEFT_UP''),
      (''GLFW_HAT_LEFT_DOWN'', ''GLFW_HAT_LEFT_DOWN''), (''GLFW_KEY_UNKNOWN'', ''GLFW_KEY_UNKNOWN''),
      (''GLFW_KEY_SPACE'', ''GLFW_KEY_SPACE''), (''GLFW_KEY_APOSTROPHE'', ''GLFW_KEY_APOSTROPHE''),
      (''GLFW_KEY_COMMA'', ''GLFW_KEY_COMMA''), (''GLFW_KEY_MINUS'', ''GLFW_KEY_MINUS''),
      (''GLFW_KEY_PERIOD'', ''GLFW_KEY_PERIOD''), (''GLFW_KEY_SLASH'', ''GLFW_KEY_SLASH''),
      (''GLFW_KEY_0'', ''GLFW_KEY_0''), (''GLFW_KEY_1'', ''GLFW_KEY_1''), (''GLFW_KEY_2'', ''GLFW_KEY_2''),
      (''GLFW_KEY_3'', ''GLFW_KEY_3''), (''GLFW_KEY_4'', ''GLFW_KEY_4''), (''GLFW_KEY_5'', ''GLFW_KEY_5''),
      (''GLFW_KEY_6'', ''GLFW_KEY_6''), (''GLFW_KEY_7'', ''GLFW_KEY_7''), (''GLFW_KEY_8'', ''GLFW_KEY_8''),
      (''GLFW_KEY_9'', ''GLFW_KEY_9''), (''GLFW_KEY_SEMICOLON'', ''GLFW_KEY_SEMICOLON''),
      (''GLFW_KEY_EQUAL'', ''GLFW_KEY_EQUAL''), (''GLFW_KEY_A'', ''GLFW_KEY_A''),
      (''GLFW_KEY_B'', ''GLFW_KEY_B''), (''GLFW_KEY_C'', ''GLFW_KEY_C''), (''GLFW_KEY_D'', ''GLFW_KEY_D''),
      (''GLFW_KEY_E'', ''GLFW_KEY_E''), (''GLFW_KEY_F'', ''GLFW_KEY_F''), (''GLFW_KEY_G'', ''GLFW_KEY_G''),
      (''GLFW_KEY_H'', ''GLFW_KEY_H''), (''GLFW_KEY_I'', ''GLFW_KEY_I''), (''GLFW_KEY_J'', ''GLFW_KEY_J''),
      (''GLFW_KEY_K'', ''GLFW_KEY_K''), (''GLFW_KEY_L'', ''GLFW_KEY_L''), (''GLFW_KEY_M'', ''GLFW_KEY_M''),
      (''GLFW_KEY_N'', ''GLFW_KEY_N''), (''GLFW_KEY_O'', ''GLFW_KEY_O''), (''GLFW_KEY_P'', ''GLFW_KEY_P''),
      (''GLFW_KEY_Q'', ''GLFW_KEY_Q''), (''GLFW_KEY_R'', ''GLFW_KEY_R''), (''GLFW_KEY_S'', ''GLFW_KEY_S''),
      (''GLFW_KEY_T'', ''GLFW_KEY_T''), (''GLFW_KEY_U'', ''GLFW_KEY_U''), (''GLFW_KEY_V'', ''GLFW_KEY_V''),
      (''GLFW_KEY_W'', ''GLFW_KEY_W''), (''GLFW_KEY_X'', ''GLFW_KEY_X''), (''GLFW_KEY_Y'', ''GLFW_KEY_Y''),
      (''GLFW_KEY_Z'', ''GLFW_KEY_Z''), (''GLFW_KEY_LEFT_BRACKET'', ''GLFW_KEY_LEFT_BRACKET''),
      (''GLFW_KEY_BACKSLASH'', ''GLFW_KEY_BACKSLASH''),
      (''GLFW_KEY_RIGHT_BRACKET'', ''GLFW_KEY_RIGHT_BRACKET''),
      (''GLFW_KEY_GRAVE_ACCENT'', ''GLFW_KEY_GRAVE_ACCENT''), (''GLFW_KEY_WORLD_1'', ''GLFW_KEY_WORLD_1''),
      (''GLFW_KEY_WORLD_2'', ''GLFW_KEY_WORLD_2''), (''GLFW_KEY_ESCAPE'', ''GLFW_KEY_ESCAPE''),
      (''GLFW_KEY_ENTER'', ''GLFW_KEY_ENTER''), (''GLFW_KEY_TAB'', ''GLFW_KEY_TAB''),
      (''GLFW_KEY_BACKSPACE'', ''GLFW_KEY_BACKSPACE''), (''GLFW_KEY_INSERT'', ''GLFW_KEY_INSERT''),
      (''GLFW_KEY_DELETE'', ''GLFW_KEY_DELETE''), (''GLFW_KEY_RIGHT'', ''GLFW_KEY_RIGHT''),
      (''GLFW_KEY_LEFT'', ''GLFW_KEY_LEFT''), (''GLFW_KEY_DOWN'', ''GLFW_KEY_DOWN''),
      (''GLFW_KEY_UP'', ''GLFW_KEY_UP''), (''GLFW_KEY_PAGE_UP'', ''GLFW_KEY_PAGE_UP''),
      (''GLFW_KEY_PAGE_DOWN'', ''GLFW_KEY_PAGE_DOWN''), (''GLFW_KEY_HOME'', ''GLFW_KEY_HOME''),
      (''GLFW_KEY_END'', ''GLFW_KEY_END''), (''GLFW_KEY_CAPS_LOCK'', ''GLFW_KEY_CAPS_LOCK''),
      (''GLFW_KEY_SCROLL_LOCK'', ''GLFW_KEY_SCROLL_LOCK''), (''GLFW_KEY_NUM_LOCK'', ''GLFW_KEY_NUM_LOCK''),
      (''GLFW_KEY_PRINT_SCREEN'', ''GLFW_KEY_PRINT_SCREEN''), (''GLFW_KEY_PAUSE'', ''GLFW_KEY_PAUSE''),
      (''GLFW_KEY_F1'', ''GLFW_KEY_F1''), (''GLFW_KEY_F2'', ''GLFW_KEY_F2''),
      (''GLFW_KEY_F3'', ''GLFW_KEY_F3''), (''GLFW_KEY_F4'', ''GLFW_KEY_F4''),
      (''GLFW_KEY_F5'', ''GLFW_KEY_F5''), (''GLFW_KEY_F6'', ''GLFW_KEY_F6''),
      (''GLFW_KEY_F7'', ''GLFW_KEY_F7''), (''GLFW_KEY_F8'', ''GLFW_KEY_F8''),
      (''GLFW_KEY_F9'', ''GLFW_KEY_F9''), (''GLFW_KEY_F10'', ''GLFW_KEY_F10''),
      (''GLFW_KEY_F11'', ''GLFW_KEY_F11''), (''GLFW_KEY_F12'', ''GLFW_KEY_F12''),
      (''GLFW_KEY_F13'', ''GLFW_KEY_F13''), (''GLFW_KEY_F14'', ''GLFW_KEY_F14''),
      (''GLFW_KEY_F15'', ''GLFW_KEY_F15''), (''GLFW_KEY_F16'', ''GLFW_KEY_F16''),
      (''GLFW_KEY_F17'', ''GLFW_KEY_F17''), (''GLFW_KEY_F18'', ''GLFW_KEY_F18''),
      (''GLFW_KEY_F19'', ''GLFW_KEY_F19''), (''GLFW_KEY_F20'', ''GLFW_KEY_F20''),
      (''GLFW_KEY_F21'', ''GLFW_KEY_F21''), (''GLFW_KEY_F22'', ''GLFW_KEY_F22''),
      (''GLFW_KEY_F23'', ''GLFW_KEY_F23''), (''GLFW_KEY_F24'', ''GLFW_KEY_F24''),
      (''GLFW_KEY_F25'', ''GLFW_KEY_F25''), (''GLFW_KEY_KP_0'', ''GLFW_KEY_KP_0''),
      (''GLFW_KEY_KP_1'', ''GLFW_KEY_KP_1''), (''GLFW_KEY_KP_2'', ''GLFW_KEY_KP_2''),
      (''GLFW_KEY_KP_3'', ''GLFW_KEY_KP_3''), (''GLFW_KEY_KP_4'', ''GLFW_KEY_KP_4''),
      (''GLFW_KEY_KP_5'', ''GLFW_KEY_KP_5''), (''GLFW_KEY_KP_6'', ''GLFW_KEY_KP_6''),
      (''GLFW_KEY_KP_7'', ''GLFW_KEY_KP_7''), (''GLFW_KEY_KP_8'', ''GLFW_KEY_KP_8''),
      (''GLFW_KEY_KP_9'', ''GLFW_KEY_KP_9''), (''GLFW_KEY_KP_DECIMAL'', ''GLFW_KEY_KP_DECIMAL''),
      (''GLFW_KEY_KP_DIVIDE'', ''GLFW_KEY_KP_DIVIDE''), (''GLFW_KEY_KP_MULTIPLY'', ''GLFW_KEY_KP_MULTIPLY''),
      (''GLFW_KEY_KP_SUBTRACT'', ''GLFW_KEY_KP_SUBTRACT''), (''GLFW_KEY_KP_ADD'', ''GLFW_KEY_KP_ADD''),
      (''GLFW_KEY_KP_ENTER'', ''GLFW_KEY_KP_ENTER''), (''GLFW_KEY_KP_EQUAL'', ''GLFW_KEY_KP_EQUAL''),
      (''GLFW_KEY_LEFT_SHIFT'', ''GLFW_KEY_LEFT_SHIFT''),
      (''GLFW_KEY_LEFT_CONTROL'', ''GLFW_KEY_LEFT_CONTROL''), (''GLFW_KEY_LEFT_ALT'', ''GLFW_KEY_LEFT_ALT''),
      (''GLFW_KEY_LEFT_SUPER'', ''GLFW_KEY_LEFT_SUPER''), (''GLFW_KEY_RIGHT_SHIFT'', ''GLFW_KEY_RIGHT_SHIFT''),
      (''GLFW_KEY_RIGHT_CONTROL'', ''GLFW_KEY_RIGHT_CONTROL''),
      (''GLFW_KEY_RIGHT_ALT'', ''GLFW_KEY_RIGHT_ALT''), (''GLFW_KEY_RIGHT_SUPER'', ''GLFW_KEY_RIGHT_SUPER''),
      (''GLFW_KEY_MENU'', ''GLFW_KEY_MENU''), (''GLFW_KEY_LAST'', ''GLFW_KEY_LAST'')]"

definition glfw_constant_macros_devices :: "(string \<times> string) list" where
  "glfw_constant_macros_devices =
     [(''GLFW_MOD_SHIFT'', ''GLFW_MOD_SHIFT''), (''GLFW_MOD_CONTROL'', ''GLFW_MOD_CONTROL''),
      (''GLFW_MOD_ALT'', ''GLFW_MOD_ALT''), (''GLFW_MOD_SUPER'', ''GLFW_MOD_SUPER''),
      (''GLFW_MOD_CAPS_LOCK'', ''GLFW_MOD_CAPS_LOCK''), (''GLFW_MOD_NUM_LOCK'', ''GLFW_MOD_NUM_LOCK''),
      (''GLFW_MOUSE_BUTTON_1'', ''GLFW_MOUSE_BUTTON_1''), (''GLFW_MOUSE_BUTTON_2'', ''GLFW_MOUSE_BUTTON_2''),
      (''GLFW_MOUSE_BUTTON_3'', ''GLFW_MOUSE_BUTTON_3''), (''GLFW_MOUSE_BUTTON_4'', ''GLFW_MOUSE_BUTTON_4''),
      (''GLFW_MOUSE_BUTTON_5'', ''GLFW_MOUSE_BUTTON_5''), (''GLFW_MOUSE_BUTTON_6'', ''GLFW_MOUSE_BUTTON_6''),
      (''GLFW_MOUSE_BUTTON_7'', ''GLFW_MOUSE_BUTTON_7''), (''GLFW_MOUSE_BUTTON_8'', ''GLFW_MOUSE_BUTTON_8''),
      (''GLFW_MOUSE_BUTTON_LAST'', ''GLFW_MOUSE_BUTTON_LAST''),
      (''GLFW_MOUSE_BUTTON_LEFT'', ''GLFW_MOUSE_BUTTON_LEFT''),
      (''GLFW_MOUSE_BUTTON_RIGHT'', ''GLFW_MOUSE_BUTTON_RIGHT''),
      (''GLFW_MOUSE_BUTTON_MIDDLE'', ''GLFW_MOUSE_BUTTON_MIDDLE''), (''GLFW_JOYSTICK_1'', ''GLFW_JOYSTICK_1''),
      (''GLFW_JOYSTICK_2'', ''GLFW_JOYSTICK_2''), (''GLFW_JOYSTICK_3'', ''GLFW_JOYSTICK_3''),
      (''GLFW_JOYSTICK_4'', ''GLFW_JOYSTICK_4''), (''GLFW_JOYSTICK_5'', ''GLFW_JOYSTICK_5''),
      (''GLFW_JOYSTICK_6'', ''GLFW_JOYSTICK_6''), (''GLFW_JOYSTICK_7'', ''GLFW_JOYSTICK_7''),
      (''GLFW_JOYSTICK_8'', ''GLFW_JOYSTICK_8''), (''GLFW_JOYSTICK_9'', ''GLFW_JOYSTICK_9''),
      (''GLFW_JOYSTICK_10'', ''GLFW_JOYSTICK_10''), (''GLFW_JOYSTICK_11'', ''GLFW_JOYSTICK_11''),
      (''GLFW_JOYSTICK_12'', ''GLFW_JOYSTICK_12''), (''GLFW_JOYSTICK_13'', ''GLFW_JOYSTICK_13''),
      (''GLFW_JOYSTICK_14'', ''GLFW_JOYSTICK_14''), (''GLFW_JOYSTICK_15'', ''GLFW_JOYSTICK_15''),
      (''GLFW_JOYSTICK_16'', ''GLFW_JOYSTICK_16''), (''GLFW_JOYSTICK_LAST'', ''GLFW_JOYSTICK_LAST''),
      (''GLFW_GAMEPAD_BUTTON_A'', ''GLFW_GAMEPAD_BUTTON_A''),
      (''GLFW_GAMEPAD_BUTTON_B'', ''GLFW_GAMEPAD_BUTTON_B''),
      (''GLFW_GAMEPAD_BUTTON_X'', ''GLFW_GAMEPAD_BUTTON_X''),
      (''GLFW_GAMEPAD_BUTTON_Y'', ''GLFW_GAMEPAD_BUTTON_Y''),
      (''GLFW_GAMEPAD_BUTTON_LEFT_BUMPER'', ''GLFW_GAMEPAD_BUTTON_LEFT_BUMPER''),
      (''GLFW_GAMEPAD_BUTTON_RIGHT_BUMPER'', ''GLFW_GAMEPAD_BUTTON_RIGHT_BUMPER''),
      (''GLFW_GAMEPAD_BUTTON_BACK'', ''GLFW_GAMEPAD_BUTTON_BACK''),
      (''GLFW_GAMEPAD_BUTTON_START'', ''GLFW_GAMEPAD_BUTTON_START''),
      (''GLFW_GAMEPAD_BUTTON_GUIDE'', ''GLFW_GAMEPAD_BUTTON_GUIDE''),
      (''GLFW_GAMEPAD_BUTTON_LEFT_THUMB'', ''GLFW_GAMEPAD_BUTTON_LEFT_THUMB''),
      (''GLFW_GAMEPAD_BUTTON_RIGHT_THUMB'', ''GLFW_GAMEPAD_BUTTON_RIGHT_THUMB''),
      (''GLFW_GAMEPAD_BUTTON_DPAD_UP'', ''GLFW_GAMEPAD_BUTTON_DPAD_UP''),
      (''GLFW_GAMEPAD_BUTTON_DPAD_RIGHT'', ''GLFW_GAMEPAD_BUTTON_DPAD_RIGHT''),
      (''GLFW_GAMEPAD_BUTTON_DPAD_DOWN'', ''GLFW_GAMEPAD_BUTTON_DPAD_DOWN''),
      (''GLFW_GAMEPAD_BUTTON_DPAD_LEFT'', ''GLFW_GAMEPAD_BUTTON_DPAD_LEFT''),
      (''GLFW_GAMEPAD_BUTTON_LAST'', ''GLFW_GAMEPAD_BUTTON_LAST''),
      (''GLFW_GAMEPAD_BUTTON_CROSS'', ''GLFW_GAMEPAD_BUTTON_A''),
      (''GLFW_GAMEPAD_BUTTON_CIRCLE'', ''GLFW_GAMEPAD_BUTTON_B''),
      (''GLFW_GAMEPAD_BUTTON_SQUARE'', ''GLFW_GAMEPAD_BUTTON_X''),
      (''GLFW_GAMEPAD_BUTTON_TRIANGLE'', ''GLFW_GAMEPAD_BUTTON_Y''),
      (''GLFW_GAMEPAD_AXIS_LEFT_X'', ''GLFW_GAMEPAD_AXIS_LEFT_X''),
      (''GLFW_GAMEPAD_AXIS_LEFT_Y'', ''GLFW_GAMEPAD_AXIS_LEFT_Y''),
      (''GLFW_GAMEPAD_AXIS_RIGHT_X'', ''GLFW_GAMEPAD_AXIS_RIGHT_X''),
      (''GLFW_GAMEPAD_AXIS_RIGHT_Y'', ''GLFW_GAMEPAD_AXIS_RIGHT_Y''),
      (''GLFW_GAMEPAD_AXIS_LEFT_TRIGGER'', ''GLFW_GAMEPAD_AXIS_LEFT_TRIGGER''),
      (''GLFW_GAMEPAD_AXIS_RIGHT_TRIGGER'', ''GLFW_GAMEPAD_AXIS_RIGHT_TRIGGER''),
      (''GLFW_GAMEPAD_AXIS_LAST'', ''GLFW_GAMEPAD_AXIS_LAST'')]"

definition glfw_constant_macros_hints :: "(string \<times> string) list" where
  "glfw_constant_macros_hints =
     [(''GLFW_NO_ERROR'', ''GLFW_NO_ERROR''), (''GLFW_NOT_INITIALIZED'', ''GLFW_NOT_INITIALIZED''),
      (''GLFW_NO_CURRENT_CONTEXT'', ''GLFW_NO_CURRENT_CONTEXT''),
      (''GLFW_INVALID_ENUM'', ''GLFW_INVALID_ENUM''), (''GLFW_INVALID_VALUE'', ''GLFW_INVALID_VALUE''),
      (''GLFW_OUT_OF_MEMORY'', ''GLFW_OUT_OF_MEMORY''), (''GLFW_API_UNAVAILABLE'', ''GLFW_API_UNAVAILABLE''),
      (''GLFW_VERSION_UNAVAILABLE'', ''GLFW_VERSION_UNAVAILABLE''),
      (''GLFW_PLATFORM_ERROR'', ''GLFW_PLATFORM_ERROR''),
      (''GLFW_FORMAT_UNAVAILABLE'', ''GLFW_FORMAT_UNAVAILABLE''),
      (''GLFW_NO_WINDOW_CONTEXT'', ''GLFW_NO_WINDOW_CONTEXT''),
      (''GLFW_CURSOR_UNAVAILABLE'', ''GLFW_CURSOR_UNAVAILABLE''),
      (''GLFW_FEATURE_UNAVAILABLE'', ''GLFW_FEATURE_UNAVAILABLE''),
      (''GLFW_FEATURE_UNIMPLEMENTED'', ''GLFW_FEATURE_UNIMPLEMENTED''),
      (''GLFW_PLATFORM_UNAVAILABLE'', ''GLFW_PLATFORM_UNAVAILABLE''), (''GLFW_FOCUSED'', ''GLFW_FOCUSED''),
      (''GLFW_ICONIFIED'', ''GLFW_ICONIFIED''), (''GLFW_RESIZABLE'', ''GLFW_RESIZABLE''),
      (''GLFW_VISIBLE'', ''GLFW_VISIBLE''), (''GLFW_DECORATED'', ''GLFW_DECORATED''),
      (''GLFW_AUTO_ICONIFY'', ''GLFW_AUTO_ICONIFY''), (''GLFW_FLOATING'', ''GLFW_FLOATING''),
      (''GLFW_MAXIMIZED'', ''GLFW_MAXIMIZED''), (''GLFW_CENTER_CURSOR'', ''GLFW_CENTER_CURSOR''),
      (''GLFW_TRANSPARENT_FRAMEBUFFER'', ''GLFW_TRANSPARENT_FRAMEBUFFER''),
      (''GLFW_HOVERED'', ''GLFW_HOVERED''), (''GLFW_FOCUS_ON_SHOW'', ''GLFW_FOCUS_ON_SHOW''),
      (''GLFW_MOUSE_PASSTHROUGH'', ''GLFW_MOUSE_PASSTHROUGH''), (''GLFW_POSITION_X'', ''GLFW_POSITION_X''),
      (''GLFW_POSITION_Y'', ''GLFW_POSITION_Y''), (''GLFW_RED_BITS'', ''GLFW_RED_BITS''),
      (''GLFW_GREEN_BITS'', ''GLFW_GREEN_BITS''), (''GLFW_BLUE_BITS'', ''GLFW_BLUE_BITS''),
      (''GLFW_ALPHA_BITS'', ''GLFW_ALPHA_BITS''), (''GLFW_DEPTH_BITS'', ''GLFW_DEPTH_BITS''),
      (''GLFW_STENCIL_BITS'', ''GLFW_STENCIL_BITS''), (''GLFW_ACCUM_RED_BITS'', ''GLFW_ACCUM_RED_BITS''),
      (''GLFW_ACCUM_GREEN_BITS'', ''GLFW_ACCUM_GREEN_BITS''),
      (''GLFW_ACCUM_BLUE_BITS'', ''GLFW_ACCUM_BLUE_BITS''),
      (''GLFW_ACCUM_ALPHA_BITS'', ''GLFW_ACCUM_ALPHA_BITS''), (''GLFW_AUX_BUFFERS'', ''GLFW_AUX_BUFFERS''),
      (''GLFW_STEREO'', ''GLFW_STEREO''), (''GLFW_SAMPLES'', ''GLFW_SAMPLES''),
      (''GLFW_SRGB_CAPABLE'', ''GLFW_SRGB_CAPABLE''), (''GLFW_REFRESH_RATE'', ''GLFW_REFRESH_RATE''),
      (''GLFW_DOUBLEBUFFER'', ''GLFW_DOUBLEBUFFER''), (''GLFW_CLIENT_API'', ''GLFW_CLIENT_API''),
      (''GLFW_CONTEXT_VERSION_MAJOR'', ''GLFW_CONTEXT_VERSION_MAJOR''),
      (''GLFW_CONTEXT_VERSION_MINOR'', ''GLFW_CONTEXT_VERSION_MINOR''),
      (''GLFW_CONTEXT_REVISION'', ''GLFW_CONTEXT_REVISION''),
      (''GLFW_CONTEXT_ROBUSTNESS'', ''GLFW_CONTEXT_ROBUSTNESS''),
      (''GLFW_OPENGL_FORWARD_COMPAT'', ''GLFW_OPENGL_FORWARD_COMPAT''),
      (''GLFW_CONTEXT_DEBUG'', ''GLFW_CONTEXT_DEBUG''),
      (''GLFW_OPENGL_DEBUG_CONTEXT'', ''GLFW_OPENGL_DEBUG_CONTEXT''),
      (''GLFW_OPENGL_PROFILE'', ''GLFW_OPENGL_PROFILE''),
      (''GLFW_CONTEXT_RELEASE_BEHAVIOR'', ''GLFW_CONTEXT_RELEASE_BEHAVIOR''),
      (''GLFW_CONTEXT_NO_ERROR'', ''GLFW_CONTEXT_NO_ERROR''),
      (''GLFW_CONTEXT_CREATION_API'', ''GLFW_CONTEXT_CREATION_API''),
      (''GLFW_SCALE_TO_MONITOR'', ''GLFW_SCALE_TO_MONITOR''),
      (''GLFW_COCOA_RETINA_FRAMEBUFFER'', ''GLFW_COCOA_RETINA_FRAMEBUFFER''),
      (''GLFW_COCOA_FRAME_NAME'', ''GLFW_COCOA_FRAME_NAME''),
      (''GLFW_COCOA_GRAPHICS_SWITCHING'', ''GLFW_COCOA_GRAPHICS_SWITCHING''),
      (''GLFW_X11_CLASS_NAME'', ''GLFW_X11_CLASS_NAME''),
      (''GLFW_X11_INSTANCE_NAME'', ''GLFW_X11_INSTANCE_NAME''),
      (''GLFW_WIN32_KEYBOARD_MENU'', ''GLFW_WIN32_KEYBOARD_MENU''),
      (''GLFW_WAYLAND_APP_ID'', ''GLFW_WAYLAND_APP_ID''), (''GLFW_NO_API'', ''GLFW_NO_API''),
      (''GLFW_OPENGL_API'', ''GLFW_OPENGL_API''), (''GLFW_OPENGL_ES_API'', ''GLFW_OPENGL_ES_API''),
      (''GLFW_NO_ROBUSTNESS'', ''GLFW_NO_ROBUSTNESS''),
      (''GLFW_NO_RESET_NOTIFICATION'', ''GLFW_NO_RESET_NOTIFICATION''),
      (''GLFW_LOSE_CONTEXT_ON_RESET'', ''GLFW_LOSE_CONTEXT_ON_RESET''),
      (''GLFW_OPENGL_ANY_PROFILE'', ''GLFW_OPENGL_ANY_PROFILE''),
      (''GLFW_OPENGL_CORE_PROFILE'', ''GLFW_OPENGL_CORE_PROFILE''),
      (''GLFW_OPENGL_COMPAT_PROFILE'', ''GLFW_OPENGL_COMPAT_PROFILE''), (''GLFW_CURSOR'', ''GLFW_CURSOR''),
      (''GLFW_STICKY_KEYS'', ''GLFW_STICKY_KEYS''),
      (''GLFW_STICKY_MOUSE_BUTTONS'', ''GLFW_STICKY_MOUSE_BUTTONS''),
      (''GLFW_LOCK_KEY_MODS'', ''GLFW_LOCK_KEY_MODS''), (''GLFW_RAW_MOUSE_MOTION'', ''GLFW_RAW_MOUSE_MOTION''),
      (''GLFW_CURSOR_NORMAL'', ''GLFW_CURSOR_NORMAL''), (''GLFW_CURSOR_HIDDEN'', ''GLFW_CURSOR_HIDDEN''),
      (''GLFW_CURSOR_DISABLED'', ''GLFW_CURSOR_DISABLED''),
      (''GLFW_CURSOR_CAPTURED'', ''GLFW_CURSOR_CAPTURED''),
      (''GLFW_ANY_RELEASE_BEHAVIOR'', ''GLFW_ANY_RELEASE_BEHAVIOR''),
      (''GLFW_RELEASE_BEHAVIOR_FLUSH'', ''GLFW_RELEASE_BEHAVIOR_FLUSH''),
      (''GLFW_RELEASE_BEHAVIOR_NONE'', ''GLFW_RELEASE_BEHAVIOR_NONE''),
      (''GLFW_NATIVE_CONTEXT_API'', ''GLFW_NATIVE_CONTEXT_API''),
      (''GLFW_EGL_CONTEXT_API'', ''GLFW_EGL_CONTEXT_API''),
      (''GLFW_OSMESA_CONTEXT_API'', ''GLFW_OSMESA_CONTEXT_API''),
      (''GLFW_ANGLE_PLATFORM_TYPE_NONE'', ''GLFW_ANGLE_PLATFORM_TYPE_NONE''),
      (''GLFW_ANGLE_PLATFORM_TYPE_OPENGL'', ''GLFW_ANGLE_PLATFORM_TYPE_OPENGL''),
      (''GLFW_ANGLE_PLATFORM_TYPE_OPENGLES'', ''GLFW_ANGLE_PLATFORM_TYPE_OPENGLES''),
      (''GLFW_ANGLE_PLATFORM_TYPE_D3D9'', ''GLFW_ANGLE_PLATFORM_TYPE_D3D9''),
      (''GLFW_ANGLE_PLATFORM_TYPE_D3D11'', ''GLFW_ANGLE_PLATFORM_TYPE_D3D11''),
      (''GLFW_ANGLE_PLATFORM_TYPE_VULKAN'', ''GLFW_ANGLE_PLATFORM_TYPE_VULKAN''),
      (''GLFW_ANGLE_PLATFORM_TYPE_METAL'', ''GLFW_ANGLE_PLATFORM_TYPE_METAL''),
      (''GLFW_WAYLAND_PREFER_LIBDECOR'', ''GLFW_WAYLAND_PREFER_LIBDECOR''),
      (''GLFW_WAYLAND_DISABLE_LIBDECOR'', ''GLFW_WAYLAND_DISABLE_LIBDECOR''),
      (''GLFW_ANY_POSITION'', ''GLFW_ANY_POSITION''), (''GLFW_ARROW_CURSOR'', ''GLFW_ARROW_CURSOR''),
      (''GLFW_IBEAM_CURSOR'', ''GLFW_IBEAM_CURSOR''), (''GLFW_CROSSHAIR_CURSOR'', ''GLFW_CROSSHAIR_CURSOR''),
      (''GLFW_POINTING_HAND_CURSOR'', ''GLFW_POINTING_HAND_CURSOR''),
      (''GLFW_RESIZE_EW_CURSOR'', ''GLFW_RESIZE_EW_CURSOR''),
      (''GLFW_RESIZE_NS_CURSOR'', ''GLFW_RESIZE_NS_CURSOR''),
      (''GLFW_RESIZE_NWSE_CURSOR'', ''GLFW_RESIZE_NWSE_CURSOR''),
      (''GLFW_RESIZE_NESW_CURSOR'', ''GLFW_RESIZE_NESW_CURSOR''),
      (''GLFW_RESIZE_ALL_CURSOR'', ''GLFW_RESIZE_ALL_CURSOR''),
      (''GLFW_NOT_ALLOWED_CURSOR'', ''GLFW_NOT_ALLOWED_CURSOR''),
      (''GLFW_HRESIZE_CURSOR'', ''GLFW_RESIZE_EW_CURSOR''),
      (''GLFW_VRESIZE_CURSOR'', ''GLFW_RESIZE_NS_CURSOR''),
      (''GLFW_HAND_CURSOR'', ''GLFW_POINTING_HAND_CURSOR''), (''GLFW_CONNECTED'', ''GLFW_CONNECTED''),
      (''GLFW_DISCONNECTED'', ''GLFW_DISCONNECTED''),
      (''GLFW_JOYSTICK_HAT_BUTTONS'', ''GLFW_JOYSTICK_HAT_BUTTONS''),
      (''GLFW_ANGLE_PLATFORM_TYPE'', ''GLFW_ANGLE_PLATFORM_TYPE''), (''GLFW_PLATFORM'', ''GLFW_PLATFORM''),
      (''GLFW_COCOA_CHDIR_RESOURCES'', ''GLFW_COCOA_CHDIR_RESOURCES''),
      (''GLFW_COCOA_MENUBAR'', ''GLFW_COCOA_MENUBAR''),
      (''GLFW_X11_XCB_VULKAN_SURFACE'', ''GLFW_X11_XCB_VULKAN_SURFACE''),
      (''GLFW_WAYLAND_LIBDECOR'', ''GLFW_WAYLAND_LIBDECOR''), (''GLFW_ANY_PLATFORM'', ''GLFW_ANY_PLATFORM''),
      (''GLFW_PLATFORM_WIN32'', ''GLFW_PLATFORM_WIN32''), (''GLFW_PLATFORM_COCOA'', ''GLFW_PLATFORM_COCOA''),
      (''GLFW_PLATFORM_WAYLAND'', ''GLFW_PLATFORM_WAYLAND''), (''GLFW_PLATFORM_X11'', ''GLFW_PLATFORM_X11''),
      (''GLFW_PLATFORM_NULL'', ''GLFW_PLATFORM_NULL''), (''GLFW_DONT_CARE'', ''GLFW_DONT_CARE'')]"

definition glfw_constant_macros :: "(string \<times> string) list" where
  "glfw_constant_macros = glfw_constant_macros_keys @ glfw_constant_macros_devices @ glfw_constant_macros_hints"

lemmas glfw_constant_macros_defs = glfw_constant_macros_def glfw_constant_macros_keys_def glfw_constant_macros_devices_def glfw_constant_macros_hints_def

definition glfw_constants :: "(string \<Rightarrow> int) \<Rightarrow> (string, int) unordered_map" where
  "glfw_constants macro = map (\<lambda>(nm, m). (nm, macro m)) glfw_constant_macros"

section \<open>Complete tables\<close>

abbreviation no_null :: "(string \<times> string option) list \<Rightarrow> bool" where
  "no_null tbl \<equiv> list_all (\<lambda>(f, p). p \<noteq> None) tbl"

lemma static_struct_no_null:
  assumes "set fs \<subseteq> set (map fst inits)"
  shows "no_null (static_struct fs inits)"
proof -
  have "map_of inits f \<noteq> None" if "f \<in> set fs" for f
    using assms that by (auto simp: map_of_eq_None_iff)
  then show ?thesis by (auto simp: static_struct_def list_all_iff)
qed

lemma static_struct_no_null_eq: "map fst inits = fs \<Longrightarrow> no_null (static_struct fs inits)"
  by (rule static_struct_no_null) simp

lemma static_struct_entry: "(f, Some g) \<in> set (static_struct fs inits) \<Longrightarrow> (f, g) \<in> set inits"
  by (auto simp: static_struct_def dest!: sym [of "Some g"] intro: map_of_SomeD)

lemma wgpu_exports_fields: "map fst wgpu_exports = static_wgpu_exports_table"
  by (simp add: wgpu_exports_defs static_wgpu_exports_table_def)

lemma wgpu_no_null: "no_null wgpu_getExportsTable"
  unfolding wgpu_getExportsTable_def by (rule static_struct_no_null_eq [OF wgpu_exports_fields])

lemma glfw_no_null: "no_null glfw_getExportsTable"
  unfolding glfw_getExportsTable_def assigned_struct_def
  by (rule static_struct_no_null) (simp add: static_glfw_exports_table_def glfw_exports_def)

text \<open>Names in the style of the libraries: an underscore makes the next letter a capital.\<close>

definition upper_char :: "char \<Rightarrow> char" where
  "upper_char c =
     (case map_of (zip ''abcdefghijklmnopqrstuvwxyz'' ''ABCDEFGHIJKLMNOPQRSTUVWXYZ'') c of None \<Rightarrow> c | Some d \<Rightarrow> d)"

fun camel_case :: "bool \<Rightarrow> string \<Rightarrow> string" where
  "camel_case up [] = []"
| "camel_case up (c # cs) =
     (if c = CHR ''_'' then camel_case True cs else (if up then upper_char c else c) # camel_case False cs)"

definition wgpu_exceptions :: "(string \<times> string) list" where
  "wgpu_exceptions =
     [(''wgpu_version'', ''wgpu_version''),
      (''wgpu_instance_has_wgsl_language_feature'', ''wgpuInstanceHasWGSLLanguageFeature''),
      (''wgpu_device_create_shader_module_spirv'', ''wgpuDeviceCreateShaderModuleSpirV'')]"

definition wgpu_named :: "string \<times> string \<Rightarrow> bool" where
  "wgpu_named e = (case e of (f, g) \<Rightarrow> g = camel_case False f \<or> (f, g) \<in> set wgpu_exceptions)"

lemmas wgpu_named_simps = wgpu_named_def wgpu_exports_defs upper_char_def wgpu_exceptions_def

lemma wgpu_named_1: "list_all wgpu_named (take 41 (drop 0 wgpu_exports))"
  by (simp add: wgpu_named_simps)

lemma wgpu_named_2: "list_all wgpu_named (take 41 (drop 41 wgpu_exports))"
  by (simp add: wgpu_named_simps)

lemma wgpu_named_3: "list_all wgpu_named (take 41 (drop 82 wgpu_exports))"
  by (simp add: wgpu_named_simps)

lemma wgpu_named_4: "list_all wgpu_named (take 41 (drop 123 wgpu_exports))"
  by (simp add: wgpu_named_simps)

lemma wgpu_named_5: "list_all wgpu_named (take 41 (drop 164 wgpu_exports))"
  by (simp add: wgpu_named_simps)

lemma wgpu_exports_named: "list_all wgpu_named wgpu_exports"
proof -
  have "length wgpu_exports = 205" by (simp add: wgpu_exports_defs)
  then have last: "take 41 (drop 164 wgpu_exports) = drop 164 wgpu_exports" by simp
  have "list_all wgpu_named (drop 123 wgpu_exports)"
    using wgpu_named_4 wgpu_named_5 last list_all_pieces [of wgpu_named "drop 123 wgpu_exports" 41] by simp
  then have "list_all wgpu_named (drop 82 wgpu_exports)"
    using wgpu_named_3 list_all_pieces [of wgpu_named "drop 82 wgpu_exports" 41] by simp
  then have "list_all wgpu_named (drop 41 wgpu_exports)"
    using wgpu_named_2 list_all_pieces [of wgpu_named "drop 41 wgpu_exports" 41] by simp
  then show ?thesis
    using wgpu_named_1 list_all_pieces [of wgpu_named wgpu_exports 41] by simp
qed

lemmas exports_tables =
  cpp_getExportsTable_def static_cpp_exports_table_def cpp_exports_def
  crypto_getExportsTable_def static_crypto_exports_table_def crypto_exports_def
  curl_getExportsTable_def static_curl_exports_table_def curl_exports_def
  iconv_getExportsTable_def static_iconv_exports_table_def iconv_exports_def
  interop_getExportsTable_def static_interop_exports_table_def interop_exports_def
  labsound_getExportsTable_def static_labsound_exports_table_def labsound_exports_def
  webview_getExportsTable_def static_webview_exports_table_def webview_exports_def
  uws_getExportsTable_def static_uws_exports_table_def uws_exports_def
  rml_getExportsTable_def static_rml_exports_table_def rml_exports_def
  runtime_getExportsTable_def static_runtime_exports_table_def runtime_exports_def
  stbi_getExportsTable_def static_stbi_exports_table_def stbi_exports_def
  stduuid_getExportsTable_def static_stduuid_exports_table_def stduuid_exports_def

lemma other_tables_no_null:
  "no_null cpp_getExportsTable"
  "no_null crypto_getExportsTable"
  "no_null curl_getExportsTable"
  "no_null iconv_getExportsTable"
  "no_null interop_getExportsTable"
  "no_null labsound_getExportsTable"
  "no_null webview_getExportsTable"
  "no_null uws_getExportsTable"
  "no_null rml_getExportsTable"
  "no_null runtime_getExportsTable"
  "no_null stbi_getExportsTable"
  "no_null stduuid_getExportsTable"
  by (unfold exports_tables, (rule static_struct_no_null_eq, simp)+)

text \<open>
  C24. Every name under which \<open>main\<close> binds a table has one, and no table has a null pointer: each
  field that the header declares is set. Each WebGPU field is bound to the library function of
  its own name, with three exceptions.
\<close>

theorem exports_complete:
  "map fst exports_of = main_bindings \<and> list_all (\<lambda>(nm, tbl). no_null tbl) exports_of
   \<and> list_all (\<lambda>(f, p). p = Some (camel_case False f) \<or> map_option (\<lambda>g. (f, g) \<in> set wgpu_exceptions) p = Some True) wgpu_getExportsTable"
proof (intro conjI)
  show "map fst exports_of = main_bindings" by (simp add: exports_of_def main_bindings_def)
  show "list_all (\<lambda>(nm, tbl). no_null tbl) exports_of"
    using other_tables_no_null wgpu_no_null glfw_no_null by (simp add: exports_of_def)
  show "list_all (\<lambda>(f, p). p = Some (camel_case False f) \<or> map_option (\<lambda>g. (f, g) \<in> set wgpu_exceptions) p = Some True) wgpu_getExportsTable"
    unfolding list_all_iff
  proof (clarify, goal_cases)
    case (1 f p)
    then obtain g where "p = Some g" using wgpu_no_null by (auto simp: list_all_iff)
    with 1 have "wgpu_named (f, g)"
      using wgpu_exports_named static_struct_entry unfolding list_all_iff wgpu_getExportsTable_def by blast
    with \<open>p = Some g\<close> 1 show ?case by (auto simp: wgpu_named_def)
  qed
qed

section \<open>Looking up constants\<close>

text \<open>The names that stand for another macro, as GLFW itself defines them.\<close>

definition glfw_aliases :: "(string \<times> string) list" where
  "glfw_aliases =
     [(''GLFW_GAMEPAD_BUTTON_CROSS'', ''GLFW_GAMEPAD_BUTTON_A''), (''GLFW_GAMEPAD_BUTTON_CIRCLE'', ''GLFW_GAMEPAD_BUTTON_B''),
      (''GLFW_GAMEPAD_BUTTON_SQUARE'', ''GLFW_GAMEPAD_BUTTON_X''), (''GLFW_GAMEPAD_BUTTON_TRIANGLE'', ''GLFW_GAMEPAD_BUTTON_Y''),
      (''GLFW_HRESIZE_CURSOR'', ''GLFW_RESIZE_EW_CURSOR''), (''GLFW_VRESIZE_CURSOR'', ''GLFW_RESIZE_NS_CURSOR''),
      (''GLFW_HAND_CURSOR'', ''GLFW_POINTING_HAND_CURSOR'')]"

lemma glfw_constants_named: "list_all (\<lambda>(nm, m). nm = m \<or> (nm, m) \<in> set glfw_aliases) glfw_constant_macros"
  by (simp add: glfw_constant_macros_defs glfw_aliases_def)

text \<open>A known name gives the value of its own macro, an unknown one the marker value.\<close>

lemma glfw_find_constant_value:
  assumes "no_nul nm" "nm \<notin> fst ` set glfw_aliases"
  shows "glfw_find_constant (glfw_constants macro) nm =
     (if nm \<in> fst ` set glfw_constant_macros then macro nm else 0xdead)"
proof -
  have find: "um_find nm (glfw_constants macro) = map_option macro (map_of glfw_constant_macros nm)"
    by (simp add: um_find_def glfw_constants_def map_of_map)
  have "m = nm" if "map_of glfw_constant_macros nm = Some m" for m
    using glfw_constants_named map_of_SomeD [OF that] assms(2) by (force simp: list_all_iff)
  then show ?thesis
    using find assms(1) by (cases "map_of glfw_constant_macros nm")
      (auto simp: glfw_find_constant_def map_of_eq_None_iff dest: map_of_SomeD intro: rev_image_eqI)
qed

end
