(* ===== verification/Stbi_Images.thy ===== *)
theory Stbi_Images
  imports Prelude
begin

text \<open>
  The image bindings of \<open>Runtime/Bindings/FFI/stbi/stbi_ffi.cpp\<close>. The decoders and encoders of
  the stb libraries are parameters: a decoder yields the dimensions and maybe a new pixel
  buffer, an encoder hands the encoded image to a callback in chunks and reports success. Pixel
  buffers live on a heap, as an image only holds the address of its data (0 is \<open>nullptr\<close>);
  \<open>None\<close> as a result is undefined behaviour. Sizes are naturals: the sum of the chunk sizes is
  far below \<open>2^64\<close>.
\<close>

section \<open>Data\<close>

type_synonym pixel_heap = "nat \<rightharpoonup> byte list"

record stbi_image =
  width :: int
  height :: int
  data :: nat
  channels :: int

record stbi_color =
  red :: byte
  green :: byte
  blue :: byte
  alpha :: byte

datatype stbi_color_depth =
    NO_CONVERSION | CONVERT_TO_GREYSCALE | CONVERT_TO_GREYSCALE_WITH_ALPHA | CONVERT_TO_RGB
  | CONVERT_TO_RGB_WITH_ALPHA

record luajit_stringbuffer =
  sb_data :: "byte list"
  sb_capacity :: nat
  sb_num_bytes_used :: nat

text \<open>What \<open>stbi_load_from_memory\<close> stores: width, height, channels and the address of the new
  buffer with its content, if decoding succeeded.\<close>

type_synonym decoder = "byte list \<Rightarrow> stbi_color_depth \<Rightarrow> int \<times> int \<times> int \<times> (nat \<times> byte list) option"

text \<open>What an encoder does: success and the chunks it passes to its callback.\<close>

type_synonym encoder = "stbi_image \<Rightarrow> byte list \<Rightarrow> int \<Rightarrow> bool \<times> byte list list"

section \<open>Loading and freeing\<close>

definition stbi_image_info ::
  "(byte list \<Rightarrow> (int \<times> int \<times> int) option) \<Rightarrow> byte list option \<Rightarrow> stbi_image option \<Rightarrow> bool \<times> stbi_image option" where
  "stbi_image_info info buffer im =
     (case (buffer, im) of
        (Some b, Some img) \<Rightarrow>
          (case info b of
             None \<Rightarrow> (False, im)
           | Some (w, h, c) \<Rightarrow> (True, Some (img\<lparr>width := w, height := h, channels := c\<rparr>)))
      | _ \<Rightarrow> (False, im))"

definition load_with ::
  "decoder \<Rightarrow> stbi_color_depth \<Rightarrow> byte list option \<Rightarrow> stbi_image option \<Rightarrow> pixel_heap \<Rightarrow>
   bool \<times> stbi_image option \<times> pixel_heap" where
  "load_with dec depth buffer im h =
     (case (buffer, im) of
        (Some b, Some img) \<Rightarrow>
          (case dec b depth of
             (w, ht, c, r) \<Rightarrow>
               (case r of
                  None \<Rightarrow> (False, Some (img\<lparr>width := w, height := ht, channels := c, data := 0\<rparr>), h)
                | Some (a, px) \<Rightarrow>
                    (a \<noteq> 0, Some (img\<lparr>width := w, height := ht, channels := c, data := a\<rparr>), h(a \<mapsto> px))))
      | _ \<Rightarrow> (False, im, h))"

definition stbi_load_image where
  "stbi_load_image dec = load_with dec NO_CONVERSION"

definition stbi_load_rgb where
  "stbi_load_rgb dec = load_with dec CONVERT_TO_RGB"

definition stbi_load_rgba where
  "stbi_load_rgba dec = load_with dec CONVERT_TO_RGB_WITH_ALPHA"

definition stbi_load_monochrome where
  "stbi_load_monochrome dec = load_with dec CONVERT_TO_GREYSCALE"

definition stbi_load_monochrome_with_alpha where
  "stbi_load_monochrome_with_alpha dec = load_with dec CONVERT_TO_GREYSCALE_WITH_ALPHA"

text \<open>The image keeps the address of the freed buffer.\<close>

definition stbi_image_free :: "stbi_image option \<Rightarrow> pixel_heap \<Rightarrow> (bool \<times> pixel_heap) option" where
  "stbi_image_free im h =
     (case im of
        None \<Rightarrow> Some (False, h)
      | Some img \<Rightarrow>
          (if data img = 0 then Some (False, h)
           else (case h (data img) of None \<Rightarrow> None | Some px \<Rightarrow> Some (True, h(data img := None)))))"

section \<open>Encoding\<close>

definition append_to_buffer :: "byte list \<Rightarrow> luajit_stringbuffer \<Rightarrow> luajit_stringbuffer option" where
  "append_to_buffer chunk result =
     (if \<not> sb_num_bytes_used result + length chunk \<le> sb_capacity result then Some result
      else
        (case write_block (sb_data result) (sb_num_bytes_used result) chunk of
           None \<Rightarrow> None
         | Some d \<Rightarrow> Some (result\<lparr>sb_data := d, sb_num_bytes_used := sb_num_bytes_used result + length chunk\<rparr>)))"

fun append_chunks :: "byte list list \<Rightarrow> luajit_stringbuffer \<Rightarrow> luajit_stringbuffer option" where
  "append_chunks [] result = Some result"
| "append_chunks (c # cs) result =
     (case append_to_buffer c result of None \<Rightarrow> None | Some r \<Rightarrow> append_chunks cs r)"

text \<open>The result is the returned size and the buffer afterwards. Reading a freed or missing pixel
  buffer is undefined.\<close>

definition encode_with ::
  "encoder \<Rightarrow> int \<Rightarrow> stbi_image option \<Rightarrow> byte list option \<Rightarrow> nat \<Rightarrow> pixel_heap \<Rightarrow>
   (nat \<times> byte list option) option" where
  "encode_with enc arg im buffer buffer_size h =
     (case (buffer, im) of
        (Some b, Some img) \<Rightarrow>
          (if data img = 0 then Some (0, buffer)
           else
             (case h (data img) of
                None \<Rightarrow> None
              | Some px \<Rightarrow>
                  (case append_chunks (snd (enc img px arg))
                          \<lparr>sb_data = b, sb_capacity = buffer_size, sb_num_bytes_used = 0\<rparr> of
                     None \<Rightarrow> None
                   | Some result \<Rightarrow> Some (sb_num_bytes_used result, Some (sb_data result)))))
      | _ \<Rightarrow> Some (0, buffer))"

definition stbi_encode_bmp where
  "stbi_encode_bmp write_bmp = encode_with write_bmp 0"

definition stbi_encode_png where
  "stbi_encode_png write_png im buffer buffer_size stride = encode_with write_png stride im buffer buffer_size"

definition stbi_encode_jpg where
  "stbi_encode_jpg write_jpg im buffer buffer_size quality =
     encode_with write_jpg (if quality < 0 \<or> 100 < quality then 100 else quality) im buffer buffer_size"

definition stbi_encode_tga where
  "stbi_encode_tga write_tga = encode_with write_tga 0"

definition count_bytes :: "byte list \<Rightarrow> nat \<Rightarrow> nat" where
  "count_bytes chunk byte_counter = byte_counter + length chunk"

definition required_size :: "encoder \<Rightarrow> int \<Rightarrow> stbi_image option \<Rightarrow> pixel_heap \<Rightarrow> nat option" where
  "required_size enc arg im h =
     (case im of
        None \<Rightarrow> Some 0
      | Some img \<Rightarrow>
          (if data img = 0 then Some 0
           else
             (case h (data img) of
                None \<Rightarrow> None
              | Some px \<Rightarrow>
                  (case enc img px arg of
                     (success, chunks) \<Rightarrow> Some (if \<not> success then 0 else fold count_bytes chunks 0)))))"

definition stbi_get_required_bmp_size where
  "stbi_get_required_bmp_size write_bmp = required_size write_bmp 0"

definition stbi_get_required_png_size where
  "stbi_get_required_png_size write_png im stride = required_size write_png stride im"

definition stbi_get_required_jpg_size where
  "stbi_get_required_jpg_size write_jpg im quality = required_size write_jpg quality im"

definition stbi_get_required_tga_size where
  "stbi_get_required_tga_size write_tga = required_size write_tga 0"

section \<open>Pixel operations\<close>

text \<open>\<open>static_cast<size_t>(width) * static_cast<size_t>(height)\<close>\<close>

definition num_pixels :: "stbi_image \<Rightarrow> nat" where
  "num_pixels img = unat ((word_of_int (width img) :: u64) * word_of_int (height img))"

text \<open>\<open>std::swap\<close> of two elements of the buffer.\<close>

definition swap_bytes :: "nat \<Rightarrow> nat \<Rightarrow> byte list \<Rightarrow> byte list option" where
  "swap_bytes i j px =
     (if i < length px \<and> j < length px then Some (px[i := px ! j, j := px ! i]) else None)"

fun abgr_loop :: "nat \<Rightarrow> nat \<Rightarrow> byte list \<Rightarrow> byte list option" where
  "abgr_loop 0 i px = Some px"
| "abgr_loop (Suc n) i px =
     (case swap_bytes (i * 4) (i * 4 + 3) px of
        None \<Rightarrow> None
      | Some px1 \<Rightarrow>
          (case swap_bytes (i * 4 + 1) (i * 4 + 2) px1 of
             None \<Rightarrow> None
           | Some px2 \<Rightarrow> abgr_loop n (i + 1) px2))"

definition on_pixels ::
  "(byte list \<Rightarrow> byte list option) \<Rightarrow> stbi_image option \<Rightarrow> pixel_heap \<Rightarrow> pixel_heap option" where
  "on_pixels f im h =
     (case im of
        None \<Rightarrow> Some h
      | Some img \<Rightarrow>
          (if data img = 0 then Some h
           else (case h (data img) of
                   None \<Rightarrow> None
                 | Some px \<Rightarrow> map_option (\<lambda>px'. h(data img \<mapsto> px')) (f px))))"

definition stbi_abgr_to_rgba :: "stbi_image option \<Rightarrow> pixel_heap \<Rightarrow> pixel_heap option" where
  "stbi_abgr_to_rgba im =
     on_pixels (abgr_loop (case im of None \<Rightarrow> 0 | Some img \<Rightarrow> num_pixels img) 0) im"

text \<open>
  A colour is passed by address: the null pointer, an object of its own, or a pixel of the image
  itself, which the loop may have changed before. The source colour is read for every pixel, the
  replacement only when the pixel matches.
\<close>

datatype color_pointer = Null_color | Color_object stbi_color | Pixel_at nat

definition read_color :: "color_pointer \<Rightarrow> byte list \<Rightarrow> stbi_color option" where
  "read_color p px =
     (case p of
        Null_color \<Rightarrow> None
      | Color_object c \<Rightarrow> Some c
      | Pixel_at k \<Rightarrow>
          if k * 4 + 3 < length px
          then Some \<lparr>red = px ! (k * 4), green = px ! (k * 4 + 1), blue = px ! (k * 4 + 2), alpha = px ! (k * 4 + 3)\<rparr>
          else None)"

fun replace_loop :: "color_pointer \<Rightarrow> color_pointer \<Rightarrow> nat \<Rightarrow> nat \<Rightarrow> byte list \<Rightarrow> byte list option" where
  "replace_loop source_color replacement_color 0 i px = Some px"
| "replace_loop source_color replacement_color (Suc n) i px =
     (if \<not> i * 4 + 3 < length px then None
      else
     (case read_color source_color px of
        None \<Rightarrow> None
      | Some source \<Rightarrow>
          if px ! (i * 4) = red source \<and> px ! (i * 4 + 1) = green source
            \<and> px ! (i * 4 + 2) = blue source \<and> px ! (i * 4 + 3) = alpha source
          then
            (case read_color replacement_color px of
               None \<Rightarrow> None
             | Some replacement \<Rightarrow>
                 replace_loop source_color replacement_color n (i + 1)
                   (px[i * 4 := red replacement, i * 4 + 1 := green replacement,
                       i * 4 + 2 := blue replacement, i * 4 + 3 := alpha replacement]))
          else replace_loop source_color replacement_color n (i + 1) px))"

definition stbi_replace_pixel_color_rgba ::
  "stbi_image option \<Rightarrow> color_pointer \<Rightarrow> color_pointer \<Rightarrow> pixel_heap \<Rightarrow> pixel_heap option" where
  "stbi_replace_pixel_color_rgba im source_color replacement_color =
     on_pixels (replace_loop source_color replacement_color (case im of None \<Rightarrow> 0 | Some img \<Rightarrow> num_pixels img) 0) im"

section \<open>Specification\<close>

text \<open>The pixels of a buffer of four bytes per pixel, and the two operations on them.\<close>

fun map_pixels :: "(byte list \<Rightarrow> byte list) \<Rightarrow> nat \<Rightarrow> byte list \<Rightarrow> byte list" where
  "map_pixels f 0 px = px"
| "map_pixels f (Suc n) px = f (take 4 px) @ map_pixels f n (drop 4 px)"

definition color_bytes :: "stbi_color \<Rightarrow> byte list" where
  "color_bytes c = [red c, green c, blue c, alpha c]"

abbreviation recolor :: "stbi_color \<Rightarrow> stbi_color \<Rightarrow> byte list \<Rightarrow> byte list" where
  "recolor a b p \<equiv> (if p = color_bytes a then color_bytes b else p)"

section \<open>Lemmas\<close>

lemma take4_split:
  assumes "4 \<le> length ys"
  obtains a b c d zs where "ys = a # b # c # d # zs"
  using assms by (auto simp: Suc_le_length_iff numeral_eq_Suc)

lemma abgr_loop_run:
  assumes "length xs = i * 4" "n * 4 \<le> length ys"
  shows "abgr_loop n i (xs @ ys) = Some (xs @ map_pixels rev n ys)"
  using assms
proof (induction n arbitrary: i xs ys)
  case (Suc n)
  have "4 \<le> length ys" using Suc.prems(2) by simp
  then obtain a b c d zs where ys: "ys = a # b # c # d # zs" by (rule take4_split)
  have "swap_bytes (i * 4) (i * 4 + 3) (xs @ ys) = Some (xs @ d # b # c # a # zs)"
    using Suc.prems(1) by (simp add: swap_bytes_def ys nth_append list_update_append)
  moreover have "swap_bytes (i * 4 + 1) (i * 4 + 2) (xs @ d # b # c # a # zs) = Some ((xs @ [d, c, b, a]) @ zs)"
    using Suc.prems(1) by (simp add: swap_bytes_def nth_append list_update_append)
  ultimately show ?case
    using Suc.IH [of "xs @ [d, c, b, a]" "i + 1" zs] Suc.prems ys by simp
qed simp

lemma replace_loop_run:
  assumes "length xs = i * 4" "n * 4 \<le> length ys"
  shows "replace_loop (Color_object s) (Color_object r) n i (xs @ ys) = Some (xs @ map_pixels (recolor s r) n ys)"
  using assms
proof (induction n arbitrary: i xs ys)
  case (Suc n)
  have "4 \<le> length ys" using Suc.prems(2) by simp
  then obtain a b c d zs where ys: "ys = a # b # c # d # zs" by (rule take4_split)
  have u: "(xs @ ys)[i * 4 := a', i * 4 + 1 := b', i * 4 + 2 := c', i * 4 + 3 := d'] = (xs @ [a', b', c', d']) @ zs"
    for a' b' c' d' using Suc.prems(1) by (simp add: ys list_update_append)
  have "replace_loop (Color_object s) (Color_object r) (Suc n) i (xs @ ys) = replace_loop (Color_object s) (Color_object r) n (i + 1) ((xs @ recolor s r [a, b, c, d]) @ zs)"
    using Suc.prems(1) u unfolding replace_loop.simps
    by (auto simp: ys nth_append color_bytes_def read_color_def)
  then show ?case
    using Suc.IH [of "xs @ recolor s r [a, b, c, d]" "i + 1" zs] Suc.prems ys by (simp add: color_bytes_def)
qed simp

lemma map_pixels_rev_rev: "n * 4 \<le> length px \<Longrightarrow> map_pixels rev n (map_pixels rev n px) = px"
proof (induction n arbitrary: px)
  case (Suc n)
  then show ?case by (simp add: min_def)
qed simp

lemma length_map_pixels:
  "(\<And>p. length p = 4 \<Longrightarrow> length (f p) = 4) \<Longrightarrow> n * 4 \<le> length px \<Longrightarrow> length (map_pixels f n px) = length px"
  by (induction n arbitrary: px) (auto simp: min_def)

lemma num_pixels_small:
  assumes "0 \<le> width img" "width img < 2 ^ 31" "0 \<le> height img" "height img < 2 ^ 31"
  shows "num_pixels img = nat (width img) * nat (height img)"
proof -
  have "width img * height img < 2 ^ 31 * 2 ^ 31"
    using assms by (intro mult_strict_mono') auto
  then have "uint ((word_of_int (width img) :: u64) * word_of_int (height img)) = width img * height img"
    using assms by (simp add: uint_word_ariths unsigned_of_int take_bit_int_eq_self)
  then show ?thesis using assms by (simp add: num_pixels_def unat_eq_nat_uint nat_mult_distrib)
qed

lemma append_chunks_all:
  assumes "sb_num_bytes_used r + length (concat cs) \<le> sb_capacity r" "sb_capacity r \<le> length (sb_data r)"
  shows "append_chunks cs r = Some (r\<lparr>sb_data := take (sb_num_bytes_used r) (sb_data r) @ concat cs
      @ drop (sb_num_bytes_used r + length (concat cs)) (sb_data r),
      sb_num_bytes_used := sb_num_bytes_used r + length (concat cs)\<rparr>)"
  using assms
proof (induction cs arbitrary: r)
  case (Cons c cs)
  let ?u = "sb_num_bytes_used r"
  let ?d = "take ?u (sb_data r) @ c @ drop (?u + length c) (sb_data r)"
  let ?r = "r\<lparr>sb_data := ?d, sb_num_bytes_used := ?u + length c\<rparr>"
  have "append_to_buffer c r = Some ?r"
    using Cons.prems by (simp add: append_to_buffer_def write_block_def)
  moreover have u: "length (take ?u (sb_data r)) = ?u" using Cons.prems by simp
  moreover have "take (?u + length c) ?d = take ?u (sb_data r) @ c"
    using take_append [of "?u + length c" "take ?u (sb_data r) @ c"] u by simp
  moreover have "drop (?u + length c + n) ?d = drop (?u + length c + n) (sb_data r)" for n
    using drop_append [of "?u + length c + n" "take ?u (sb_data r) @ c"] u by (simp add: add.commute)
  ultimately show ?case using Cons.IH [of ?r] Cons.prems by (simp add: add.assoc)
qed simp

lemma append_chunks_safe:
  assumes "sb_num_bytes_used r \<le> sb_capacity r" "sb_capacity r \<le> length (sb_data r)"
  shows "\<exists>r'. append_chunks cs r = Some r' \<and> sb_num_bytes_used r' \<le> sb_capacity r
     \<and> length (sb_data r') = length (sb_data r) \<and> drop (sb_capacity r) (sb_data r') = drop (sb_capacity r) (sb_data r)"
  using assms
proof (induction cs arbitrary: r)
  case (Cons c cs)
  show ?case
  proof (cases "sb_num_bytes_used r + length c \<le> sb_capacity r")
    case True
    let ?d = "take (sb_num_bytes_used r) (sb_data r) @ c @ drop (sb_num_bytes_used r + length c) (sb_data r)"
    let ?r = "r\<lparr>sb_data := ?d, sb_num_bytes_used := sb_num_bytes_used r + length c\<rparr>"
    have "append_to_buffer c r = Some ?r"
      using True Cons.prems by (simp add: append_to_buffer_def write_block_def)
    moreover have u: "length (take (sb_num_bytes_used r) (sb_data r)) = sb_num_bytes_used r"
      using Cons.prems by simp
    moreover have "length ?d = length (sb_data r)" using True Cons.prems u by simp
    moreover have "drop (sb_capacity r) ?d = drop (sb_capacity r) (sb_data r)"
      using drop_append [of "sb_capacity r" "take (sb_num_bytes_used r) (sb_data r) @ c"] u True by simp
    ultimately show ?thesis using Cons.IH [of ?r] True Cons.prems by auto
  qed (use Cons in \<open>simp add: append_to_buffer_def\<close>)
qed auto

lemma fold_count_bytes: "fold count_bytes cs n = n + length (concat cs)"
  by (induction cs arbitrary: n) (simp_all add: count_bytes_def)

lemma encode_with_fits:
  assumes "data img \<noteq> 0" "h (data img) = Some px" "enc img px arg = (True, chunks)"
    and "length (concat chunks) \<le> buffer_size" "buffer_size \<le> length b"
  shows "required_size enc arg (Some img) h = Some (length (concat chunks))"
    and "encode_with enc arg (Some img) (Some b) buffer_size h =
      Some (length (concat chunks), Some (concat chunks @ drop (length (concat chunks)) b))"
  using assms append_chunks_all [of "\<lparr>sb_data = b, sb_capacity = buffer_size, sb_num_bytes_used = 0\<rparr>" chunks]
  by (simp_all add: required_size_def encode_with_def fold_count_bytes)

text \<open>
  An encoder whose output does not fit: chunks that do not fit are dropped, but a later smaller
  one is still appended, and the size of this mutilated output is returned as if nothing happened.
\<close>

lemma encode_drops_middle_chunk:
  assumes "data img \<noteq> 0" "h (data img) = Some px" "snd (enc img px 0) = [[1], [2, 3, 4], [5]]"
  shows "stbi_encode_bmp enc (Some img) (Some [0, 0]) 2 h = Some (2, Some [1, 5])"
  using assms by (simp add: stbi_encode_bmp_def encode_with_def append_to_buffer_def write_block_def)

text \<open>A quality outside 0..100 is clamped when encoding, but not when asking for the size.\<close>

lemma jpg_quality_mismatch:
  "stbi_encode_jpg enc im b n 101 h = encode_with enc 100 im b n h"
  "stbi_get_required_jpg_size enc im 101 h = required_size enc 101 im h"
  by (simp_all add: stbi_encode_jpg_def stbi_get_required_jpg_size_def)

text \<open>Freeing twice is undefined, as the address is not reset.\<close>

lemma stbi_image_free_twice:
  assumes "data img \<noteq> 0" "h (data img) \<noteq> None"
  shows "\<exists>h'. stbi_image_free (Some img) h = Some (True, h') \<and> stbi_image_free (Some img) h' = None"
  using assms by (auto simp: stbi_image_free_def)

section \<open>Properties\<close>

text \<open>The four formats with their arguments, and the exported functions for each.\<close>

datatype image_format = BMP | PNG int | JPG int | TGA

record stb_writers =
  write_bmp :: encoder
  write_png :: encoder
  write_jpg :: encoder
  write_tga :: encoder

fun encode_as :: "stb_writers \<Rightarrow> image_format \<Rightarrow> stbi_image option \<Rightarrow> byte list option \<Rightarrow> nat \<Rightarrow> pixel_heap \<Rightarrow>
    (nat \<times> byte list option) option" where
  "encode_as w BMP im b n h = stbi_encode_bmp (write_bmp w) im b n h"
| "encode_as w (PNG stride) im b n h = stbi_encode_png (write_png w) im b n stride h"
| "encode_as w (JPG quality) im b n h = stbi_encode_jpg (write_jpg w) im b n quality h"
| "encode_as w TGA im b n h = stbi_encode_tga (write_tga w) im b n h"

fun required_as :: "stb_writers \<Rightarrow> image_format \<Rightarrow> stbi_image option \<Rightarrow> pixel_heap \<Rightarrow> nat option" where
  "required_as w BMP im h = stbi_get_required_bmp_size (write_bmp w) im h"
| "required_as w (PNG stride) im h = stbi_get_required_png_size (write_png w) im stride h"
| "required_as w (JPG quality) im h = stbi_get_required_jpg_size (write_jpg w) im quality h"
| "required_as w TGA im h = stbi_get_required_tga_size (write_tga w) im h"

text \<open>What the library writes for an image in a format.\<close>

fun file_of :: "stb_writers \<Rightarrow> image_format \<Rightarrow> stbi_image \<Rightarrow> byte list \<Rightarrow> bool \<times> byte list list" where
  "file_of w BMP img px = write_bmp w img px 0"
| "file_of w (PNG stride) img px = write_png w img px stride"
| "file_of w (JPG quality) img px = write_jpg w img px quality"
| "file_of w TGA img px = write_tga w img px 0"

definition quality_ok :: "image_format \<Rightarrow> bool" where
  "quality_ok fmt = (case fmt of JPG quality \<Rightarrow> 0 \<le> quality \<and> quality \<le> 100 | _ \<Rightarrow> True)"

lemma format_functions:
  assumes "quality_ok fmt"
  shows "\<exists>enc arg. (\<forall>img px. file_of w fmt img px = enc img px arg)
     \<and> (\<forall>im b n h. encode_as w fmt im b n h = encode_with enc arg im b n h)
     \<and> (\<forall>im h. required_as w fmt im h = required_size enc arg im h)"
proof (cases fmt)
  case (JPG quality)
  then show ?thesis using assms
    by (intro exI [of _ "write_jpg w"] exI [of _ quality])
      (simp add: quality_ok_def stbi_encode_jpg_def stbi_get_required_jpg_size_def)
qed (auto simp: stbi_encode_bmp_def stbi_encode_png_def stbi_encode_tga_def stbi_get_required_bmp_size_def
    stbi_get_required_png_size_def stbi_get_required_tga_size_def)

text \<open>
  C28. The size queries and the encoders of all four formats agree, for JPG with a quality from 0 to
  100. The size query reports the size of the file that the library writes, or 0 when
  it fails. With a buffer of at least that size, encoding stores exactly the whole file, returns
  its size and leaves the rest of the buffer alone. With any buffer size it never writes outside the
  given size.
\<close>

theorem stbi_encode_complete:
  assumes "data img \<noteq> 0" "h (data img) = Some px" "quality_ok fmt" "buffer_size \<le> length b"
  shows "(case file_of w fmt img px of
        (success, chunks) \<Rightarrow>
          required_as w fmt (Some img) h = Some (if success then length (concat chunks) else 0)
          \<and> (length (concat chunks) \<le> buffer_size \<longrightarrow>
               encode_as w fmt (Some img) (Some b) buffer_size h =
                 Some (length (concat chunks), Some (concat chunks @ drop (length (concat chunks)) b))))
    \<and> (\<exists>k b'. encode_as w fmt (Some img) (Some b) buffer_size h = Some (k, Some b')
        \<and> k \<le> buffer_size \<and> length b' = length b \<and> drop buffer_size b' = drop buffer_size b)"
proof -
  obtain enc arg where f: "\<And>img px. file_of w fmt img px = enc img px arg"
    "\<And>im b n h. encode_as w fmt im b n h = encode_with enc arg im b n h"
    "\<And>im h. required_as w fmt im h = required_size enc arg im h"
    using format_functions [OF assms(3)] by metis
  obtain success chunks where e: "enc img px arg = (success, chunks)" by fastforce
  show ?thesis
    unfolding f e
    using append_chunks_all [of "\<lparr>sb_data = b, sb_capacity = buffer_size, sb_num_bytes_used = 0\<rparr>" chunks]
      append_chunks_safe [of "\<lparr>sb_data = b, sb_capacity = buffer_size, sb_num_bytes_used = 0\<rparr>" chunks] assms e
    by (auto simp: required_size_def encode_with_def fold_count_bytes)
qed

definition sample_writers :: stb_writers where
  "sample_writers = \<lparr>write_bmp = (\<lambda>img px arg. (True, [[66, 77], px])), write_png = (\<lambda>img px arg. (True, [[137, 80], px])),
     write_jpg = (\<lambda>img px arg. (True, [[255, word_of_int arg], px])), write_tga = (\<lambda>img px arg. (True, [px]))\<rparr>"

theorem stbi_encode_complete_witness:
  "encode_as sample_writers (JPG 90) (Some \<lparr>width = 1, height = 1, data = 5, channels = 4\<rparr>)
      (Some [0, 0, 0, 0, 0, 9]) 6 [5 \<mapsto> [1, 2, 3]] = Some (5, Some [255, 90, 1, 2, 3, 9])
   \<and> required_as sample_writers (JPG 90) (Some \<lparr>width = 1, height = 1, data = 5, channels = 4\<rparr>) [5 \<mapsto> [1, 2, 3]] = Some 5"
  using stbi_encode_complete [of "\<lparr>width = 1, height = 1, data = 5, channels = 4\<rparr>" "[5 \<mapsto> [1, 2, 3]]" "[1, 2, 3]"
      "JPG 90" 6 "[0, 0, 0, 0, 0, 9]" sample_writers]
  by (simp add: quality_ok_def sample_writers_def)

text \<open>
  C29. Converting ABGR to RGBA reverses the bytes of every pixel in place, touches nothing behind
  the last pixel and no other buffer, and doing it twice restores the image; replacing a colour
  (colours given by objects outside the image) changes exactly the pixels that have it.
\<close>

theorem stbi_pixel_operations:
  assumes "data img \<noteq> 0" "h (data img) = Some px" "nat (width img) * nat (height img) * 4 \<le> length px"
    and "0 \<le> width img" "width img < 2 ^ 31" "0 \<le> height img" "height img < 2 ^ 31"
  shows "\<exists>h'. stbi_abgr_to_rgba (Some img) h = Some h'
      \<and> h' = h(data img \<mapsto> map_pixels rev (nat (width img) * nat (height img)) px)
      \<and> stbi_abgr_to_rgba (Some img) h' = Some h
      \<and> stbi_replace_pixel_color_rgba (Some img) (Color_object c) (Color_object d) h =
          Some (h(data img \<mapsto> map_pixels (recolor c d) (nat (width img) * nat (height img)) px))"
proof -
  let ?n = "nat (width img) * nat (height img)"
  let ?px = "map_pixels rev ?n px"
  have n: "num_pixels img = ?n" using assms(4-7) by (rule num_pixels_small)
  have l: "length ?px = length px" using assms(3) by (intro length_map_pixels) simp_all
  have a: "abgr_loop ?n 0 px = Some ?px" "abgr_loop ?n 0 ?px = Some px"
    using abgr_loop_run [of "[]" 0 ?n px] abgr_loop_run [of "[]" 0 ?n ?px] assms(3) l map_pixels_rev_rev by simp_all
  have "h(data img \<mapsto> px) = h" using assms(2) by auto
  then show ?thesis
    using assms(1,2) a replace_loop_run [of "[]" 0 ?n px c d] assms(3)
    by (simp add: stbi_abgr_to_rgba_def stbi_replace_pixel_color_rgba_def on_pixels_def n)
qed

theorem stbi_pixel_operations_witness:
  "stbi_abgr_to_rgba (Some \<lparr>width = 1, height = 2, data = 5, channels = 4\<rparr>) [5 \<mapsto> [1, 2, 3, 4, 5, 6, 7, 8, 9]]
     = Some [5 \<mapsto> [4, 3, 2, 1, 8, 7, 6, 5, 9]]"
  using stbi_pixel_operations [of "\<lparr>width = 1, height = 2, data = 5, channels = 4\<rparr>"
      "[5 \<mapsto> [1, 2, 3, 4, 5, 6, 7, 8, 9]]" "[1, 2, 3, 4, 5, 6, 7, 8, 9]"]
  by (simp add: numeral_2_eq_2)

end
