(* ===== verification/Iconv_Convert.thy ===== *)
theory Iconv_Convert
  imports Prelude "HOL-Library.Monad_Syntax"
begin

text \<open>
  The character set conversion of \<open>Runtime/Bindings/FFI/iconv/iconv_ffi.cpp\<close>. The iconv library
  is a parameter \<open>lib\<close>: what \<open>iconv_open\<close>, \<open>iconv\<close> and \<open>iconv_close\<close> return. The state holds the
  memory the cursors point into, the descriptors that are open and \<open>errno\<close>. \<open>ASSUME\<close> is an
  assertion in debug builds and nothing in release builds; \<open>ndebug\<close> says which. A failed
  assertion and the use of a descriptor that is not open are faults.
\<close>

section \<open>Data\<close>

datatype iconv_result =
    ICONV_RESULT_OK
  | ICONV_INVALID_REQUEST
  | ICONV_INVALID_DESCRIPTOR
  | ICONV_INVALID_INPUT
  | ICONV_INVALID_OUTPUT
  | ICONV_CONVERSION_FAILED
  | ICONV_INCOMPLETE_INPUT
  | ICONV_WRITEBUFFER_FULL
  | ICONV_RESULT_LAST

fun iconv_result_code :: "iconv_result \<Rightarrow> int" where
  "iconv_result_code ICONV_RESULT_OK = 0"
| "iconv_result_code ICONV_INVALID_REQUEST = 1"
| "iconv_result_code ICONV_INVALID_DESCRIPTOR = 2"
| "iconv_result_code ICONV_INVALID_INPUT = 3"
| "iconv_result_code ICONV_INVALID_OUTPUT = 4"
| "iconv_result_code ICONV_CONVERSION_FAILED = 5"
| "iconv_result_code ICONV_INCOMPLETE_INPUT = 6"
| "iconv_result_code ICONV_WRITEBUFFER_FULL = 7"
| "iconv_result_code ICONV_RESULT_LAST = 8"

text \<open>Pointers and descriptors are numbers; 0 is the null pointer.\<close>

record iconv_memory =
  charset :: string
  buffer :: nat
  length_of :: nat
  remaining :: nat

record iconv_request =
  input_of :: iconv_memory
  output_of :: iconv_memory
  handle :: nat

datatype errno = EILSEQ | EINVAL | E2BIG | Other_errno int

record iconv_state =
  mem :: "nat \<Rightarrow> byte"
  open_handles :: "nat list"
  errno :: errno

text \<open>
  \<open>lib_open\<close> gives a descriptor or an error; \<open>lib_iconv\<close> the number of input bytes consumed, the
  bytes written and the returned value or an error; \<open>lib_close\<close> an error, or none.
\<close>

record iconv_lib =
  lib_open :: "string \<Rightarrow> string \<Rightarrow> nat list \<Rightarrow> nat + errno"
  lib_iconv :: "nat \<Rightarrow> byte list \<Rightarrow> nat \<Rightarrow> nat \<times> byte list \<times> (nat + errno)"
  lib_close :: "nat \<Rightarrow> errno option"

datatype iconv_fault = Assumption_failed | Bad_descriptor

definition ICONV_INVALID_HANDLE :: nat where
  "ICONV_INVALID_HANDLE = SIZE_MAX"

definition ICONV_INVALID_SIZE :: nat where
  "ICONV_INVALID_SIZE = SIZE_MAX"

definition iconv_error_strings :: "string list" where
  "iconv_error_strings =
     [''Success: Not an error'',
      ''Failed: Invalid conversion request'',
      ''Failed: Not a valid conversion descriptor'',
      ''Failed: The provided input buffer is invalid, uninitialized, or has been corrupted'',
      ''Failed: The provided output buffer is invalid, uninitialized, or has been corrupted'',
      ''Failed: An invalid multibyte sequence was encountered within the input'',
      ''Failed: The input ended prematurely or with an incomplete multibyte sequence'',
      ''Failed: The provided output buffer is too small to store the conversion result'',
      ''Undefined: This should never happen'']"

section \<open>The library calls\<close>

definition read_mem :: "(nat \<Rightarrow> byte) \<Rightarrow> nat \<Rightarrow> nat \<Rightarrow> byte list" where
  "read_mem m a n = map m [a..<a + n]"

definition write_mem :: "(nat \<Rightarrow> byte) \<Rightarrow> nat \<Rightarrow> byte list \<Rightarrow> nat \<Rightarrow> byte" where
  "write_mem m a bs = (\<lambda>x. if a \<le> x \<and> x < a + length bs then bs ! (x - a) else m x)"

definition call_open :: "iconv_lib \<Rightarrow> string \<Rightarrow> string \<Rightarrow> iconv_state \<Rightarrow> nat \<times> iconv_state" where
  "call_open lib tocode fromcode s =
     (case lib_open lib tocode fromcode (open_handles s) of
        Inl h \<Rightarrow> (h, s\<lparr>open_handles := h # open_handles s\<rparr>)
      | Inr e \<Rightarrow> (ICONV_INVALID_HANDLE, s\<lparr>errno := e\<rparr>))"

text \<open>\<open>iconv\<close> advances both cursors and decreases both counters by what it used.\<close>

definition call_iconv ::
  "iconv_lib \<Rightarrow> iconv_request \<Rightarrow> iconv_state \<Rightarrow> iconv_fault + (nat \<times> iconv_request \<times> iconv_state)" where
  "call_iconv lib request s =
     (if handle request \<notin> set (open_handles s) then Inl Bad_descriptor
      else
        (let i = input_of request; out = output_of request;
             (k, bs, r) = lib_iconv lib (handle request) (read_mem (mem s) (buffer i) (remaining i)) (remaining out);
             request' = request\<lparr>input_of := i\<lparr>buffer := buffer i + k, remaining := remaining i - k\<rparr>,
                                output_of := out\<lparr>buffer := buffer out + length bs, remaining := remaining out - length bs\<rparr>\<rparr>;
             s' = s\<lparr>mem := write_mem (mem s) (buffer out) bs\<rparr>
         in case r of
              Inl n \<Rightarrow> Inr (n, request', s')
            | Inr e \<Rightarrow> Inr (ICONV_INVALID_SIZE, request', s'\<lparr>errno := e\<rparr>)))"

definition call_close :: "iconv_lib \<Rightarrow> nat \<Rightarrow> iconv_state \<Rightarrow> iconv_fault + (int \<times> iconv_state)" where
  "call_close lib h s =
     (if h \<notin> set (open_handles s) then Inl Bad_descriptor
      else case lib_close lib h of
             None \<Rightarrow> Inr (0, s\<lparr>open_handles := removeAll h (open_handles s)\<rparr>)
           | Some e \<Rightarrow> Inr (- 1, s\<lparr>errno := e\<rparr>))"

section \<open>The operations\<close>

definition ASSUME :: "bool \<Rightarrow> bool \<Rightarrow> (iconv_fault + 'a) \<Rightarrow> iconv_fault + 'a" where
  "ASSUME ndebug condition k = (if \<not> ndebug \<and> \<not> condition then Inl Assumption_failed else k)"

definition sanity_check_descriptor :: "nat \<Rightarrow> bool" where
  "sanity_check_descriptor h = (h \<noteq> ICONV_INVALID_HANDLE)"

definition sanity_check_buffer :: "bool \<Rightarrow> iconv_memory \<Rightarrow> iconv_fault + bool" where
  "sanity_check_buffer ndebug workload =
     (if buffer workload = 0 then Inr False
      else ASSUME ndebug (length_of workload \<le> remaining workload)
        (if length_of workload < remaining workload then Inr False else Inr True))"

definition iconv_check_result :: "nat \<Rightarrow> bool" where
  "iconv_check_result h = sanity_check_descriptor h"

text \<open>The status comes from Lua as an integer; the table has no entry outside its bounds.\<close>

definition iconv_strerror :: "int \<Rightarrow> string option" where
  "iconv_strerror status =
     (let st1 = (if status < iconv_result_code ICONV_RESULT_OK then iconv_result_code ICONV_RESULT_LAST else status);
          st2 = min st1 (iconv_result_code ICONV_RESULT_LAST)
      in if nat st2 < length iconv_error_strings then Some (iconv_error_strings ! nat st2) else None)"

fun iconv_check_errno :: "errno \<Rightarrow> iconv_result" where
  "iconv_check_errno EILSEQ = ICONV_CONVERSION_FAILED"
| "iconv_check_errno EINVAL = ICONV_INCOMPLETE_INPUT"
| "iconv_check_errno E2BIG = ICONV_WRITEBUFFER_FULL"
| "iconv_check_errno (Other_errno n) = ICONV_RESULT_LAST"

definition iconv_try_close ::
  "iconv_lib \<Rightarrow> bool \<Rightarrow> iconv_request option \<Rightarrow> iconv_state \<Rightarrow> iconv_fault + (iconv_result \<times> iconv_state)" where
  "iconv_try_close lib ndebug req s =
     (case req of
        None \<Rightarrow> Inr (ICONV_INVALID_REQUEST, s)
      | Some request \<Rightarrow>
          if handle request = 0 then Inr (ICONV_INVALID_DESCRIPTOR, s)
          else if \<not> sanity_check_descriptor (handle request) then Inr (ICONV_INVALID_DESCRIPTOR, s)
          else (case call_close lib (handle request) s of
                  Inl e \<Rightarrow> Inl e
                | Inr (result, s') \<Rightarrow>
                    ASSUME ndebug (result = 0)
                      (if result \<noteq> 0 then Inr (iconv_check_errno (errno s'), s')
                       else Inr (ICONV_RESULT_OK, s'))))"

definition iconv_convert ::
  "iconv_lib \<Rightarrow> bool \<Rightarrow> iconv_request option \<Rightarrow> iconv_state \<Rightarrow>
   iconv_fault + (iconv_result \<times> iconv_request option \<times> iconv_state)" where
  "iconv_convert lib ndebug req s =
     (case req of
        None \<Rightarrow> Inr (ICONV_INVALID_REQUEST, None, s)
      | Some request \<Rightarrow>
     (case sanity_check_buffer ndebug (input_of request) of
        Inl e \<Rightarrow> Inl e
      | Inr ok \<Rightarrow> if \<not> ok then Inr (ICONV_INVALID_INPUT, Some request, s) else
     (case sanity_check_buffer ndebug (output_of request) of
        Inl e \<Rightarrow> Inl e
      | Inr ok2 \<Rightarrow> if \<not> ok2 then Inr (ICONV_INVALID_OUTPUT, Some request, s) else
     (let (h, s1) = call_open lib (charset (output_of request)) (charset (input_of request)) s;
          request1 = request\<lparr>handle := h\<rparr>
      in if \<not> sanity_check_descriptor (handle request1)
         then Inr (iconv_check_errno (errno s1), Some request1, s1)
         else
     (case call_iconv lib request1 s1 of
        Inl e \<Rightarrow> Inl e
      | Inr (numBytesIrreversiblyWritten, request2, s2) \<Rightarrow>
          if numBytesIrreversiblyWritten = ICONV_INVALID_SIZE
          then Inr (iconv_check_errno (errno s2), Some request2, s2)
          else if \<not> sanity_check_descriptor (handle request2)
          then (let result = iconv_check_errno (errno s2) in
                if ndebug then Inr (result, Some request2, s2)
                else (case iconv_try_close lib ndebug (Some request2) s2 of
                        Inl e \<Rightarrow> Inl e
                      | Inr (r, s3) \<Rightarrow> ASSUME ndebug (r = ICONV_INVALID_DESCRIPTOR) (Inr (result, Some request2, s3))))
          else (case iconv_try_close lib ndebug (Some request2) s2 of
                  Inl e \<Rightarrow> Inl e
                | Inr (result, s3) \<Rightarrow>
                    ASSUME ndebug (result = ICONV_RESULT_OK) (Inr (result, Some request2, s3))))))))"

section \<open>Documented behaviour of the library\<close>

text \<open>
  \<open>iconv_open\<close> returns a new descriptor that is neither null nor \<open>(iconv_t)-1\<close>; \<open>iconv\<close> stays
  within both buffers and returns \<open>(size_t)-1\<close> only for errors; closing an open descriptor works.
\<close>

definition iconv_contract :: "iconv_lib \<Rightarrow> bool" where
  "iconv_contract lib \<longleftrightarrow>
     (\<forall>to from hs h. lib_open lib to from hs = Inl h \<longrightarrow> h \<noteq> 0 \<and> h \<noteq> ICONV_INVALID_HANDLE \<and> h \<notin> set hs) \<and>
     (\<forall>h xs n k bs r. lib_iconv lib h xs n = (k, bs, r) \<longrightarrow>
        k \<le> length xs \<and> length bs \<le> n \<and> (\<forall>m. r = Inl m \<longrightarrow> m \<noteq> ICONV_INVALID_SIZE)) \<and>
     (\<forall>h. lib_close lib h = None)"

text \<open>A buffer that was set up for a new conversion.\<close>

definition fresh_workload :: "iconv_memory \<Rightarrow> bool" where
  "fresh_workload m \<longleftrightarrow> buffer m \<noteq> 0 \<and> remaining m = length_of m"

lemma sanity_check_fresh: "fresh_workload m \<Longrightarrow> sanity_check_buffer ndebug m = Inr True"
  by (simp add: fresh_workload_def sanity_check_buffer_def ASSUME_def)

lemma sanity_check_buffer_cases:
  "sanity_check_buffer True m = Inr (buffer m \<noteq> 0 \<and> remaining m \<le> length_of m)"
  "sanity_check_buffer False m =
     (if buffer m = 0 then Inr False
      else if remaining m < length_of m then Inl Assumption_failed
      else Inr (remaining m = length_of m))"
  by (auto simp: sanity_check_buffer_def ASSUME_def)

text \<open>
  The check and its assertion contradict each other: a buffer that was partly consumed passes the
  check of a release build and stops a debug build.
\<close>

lemma resumed_workload_asserts:
  assumes "buffer m \<noteq> 0" "remaining m < length_of m"
  shows "sanity_check_buffer True m = Inr True" "sanity_check_buffer False m = Inl Assumption_failed"
  using assms by (simp_all add: sanity_check_buffer_cases)

lemma write_mem_outside: "x < a \<or> a + length bs \<le> x \<Longrightarrow> write_mem m a bs x = m x"
  by (auto simp: write_mem_def)

lemma read_write_mem: "read_mem (write_mem m a bs) a (length bs) = bs"
  unfolding read_mem_def write_mem_def by (rule nth_equalityI) simp_all

lemma length_read_mem [simp]: "length (read_mem m a n) = n"
  by (simp add: read_mem_def)

lemma contract_bounds:
  assumes "iconv_contract lib" "lib_iconv lib h xs n = (k, bs, r)"
  shows "k \<le> length xs" "length bs \<le> n"
  using assms by (simp_all add: iconv_contract_def)

lemma removeAll_fresh [simp]: "h \<notin> set hs \<Longrightarrow> removeAll h hs = hs"
  by (rule removeAll_id)

lemma try_close_open:
  assumes "iconv_contract lib" "handle req \<noteq> 0" "handle req \<noteq> ICONV_INVALID_HANDLE" "handle req \<in> set (open_handles s)"
  shows "iconv_try_close lib ndebug (Some req) s =
     Inr (ICONV_RESULT_OK, s\<lparr>open_handles := removeAll (handle req) (open_handles s)\<rparr>)"
  using assms by (simp add: iconv_try_close_def call_close_def ASSUME_def sanity_check_descriptor_def iconv_contract_def)

text \<open>The request after \<open>iconv\<close> consumed \<open>k\<close> bytes and wrote \<open>n\<close>.\<close>

definition advanced :: "iconv_request \<Rightarrow> nat \<Rightarrow> nat \<Rightarrow> nat \<Rightarrow> iconv_request" where
  "advanced req h k n = req\<lparr>handle := h,
     input_of := (input_of req)\<lparr>buffer := buffer (input_of req) + k, remaining := remaining (input_of req) - k\<rparr>,
     output_of := (output_of req)\<lparr>buffer := buffer (output_of req) + n, remaining := remaining (output_of req) - n\<rparr>\<rparr>"

lemma iconv_convert_run:
  assumes c: "iconv_contract lib" and "fresh_workload (input_of req)" "fresh_workload (output_of req)"
  shows "iconv_convert lib ndebug (Some req) s =
     (case lib_open lib (charset (output_of req)) (charset (input_of req)) (open_handles s) of
        Inr e \<Rightarrow> Inr (iconv_check_errno e, Some (req\<lparr>handle := ICONV_INVALID_HANDLE\<rparr>), s\<lparr>errno := e\<rparr>)
      | Inl h \<Rightarrow>
          (case lib_iconv lib h (read_mem (mem s) (buffer (input_of req)) (remaining (input_of req))) (remaining (output_of req)) of
             (k, bs, Inl n) \<Rightarrow> Inr (ICONV_RESULT_OK, Some (advanced req h k (length bs)),
                s\<lparr>mem := write_mem (mem s) (buffer (output_of req)) bs\<rparr>)
           | (k, bs, Inr e) \<Rightarrow> Inr (iconv_check_errno e, Some (advanced req h k (length bs)),
                s\<lparr>mem := write_mem (mem s) (buffer (output_of req)) bs, open_handles := h # open_handles s, errno := e\<rparr>)))"
proof (cases "lib_open lib (charset (output_of req)) (charset (input_of req)) (open_handles s)")
  case (Inr e)
  then show ?thesis
    using assms by (simp add: iconv_convert_def sanity_check_fresh call_open_def sanity_check_descriptor_def)
next
  case (Inl h)
  then have h: "h \<noteq> 0" "h \<noteq> ICONV_INVALID_HANDLE" "h \<notin> set (open_handles s)"
    using c by (auto simp: iconv_contract_def)
  obtain k bs r where i: "lib_iconv lib h (read_mem (mem s) (buffer (input_of req)) (remaining (input_of req)))
      (remaining (output_of req)) = (k, bs, r)" by (metis prod_cases3)
  then have "\<forall>m. r = Inl m \<longrightarrow> m \<noteq> ICONV_INVALID_SIZE" using c by (simp add: iconv_contract_def)
  then show ?thesis
    using assms(2,3) Inl h i try_close_open [OF c]
    by (cases r) (simp_all add: iconv_convert_def sanity_check_fresh call_open_def sanity_check_descriptor_def
        call_iconv_def advanced_def ASSUME_def Let_def)
qed

section \<open>Properties\<close>

text \<open>
  C13. Converting a request whose two buffers are freshly set up never faults, in debug and in
  release builds, and leaves all memory outside the output buffer alone. If the library refuses
  the charsets, the status is that of the error and neither memory nor descriptors change.
  Otherwise what the library wrote is in the output buffer and both counters say how much was
  used; if the library converted the input, the status is OK and the descriptor is closed again,
  and if it stopped with an error, the status is that of the error and the descriptor is still
  open and in the request.
\<close>

theorem iconv_convert_correct:
  assumes "iconv_contract lib" "fresh_workload (input_of req)" "fresh_workload (output_of req)"
  shows "\<exists>result req' s'. iconv_convert lib ndebug (Some req) s = Inr (result, Some req', s')
     \<and> (\<forall>x. x < buffer (output_of req) \<or> buffer (output_of req) + length_of (output_of req) \<le> x \<longrightarrow> mem s' x = mem s x)
     \<and> (case lib_open lib (charset (output_of req)) (charset (input_of req)) (open_handles s) of
          Inr e \<Rightarrow> result = iconv_check_errno e \<and> result \<noteq> ICONV_RESULT_OK
            \<and> mem s' = mem s \<and> open_handles s' = open_handles s
        | Inl h \<Rightarrow>
            (case lib_iconv lib h (read_mem (mem s) (buffer (input_of req)) (length_of (input_of req)))
                (length_of (output_of req)) of
               (k, bs, outcome) \<Rightarrow>
                 read_mem (mem s') (buffer (output_of req)) (length bs) = bs
                 \<and> length bs + remaining (output_of req') = length_of (output_of req)
                 \<and> k + remaining (input_of req') = length_of (input_of req)
                 \<and> (case outcome of
                      Inl n \<Rightarrow> result = ICONV_RESULT_OK \<and> open_handles s' = open_handles s
                    | Inr e \<Rightarrow> result = iconv_check_errno e \<and> result \<noteq> ICONV_RESULT_OK
                        \<and> handle req' = h \<and> open_handles s' = h # open_handles s)))"
proof -
  note run = iconv_convert_run [OF assms, of ndebug s]
  have eq: "remaining (input_of req) = length_of (input_of req)" "remaining (output_of req) = length_of (output_of req)"
    using assms(2,3) by (simp_all add: fresh_workload_def)
  have ne: "iconv_check_errno e \<noteq> ICONV_RESULT_OK" for e by (cases e) auto
  show ?thesis
  proof (cases "lib_open lib (charset (output_of req)) (charset (input_of req)) (open_handles s)")
    case (Inr e)
    then show ?thesis using run ne by simp
  next
    case (Inl h)
    obtain k bs r where i: "lib_iconv lib h (read_mem (mem s) (buffer (input_of req)) (length_of (input_of req)))
        (length_of (output_of req)) = (k, bs, r)" by (metis prod_cases3)
    then have "k \<le> length_of (input_of req)" "length bs \<le> length_of (output_of req)"
      using contract_bounds [OF assms(1) i] by simp_all
    then show ?thesis
      using run Inl i eq ne [of "projr r"]
      by (cases r) (auto simp: advanced_def read_write_mem write_mem_outside)
  qed
qed


text \<open>A library that copies the input, for the examples.\<close>

definition copy_lib :: iconv_lib where
  "copy_lib = \<lparr>lib_open = (\<lambda>to from hs. let h = Suc (fold max hs 0) in
       if to = from \<and> h < ICONV_INVALID_HANDLE then Inl h else Inr EINVAL),
     lib_iconv = (\<lambda>h xs n. if length xs \<le> n then (length xs, xs, Inl 0) else (n, take n xs, Inr E2BIG)),
     lib_close = (\<lambda>h. None)\<rparr>"

lemma fold_max_ge: "m \<le> fold max xs (m::nat) \<and> (\<forall>x \<in> set xs. x \<le> fold max xs m)"
proof (induction xs arbitrary: m)
  case (Cons y ys)
  have "max y m \<le> fold max ys (max y m) \<and> (\<forall>x \<in> set ys. x \<le> fold max ys (max y m))" by (rule Cons.IH)
  then show ?case by (simp add: max.bounded_iff)
qed simp

lemma copy_lib_contract: "iconv_contract copy_lib"
proof -
  have "Suc (fold max hs 0) \<notin> set hs" for hs :: "nat list" using fold_max_ge [of 0 hs] by auto
  then show ?thesis
    by (auto simp: iconv_contract_def copy_lib_def Let_def ICONV_INVALID_SIZE_def split: if_splits)
qed

definition sample_request :: iconv_request where
  "sample_request = \<lparr>input_of = \<lparr>charset = ''UTF-8'', buffer = 10, length_of = 3, remaining = 3\<rparr>,
     output_of = \<lparr>charset = ''UTF-8'', buffer = 20, length_of = 4, remaining = 4\<rparr>, handle = 0\<rparr>"

lemma sample_request_fresh: "fresh_workload (input_of sample_request)" "fresh_workload (output_of sample_request)"
  by (simp_all add: sample_request_def fresh_workload_def)

theorem iconv_convert_correct_witness:
  "\<exists>req' s'. iconv_convert copy_lib False (Some sample_request) \<lparr>mem = (\<lambda>a. of_nat a), open_handles = [], errno = EINVAL\<rparr>
     = Inr (ICONV_RESULT_OK, Some req', s') \<and> read_mem (mem s') 20 3 = [10, 11, 12] \<and> mem s' 24 = 24
     \<and> remaining (output_of req') = 1 \<and> open_handles s' = []"
proof -
  let ?s = "\<lparr>mem = (\<lambda>a. of_nat a), open_handles = [], errno = EINVAL\<rparr>"
  have o: "lib_open copy_lib (charset (output_of sample_request)) (charset (input_of sample_request)) [] = Inl 1"
    "lib_iconv copy_lib 1 (read_mem (\<lambda>a. of_nat a) 10 3) 4 = (3, [10, 11, 12], Inl 0)"
    by (simp_all add: copy_lib_def sample_request_def ICONV_INVALID_HANDLE_def read_mem_def upt_rec)
  show ?thesis
    using iconv_convert_correct [OF copy_lib_contract sample_request_fresh, of False ?s] o
    by (auto simp: sample_request_def numeral_3_eq_3)
qed

text \<open>
  A conversion that fails in the library keeps its descriptor open, and the binding offers no
  other way to close it than \<open>iconv_try_close\<close> with the same request: that call always succeeds
  and restores the set of open descriptors, while a second one passes all checks and hands the
  closed descriptor to the library.
\<close>

theorem iconv_failure_keeps_descriptor:
  assumes "iconv_contract lib" "fresh_workload (input_of req)" "fresh_workload (output_of req)"
    and "iconv_convert lib ndebug (Some req) s = Inr (result, Some req', s')" "result \<noteq> ICONV_RESULT_OK"
    and "handle req' \<noteq> ICONV_INVALID_HANDLE"
  shows "open_handles s' = handle req' # open_handles s
     \<and> (\<exists>s''. iconv_try_close lib ndebug (Some req') s' = Inr (ICONV_RESULT_OK, s'') \<and> open_handles s'' = open_handles s
          \<and> iconv_try_close lib ndebug (Some req') s'' = Inl Bad_descriptor)"
proof -
  note run = iconv_convert_run [OF assms(1-3), of ndebug s, unfolded assms(4)]
  obtain h where h: "lib_open lib (charset (output_of req)) (charset (input_of req)) (open_handles s) = Inl h"
    using run assms(6) by (auto split: sum.splits)
  then have h': "h \<noteq> 0" "h \<noteq> ICONV_INVALID_HANDLE" "h \<notin> set (open_handles s)"
    using assms(1) by (auto simp: iconv_contract_def)
  have o: "open_handles s' = h # open_handles s \<and> handle req' = h"
    using run h assms(5) by (auto simp: advanced_def split: sum.splits prod.splits)
  then have "iconv_try_close lib ndebug (Some req') s' =
      Inr (ICONV_RESULT_OK, s'\<lparr>open_handles := open_handles s\<rparr>)"
    using try_close_open [OF assms(1), of req' s' ndebug] h' by simp
  moreover have "iconv_try_close lib ndebug (Some req') (s'\<lparr>open_handles := open_handles s\<rparr>) = Inl Bad_descriptor"
    using o h' by (simp add: iconv_try_close_def sanity_check_descriptor_def call_close_def)
  ultimately show ?thesis using o by simp
qed

theorem iconv_failure_keeps_descriptor_witness:
  "\<exists>req' s' s''. iconv_convert copy_lib True
       (Some (sample_request\<lparr>input_of := \<lparr>charset = ''UTF-8'', buffer = 10, length_of = 5, remaining = 5\<rparr>\<rparr>))
       \<lparr>mem = (\<lambda>a. 0), open_handles = [], errno = EINVAL\<rparr> = Inr (ICONV_WRITEBUFFER_FULL, Some req', s')
     \<and> open_handles s' = [handle req'] \<and> iconv_try_close copy_lib True (Some req') s' = Inr (ICONV_RESULT_OK, s'')
     \<and> open_handles s'' = []"
proof -
  let ?req = "sample_request\<lparr>input_of := \<lparr>charset = ''UTF-8'', buffer = 10, length_of = 5, remaining = 5\<rparr>\<rparr>"
  have f: "fresh_workload (input_of ?req)" "fresh_workload (output_of ?req)"
    by (simp_all add: sample_request_def fresh_workload_def)
  obtain req' s' where c: "iconv_convert copy_lib True (Some ?req) \<lparr>mem = (\<lambda>a. 0), open_handles = [], errno = EINVAL\<rparr> =
     Inr (ICONV_WRITEBUFFER_FULL, Some req', s')" "handle req' = 1"
    by (subst (asm) iconv_convert_run [OF copy_lib_contract f])
      (simp add: sample_request_def copy_lib_def ICONV_INVALID_HANDLE_def advanced_def)
  from iconv_failure_keeps_descriptor [OF copy_lib_contract f c(1)] c show ?thesis
    by (auto simp: ICONV_INVALID_HANDLE_def)
qed

text \<open>Every integer gets an error text, and the codes of the enumeration get their own.\<close>

lemma iconv_strerror_total:
  "iconv_strerror n = Some (iconv_error_strings ! nat (if 0 \<le> n \<and> n \<le> 8 then n else 8))"
  by (auto simp: iconv_strerror_def iconv_error_strings_def Let_def min_def)

lemma iconv_strerror_inj: "iconv_strerror (iconv_result_code r) = iconv_strerror (iconv_result_code r') \<longleftrightarrow> r = r'"
  by (cases r; cases r') (simp_all add: iconv_strerror_total iconv_error_strings_def)

end
