(* ===== verification/Crypto_KDF.thy ===== *)
theory Crypto_KDF
  imports Prelude
begin

text \<open>
  The OpenSSL bindings of \<open>Runtime/Bindings/FFI/crypto/crypto_ffi.cpp\<close>: base64 through the EVP
  encoder and key derivation. OpenSSL is the parameter \<open>lib\<close>; the state counts the objects that
  were allocated and not freed, and holds the thread limit of the library. Buffers are byte lists;
  writing outside one is undefined (\<open>None\<close>).
\<close>

section \<open>Data\<close>

record kdf_parameters =
  kdf_name :: string
  kdf_version :: u32
  kilobytes :: u32
  threads :: u32
  lanes :: u32
  hash_size :: nat
  iterations :: u32

record kdf_input =
  password :: string
  pw_length :: nat
  salt :: string
  salt_length :: nat

record kdf_result =
  success :: bool
  hash :: "byte list"
  message :: string

datatype kdf_param = Octet_string string string | Uint32 string u32 | Param_end

record openssl_state =
  live_encode_ctx :: nat
  live_kdf :: nat
  live_kctx :: nat
  max_threads :: u32
  crypto_cerr :: "string list"

text \<open>
  The encoder functions give the bytes they write and the length they report; the decoder
  functions also a status. \<open>derive\<close> gives the derived bytes, or fails; \<open>error_text\<close> is what
  \<open>ERR_error_string\<close> writes for the pending error.
\<close>

record openssl_lib =
  ctx_available :: bool
  enc_update :: "byte list \<Rightarrow> int \<Rightarrow> byte list \<times> nat"
  enc_final :: "byte list \<Rightarrow> int \<Rightarrow> byte list \<times> nat"
  dec_update :: "byte list \<Rightarrow> int \<Rightarrow> int \<times> byte list \<times> nat"
  dec_final :: "byte list \<Rightarrow> int \<Rightarrow> int \<times> byte list \<times> nat"
  threads_allowed :: "u32 \<Rightarrow> bool"
  kdf_available :: "string \<Rightarrow> bool"
  kctx_available :: bool
  derive :: "kdf_param list \<Rightarrow> nat \<Rightarrow> byte list option"
  error_text :: string

section \<open>Base64\<close>

text \<open>The library takes the length as an \<open>int\<close>.\<close>

definition length_as_int :: "nat \<Rightarrow> int" where
  "length_as_int n = signed_take_bit 31 (int n)"

definition openssl_to_base64 ::
  "openssl_lib \<Rightarrow> byte list \<Rightarrow> nat \<Rightarrow> byte list \<Rightarrow> nat \<Rightarrow> openssl_state \<Rightarrow> (nat \<times> byte list \<times> openssl_state) option" where
  "openssl_to_base64 lib dst dst_len src src_len s =
     (if \<not> ctx_available lib then Some (0, dst, s)
      else
        (let s1 = s\<lparr>live_encode_ctx := live_encode_ctx s + 1\<rparr>;
             (bs, out_len) = enc_update lib src (length_as_int src_len)
         in case write_block dst 0 bs of
              None \<Rightarrow> None
            | Some dst1 \<Rightarrow>
                (let (fs, tmp_len) = enc_final lib src (length_as_int src_len)
                 in case write_block dst1 out_len fs of
                      None \<Rightarrow> None
                    | Some dst2 \<Rightarrow>
                        Some (out_len + tmp_len, dst2, s1\<lparr>live_encode_ctx := live_encode_ctx s1 - 1\<rparr>))))"

definition openssl_from_base64 ::
  "openssl_lib \<Rightarrow> byte list \<Rightarrow> nat \<Rightarrow> byte list \<Rightarrow> nat \<Rightarrow> openssl_state \<Rightarrow> (nat \<times> byte list \<times> openssl_state) option" where
  "openssl_from_base64 lib dst dst_len src src_len s =
     (if \<not> ctx_available lib then Some (0, dst, s)
      else
        (let s1 = s\<lparr>live_encode_ctx := live_encode_ctx s + 1\<rparr>;
             (r1, bs, out_len) = dec_update lib src (length_as_int src_len)
         in case write_block dst 0 bs of
              None \<Rightarrow> None
            | Some dst1 \<Rightarrow>
                (if r1 = - 1 then Some (0, dst1, s1\<lparr>live_encode_ctx := live_encode_ctx s1 - 1\<rparr>)
                 else
                   (let (r2, fs, tmp_len) = dec_final lib src (length_as_int src_len)
                    in case write_block dst1 out_len fs of
                         None \<Rightarrow> None
                       | Some dst2 \<Rightarrow>
                           (if r2 = - 1 then Some (0, dst2, s1\<lparr>live_encode_ctx := live_encode_ctx s1 - 1\<rparr>)
                            else Some (out_len + tmp_len, dst2, s1\<lparr>live_encode_ctx := live_encode_ctx s1 - 1\<rparr>))))))"

section \<open>Key derivation\<close>

definition NUM_SUPPORTED_KDF_PARAMS :: nat where
  "NUM_SUPPORTED_KDF_PARAMS = 7 + 1"

definition kdf_params :: "kdf_input \<Rightarrow> kdf_parameters \<Rightarrow> kdf_param list" where
  "kdf_params inputs ps =
     [Octet_string ''pass'' (take (pw_length inputs) (password inputs)),
      Octet_string ''salt'' (take (salt_length inputs) (salt inputs)),
      Uint32 ''version'' (kdf_version ps),
      Uint32 ''iter'' (iterations ps),
      Uint32 ''threads'' (threads ps),
      Uint32 ''lanes'' (lanes ps),
      Uint32 ''memcost'' (kilobytes ps),
      Param_end]"

definition crypto_report :: "string \<Rightarrow> openssl_state \<Rightarrow> openssl_state" where
  "crypto_report msg s = s\<lparr>crypto_cerr := crypto_cerr s @ [msg]\<rparr>"

text \<open>
  The code at the label \<open>fail\<close>; \<open>kdf\<close> and \<open>kctx\<close> say whether the objects were allocated (freeing
  a null pointer does nothing).
\<close>

definition kdf_fail ::
  "openssl_lib \<Rightarrow> bool \<Rightarrow> bool \<Rightarrow> kdf_result \<Rightarrow> openssl_state \<Rightarrow> (kdf_result \<times> openssl_state) option" where
  "kdf_fail lib kdf kctx result s =
     (case write_block (message result) 0 (error_text lib @ [NUL]) of
        None \<Rightarrow> None
      | Some m \<Rightarrow>
          (let s1 = crypto_report (''OpenSSL Error: '' @ c_str m) s;
               s2 = (if kdf then s1\<lparr>live_kdf := live_kdf s1 - 1\<rparr> else s1);
               s3 = (if kctx then s2\<lparr>live_kctx := live_kctx s2 - 1\<rparr> else s2);
               s4 = (if threads_allowed lib 0 then s3\<lparr>max_threads := 0\<rparr> else s3)
           in Some (result\<lparr>message := m\<rparr>, s4)))"

definition openssl_kdf_derive ::
  "openssl_lib \<Rightarrow> kdf_input \<Rightarrow> kdf_parameters \<Rightarrow> kdf_result \<Rightarrow> openssl_state \<Rightarrow> (kdf_result \<times> openssl_state) option" where
  "openssl_kdf_derive lib inputs parameters res s =
     (let result = res\<lparr>success := False\<rparr> in
      if \<not> threads_allowed lib (threads parameters)
      then kdf_fail lib False False result (crypto_report ''Failed to set_max_threads'' s)
      else
     (let s1 = s\<lparr>max_threads := threads parameters\<rparr>; params = kdf_params inputs parameters in
      if NUM_SUPPORTED_KDF_PARAMS < length params then None
      else if \<not> kdf_available lib (kdf_name parameters)
      then kdf_fail lib False False result (crypto_report (''Failed to fetch KDF '' @ kdf_name parameters) s1)
      else
     (let s2 = s1\<lparr>live_kdf := live_kdf s1 + 1\<rparr> in
      if \<not> kctx_available lib
      then kdf_fail lib True False result (crypto_report ''Failed to create hashing context'' s2)
      else
     (let s3 = s2\<lparr>live_kctx := live_kctx s2 + 1\<rparr> in
      case derive lib params (hash_size parameters) of
        None \<Rightarrow> kdf_fail lib True True result (crypto_report ''Failed to derive key'' s3)
      | Some bs \<Rightarrow>
          (case write_block (hash result) 0 bs of
             None \<Rightarrow> None
           | Some h \<Rightarrow> Some (result\<lparr>success := True, hash := h\<rparr>, s3))))))"

section \<open>Lemmas\<close>

lemma kdf_params_fit: "length (kdf_params inputs ps) = NUM_SUPPORTED_KDF_PARAMS"
  by (simp add: kdf_params_def NUM_SUPPORTED_KDF_PARAMS_def)

text \<open>Every path that allocated the encoder context frees it.\<close>

lemma openssl_base64_frees_context:
  "openssl_to_base64 lib dst n src m s = Some (r, dst', s') \<Longrightarrow> s' = s"
  "openssl_from_base64 lib dst n src m s = Some (r, dst', s') \<Longrightarrow> s' = s"
  by (auto simp: openssl_to_base64_def openssl_from_base64_def Let_def split: if_splits prod.splits option.splits)

text \<open>The size of the destination has no influence: a short buffer is overrun.\<close>

lemma openssl_base64_ignores_dst_len:
  "openssl_to_base64 lib dst n src m s = openssl_to_base64 lib dst n' src m s"
  "openssl_from_base64 lib dst n src m s = openssl_from_base64 lib dst n' src m s"
  by (simp_all add: openssl_to_base64_def openssl_from_base64_def)

lemma openssl_to_base64_overrun:
  assumes "ctx_available lib" "enc_update lib src (length_as_int m) = (bs, k)" "length dst < length bs"
  shows "openssl_to_base64 lib dst n src m s = None"
  using assms by (simp add: openssl_to_base64_def write_block_def)

text \<open>A failing step: the first one that the library refuses.\<close>

definition kdf_refused :: "openssl_lib \<Rightarrow> kdf_input \<Rightarrow> kdf_parameters \<Rightarrow> bool" where
  "kdf_refused lib inputs ps \<longleftrightarrow>
     \<not> threads_allowed lib (threads ps) \<or> \<not> kdf_available lib (kdf_name ps) \<or> \<not> kctx_available lib
     \<or> derive lib (kdf_params inputs ps) (hash_size ps) = None"

section \<open>Properties\<close>

text \<open>
  C33. With buffers of the promised size key derivation always returns. It reports success exactly
  when no step was refused by OpenSSL, and then the hash buffer starts with the derived key; both
  OpenSSL objects stay allocated and the thread limit stays raised. After a refusal the error text
  is in the message buffer, the hash buffer is untouched, everything allocated is freed and the
  thread limit is back at zero.
\<close>

theorem openssl_kdf_derive_outcome:
  assumes "length (error_text lib) < length (message res)" "no_nul (error_text lib)" "threads_allowed lib 0"
    and "\<forall>bs. derive lib (kdf_params inputs ps) (hash_size ps) = Some bs \<longrightarrow> length bs = hash_size ps"
    and "hash_size ps \<le> length (hash res)"
  shows "\<exists>res' s'. openssl_kdf_derive lib inputs ps res s = Some (res', s')
     \<and> (success res' \<longleftrightarrow> \<not> kdf_refused lib inputs ps)
     \<and> (success res' \<longrightarrow>
          Some (take (hash_size ps) (hash res')) = derive lib (kdf_params inputs ps) (hash_size ps)
          \<and> live_kdf s' = live_kdf s + 1 \<and> live_kctx s' = live_kctx s + 1 \<and> max_threads s' = threads ps)
     \<and> (\<not> success res' \<longrightarrow>
          c_str (message res') = error_text lib \<and> hash res' = hash res
          \<and> live_kdf s' = live_kdf s \<and> live_kctx s' = live_kctx s \<and> max_threads s' = 0)"
proof -
  have w: "write_block (message res) 0 (error_text lib @ [NUL]) =
      Some (error_text lib @ NUL # drop (Suc (length (error_text lib))) (message res))"
    using assms(1) by (simp add: write_block_def)
  have h: "write_block (hash res) 0 bs = Some (bs @ drop (hash_size ps) (hash res))"
    if "derive lib (kdf_params inputs ps) (hash_size ps) = Some bs" for bs
    using assms(4,5) that by (simp add: write_block_def)
  show ?thesis
    using assms(2,3,4) h
    by (cases "derive lib (kdf_params inputs ps) (hash_size ps)")
      (auto simp: openssl_kdf_derive_def kdf_fail_def kdf_refused_def crypto_report_def w kdf_params_fit Let_def)
qed

definition sample_openssl :: openssl_lib where
  "sample_openssl = \<lparr>ctx_available = True, enc_update = (\<lambda>xs n. ([], 0)), enc_final = (\<lambda>xs n. (xs, length xs)),
     dec_update = (\<lambda>xs n. (1, [], 0)), dec_final = (\<lambda>xs n. (1, xs, length xs)), threads_allowed = (\<lambda>n. n < 9),
     kdf_available = (\<lambda>n. n = ''ARGON2ID''), kctx_available = True, derive = (\<lambda>ps n. Some (replicate n 7)),
     error_text = ''error''\<rparr>"

lemma sample_openssl_fields:
  "error_text sample_openssl = ''error''" "threads_allowed sample_openssl n = (n < 9)"
  "kdf_available sample_openssl nm = (nm = ''ARGON2ID'')" "kctx_available sample_openssl"
  "derive sample_openssl ps k = Some (replicate k 7)"
  by (simp_all add: sample_openssl_def)

theorem openssl_kdf_derive_outcome_witness:
  "\<exists>res' s'. openssl_kdf_derive sample_openssl \<lparr>password = ''pw'', pw_length = 2, salt = ''salt'', salt_length = 4\<rparr>
      \<lparr>kdf_name = ''ARGON2ID'', kdf_version = 19, kilobytes = 64, threads = 2, lanes = 2, hash_size = 3, iterations = 1\<rparr>
      \<lparr>success = False, hash = [0, 0, 0, 0], message = replicate 6 NUL\<rparr>
      \<lparr>live_encode_ctx = 0, live_kdf = 0, live_kctx = 0, max_threads = 0, crypto_cerr = []\<rparr> = Some (res', s')
    \<and> success res' \<and> take 3 (hash res') = [7, 7, 7] \<and> live_kdf s' = 1"
proof -
  let ?in = "\<lparr>password = ''pw'', pw_length = 2, salt = ''salt'', salt_length = 4\<rparr>"
  let ?ps = "\<lparr>kdf_name = ''ARGON2ID'', kdf_version = 19, kilobytes = 64, threads = 2, lanes = 2, hash_size = 3, iterations = 1\<rparr>"
  have r: "\<not> kdf_refused sample_openssl ?in ?ps" by (simp add: kdf_refused_def sample_openssl_fields)
  have "no_nul ''error''" by (simp add: no_nul_def NUL_def)
  then show ?thesis
    using openssl_kdf_derive_outcome [of sample_openssl "\<lparr>success = False, hash = [0, 0, 0, 0], message = replicate 6 NUL\<rparr>" ?in ?ps
        "\<lparr>live_encode_ctx = 0, live_kdf = 0, live_kctx = 0, max_threads = 0, crypto_cerr = []\<rparr>"] r
    by (auto simp: sample_openssl_fields numeral_3_eq_3)
qed

end
