(* ===== verification/Labsound_Bindings.thy ===== *)
theory Labsound_Bindings
  imports Interop_Queue
begin

text \<open>
  The audio bindings of \<open>Runtime/Bindings/FFI/labsound/labsound_ffi.cpp\<close>. LabSound is not part of
  the repository: calls on its objects are recorded in \<open>ls_calls\<close>, its results are the record
  \<open>ls_lib\<close>. The bindings allocate the LabSound objects and LuaJIT destroys them; \<open>ls_live\<close> says
  which addresses hold an object of which kind. The shared pointers handed to LabSound have
  deleters that do nothing, so they do not change it. Assertions are active unless \<open>ndebug\<close>;
  a failed one, an access outside an array and the use of a dead object are faults.
\<close>

section \<open>Data\<close>

record labsound_audio_device_info =
  di_index :: int
  di_identifier :: string
  di_num_output_channels :: u32
  di_num_input_channels :: u32
  di_supported_samplerates :: "c_float list"
  di_nominal_samplerate :: c_float
  di_is_default_output :: bool
  di_is_default_input :: bool

text \<open>\<open>lab::AudioDeviceInfo\<close> has the same fields, with a \<open>std::string\<close> and a \<open>std::vector\<close>.\<close>

type_synonym AudioDeviceInfo = labsound_audio_device_info

record labsound_audio_stream_config =
  device_index :: int
  desired_channels :: u32
  desired_samplerate :: c_float

datatype LabSoundPanningModel = Panning_None | EqualPower | HRTF

datatype LabSoundDistanceModel = Linear | Inverse | Exponential

datatype ls_kind = Audio_device | Audio_context | Destination_node | Gain_node | Panner_node | Sampled_node

type_synonym vec3 = "c_float \<times> c_float \<times> c_float"

datatype ls_call =
    MakeAudioDeviceList
  | New_device address labsound_audio_stream_config labsound_audio_stream_config
  | New_context address bool bool
  | New_node ls_kind address address
  | Context_connect address address address int int
  | Context_disconnect address address address int int
  | Context_loadHrtfDatabase address string
  | Listener_setForward address vec3
  | Listener_setUpVector address vec3
  | Listener_setPosition address vec3
  | Context_synchronizeConnections address
  | Device_setDestinationNode address address
  | Context_setDestinationNode address address
  | Gain_setValue address c_float
  | Panner_setPanningModel address LabSoundPanningModel
  | Panner_setVelocity address vec3
  | Panner_setPosition address vec3
  | Panner_setOrientation address vec3
  | Panner_setDistanceModel address LabSoundDistanceModel
  | Panner_setRefDistance address c_float
  | Panner_setMaxDistance address c_float
  | Panner_setRolloffFactor address c_float
  | Panner_setConeInnerAngle address c_float
  | Panner_setConeOuterAngle address c_float
  | Panner_setConeOuterGain address c_float
  | MakeBusFromFile string bool
  | MakeBusFromMemory "byte list" bool
  | Sampled_setBus address
  | Sampled_start address c_float int
  | Sampled_stop address c_float
  | PrintGraph address

text \<open>
  \<open>audio_devices\<close> is what the device list contains, \<open>no_device\<close> and \<open>no_stream\<close> are default
  constructed objects, \<open>float_less\<close> and \<open>float_differ\<close> the comparisons of floats.
\<close>

record ls_lib =
  audio_devices :: "ls_call list \<Rightarrow> AudioDeviceInfo list"
  no_device :: AudioDeviceInfo
  no_stream :: labsound_audio_stream_config
  float_less :: "c_float \<Rightarrow> c_float \<Rightarrow> bool"
  float_differ :: "c_float \<Rightarrow> c_float \<Rightarrow> bool"
  hrtf_result :: "ls_call list \<Rightarrow> bool"
  has_listener :: "address \<Rightarrow> bool"
  has_gain :: "address \<Rightarrow> bool"
  bus_result :: "ls_call list \<Rightarrow> bool"

record ls_state =
  ls_calls :: "ls_call list"
  ls_live :: "address \<rightharpoonup> ls_kind"

datatype ls_fault = Ls_assertion | Ls_undefined

section \<open>Effects\<close>

definition call_ls :: "ls_call \<Rightarrow> ls_state \<Rightarrow> ls_state" where
  "call_ls c s = s\<lparr>ls_calls := ls_calls s @ [c]\<rparr>"

definition ls_assert :: "bool \<Rightarrow> bool \<Rightarrow> (ls_fault + 'a) \<Rightarrow> ls_fault + 'a" where
  "ls_assert ndebug condition k = (if \<not> ndebug \<and> \<not> condition then Inl Ls_assertion else k)"

text \<open>A member call on the object at \<open>p\<close>.\<close>

definition on_object :: "address \<Rightarrow> (ls_state \<Rightarrow> 'a) \<Rightarrow> ls_state \<Rightarrow> ls_fault + 'a" where
  "on_object p f s = (if ls_live s p = None then Inl Ls_undefined else Inr (f s))"

definition new_object :: "ls_kind \<Rightarrow> ls_call \<Rightarrow> address \<Rightarrow> ls_state \<Rightarrow> ls_state" where
  "new_object k c a s = (call_ls c s)\<lparr>ls_live := (ls_live s)(a \<mapsto> k)\<rparr>"

definition delete_object :: "ls_kind \<Rightarrow> address \<Rightarrow> ls_state \<Rightarrow> ls_fault + ls_state" where
  "delete_object k p s =
     (if p = 0 then Inr s
      else if ls_live s p = Some k then Inr (s\<lparr>ls_live := (ls_live s)(p := None)\<rparr>)
      else Inl Ls_undefined)"

section \<open>Devices\<close>

fun pick_defaults :: "AudioDeviceInfo list \<Rightarrow> AudioDeviceInfo \<Rightarrow> AudioDeviceInfo \<Rightarrow> AudioDeviceInfo \<times> AudioDeviceInfo" where
  "pick_defaults [] out inp = (out, inp)"
| "pick_defaults (info # infos) out inp =
     pick_defaults infos (if di_is_default_output info then info else out)
       (if di_is_default_input info then info else inp)"

definition float_min :: "ls_lib \<Rightarrow> c_float \<Rightarrow> c_float \<Rightarrow> c_float" where
  "float_min lib a b = (if float_less lib b a then b else a)"

text \<open>The result is the returned flag and the two configurations afterwards.\<close>

definition labsound_get_default_device_config ::
  "ls_lib \<Rightarrow> labsound_audio_stream_config option \<Rightarrow> labsound_audio_stream_config option \<Rightarrow> bool \<Rightarrow> ls_state \<Rightarrow>
   (bool \<times> labsound_audio_stream_config option \<times> labsound_audio_stream_config option) \<times> ls_state" where
  "labsound_get_default_device_config lib input_config output_config with_input s =
     (if input_config = None \<or> output_config = None then ((False, input_config, output_config), s)
      else
        (let s1 = call_ls MakeAudioDeviceList s;
             (defaultOutputInfo, defaultInputInfo) =
               pick_defaults (audio_devices lib (ls_calls s1)) (no_device lib) (no_device lib);
             outputConfig = (if di_index defaultOutputInfo \<noteq> - 1
               then \<lparr>device_index = di_index defaultOutputInfo,
                     desired_channels = min 2 (di_num_output_channels defaultOutputInfo),
                     desired_samplerate = di_nominal_samplerate defaultOutputInfo\<rparr>
               else no_stream lib)
         in if with_input \<and> di_index defaultInputInfo = - 1
            then ((False, input_config, output_config), s1)
            else
              (let inputConfig = (if with_input
                     then \<lparr>device_index = di_index defaultInputInfo,
                           desired_channels = min 1 (di_num_input_channels defaultInputInfo),
                           desired_samplerate = di_nominal_samplerate defaultInputInfo\<rparr>
                     else no_stream lib);
                   r1 = di_nominal_samplerate defaultOutputInfo;
                   r2 = di_nominal_samplerate defaultInputInfo;
                   min_rate = float_min lib r1 r2;
                   mismatch = float_differ lib r1 r2
               in ((True,
                    Some (if mismatch then inputConfig\<lparr>desired_samplerate := min_rate\<rparr> else inputConfig),
                    Some (if mismatch then outputConfig\<lparr>desired_samplerate := min_rate\<rparr> else outputConfig)), s1))))"

definition labsound_get_device_count :: "ls_lib \<Rightarrow> ls_state \<Rightarrow> nat \<times> ls_state" where
  "labsound_get_device_count lib s =
     (let s1 = call_ls MakeAudioDeviceList s in (length (audio_devices lib (ls_calls s1)), s1))"

fun copy_samplerates :: "c_float list \<Rightarrow> nat \<Rightarrow> c_float list \<Rightarrow> c_float list option" where
  "copy_samplerates [] i dst = Some dst"
| "copy_samplerates (r # rs) i dst =
     (case write_at dst i r of None \<Rightarrow> None | Some dst' \<Rightarrow> copy_samplerates rs (Suc i) dst')"

text \<open>\<open>sizeof\<close> of the arrays \<open>identifier\<close> and \<open>supported_samplerates\<close> of the C struct.\<close>

definition sizeof_identifier :: nat where
  "sizeof_identifier = 256"

definition sizeof_supported_samplerates :: nat where
  "sizeof_supported_samplerates = 32 * 4"

definition labsound_get_device_info ::
  "ls_lib \<Rightarrow> bool \<Rightarrow> nat \<Rightarrow> labsound_audio_device_info option \<Rightarrow> ls_state \<Rightarrow>
   ls_fault + ((bool \<times> labsound_audio_device_info option) \<times> ls_state)" where
  "labsound_get_device_info lib ndebug i device_info s =
     (case device_info of
        None \<Rightarrow> Inr ((False, None), s)
      | Some info \<Rightarrow>
          (let s1 = call_ls MakeAudioDeviceList s; audioDevices = audio_devices lib (ls_calls s1) in
           if length audioDevices \<le> i then Inl Ls_undefined
           else
             (let deviceInfo = audioDevices ! i; deviceIdentifierLength = length (di_identifier deviceInfo) in
              ls_assert ndebug (deviceIdentifierLength + 1 \<le> sizeof_identifier)
             (ls_assert ndebug (length (di_supported_samplerates deviceInfo) \<le> sizeof_supported_samplerates)
             (ls_assert ndebug (di_index deviceInfo = int i)
             (case strncpy (di_identifier info) (di_identifier deviceInfo) deviceIdentifierLength of
                None \<Rightarrow> Inl Ls_undefined
              | Some ident \<Rightarrow>
             (case write_at ident deviceIdentifierLength NUL of
                None \<Rightarrow> Inl Ls_undefined
              | Some ident' \<Rightarrow>
             (case copy_samplerates (di_supported_samplerates deviceInfo) 0 (di_supported_samplerates info) of
                None \<Rightarrow> Inl Ls_undefined
              | Some rates \<Rightarrow>
                  Inr ((True, Some \<lparr>di_index = di_index deviceInfo, di_identifier = ident',
                     di_num_output_channels = di_num_output_channels deviceInfo,
                     di_num_input_channels = di_num_input_channels deviceInfo,
                     di_supported_samplerates = rates,
                     di_nominal_samplerate = di_nominal_samplerate deviceInfo,
                     di_is_default_output = di_is_default_output deviceInfo,
                     di_is_default_input = di_is_default_input deviceInfo\<rparr>), s1)))))))))"

text \<open>\<open>a\<close> is the address \<open>new\<close> returns.\<close>

definition labsound_device_create ::
  "address \<Rightarrow> labsound_audio_stream_config option \<Rightarrow> labsound_audio_stream_config option \<Rightarrow> ls_state \<Rightarrow> address \<times> ls_state" where
  "labsound_device_create a input_config output_config s =
     (case (input_config, output_config) of
        (Some i, Some out) \<Rightarrow> (a, new_object Audio_device (New_device a i out) a s)
      | _ \<Rightarrow> (0, s))"

definition labsound_device_destroy :: "address \<Rightarrow> ls_state \<Rightarrow> ls_fault + ls_state" where
  "labsound_device_destroy device s = delete_object Audio_device device s"

section \<open>Contexts\<close>

definition labsound_context_create :: "address \<Rightarrow> bool \<Rightarrow> bool \<Rightarrow> ls_state \<Rightarrow> address \<times> ls_state" where
  "labsound_context_create a is_offline auto_dispatch_events s =
     (a, new_object Audio_context (New_context a is_offline auto_dispatch_events) a s)"

definition labsound_context_destroy :: "address \<Rightarrow> ls_state \<Rightarrow> ls_fault + ls_state" where
  "labsound_context_destroy ctx s = delete_object Audio_context ctx s"

definition labsound_context_connect ::
  "bool \<Rightarrow> address \<Rightarrow> address \<Rightarrow> address \<Rightarrow> int \<Rightarrow> int \<Rightarrow> ls_state \<Rightarrow> ls_fault + (bool \<times> ls_state)" where
  "labsound_context_connect ndebug ctx destination source destinationIndex sourceIndex s =
     (if ctx = 0 \<or> destination = 0 \<or> source = 0 then Inr (False, s)
      else ls_assert ndebug (0 \<le> destinationIndex) (ls_assert ndebug (0 \<le> sourceIndex)
        (if ls_live s ctx = None \<or> ls_live s destination = None \<or> ls_live s source = None then Inl Ls_undefined
         else Inr (True, call_ls (Context_connect ctx destination source destinationIndex sourceIndex) s))))"

definition labsound_context_disconnect ::
  "bool \<Rightarrow> address \<Rightarrow> address \<Rightarrow> address \<Rightarrow> int \<Rightarrow> int \<Rightarrow> ls_state \<Rightarrow> ls_fault + (bool \<times> ls_state)" where
  "labsound_context_disconnect ndebug ctx destination source destinationIndex sourceIndex s =
     (if ctx = 0 \<or> destination = 0 \<or> source = 0 then Inr (False, s)
      else ls_assert ndebug (0 < destinationIndex) (ls_assert ndebug (0 < sourceIndex)
        (if ls_live s ctx = None \<or> ls_live s destination = None \<or> ls_live s source = None then Inl Ls_undefined
         else Inr (True, call_ls (Context_disconnect ctx destination source destinationIndex sourceIndex) s))))"

definition labsound_context_load_hrtf_database ::
  "ls_lib \<Rightarrow> address \<Rightarrow> string option \<Rightarrow> ls_state \<Rightarrow> ls_fault + (bool \<times> ls_state)" where
  "labsound_context_load_hrtf_database lib ctx directory s =
     (if ctx = 0 then Inr (False, s)
      else case directory of
             None \<Rightarrow> Inr (False, s)
           | Some dir \<Rightarrow>
               on_object ctx (\<lambda>s. let s' = call_ls (Context_loadHrtfDatabase ctx dir) s in (hrtf_result lib (ls_calls s'), s')) s)"

text \<open>The calls on the listener of a context, which may be missing.\<close>

definition on_listener :: "ls_lib \<Rightarrow> address \<Rightarrow> ls_call \<Rightarrow> ls_state \<Rightarrow> ls_fault + ls_state" where
  "on_listener lib ctx c s =
     (if ctx = 0 then Inr s
      else on_object ctx (\<lambda>s. if \<not> has_listener lib ctx then s else call_ls c s) s)"

definition labsound_context_listener_set_forward ::
  "ls_lib \<Rightarrow> address \<Rightarrow> c_float \<Rightarrow> c_float \<Rightarrow> c_float \<Rightarrow> ls_state \<Rightarrow> ls_fault + ls_state" where
  "labsound_context_listener_set_forward lib ctx x y z s = on_listener lib ctx (Listener_setForward ctx (x, y, z)) s"

definition labsound_context_listener_set_up_vector ::
  "ls_lib \<Rightarrow> address \<Rightarrow> c_float \<Rightarrow> c_float \<Rightarrow> c_float \<Rightarrow> ls_state \<Rightarrow> ls_fault + ls_state" where
  "labsound_context_listener_set_up_vector lib ctx x y z s = on_listener lib ctx (Listener_setUpVector ctx (x, y, z)) s"

definition labsound_context_listener_set_position ::
  "ls_lib \<Rightarrow> address \<Rightarrow> c_float \<Rightarrow> c_float \<Rightarrow> c_float \<Rightarrow> ls_state \<Rightarrow> ls_fault + ls_state" where
  "labsound_context_listener_set_position lib ctx x y z s = on_listener lib ctx (Listener_setPosition ctx (x, y, z)) s"

definition labsound_context_listener_set_velocity ::
  "ls_lib \<Rightarrow> address \<Rightarrow> c_float \<Rightarrow> c_float \<Rightarrow> c_float \<Rightarrow> ls_state \<Rightarrow> ls_fault + ls_state" where
  "labsound_context_listener_set_velocity lib ctx x y z s = on_listener lib ctx (Listener_setPosition ctx (x, y, z)) s"

definition labsound_context_synchronize_connections :: "address \<Rightarrow> ls_state \<Rightarrow> ls_fault + ls_state" where
  "labsound_context_synchronize_connections ctx s =
     (if ctx = 0 then Inr s else on_object ctx (call_ls (Context_synchronizeConnections ctx)) s)"

section \<open>Nodes\<close>

definition labsound_destination_node_create ::
  "address \<Rightarrow> address \<Rightarrow> address \<Rightarrow> ls_state \<Rightarrow> ls_fault + (address \<times> ls_state)" where
  "labsound_destination_node_create a ctx device s =
     (if ctx = 0 \<or> device = 0 then Inr (0, s)
      else if ls_live s ctx = None \<or> ls_live s device = None then Inl Ls_undefined
      else Inr (a, call_ls (Context_setDestinationNode ctx a) (call_ls (Device_setDestinationNode device a)
             (new_object Destination_node (New_node Destination_node a ctx) a s))))"

definition labsound_destination_node_destroy :: "address \<Rightarrow> ls_state \<Rightarrow> ls_fault + ls_state" where
  "labsound_destination_node_destroy destination_node s = delete_object Destination_node destination_node s"

definition labsound_gain_node_create :: "address \<Rightarrow> address \<Rightarrow> ls_state \<Rightarrow> ls_fault + (address \<times> ls_state)" where
  "labsound_gain_node_create a ctx s =
     (if ctx = 0 then Inr (0, s) else on_object ctx (\<lambda>s. (a, new_object Gain_node (New_node Gain_node a ctx) a s)) s)"

definition labsound_gain_node_destroy :: "address \<Rightarrow> ls_state \<Rightarrow> ls_fault + ls_state" where
  "labsound_gain_node_destroy gain_node s = delete_object Gain_node gain_node s"

definition labsound_gain_node_set_value :: "ls_lib \<Rightarrow> address \<Rightarrow> c_float \<Rightarrow> ls_state \<Rightarrow> ls_fault + (bool \<times> ls_state)" where
  "labsound_gain_node_set_value lib gain_node gain_value s =
     (if gain_node = 0 then Inr (False, s)
      else on_object gain_node
        (\<lambda>s. if \<not> has_gain lib gain_node then (False, s) else (True, call_ls (Gain_setValue gain_node gain_value) s)) s)"

definition labsound_panner_node_create :: "address \<Rightarrow> address \<Rightarrow> ls_state \<Rightarrow> ls_fault + (address \<times> ls_state)" where
  "labsound_panner_node_create a ctx s =
     (if ctx = 0 then Inr (0, s) else on_object ctx (\<lambda>s. (a, new_object Panner_node (New_node Panner_node a ctx) a s)) s)"

definition labsound_panner_node_destroy :: "address \<Rightarrow> ls_state \<Rightarrow> ls_fault + ls_state" where
  "labsound_panner_node_destroy panner_node s = delete_object Panner_node panner_node s"

definition labsound_panner_node_set_panning_model :: "address \<Rightarrow> LabSoundPanningModel \<Rightarrow> ls_state \<Rightarrow> ls_fault + ls_state" where
  "labsound_panner_node_set_panning_model panner_node panning_model s =
     (if panner_node = 0 then Inr s else on_object panner_node (call_ls (Panner_setPanningModel panner_node panning_model)) s)"

definition labsound_panner_node_set_velocity :: "address \<Rightarrow> c_float \<Rightarrow> c_float \<Rightarrow> c_float \<Rightarrow> ls_state \<Rightarrow> ls_fault + ls_state" where
  "labsound_panner_node_set_velocity panner_node x y z s =
     (if panner_node = 0 then Inr s else on_object panner_node (call_ls (Panner_setVelocity panner_node (x, y, z))) s)"

definition labsound_panner_node_set_position :: "address \<Rightarrow> c_float \<Rightarrow> c_float \<Rightarrow> c_float \<Rightarrow> ls_state \<Rightarrow> ls_fault + ls_state" where
  "labsound_panner_node_set_position panner_node x y z s =
     (if panner_node = 0 then Inr s else on_object panner_node (call_ls (Panner_setPosition panner_node (x, y, z))) s)"

definition labsound_panner_node_set_orientation :: "address \<Rightarrow> c_float \<Rightarrow> c_float \<Rightarrow> c_float \<Rightarrow> ls_state \<Rightarrow> ls_fault + ls_state" where
  "labsound_panner_node_set_orientation panner_node x y z s =
     (if panner_node = 0 then Inr s else on_object panner_node (call_ls (Panner_setOrientation panner_node (x, y, z))) s)"

definition labsound_panner_node_set_distance_model :: "address \<Rightarrow> LabSoundDistanceModel \<Rightarrow> ls_state \<Rightarrow> ls_fault + ls_state" where
  "labsound_panner_node_set_distance_model panner_node distance_model s =
     (if panner_node = 0 then Inr s else on_object panner_node (call_ls (Panner_setDistanceModel panner_node distance_model)) s)"

definition labsound_panner_node_set_ref_distance :: "address \<Rightarrow> c_float \<Rightarrow> ls_state \<Rightarrow> ls_fault + ls_state" where
  "labsound_panner_node_set_ref_distance panner_node ref_distance s =
     (if panner_node = 0 then Inr s else on_object panner_node (call_ls (Panner_setRefDistance panner_node ref_distance)) s)"

definition labsound_panner_node_set_max_distance :: "address \<Rightarrow> c_float \<Rightarrow> ls_state \<Rightarrow> ls_fault + ls_state" where
  "labsound_panner_node_set_max_distance panner_node max_distance s =
     (if panner_node = 0 then Inr s else on_object panner_node (call_ls (Panner_setMaxDistance panner_node max_distance)) s)"

definition labsound_panner_node_set_rolloff_factor :: "address \<Rightarrow> c_float \<Rightarrow> ls_state \<Rightarrow> ls_fault + ls_state" where
  "labsound_panner_node_set_rolloff_factor panner_node rollof_factor s =
     (if panner_node = 0 then Inr s else on_object panner_node (call_ls (Panner_setRolloffFactor panner_node rollof_factor)) s)"

definition labsound_panner_node_set_cone_inner_angle :: "address \<Rightarrow> c_float \<Rightarrow> ls_state \<Rightarrow> ls_fault + ls_state" where
  "labsound_panner_node_set_cone_inner_angle panner_node angle s =
     (if panner_node = 0 then Inr s else on_object panner_node (call_ls (Panner_setConeInnerAngle panner_node angle)) s)"

definition labsound_panner_node_set_cone_outer_angle :: "address \<Rightarrow> c_float \<Rightarrow> ls_state \<Rightarrow> ls_fault + ls_state" where
  "labsound_panner_node_set_cone_outer_angle panner_node angle s =
     (if panner_node = 0 then Inr s else on_object panner_node (call_ls (Panner_setConeOuterAngle panner_node angle)) s)"

definition labsound_panner_node_set_cone_outer_gain :: "address \<Rightarrow> c_float \<Rightarrow> ls_state \<Rightarrow> ls_fault + ls_state" where
  "labsound_panner_node_set_cone_outer_gain panner_node angle s =
     (if panner_node = 0 then Inr s else on_object panner_node (call_ls (Panner_setConeOuterGain panner_node angle)) s)"

text \<open>The common end of both constructors of sampled nodes: the decoded bus may be missing.\<close>

definition sampled_from_bus :: "ls_lib \<Rightarrow> ls_call \<Rightarrow> address \<Rightarrow> address \<Rightarrow> ls_state \<Rightarrow> address \<times> ls_state" where
  "sampled_from_bus lib make_bus a ctx s =
     (let s1 = call_ls make_bus s in
      if \<not> bus_result lib (ls_calls s1) then (0, s1)
      else (a, call_ls (Sampled_setBus a) (new_object Sampled_node (New_node Sampled_node a ctx) a s1)))"

definition labsound_sampled_audio_node_from_file ::
  "ls_lib \<Rightarrow> address \<Rightarrow> address \<Rightarrow> string option \<Rightarrow> bool \<Rightarrow> ls_state \<Rightarrow> ls_fault + (address \<times> ls_state)" where
  "labsound_sampled_audio_node_from_file lib a ctx file_path mix_to_mono s =
     (if ctx = 0 then Inr (0, s)
      else case file_path of
             None \<Rightarrow> Inr (0, s)
           | Some path \<Rightarrow> on_object ctx (sampled_from_bus lib (MakeBusFromFile path mix_to_mono) a ctx) s)"

definition labsound_sampled_audio_node_from_memory ::
  "ls_lib \<Rightarrow> address \<Rightarrow> address \<Rightarrow> byte list option \<Rightarrow> nat \<Rightarrow> bool \<Rightarrow> ls_state \<Rightarrow> ls_fault + (address \<times> ls_state)" where
  "labsound_sampled_audio_node_from_memory lib a ctx file_contents file_size mix_to_mono s =
     (if ctx = 0 then Inr (0, s)
      else case file_contents of
             None \<Rightarrow> Inr (0, s)
           | Some bs \<Rightarrow>
               (if length bs < file_size then Inl Ls_undefined
                else on_object ctx (sampled_from_bus lib (MakeBusFromMemory (take file_size bs) mix_to_mono) a ctx) s))"

definition labsound_sampled_audio_node_destroy :: "address \<Rightarrow> ls_state \<Rightarrow> ls_fault + ls_state" where
  "labsound_sampled_audio_node_destroy sampled_audio_node s = delete_object Sampled_node sampled_audio_node s"

definition labsound_sampled_audio_node_start ::
  "address \<Rightarrow> c_float \<Rightarrow> int \<Rightarrow> ls_state \<Rightarrow> ls_fault + (bool \<times> ls_state)" where
  "labsound_sampled_audio_node_start node start_at loopCount s =
     (if node = 0 then Inr (False, s)
      else on_object node (\<lambda>s. (True, call_ls (Sampled_start node start_at loopCount) s)) s)"

definition labsound_sampled_audio_node_stop :: "address \<Rightarrow> c_float \<Rightarrow> ls_state \<Rightarrow> ls_fault + (bool \<times> ls_state)" where
  "labsound_sampled_audio_node_stop node stop_at s =
     (if node = 0 then Inr (False, s)
      else on_object node (\<lambda>s. (True, call_ls (Sampled_stop node stop_at) s)) s)"

text \<open>The root node is passed on without a check for null.\<close>

definition labsound_print_graph :: "address \<Rightarrow> ls_state \<Rightarrow> ls_fault + ls_state" where
  "labsound_print_graph root_node s =
     (if root_node \<noteq> 0 \<and> ls_live s root_node = None then Inl Ls_undefined
      else Inr (call_ls (PrintGraph root_node) s))"

section \<open>Lemmas\<close>

lemma copy_samplerates_run:
  "copy_samplerates rs i dst =
     (if i + length rs \<le> length dst then Some (take i dst @ rs @ drop (i + length rs) dst)
      else if rs = [] then Some dst else None)"
proof (induction rs arbitrary: i dst)
  case (Cons r rs)
  show ?case
  proof (cases "i < length dst")
    case True
    then have "take (Suc i) (dst[i := r]) = take i dst @ [r]" by (rule take_Suc_list_update)
    then show ?thesis using Cons [of "Suc i" "dst[i := r]"] True by (auto simp: write_at_Some)
  next
    case False
    then show ?thesis by (simp add: write_at_None)
  qed
qed simp

lemma pick_defaults_run:
  "pick_defaults devs out inp =
     (last (out # filter di_is_default_output devs), last (inp # filter di_is_default_input devs))"
  by (induction devs arbitrary: out inp) auto

text \<open>A connection at index 0 can be made but, with assertions, not be removed.\<close>

lemma connect_disconnect_mismatch:
  assumes "ctx \<noteq> 0" "d \<noteq> 0" "src \<noteq> 0" "ls_live s ctx \<noteq> None" "ls_live s d \<noteq> None" "ls_live s src \<noteq> None"
  shows "labsound_context_connect False ctx d src 0 0 s = Inr (True, call_ls (Context_connect ctx d src 0 0) s)"
    "labsound_context_disconnect False ctx d src 0 0 s = Inl Ls_assertion"
  using assms by (simp_all add: labsound_context_connect_def labsound_context_disconnect_def ls_assert_def)

text \<open>Setting the velocity of the listener sets its position.\<close>

lemma listener_velocity_is_position:
  "labsound_context_listener_set_velocity = labsound_context_listener_set_position"
  by (intro ext) (simp add: labsound_context_listener_set_velocity_def labsound_context_listener_set_position_def)

text \<open>Connecting leaves the ownership of all objects with the caller.\<close>

lemma connect_keeps_objects:
  "labsound_context_connect ndebug ctx d src i j s = Inr (b, s') \<Longrightarrow> ls_live s' = ls_live s"
  "labsound_context_disconnect ndebug ctx d src i j s = Inr (b, s') \<Longrightarrow> ls_live s' = ls_live s"
  by (auto simp: labsound_context_connect_def labsound_context_disconnect_def ls_assert_def call_ls_def split: if_splits)

section \<open>Properties\<close>

text \<open>
  C35. Reading the details of a device: a device whose name has up to 255 characters and that
  supports up to 32 sample rates is copied completely into the C struct, with and without
  assertions. A longer name stops at an assertion, or overruns the struct without them. Between
  33 and 128 sample rates pass the assertion, which compares their number with the size of the
  array in bytes, and overrun the array.
\<close>

theorem labsound_device_info_bounds:
  assumes "audio_devices lib (ls_calls s @ [MakeAudioDeviceList]) = devs" "i < length devs" "devs ! i = dev"
    and "di_index dev = int i" "no_nul (di_identifier dev)"
    and "length (di_identifier info) = 256" "length (di_supported_samplerates info) = 32"
  shows "(length (di_identifier dev) \<le> 255 \<and> length (di_supported_samplerates dev) \<le> 32 \<longrightarrow>
       (\<exists>info'. labsound_get_device_info lib ndebug i (Some info) s = Inr ((True, Some info'), call_ls MakeAudioDeviceList s)
          \<and> info' = \<lparr>di_index = int i,
               di_identifier = di_identifier dev @ NUL # drop (Suc (length (di_identifier dev))) (di_identifier info),
               di_num_output_channels = di_num_output_channels dev, di_num_input_channels = di_num_input_channels dev,
               di_supported_samplerates = di_supported_samplerates dev
                 @ drop (length (di_supported_samplerates dev)) (di_supported_samplerates info),
               di_nominal_samplerate = di_nominal_samplerate dev,
               di_is_default_output = di_is_default_output dev, di_is_default_input = di_is_default_input dev\<rparr>
          \<and> c_str (di_identifier info') = di_identifier dev \<and> length (di_identifier info') = 256
          \<and> length (di_supported_samplerates info') = 32))
     \<and> (256 \<le> length (di_identifier dev) \<longrightarrow>
          labsound_get_device_info lib ndebug i (Some info) s = Inl (if ndebug then Ls_undefined else Ls_assertion))
     \<and> (length (di_identifier dev) \<le> 255 \<and> 32 < length (di_supported_samplerates dev)
          \<and> length (di_supported_samplerates dev) \<le> 128 \<longrightarrow>
          labsound_get_device_info lib ndebug i (Some info) s = Inl Ls_undefined)"
proof -
  let ?n = "length (di_identifier dev)" and ?k = "length (di_supported_samplerates dev)"
  have c: "c_str (di_identifier dev) = di_identifier dev" using assms(5) by simp
  have w: "\<exists>b. strncpy (di_identifier info) (di_identifier dev) ?n = Some b
      \<and> write_at b ?n NUL = Some (di_identifier dev @ NUL # drop (Suc ?n) (di_identifier info))" if "?n \<le> 255"
    using strncpy_append_NUL [of ?n "di_identifier info" "di_identifier dev"] that assms(6) c by simp
  have n: "(case strncpy (di_identifier info) (di_identifier dev) ?n of None \<Rightarrow> Inl Ls_undefined
      | Some b \<Rightarrow> (case write_at b ?n NUL of None \<Rightarrow> Inl Ls_undefined | Some c \<Rightarrow> f c)) = Inl Ls_undefined"
    if "256 \<le> ?n" for f :: "string \<Rightarrow> ls_fault + ((bool \<times> labsound_audio_device_info option) \<times> ls_state)"
    using that assms(6) by (auto simp: strncpy_def write_at_def c)
  note d = labsound_get_device_info_def ls_assert_def sizeof_identifier_def sizeof_supported_samplerates_def
    call_ls_def Let_def copy_samplerates_run
  show ?thesis
  proof (intro conjI impI)
    assume "?n \<le> 255 \<and> ?k \<le> 32"
    then show "\<exists>info'. labsound_get_device_info lib ndebug i (Some info) s = Inr ((True, Some info'), call_ls MakeAudioDeviceList s)
          \<and> info' = \<lparr>di_index = int i, di_identifier = di_identifier dev @ NUL # drop (Suc ?n) (di_identifier info),
               di_num_output_channels = di_num_output_channels dev, di_num_input_channels = di_num_input_channels dev,
               di_supported_samplerates = di_supported_samplerates dev @ drop ?k (di_supported_samplerates info),
               di_nominal_samplerate = di_nominal_samplerate dev,
               di_is_default_output = di_is_default_output dev, di_is_default_input = di_is_default_input dev\<rparr>
          \<and> c_str (di_identifier info') = di_identifier dev \<and> length (di_identifier info') = 256
          \<and> length (di_supported_samplerates info') = 32"
      using w assms by (auto simp: d)
  next
    assume "256 \<le> ?n"
    then show "labsound_get_device_info lib ndebug i (Some info) s = Inl (if ndebug then Ls_undefined else Ls_assertion)"
      using n assms by (simp add: d)
  next
    assume "?n \<le> 255 \<and> 32 < ?k \<and> ?k \<le> 128"
    then show "labsound_get_device_info lib ndebug i (Some info) s = Inl Ls_undefined"
      using w assms by (auto simp: d)
  qed
qed

definition sample_device :: AudioDeviceInfo where
  "sample_device = \<lparr>di_index = 0, di_identifier = ''speakers'', di_num_output_channels = 2, di_num_input_channels = 0,
     di_supported_samplerates = [0x472C4400, 0x473B8000], di_nominal_samplerate = 0x473B8000,
     di_is_default_output = True, di_is_default_input = False\<rparr>"

definition sample_labsound :: ls_lib where
  "sample_labsound = \<lparr>audio_devices = (\<lambda>cs. [sample_device]),
     no_device = \<lparr>di_index = - 1, di_identifier = [], di_num_output_channels = 0, di_num_input_channels = 0,
       di_supported_samplerates = [], di_nominal_samplerate = 0, di_is_default_output = False, di_is_default_input = False\<rparr>,
     no_stream = \<lparr>device_index = - 1, desired_channels = 0, desired_samplerate = 0\<rparr>,
     float_less = (\<lambda>a b. a < b), float_differ = (\<lambda>a b. a \<noteq> b), hrtf_result = (\<lambda>cs. True), has_listener = (\<lambda>p. True),
     has_gain = (\<lambda>p. True), bus_result = (\<lambda>cs. True)\<rparr>"

definition empty_device_info :: labsound_audio_device_info where
  "empty_device_info = \<lparr>di_index = 0, di_identifier = replicate 256 NUL, di_num_output_channels = 0, di_num_input_channels = 0,
     di_supported_samplerates = replicate 32 0, di_nominal_samplerate = 0, di_is_default_output = False, di_is_default_input = False\<rparr>"

theorem labsound_device_info_bounds_witness:
  "\<exists>info' s'. labsound_get_device_info sample_labsound False 0 (Some empty_device_info) \<lparr>ls_calls = [], ls_live = Map.empty\<rparr>
      = Inr ((True, Some info'), s') \<and> c_str (di_identifier info') = ''speakers''
     \<and> di_num_output_channels info' = 2 \<and> di_is_default_output info' \<and> \<not> di_is_default_input info'"
proof -
  have "audio_devices sample_labsound (ls_calls \<lparr>ls_calls = [], ls_live = Map.empty\<rparr> @ [MakeAudioDeviceList]) = [sample_device]"
    by (simp add: sample_labsound_def)
  moreover have "no_nul (di_identifier sample_device)" by (simp add: sample_device_def no_nul_def NUL_def)
  ultimately show ?thesis
    using labsound_device_info_bounds [of sample_labsound "\<lparr>ls_calls = [], ls_live = Map.empty\<rparr>" "[sample_device]" 0 sample_device
        empty_device_info False]
    by (auto simp: empty_device_info_def sample_device_def)
qed

text \<open>
  Without a default input device the output device is configured with the sample rate of
  the missing one, that is zero, although no input was asked for and the device has a rate of
  its own: the rates are compared whether or not an input is used.
\<close>

theorem labsound_output_rate_without_input:
  assumes "audio_devices lib (ls_calls s @ [MakeAudioDeviceList]) = devs" "filter di_is_default_input devs = []"
    and "filter di_is_default_output devs \<noteq> []" "dev = last (filter di_is_default_output devs)"
    and "di_nominal_samplerate (no_device lib) = 0"
    and "float_differ lib (di_nominal_samplerate dev) 0" "float_less lib 0 (di_nominal_samplerate dev)"
  shows "\<exists>in_c out_c. labsound_get_default_device_config lib (Some ic) (Some oc) False s =
       ((True, Some in_c, Some out_c), call_ls MakeAudioDeviceList s) \<and> desired_samplerate out_c = 0"
  using assms by (auto simp: labsound_get_default_device_config_def pick_defaults_run call_ls_def float_min_def Let_def)

theorem labsound_output_rate_without_input_witness:
  "\<exists>in_c out_c. labsound_get_default_device_config sample_labsound (Some (no_stream sample_labsound)) (Some (no_stream sample_labsound))
      False \<lparr>ls_calls = [], ls_live = Map.empty\<rparr>
    = ((True, Some in_c, Some out_c), call_ls MakeAudioDeviceList \<lparr>ls_calls = [], ls_live = Map.empty\<rparr>)
    \<and> desired_samplerate out_c = 0"
  by (rule labsound_output_rate_without_input [where devs = "[sample_device]" and dev = sample_device])
    (simp_all add: sample_labsound_def sample_device_def)

text \<open>With matching devices the configuration is the one of the default devices, with at most
  two output channels and one input channel.\<close>

lemma labsound_default_config_matching:
  assumes "audio_devices lib (ls_calls s @ [MakeAudioDeviceList]) = devs"
    and "last (no_device lib # filter di_is_default_output devs) = out" "last (no_device lib # filter di_is_default_input devs) = inp"
    and "di_index out \<noteq> - 1" "di_index inp \<noteq> - 1"
    and "\<not> float_differ lib (di_nominal_samplerate out) (di_nominal_samplerate inp)"
  shows "labsound_get_default_device_config lib (Some ic) (Some oc) True s =
     ((True,
       Some \<lparr>device_index = di_index inp, desired_channels = min 1 (di_num_input_channels inp),
             desired_samplerate = di_nominal_samplerate inp\<rparr>,
       Some \<lparr>device_index = di_index out, desired_channels = min 2 (di_num_output_channels out),
             desired_samplerate = di_nominal_samplerate out\<rparr>), call_ls MakeAudioDeviceList s)"
  using assms by (simp add: labsound_get_default_device_config_def pick_defaults_run call_ls_def Let_def del: last.simps)

end
