(* ===== verification/Deferred_Events.thy ===== *)
theory Deferred_Events
  imports Glfw_Events Rml_Bindings
begin

text \<open>
  The event queues with all their producers. A desktop application of the runtime shares queues
  between Lua code (\<open>interop_ffi.cpp\<close>), the window callbacks (\<open>glfw_ffi.cpp\<close>) and the render
  interfaces (\<open>rml_ffi.cpp\<close>, \<open>RmlUi_Renderer_WebGPU.cpp\<close>). Each of these components was modelled
  with its own view of the memory they share; here one memory is handed to whichever component
  runs, and taken back afterwards. An operation is a call of Lua into an exported function, an
  input that GLFW reports, or a call of RmlUi into a render interface, in any order.

  The type discipline of the union \<open>deferred_event_t\<close> is an invariant of these runs: an
  admissible operation is defined, and everything Lua is handed has the tag of the member that
  was stored. The queues themselves refine a transition system with one label per operation.
\<close>

section \<open>The shared memory\<close>

record desktop =
  queue_memory :: queue_heap
  geometry_memory :: "address \<rightharpoonup> rml_geometry_info"
  window_system :: glfw_state
  render_side :: render_state
  rml_side :: rml_state

definition glfw_view :: "desktop \<Rightarrow> glfw_state" where
  "glfw_view d = (window_system d)\<lparr>queues := queue_memory d\<rparr>"

definition render_view :: "desktop \<Rightarrow> render_state" where
  "render_view d = (render_side d)\<lparr>event_queues := queue_memory d, geometries := geometry_memory d\<rparr>"

definition rml_view :: "desktop \<Rightarrow> rml_state" where
  "rml_view d = (rml_side d)\<lparr>geometry_objects := geometry_memory d\<rparr>"

definition put_glfw :: "desktop \<Rightarrow> glfw_state \<Rightarrow> desktop" where
  "put_glfw d s = d\<lparr>window_system := s, queue_memory := queues s\<rparr>"

definition put_render :: "desktop \<Rightarrow> render_state \<Rightarrow> desktop" where
  "put_render d s = d\<lparr>render_side := s, queue_memory := event_queues s, geometry_memory := geometries s\<rparr>"

definition put_rml :: "desktop \<Rightarrow> rml_state \<Rightarrow> desktop" where
  "put_rml d s = d\<lparr>rml_side := s, geometry_memory := geometry_objects s\<rparr>"

section \<open>Operations\<close>

text \<open>What RmlUi calls on a render interface. Vertices are opaque to the interface.\<close>

datatype render_op =
    R_compile address "nat list" "int list"
  | R_draw address "c_float \<times> c_float" address
  | R_release address
  | R_scissor_status bool
  | R_scissor_region int int int int
  | R_load string
  | R_generate "byte list" int int
  | R_release_texture address
  | R_transform "c_float list option"

fun render_perform ::
  "gpu_env \<Rightarrow> RenderInterface_WebGPU \<Rightarrow> render_op \<Rightarrow> render_state \<Rightarrow> rml_fault + render_state" where
  "render_perform env r (R_compile a vertices indices) s =
     map_sum id snd (CompileGeometry env a r vertices indices s)"
| "render_perform env r (R_draw g translation t) s = RenderGeometry r g translation t s"
| "render_perform env r (R_release g) s = ReleaseGeometry r g s"
| "render_perform env r (R_scissor_status b) s = EnableScissorRegion r b s"
| "render_perform env r (R_scissor_region x y w h) s = SetScissorRegion r x y w h s"
| "render_perform env r (R_load source) s = map_sum id (snd \<circ> snd) (LoadTexture env r source s)"
| "render_perform env r (R_generate bytes x y) s = map_sum id snd (GenerateTexture env r bytes x y s)"
| "render_perform env r (R_release_texture t) s = ReleaseTexture r t s"
| "render_perform env r (R_transform m) s = SetTransform r m s"

datatype desktop_op =
    D_create address
  | D_destroy address
  | D_push address deferred_event
  | D_pop address
  | D_register address address
  | D_input address glfw_input
  | D_new_renderer address address address
  | D_delete_renderer address
  | D_free_geometry address
  | D_render address render_op

text \<open>One operation: the events it hands to Lua and the next state; \<open>None\<close> is undefined behaviour
  or a failed assertion.\<close>

fun desktop_step :: "gpu_env \<Rightarrow> desktop_op \<Rightarrow> desktop \<Rightarrow> (deferred_event list \<times> desktop) option" where
  "desktop_step env (D_create a) d = Some ([], d\<lparr>queue_memory := snd (queue_create a (queue_memory d))\<rparr>)"
| "desktop_step env (D_destroy q) d =
     map_option (\<lambda>h. ([], d\<lparr>queue_memory := h\<rparr>)) (queue_destroy q (queue_memory d))"
| "desktop_step env (D_push q e) d =
     map_option (\<lambda>(ok, h). ([], d\<lparr>queue_memory := h\<rparr>)) (queue_push_event q e (queue_memory d))"
| "desktop_step env (D_pop q) d =
     map_option (\<lambda>(e, h). ([e], d\<lparr>queue_memory := h\<rparr>)) (queue_pop_event q (queue_memory d))"
| "desktop_step env (D_register w q) d = Some ([], put_glfw d (glfw_register_events w q (glfw_view d)))"
| "desktop_step env (D_input w i) d =
     map_option (\<lambda>s. ([], put_glfw d s)) (glfw_input_event w i (glfw_view d))"
| "desktop_step env (D_new_renderer a device q) d =
     Some ([], put_rml d (snd (rml_create_wgpu_render_interface a device q (rml_view d))))"
| "desktop_step env (D_delete_renderer p) d =
     map_option (\<lambda>s. ([], put_rml d s)) (rml_destroy_wgpu_render_interface p (rml_view d))"
| "desktop_step env (D_free_geometry p) d =
     map_option (\<lambda>s. ([], put_rml d s)) (rml_release_compiled_geometry p (rml_view d))"
| "desktop_step env (D_render p op) d =
     (case render_interfaces (rml_side d) p of
        None \<Rightarrow> None
      | Some r \<Rightarrow>
          (case render_perform env r op (render_view d) of
             Inl f \<Rightarrow> None
           | Inr s \<Rightarrow> Some ([], put_render d s)))"

fun desktop_run :: "gpu_env \<Rightarrow> desktop_op list \<Rightarrow> desktop \<Rightarrow> (deferred_event list \<times> desktop) option" where
  "desktop_run env [] d = Some ([], d)"
| "desktop_run env (op # ops) d =
     (case desktop_step env op d of
        None \<Rightarrow> None
      | Some (es, d1) \<Rightarrow>
          (case desktop_run env ops d1 of
             None \<Rightarrow> None
           | Some (es', d2) \<Rightarrow> Some (es @ es', d2)))"

section \<open>The queues as a transition system\<close>

datatype queue_label =
    Emit address deferred_event
  | Take address deferred_event
  | Refuse address
  | Open address
  | Close address
  | Silent

inductive queue_step :: "queue_heap \<Rightarrow> queue_label \<Rightarrow> queue_heap \<Rightarrow> bool" where
  emit: "h q = Some es \<Longrightarrow> queue_step h (Emit q e) (h(q \<mapsto> es @ [e]))"
| take: "h q = Some (e # es) \<Longrightarrow> queue_step h (Take q e) (h(q \<mapsto> es))"
| refuse: "h q = Some [] \<Longrightarrow> queue_step h (Refuse q) h"
| opened: "queue_step h (Open q) (h(q \<mapsto> []))"
| closed: "h q = Some es \<Longrightarrow> queue_step h (Close q) (h(q := None))"
| silent: "queue_step h Silent h"

inductive_simps queue_step_simps [simp]:
  "queue_step h (Emit q e) h'" "queue_step h (Take q e) h'" "queue_step h (Refuse q) h'"
  "queue_step h (Open q) h'" "queue_step h (Close q) h'" "queue_step h Silent h'"

inductive queue_run :: "queue_heap \<Rightarrow> queue_label list \<Rightarrow> queue_heap \<Rightarrow> bool" where
  queue_run_Nil: "queue_run h [] h"
| queue_run_Cons: "queue_step h l h1 \<Longrightarrow> queue_run h1 ls h2 \<Longrightarrow> queue_run h (l # ls) h2"

fun handed :: "queue_label \<Rightarrow> deferred_event list" where
  "handed (Take q e) = [e]"
| "handed (Refuse q) = [Error_details ERROR_EVENT ERROR_POPPING_EMPTY_QUEUE]"
| "handed l = []"

fun emitted :: "address \<Rightarrow> queue_label list \<Rightarrow> deferred_event list" where
  "emitted q [] = []"
| "emitted q (Emit p e # ls) = (if p = q then e # emitted q ls else emitted q ls)"
| "emitted q (l # ls) = emitted q ls"

fun taken :: "address \<Rightarrow> queue_label list \<Rightarrow> deferred_event list" where
  "taken q [] = []"
| "taken q (Take p e # ls) = (if p = q then e # taken q ls else taken q ls)"
| "taken q (l # ls) = taken q ls"

definition keeps_queue :: "address \<Rightarrow> queue_label \<Rightarrow> bool" where
  "keeps_queue q l \<longleftrightarrow> l \<noteq> Open q \<and> l \<noteq> Close q"

lemma queue_run_fifo:
  "queue_run h ls h' \<Longrightarrow> list_all (keeps_queue q) ls \<Longrightarrow>
   taken q ls @ heap_contents q h' = heap_contents q h @ emitted q ls"
proof (induction rule: queue_run.induct)
  case (queue_run_Cons h l h1 ls h2)
  then have IH: "taken q ls @ heap_contents q h2 = heap_contents q h1 @ emitted q ls" by simp
  have "keeps_queue q l" using queue_run_Cons.prems by simp
  then show ?case using queue_run_Cons.hyps(1) IH
    by (cases l) (auto simp: heap_contents_def keeps_queue_def)
qed simp

section \<open>The label of an operation\<close>

text \<open>The event a render command announces.\<close>

fun announced :: "gpu_env \<Rightarrow> render_op \<Rightarrow> render_state \<Rightarrow> deferred_event option" where
  "announced env (R_compile a vertices indices) s =
     (case CreateVertexBuffer env vertices (size_to_int (length vertices)) s of
        Inl f \<Rightarrow> None
      | Inr (v, s1) \<Rightarrow>
          (case CreateIndexBuffer env indices (size_to_int (length indices)) s1 of
             Inl f \<Rightarrow> None
           | Inr (i, s2) \<Rightarrow> Some (Geometry_compilation_details GEOMETRY_COMPILATION_EVENT
               \<lparr>vertex_buffer = v, num_vertices = size_to_int (length vertices),
                index_buffer = i, num_indices = size_to_int (length indices)\<rparr>)))"
| "announced env (R_draw g translation t) s =
     map_option (\<lambda>x. Geometry_render_details GEOMETRY_RENDER_EVENT x (fst translation) (snd translation) t)
       (geometries s g)"
| "announced env (R_release g) s =
     map_option (Geometry_release_details GEOMETRY_RELEASE_EVENT) (geometries s g)"
| "announced env (R_scissor_status b) s = Some (Scissortest_status_details SCISSORTEST_STATUS_EVENT b)"
| "announced env (R_scissor_region x y w h) s =
     Some (Scissortest_region_details SCISSORTEST_REGION_EVENT x y w h)"
| "announced env (R_load source) s =
     map_option (\<lambda>(bytes, x, y). Texture_load_details TEXTURE_LOAD_EVENT
       (new_texture env (gpu_calls s @ [Create_texture (word_of_int x) (word_of_int y)])))
       (load_image env source)"
| "announced env (R_generate bytes x y) s =
     Some (Texture_generation_details TEXTURE_GENERATION_EVENT
       (new_texture env (gpu_calls s @ [Create_texture (word_of_int x) (word_of_int y)])))"
| "announced env (R_release_texture t) s = Some (Texture_release_details TEXTURE_RELEASE_EVENT t)"
| "announced env (R_transform m) s =
     map_option (Transformation_update_details TRANSFORMATION_UPDATE_EVENT)
       (read_all (case m of None \<Rightarrow> identity_matrix | Some t \<Rightarrow> t) transform_indices)"

definition emit_label :: "address \<Rightarrow> deferred_event option \<Rightarrow> queue_label" where
  "emit_label q e = (case e of None \<Rightarrow> Silent | Some e \<Rightarrow> Emit q e)"

fun op_label :: "gpu_env \<Rightarrow> desktop_op \<Rightarrow> desktop \<Rightarrow> queue_label" where
  "op_label env (D_create a) d = Open a"
| "op_label env (D_destroy q) d = (if q = 0 then Silent else Close q)"
| "op_label env (D_push q e) d = (if q = 0 then Silent else Emit q e)"
| "op_label env (D_pop q) d =
     (case heap_contents q (queue_memory d) of [] \<Rightarrow> Refuse q | e # es \<Rightarrow> Take q e)"
| "op_label env (D_input w i) d =
     (if input_kind i \<in> set (callbacks (window_system d) w)
      then Emit (user_pointer (window_system d) w) (input_event i) else Silent)"
| "op_label env (D_render p op) d =
     (case render_interfaces (rml_side d) p of
        None \<Rightarrow> Silent
      | Some r \<Rightarrow> emit_label (m_eventQueue r) (announced env op (render_view d)))"
| "op_label env op d = Silent"

fun desktop_labels :: "gpu_env \<Rightarrow> desktop_op list \<Rightarrow> desktop \<Rightarrow> queue_label list" where
  "desktop_labels env [] d = []"
| "desktop_labels env (op # ops) d =
     op_label env op d #
       (case desktop_step env op d of None \<Rightarrow> [] | Some (es, d1) \<Rightarrow> desktop_labels env ops d1)"

lemma heap_push_step: "heap_push q e h = Some h' \<Longrightarrow> queue_step h (Emit q e) h'"
  by (auto simp: heap_push_def std_push_def split: option.splits)

lemma push_render_event_step:
  "push_render_event r e s = Inr s' \<Longrightarrow>
   queue_step (event_queues s) (Emit (m_eventQueue r) e) (event_queues s')"
  by (auto simp: push_render_event_def heap_push_def std_push_def split: option.splits)

lemma CreateTexture_fields:
  "CreateTexture env bytes x y s = Inr (t, s') \<Longrightarrow>
   t = new_texture env (gpu_calls s @ [Create_texture x y]) \<and> event_queues s' = event_queues s
     \<and> geometries s' = geometries s"
  by (auto simp: CreateTexture_def Let_def split: if_splits)

lemma CreateBuffer_fields:
  "CreateVertexBuffer env vertices n s = Inr (b, s') \<Longrightarrow>
     event_queues s' = event_queues s \<and> geometries s' = geometries s"
  "CreateIndexBuffer env indices n s = Inr (b, s') \<Longrightarrow>
     event_queues s' = event_queues s \<and> geometries s' = geometries s"
  by (auto simp: CreateVertexBuffer_def CreateIndexBuffer_def Let_def split: if_splits)

lemma render_perform_step:
  assumes "render_perform env r op s = Inr s'"
  shows "queue_step (event_queues s) (emit_label (m_eventQueue r) (announced env op s)) (event_queues s')"
proof (cases op)
  case (R_compile a vertices indices)
  then obtain v s1 i s2 where v: "CreateVertexBuffer env vertices (size_to_int (length vertices)) s = Inr (v, s1)"
    and i: "CreateIndexBuffer env indices (size_to_int (length indices)) s1 = Inr (i, s2)"
    using assms by (auto simp: CompileGeometry_def split: if_splits sum.splits)
  have "event_queues s2 = event_queues s" using CreateBuffer_fields(1) [OF v] CreateBuffer_fields(2) [OF i] by simp
  then show ?thesis using assms R_compile v i
    by (auto simp: CompileGeometry_def Let_def emit_label_def split: if_splits sum.splits
        dest!: push_render_event_step)
next
  case (R_draw g translation t)
  then show ?thesis using assms push_render_event_step
    by (auto simp: RenderGeometry_def emit_label_def split: option.splits)
next
  case (R_release g)
  then show ?thesis using assms push_render_event_step
    by (auto simp: ReleaseGeometry_def emit_label_def split: option.splits)
next
  case (R_load source)
  then show ?thesis using assms
    by (auto simp: LoadTexture_def emit_label_def split: option.splits sum.splits
        dest!: push_render_event_step CreateTexture_fields)
next
  case (R_generate bytes x y)
  then show ?thesis using assms
    by (auto simp: GenerateTexture_def emit_label_def split: sum.splits
        dest!: push_render_event_step CreateTexture_fields)
next
  case (R_transform m)
  then show ?thesis using assms push_render_event_step
    by (auto simp: SetTransform_def Let_def emit_label_def split: option.splits)
qed (use assms push_render_event_step in \<open>force simp: EnableScissorRegion_def SetScissorRegion_def
  ReleaseTexture_def emit_label_def\<close>)+

lemma glfw_register_events_queues: "queues (glfw_register_events w q s) = queues s"
proof (cases "w = 0 \<or> q = 0")
  case False
  then show ?thesis using glfw_register_events_fields(2) [of w q s] by simp
qed (auto simp: glfw_register_events_def)

lemma desktop_step_label:
  assumes "desktop_step env op d = Some (es, d')"
  shows "queue_step (queue_memory d) (op_label env op d) (queue_memory d') \<and> es = handed (op_label env op d)"
proof (cases op)
  case (D_render p rop)
  then obtain r s where "render_interfaces (rml_side d) p = Some r"
    "render_perform env r rop (render_view d) = Inr s" "es = []" "d' = put_render d s"
    using assms by (auto split: option.splits sum.splits)
  then show ?thesis using render_perform_step [of env r rop "render_view d" s] D_render
    by (auto simp: render_view_def put_render_def emit_label_def split: option.splits)
next
  case (D_input w i)
  then show ?thesis using assms
    by (auto simp: glfw_input_event_def run_callback_event push_to_window_queue_def glfw_view_def
        put_glfw_def split: if_splits dest!: heap_push_step)
next
  case (D_pop q)
  then show ?thesis using assms
    by (auto simp: queue_pop_event_def heap_contents_def std_pop_def split: option.splits list.splits if_splits)
next
  case (D_new_renderer a device q)
  then show ?thesis using assms by (auto simp: put_rml_def)
qed (use assms in \<open>auto simp: queue_create_def queue_destroy_def queue_push_event_def std_push_def put_glfw_def
  put_rml_def glfw_view_def glfw_register_events_queues split: option.splits if_splits\<close>)

lemma desktop_run_labels:
  "desktop_run env ops d = Some (es, d') \<Longrightarrow>
   queue_run (queue_memory d) (desktop_labels env ops d) (queue_memory d')
     \<and> es = concat (map handed (desktop_labels env ops d))"
proof (induction ops arbitrary: d es)
  case (Cons op ops)
  then obtain es1 d1 es2 where s: "desktop_step env op d = Some (es1, d1)"
    "desktop_run env ops d1 = Some (es2, d')" "es = es1 @ es2"
    by (auto split: option.splits)
  show ?case using desktop_step_label [OF s(1)] Cons.IH [OF s(2)] s
    by (auto intro: queue_run_Cons)
qed (auto intro: queue_run_Nil)

section \<open>Admissible operations\<close>

text \<open>
  What the rest of the application has to respect. Lua destroys a queue only when no window and no
  render interface uses it, pushes events whose type belongs to the member it filled in, and does
  not pop from a null queue; the allocator returns unused addresses; RmlUi compiles meshes whose
  sizes fit an \<open>int\<close>, uses geometry that it compiled and textures whose pixels it has, and passes a
  null pointer or a \<open>Matrix4f\<close>, that is sixteen floats, to \<open>SetTransform\<close>.
\<close>

definition used_queue :: "desktop \<Rightarrow> address \<Rightarrow> bool" where
  "used_queue d q \<longleftrightarrow>
     (\<exists>w. callbacks (window_system d) w \<noteq> [] \<and> user_pointer (window_system d) w = q)
     \<or> (\<exists>p r. render_interfaces (rml_side d) p = Some r \<and> m_eventQueue r = q)"

definition enough_pixels :: "byte list \<Rightarrow> int \<Rightarrow> int \<Rightarrow> bool" where
  "enough_pixels bytes x y \<longleftrightarrow>
     unat ((ucast (word_of_int x :: u32) :: u64) * ucast (word_of_int y :: u32) * 4) \<le> length bytes"

fun render_admissible :: "gpu_env \<Rightarrow> render_op \<Rightarrow> desktop \<Rightarrow> bool" where
  "render_admissible env (R_compile a vertices indices) d \<longleftrightarrow>
     geometry_memory d a = None \<and> vertices \<noteq> [] \<and> indices \<noteq> []
     \<and> length vertices < 2 ^ 31 \<and> length indices < 2 ^ 31"
| "render_admissible env (R_draw g translation t) d \<longleftrightarrow> geometry_memory d g \<noteq> None"
| "render_admissible env (R_release g) d \<longleftrightarrow> geometry_memory d g \<noteq> None"
| "render_admissible env (R_load source) d \<longleftrightarrow>
     (case load_image env source of None \<Rightarrow> True | Some (bytes, x, y) \<Rightarrow> enough_pixels bytes x y)"
| "render_admissible env (R_generate bytes x y) d \<longleftrightarrow> enough_pixels bytes x y"
| "render_admissible env (R_transform m) d \<longleftrightarrow>
     (case m of None \<Rightarrow> True | Some t \<Rightarrow> length t = 16)"
| "render_admissible env op d \<longleftrightarrow> True"

fun desktop_admissible :: "gpu_env \<Rightarrow> desktop_op \<Rightarrow> desktop \<Rightarrow> bool" where
  "desktop_admissible env (D_create a) d \<longleftrightarrow> a \<noteq> 0 \<and> queue_memory d a = None"
| "desktop_admissible env (D_destroy q) d \<longleftrightarrow> q = 0 \<or> queue_memory d q \<noteq> None \<and> \<not> used_queue d q"
| "desktop_admissible env (D_push q e) d \<longleftrightarrow> q = 0 \<or> queue_memory d q \<noteq> None \<and> well_tagged e"
| "desktop_admissible env (D_pop q) d \<longleftrightarrow> live_queue q (queue_memory d)"
| "desktop_admissible env (D_register w q) d \<longleftrightarrow> q = 0 \<or> queue_memory d q \<noteq> None"
| "desktop_admissible env (D_input w i) d \<longleftrightarrow> True"
| "desktop_admissible env (D_new_renderer a device q) d \<longleftrightarrow>
     q = 0 \<or> queue_memory d q \<noteq> None \<and> render_interfaces (rml_side d) a = None"
| "desktop_admissible env (D_delete_renderer p) d \<longleftrightarrow> p = 0 \<or> render_interfaces (rml_side d) p \<noteq> None"
| "desktop_admissible env (D_free_geometry p) d \<longleftrightarrow> p = 0 \<or> geometry_memory d p \<noteq> None"
| "desktop_admissible env (D_render p op) d \<longleftrightarrow>
     render_interfaces (rml_side d) p \<noteq> None \<and> render_admissible env op d"

fun desktop_admissible_run :: "gpu_env \<Rightarrow> desktop_op list \<Rightarrow> desktop \<Rightarrow> bool" where
  "desktop_admissible_run env [] d \<longleftrightarrow> True"
| "desktop_admissible_run env (op # ops) d \<longleftrightarrow> desktop_admissible env op d \<and>
     (case desktop_step env op d of None \<Rightarrow> True | Some (es, d1) \<Rightarrow> desktop_admissible_run env ops d1)"

definition desktop_ok :: "desktop \<Rightarrow> bool" where
  "desktop_ok d \<longleftrightarrow> (\<forall>q. used_queue d q \<longrightarrow> live_queue q (queue_memory d))
     \<and> (\<forall>q. list_all well_tagged (heap_contents q (queue_memory d)))"

definition attached :: "desktop_op \<Rightarrow> address \<Rightarrow> bool" where
  "attached op q \<longleftrightarrow> q \<noteq> 0 \<and> ((\<exists>w. op = D_register w q) \<or> (\<exists>a v. op = D_new_renderer a v q))"

lemma used_queue_fields:
  assumes "callbacks (window_system d') = callbacks (window_system d)"
    "user_pointer (window_system d') = user_pointer (window_system d)"
    "render_interfaces (rml_side d') = render_interfaces (rml_side d)"
  shows "used_queue d' q = used_queue d q"
  using assms by (simp add: used_queue_def)

lemma used_queue_register:
  assumes "used_queue (put_glfw d (glfw_register_events w p (glfw_view d))) q"
  shows "used_queue d q \<or> p \<noteq> 0 \<and> p = q"
proof (cases "w = 0 \<or> p = 0")
  case True
  then show ?thesis using assms
    by (auto simp: glfw_register_events_def put_glfw_def glfw_view_def used_queue_def)
next
  case False
  then have w: "w \<noteq> 0" "p \<noteq> 0" by auto
  have "callbacks (glfw_register_events w p (glfw_view d)) x \<noteq> [] \<longleftrightarrow> callbacks (window_system d) x \<noteq> []"
    if "x \<noteq> w" for x
    using glfw_register_events_fields(3) [OF w that, of "glfw_view d"]
    by (simp add: glfw_view_def flip: set_empty)
  then show ?thesis using assms w glfw_register_events_fields(1) [OF w, of "glfw_view d"]
    by (auto simp: used_queue_def put_glfw_def glfw_view_def split: if_splits)
qed

lemma glfw_input_event_fields:
  "glfw_input_event w i s = Some s' \<Longrightarrow> callbacks s' = callbacks s \<and> user_pointer s' = user_pointer s"
  by (auto simp: glfw_input_event_def run_callback_event push_to_window_queue_def split: if_splits)

lemma used_queue_step:
  assumes "desktop_step env op d = Some (es, d')" "used_queue d' q"
  shows "used_queue d q \<or> attached op q"
proof (cases op)
  case (D_register w p)
  then show ?thesis using assms used_queue_register [of d w p q] by (auto simp: attached_def)
next
  case (D_input w i)
  then obtain s where s: "glfw_input_event w i (glfw_view d) = Some s" "d' = put_glfw d s"
    using assms(1) by auto
  show ?thesis using assms(2) glfw_input_event_fields [OF s(1)] s(2)
    by (simp add: used_queue_def put_glfw_def glfw_view_def)
next
  case (D_new_renderer a v p)
  have "attached op q" if "p = q" "p \<noteq> 0" using that D_new_renderer by (auto simp: attached_def)
  then show ?thesis using assms D_new_renderer
    by (fastforce simp: used_queue_def put_rml_def rml_view_def rml_create_wgpu_render_interface_def
        split: if_splits)
next
  case (D_delete_renderer p)
  then show ?thesis using assms
    by (fastforce simp: used_queue_def put_rml_def rml_view_def rml_destroy_wgpu_render_interface_def
        split: if_splits)
next
  case (D_free_geometry p)
  then show ?thesis using assms
    by (fastforce simp: used_queue_def put_rml_def rml_view_def rml_release_compiled_geometry_def
        split: if_splits)
qed (use assms in \<open>fastforce simp: used_queue_def put_render_def split: option.splits sum.splits\<close>)+

text \<open>The labels that change what a queue holds carry well-tagged events.\<close>

definition typed_label :: "queue_label \<Rightarrow> bool" where
  "typed_label l \<longleftrightarrow> (case l of Emit q e \<Rightarrow> well_tagged e | _ \<Rightarrow> True)"

definition typed_heap :: "queue_heap \<Rightarrow> bool" where
  "typed_heap h \<longleftrightarrow> (\<forall>q. list_all well_tagged (heap_contents q h))"

lemma typed_queue_step:
  assumes "queue_step h l h'" "typed_label l" "typed_heap h"
  shows "typed_heap h' \<and> list_all well_tagged (handed l)"
  using assms(1)
proof (cases rule: queue_step.cases)
  case (take q e es)
  have "list_all well_tagged (heap_contents q h)" using assms(3) by (simp add: typed_heap_def)
  then show ?thesis using take assms(3) by (auto simp: typed_heap_def heap_contents_def)
next
  case (emit q es e)
  have "list_all well_tagged (heap_contents q h)" using assms(3) by (simp add: typed_heap_def)
  then show ?thesis using emit assms(2,3) by (auto simp: typed_heap_def heap_contents_def typed_label_def)
qed (use assms(3) in \<open>auto simp: typed_heap_def heap_contents_def well_tagged_def\<close>)

lemma well_tagged_announced: "announced env op s = Some e \<Longrightarrow> well_tagged e"
  by (cases op) (auto simp: well_tagged_def split: prod.splits sum.splits)

lemma typed_op_label: "desktop_admissible env op d \<Longrightarrow> typed_label (op_label env op d)"
  by (cases op) (auto simp: typed_label_def emit_label_def well_tagged_input_event well_tagged_announced
      split: option.splits list.splits)

lemma live_queue_step:
  "queue_step h l h' \<Longrightarrow> live_queue q h \<Longrightarrow> l \<noteq> Close q \<Longrightarrow> live_queue q h'"
  by (induction rule: queue_step.induct) (auto simp: live_queue_def)

lemma attached_live:
  assumes "desktop_admissible env op d" "attached op q"
  shows "live_queue q (queue_memory d)"
  using assms by (auto simp: attached_def live_queue_def)

lemma close_unused:
  assumes "desktop_admissible env op d" "op_label env op d = Close q"
  shows "\<not> used_queue d q \<and> \<not> attached op q"
  using assms by (cases op) (auto simp: emit_label_def attached_def split: if_splits list.splits option.splits)

lemma desktop_ok_typed: "desktop_ok d \<longleftrightarrow>
    (\<forall>q. used_queue d q \<longrightarrow> live_queue q (queue_memory d)) \<and> typed_heap (queue_memory d)"
  by (simp add: desktop_ok_def typed_heap_def)

lemma desktop_step_preserves:
  assumes "desktop_ok d" "desktop_admissible env op d" "desktop_step env op d = Some (es, d')"
  shows "desktop_ok d' \<and> list_all well_tagged es"
proof -
  note step = desktop_step_label [OF assms(3)]
  have t: "typed_heap (queue_memory d') \<and> list_all well_tagged es"
    using typed_queue_step [OF _ typed_op_label [OF assms(2)]] step assms(1)
    by (auto simp: desktop_ok_typed)
  moreover have "live_queue q (queue_memory d')" if "used_queue d' q" for q
  proof (rule live_queue_step)
    show "queue_step (queue_memory d) (op_label env op d) (queue_memory d')" using step by simp
    have u: "used_queue d q \<or> attached op q" using used_queue_step [OF assms(3) that] .
    then show "live_queue q (queue_memory d)"
      using assms(1) attached_live [OF assms(2)] by (auto simp: desktop_ok_typed)
    show "op_label env op d \<noteq> Close q" using close_unused [OF assms(2)] u by blast
  qed
  ultimately show ?thesis by (simp add: desktop_ok_typed)
qed

text \<open>\<open>SetTransform\<close> reads outside every matrix it can be given; all other operations are defined.\<close>

fun sets_transform :: "desktop_op \<Rightarrow> bool" where
  "sets_transform (D_render p (R_transform m)) \<longleftrightarrow> True"
| "sets_transform op \<longleftrightarrow> False"

lemma sets_transform_undefined:
  assumes "desktop_admissible env op d" "sets_transform op"
  shows "desktop_step env op d = None"
  using assms SetTransform_out_of_bounds
  by (cases op rule: sets_transform.cases) (auto split: option.splits)

lemma render_progress:
  assumes "live_queue (m_eventQueue r) (queue_memory d)" "render_admissible env op d" "\<nexists>m. op = R_transform m"
  shows "\<exists>s. render_perform env r op (render_view d) = Inr s"
proof -
  have l: "live_queue (m_eventQueue r) (event_queues (render_view d))"
    using assms(1) by (simp add: render_view_def)
  have p: "\<exists>s'. push_render_event r e s = Inr s'" if "event_queues s = event_queues (render_view d)" for e s
    using push_render_event_live [of r s e] l that by simp
  have t: "\<exists>t s. CreateTexture env bytes (word_of_int x) (word_of_int y) (render_view d) = Inr (t, s)"
    if "enough_pixels bytes x y" for bytes x y
    using that by (simp add: enough_pixels_def CreateTexture_def Let_def)
  show ?thesis
  proof (cases op)
    case (R_compile a vertices indices)
    then obtain v s1 i s2 where
      v: "CreateVertexBuffer env vertices (size_to_int (length vertices)) (render_view d) = Inr (v, s1)" and
      i: "CreateIndexBuffer env indices (size_to_int (length indices)) s1 = Inr (i, s2)"
      using assms(2) CreateVertexBuffer_small CreateIndexBuffer_small by (metis render_admissible.simps(1))
    have "event_queues s2 = event_queues (render_view d)"
      using CreateBuffer_fields(1) [OF v] CreateBuffer_fields(2) [OF i] by simp
    then show ?thesis using R_compile assms(2) v i l
      by (simp add: CompileGeometry_def Let_def push_render_event_live)
  next
    case (R_load source)
    show ?thesis
    proof (cases "load_image env source")
      case (Some b)
      obtain bytes x y where b: "b = (bytes, x, y)" by (cases b) auto
      then obtain tx s where ts: "CreateTexture env bytes (word_of_int x) (word_of_int y) (render_view d) = Inr (tx, s)"
        using t [of bytes x y] assms(2) R_load Some by auto
      show ?thesis using R_load Some b ts CreateTexture_fields [OF ts] l
        by (simp add: LoadTexture_def push_render_event_live)
    qed (use R_load in \<open>simp add: LoadTexture_def\<close>)
  next
    case (R_generate bytes x y)
    then obtain tx s where ts: "CreateTexture env bytes (word_of_int x) (word_of_int y) (render_view d) = Inr (tx, s)"
      using t [of bytes x y] assms(2) by auto
    show ?thesis using R_generate ts CreateTexture_fields [OF ts] l
      by (simp add: GenerateTexture_def push_render_event_live)
  qed (use assms(2,3) p [OF refl] in \<open>auto simp: RenderGeometry_def ReleaseGeometry_def EnableScissorRegion_def
    SetScissorRegion_def ReleaseTexture_def render_view_def\<close>)
qed

lemma desktop_progress:
  assumes "desktop_ok d" "desktop_admissible env op d" "\<not> sets_transform op"
  shows "\<exists>es d'. desktop_step env op d = Some (es, d')"
proof (cases op)
  case (D_render p rop)
  then obtain r where r: "render_interfaces (rml_side d) p = Some r" using assms(2) by auto
  then have "live_queue (m_eventQueue r) (queue_memory d)"
    using assms(1) by (auto simp: desktop_ok_def used_queue_def)
  moreover have "\<nexists>m. rop = R_transform m" using assms(3) D_render by auto
  ultimately show ?thesis using render_progress [of r d env rop] D_render r assms(2) by auto
next
  case (D_input w i)
  show ?thesis
  proof (cases "input_kind i \<in> set (callbacks (window_system d) w)")
    case True
    then have "callbacks (window_system d) w \<noteq> []" by auto
    then have "used_queue d (user_pointer (window_system d) w)" by (auto simp: used_queue_def)
    then have "live_queue (user_pointer (window_system d) w) (queue_memory d)"
      using assms(1) by (simp add: desktop_ok_def)
    then show ?thesis using D_input True
      by (simp add: glfw_input_event_def glfw_view_def run_callback_event push_to_window_queue_def heap_push_live)
  qed (use D_input in \<open>simp add: glfw_input_event_def glfw_view_def\<close>)
next
  case (D_pop q)
  then show ?thesis using assms(2)
    by (auto simp: live_queue_def queue_pop_event_def split: option.splits)
qed (use assms(2) in \<open>auto simp: queue_destroy_def queue_push_event_def rml_destroy_wgpu_render_interface_def
  rml_release_compiled_geometry_def rml_view_def\<close>)

section \<open>Properties\<close>

text \<open>
  C5. Type safety of the deferred events, and its exact limit. Take a state in which every attached
  queue is alive and holds well-tagged events, and a sequence of admissible operations of Lua, GLFW
  and RmlUi. The operations before the first call of \<open>SetTransform\<close> are all defined, every event
  handed to Lua (the error event of an empty queue included) has the tag of the union member that
  was stored, and the invariant holds afterwards. The whole sequence is undefined exactly if it
  calls \<open>SetTransform\<close>, with a matrix or with a null pointer: it reads a seventeenth element.
\<close>

theorem desktop_type_safety:
  assumes "desktop_ok d" "desktop_admissible_run env ops d"
  shows "(\<exists>es d'. desktop_run env (takeWhile (\<lambda>op. \<not> sets_transform op) ops) d = Some (es, d')
            \<and> list_all well_tagged es \<and> desktop_ok d')
     \<and> (desktop_run env ops d = None \<longleftrightarrow> list_ex sets_transform ops)"
  using assms
proof (induction ops arbitrary: d)
  case (Cons op ops)
  then have a: "desktop_admissible env op d" by simp
  show ?case
  proof (cases "sets_transform op")
    case True
    then show ?thesis using sets_transform_undefined [OF a] Cons.prems(1) by simp
  next
    case False
    from desktop_progress [OF Cons.prems(1) a False] obtain es d1 where
      s: "desktop_step env op d = Some (es, d1)" by blast
    then have "desktop_admissible_run env ops d1" using Cons.prems(2) by simp
    with Cons.IH desktop_step_preserves [OF Cons.prems(1) a s] show ?thesis using s False
      by (fastforce split: option.splits)
  qed
qed simp

definition sample_gpu_env :: gpu_env where
  "sample_gpu_env = \<lparr>new_buffer = length, new_texture = length, sizeof_vertex = 20, load_image = Map.empty\<rparr>"

definition sample_desktop :: desktop where
  "sample_desktop =
     \<lparr>queue_memory = Map.empty, geometry_memory = Map.empty,
      window_system = \<lparr>user_pointer = (\<lambda>w. 0), callbacks = (\<lambda>w. []), queues = Map.empty\<rparr>,
      render_side = \<lparr>event_queues = Map.empty, geometries = Map.empty, gpu_calls = []\<rparr>,
      rml_side = \<lparr>rml_calls = [], assignedLuaState = \<lparr>lstack = [], ltables = (\<lambda>t k. LNil), lnext = 2,
          lglobals = 0, lregistry = 1\<rparr>, system_interfaces = [], render_interfaces = Map.empty,
        geometry_objects = Map.empty\<rparr>\<rparr>"

definition sample_ops :: "desktop_op list" where
  "sample_ops =
     [D_create 8, D_register 3 8, D_new_renderer 5 1 8, D_input 3 (In_Char 97),
      D_render 5 (R_compile 77 [0, 1, 2] [0, 1, 2]), D_input 3 In_WindowClose, D_pop 8, D_pop 8]"


lemma sample_desktop_ok: "desktop_ok sample_desktop"
  by (simp add: desktop_ok_def used_queue_def sample_desktop_def heap_contents_def)

lemma set_callback_record:
  "set_callback k w (s\<lparr>user_pointer := p, callbacks := (callbacks s)(w := ks)\<rparr>)
     = s\<lparr>user_pointer := p, callbacks := (callbacks s)(w := List.insert k ks)\<rparr>"
  by (simp add: set_callback_def)

lemma glfw_register_events_fresh:
  assumes "w \<noteq> 0" "q \<noteq> 0" "callbacks s w = []"
  shows "glfw_register_events w q s = s\<lparr>user_pointer := (user_pointer s)(w := q),
     callbacks := (callbacks s)(w := [Char_cb, Key_cb, Scroll_cb, CursorEnter_cb, CursorPos_cb, MouseButton_cb,
       WindowMaximize_cb, WindowIconify_cb, WindowFocus_cb, WindowRefresh_cb, WindowContentScale_cb,
       FramebufferSize_cb, WindowClose_cb, WindowSize_cb, WindowPos_cb])\<rparr>"
proof -
  have "(callbacks s)(w := []) = callbacks s" using assms(3) by auto
  then have u: "glfwSetWindowUserPointer w q s = s\<lparr>user_pointer := (user_pointer s)(w := q),
      callbacks := (callbacks s)(w := [])\<rparr>"
    by (simp add: glfwSetWindowUserPointer_def)
  show ?thesis
    unfolding glfw_register_events_def Let_def registration_defs u set_callback_record
    using assms(1,2) by (simp add: List.insert_def)
qed

lemmas desktop_eval = glfw_input_event_def glfw_view_def put_glfw_def glfw_register_events_fresh
  run_callback_event push_to_window_queue_def
  heap_push_def std_push_def queue_create_def queue_pop_event_def std_pop_def render_view_def put_render_def
  rml_view_def put_rml_def rml_create_wgpu_render_interface_def CompileGeometry_def CreateVertexBuffer_def
  CreateIndexBuffer_def push_render_event_def Let_def live_queue_def

lemma sample_run:
  "desktop_admissible_run sample_gpu_env sample_ops sample_desktop"
  "map_option fst (desktop_run sample_gpu_env sample_ops sample_desktop)
     = Some [Character_input_details CHARACTER_INPUT_EVENT 97,
         Geometry_compilation_details GEOMETRY_COMPILATION_EVENT \<lparr>vertex_buffer = 1, num_vertices = 3,
           index_buffer = 3, num_indices = 3\<rparr>]"
  by (simp_all add: sample_ops_def sample_desktop_def sample_gpu_env_def desktop_eval size_to_int_def)

theorem desktop_type_safety_witness:
  "\<exists>es d'. desktop_run sample_gpu_env sample_ops sample_desktop = Some (es, d') \<and> list_all well_tagged es
     \<and> length es = 2 \<and> desktop_ok d'
     \<and> desktop_run sample_gpu_env (sample_ops @ [D_render 5 (R_transform None)]) sample_desktop = None"
proof -
  have t: "takeWhile (\<lambda>op. \<not> sets_transform op) sample_ops = sample_ops" by (simp add: sample_ops_def)
  have a: "desktop_admissible_run sample_gpu_env (sample_ops @ [D_render 5 (R_transform None)]) sample_desktop"
    by (simp add: sample_ops_def sample_desktop_def sample_gpu_env_def desktop_eval size_to_int_def
        SetTransform_out_of_bounds)
  show ?thesis
    using desktop_type_safety [OF sample_desktop_ok sample_run(1), unfolded t] sample_run(2)
      desktop_type_safety [OF sample_desktop_ok a] by auto
qed

text \<open>
  C9. The components together implement the queues: a run performs on the shared memory exactly
  the labelled steps of its operations, hands out the events of these labels, and for every queue
  that is neither created nor destroyed meanwhile the events taken from it followed by those left
  are the earlier ones followed by those that Lua, GLFW and the render interfaces emitted to it,
  in the order of the operations.
\<close>

theorem desktop_refines_queues:
  assumes "desktop_run env ops d = Some (es, d')"
  defines "ls \<equiv> desktop_labels env ops d"
  shows "queue_run (queue_memory d) ls (queue_memory d') \<and> es = concat (map handed ls)
     \<and> (list_all (keeps_queue q) ls \<longrightarrow>
          taken q ls @ heap_contents q (queue_memory d') = heap_contents q (queue_memory d) @ emitted q ls)"
  using desktop_run_labels [OF assms(1)] queue_run_fifo unfolding ls_def by blast

theorem desktop_refines_queues_witness:
  "\<exists>es d'. desktop_run sample_gpu_env (tl sample_ops) (sample_desktop\<lparr>queue_memory := [8 \<mapsto> []]\<rparr>) = Some (es, d')
     \<and> heap_contents 8 (queue_memory d') = [Window_close_details WINDOW_CLOSE_EVENT]"
proof -
  let ?d = "sample_desktop\<lparr>queue_memory := [8 \<mapsto> []]\<rparr>"
  let ?g = "Geometry_compilation_details GEOMETRY_COMPILATION_EVENT \<lparr>vertex_buffer = 1, num_vertices = 3,
    index_buffer = 3, num_indices = 3\<rparr>"
  let ?c = "Character_input_details CHARACTER_INPUT_EVENT 97"
  let ?w = "Window_close_details WINDOW_CLOSE_EVENT"
  obtain es d' where r: "desktop_run sample_gpu_env (tl sample_ops) ?d = Some (es, d')"
    by (simp add: sample_ops_def sample_desktop_def sample_gpu_env_def desktop_eval size_to_int_def)
  have l: "desktop_labels sample_gpu_env (tl sample_ops) ?d =
      [Silent, Silent, Emit 8 ?c, Emit 8 ?g, Emit 8 ?w, Take 8 ?c, Take 8 ?g]"
    by (simp add: sample_ops_def sample_desktop_def sample_gpu_env_def desktop_eval size_to_int_def
        emit_label_def heap_contents_def)
  have "[?c, ?g] @ heap_contents 8 (queue_memory d') = heap_contents 8 [8 \<mapsto> []] @ [?c, ?g, ?w]"
    using desktop_refines_queues [OF r, of 8] unfolding l by (simp add: keeps_queue_def)
  then show ?thesis using r by (simp add: heap_contents_def)
qed

end
