(* ===== verification/C_Layout.thy ===== *)
theory C_Layout
  imports Prelude
begin

text \<open>
  The memory layout of C structures and unions, as the System V, Windows x64 and ARM64 ABIs agree
  on it for the types of the exported headers: every member at the next multiple of its
  alignment, the size rounded up to the alignment of the whole. LuaJIT and the C++ compiler both
  compute it from the declarations in the \<open>*_exports.h\<close> and \<open>*_aliases.h\<close> headers and exchange such
  structures by value and by address.

  The theory has the layout functions, that members of a structure never overlap, and that what
  is stored into the scalars of a type can be read back.
\<close>

section \<open>Types and layout\<close>

datatype c_type =
    Scalar nat
  | Array c_type nat
  | Struct "(string \<times> c_type) list"
  | Union "(string \<times> c_type) list"

type_synonym c_fields = "(string \<times> c_type) list"

abbreviation c_char :: c_type where "c_char \<equiv> Scalar 1"
abbreviation c_bool :: c_type where "c_bool \<equiv> Scalar 1"
abbreviation c_uint16 :: c_type where "c_uint16 \<equiv> Scalar 2"
abbreviation c_int :: c_type where "c_int \<equiv> Scalar 4"
abbreviation c_uint32 :: c_type where "c_uint32 \<equiv> Scalar 4"
abbreviation c_float :: c_type where "c_float \<equiv> Scalar 4"
abbreviation c_enum :: c_type where "c_enum \<equiv> Scalar 4"
abbreviation c_double :: c_type where "c_double \<equiv> Scalar 8"
abbreviation c_int64 :: c_type where "c_int64 \<equiv> Scalar 8"
abbreviation c_uint64 :: c_type where "c_uint64 \<equiv> Scalar 8"
abbreviation c_size :: c_type where "c_size \<equiv> Scalar 8"
abbreviation c_ptr :: c_type where "c_ptr \<equiv> Scalar 8"

text \<open>Enumerations: without explicit values the enumerators count from zero.\<close>

type_synonym c_enumeration = "(string \<times> int) list"

definition implicit_values :: "string list \<Rightarrow> c_enumeration" where
  "implicit_values names = zip names (map int [0..<length names])"

definition align_up :: "nat \<Rightarrow> nat \<Rightarrow> nat" where
  "align_up n a = (n + a - 1) div a * a"

fun alignof :: "c_type \<Rightarrow> nat" and align_all :: "c_fields \<Rightarrow> nat" where
  "alignof (Scalar n) = n"
| "alignof (Array t n) = alignof t"
| "alignof (Struct fs) = align_all fs"
| "alignof (Union fs) = align_all fs"
| "align_all [] = 1"
| "align_all ((f, t) # fs) = max (alignof t) (align_all fs)"

fun sizeof :: "c_type \<Rightarrow> nat" and struct_end :: "nat \<Rightarrow> c_fields \<Rightarrow> nat" and widest :: "c_fields \<Rightarrow> nat" where
  "sizeof (Scalar n) = n"
| "sizeof (Array t n) = n * sizeof t"
| "sizeof (Struct fs) = align_up (struct_end 0 fs) (align_all fs)"
| "sizeof (Union fs) = align_up (widest fs) (align_all fs)"
| "struct_end off [] = off"
| "struct_end off ((f, t) # fs) = struct_end (align_up off (alignof t) + sizeof t) fs"
| "widest [] = 0"
| "widest ((f, t) # fs) = max (sizeof t) (widest fs)"

fun offsets :: "nat \<Rightarrow> c_fields \<Rightarrow> (string \<times> nat \<times> c_type) list" where
  "offsets off [] = []"
| "offsets off ((f, t) # fs) =
     (f, align_up off (alignof t), t) # offsets (align_up off (alignof t) + sizeof t) fs"

fun wf_type :: "c_type \<Rightarrow> bool" and wf_fields :: "c_fields \<Rightarrow> bool" where
  "wf_type (Scalar n) \<longleftrightarrow> n = 1 \<or> n = 2 \<or> n = 4 \<or> n = 8"
| "wf_type (Array t n) \<longleftrightarrow> wf_type t"
| "wf_type (Struct fs) \<longleftrightarrow> wf_fields fs"
| "wf_type (Union fs) \<longleftrightarrow> wf_fields fs"
| "wf_fields [] \<longleftrightarrow> True"
| "wf_fields ((f, t) # fs) \<longleftrightarrow> wf_type t \<and> wf_fields fs"

lemma align_up_props:
  assumes "0 < a"
  shows "a dvd align_up n a" "n \<le> align_up n a" "align_up n a < n + a"
proof -
  have "(n + a - 1) div a * a + (n + a - 1) mod a = n + a - 1" by (rule div_mult_mod_eq)
  moreover have "(n + a - 1) mod a < a" using assms by simp
  ultimately show "n \<le> align_up n a" "align_up n a < n + a"
    using assms unfolding align_up_def by linarith+
qed (simp add: align_up_def)

lemma align_cases:
  "wf_type t \<Longrightarrow> alignof t = 1 \<or> alignof t = 2 \<or> alignof t = 4 \<or> alignof t = 8"
  "wf_fields fs \<Longrightarrow> align_all fs = 1 \<or> align_all fs = 2 \<or> align_all fs = 4 \<or> align_all fs = 8"
  by (induction t and fs rule: alignof_align_all.induct) (auto simp: max_def)

lemma align_pos: "wf_type t \<Longrightarrow> 0 < alignof t" "wf_fields fs \<Longrightarrow> 0 < align_all fs"
  using align_cases by fastforce+

lemma align_dvd_all:
  assumes "wf_fields fs" "(f, t) \<in> set fs"
  shows "alignof t dvd align_all fs"
  using assms
proof (induction fs)
  case (Cons p fs)
  obtain g u where p: "p = (g, u)" by fastforce
  have c: "alignof u = 1 \<or> alignof u = 2 \<or> alignof u = 4 \<or> alignof u = 8"
    "align_all fs = 1 \<or> align_all fs = 2 \<or> align_all fs = 4 \<or> align_all fs = 8"
    using align_cases Cons.prems(1) p by auto
  have d: "alignof u dvd align_all (p # fs)" "align_all fs dvd align_all (p # fs)"
    using c p by (elim disjE; simp)+
  show ?case
  proof (cases "(f, t) = p")
    case False
    then have "alignof t dvd align_all fs" using Cons p by auto
    then show ?thesis using d(2) by (rule dvd_trans)
  qed (use d p in simp)
qed simp

lemma align_dvd_size: "wf_type t \<Longrightarrow> alignof t dvd sizeof t"
  by (induction t) (auto simp: align_up_props(1) align_pos)

section \<open>The scalars of a type\<close>

text \<open>Position and size of every scalar of an object at address \<open>off\<close>. A union has no own list:
  which member is used is up to the program.\<close>

fun leaves :: "nat \<Rightarrow> c_type \<Rightarrow> (nat \<times> nat) list" and field_leaves :: "nat \<Rightarrow> nat \<Rightarrow> c_fields \<Rightarrow> (nat \<times> nat) list" where
  "leaves off (Scalar n) = [(off, n)]"
| "leaves off (Array t n) = concat (map (\<lambda>i. leaves (off + i * sizeof t) t) [0..<n])"
| "leaves off (Struct fs) = field_leaves off 0 fs"
| "leaves off (Union fs) = []"
| "field_leaves base cur [] = []"
| "field_leaves base cur ((f, t) # fs) =
     leaves (base + align_up cur (alignof t)) t @ field_leaves base (align_up cur (alignof t) + sizeof t) fs"

definition apart :: "nat \<times> nat \<Rightarrow> nat \<times> nat \<Rightarrow> bool" where
  "apart p q \<longleftrightarrow> fst p + snd p \<le> fst q"

text \<open>All scalars lie between two addresses, one after the other.\<close>

definition packed :: "nat \<Rightarrow> nat \<Rightarrow> (nat \<times> nat) list \<Rightarrow> bool" where
  "packed a b ls \<longleftrightarrow> list_all (\<lambda>(o', n). a \<le> o' \<and> o' + n \<le> b) ls \<and> sorted_wrt apart ls"

lemma packed_append:
  "packed a m xs \<Longrightarrow> packed m b ys \<Longrightarrow> a \<le> m \<Longrightarrow> m \<le> b \<Longrightarrow> packed a b (xs @ ys)"
  by (fastforce simp: packed_def list_all_iff sorted_wrt_append apart_def)

lemma packed_mono: "packed a b xs \<Longrightarrow> a' \<le> a \<Longrightarrow> b \<le> b' \<Longrightarrow> packed a' b' xs"
  by (fastforce simp: packed_def list_all_iff)

lemma struct_end_mono: "wf_fields fs \<Longrightarrow> off \<le> struct_end off fs"
proof (induction fs arbitrary: off)
  case (Cons p fs)
  obtain f t where p: "p = (f, t)" by fastforce
  then have "off \<le> align_up off (alignof t)" using Cons.prems align_up_props(2) align_pos by auto
  then show ?case using Cons.IH [of "align_up off (alignof t) + sizeof t"] Cons.prems p by auto
qed simp

lemma packed_array:
  assumes "\<And>i. i < n \<Longrightarrow> packed (off + i * s) (off + i * s + s) (g (off + i * s))"
  shows "packed off (off + n * s) (concat (map (\<lambda>i. g (off + i * s)) [0..<n]))"
  using assms
proof (induction n)
  case (Suc n)
  have "packed (off + n * s) (off + Suc n * s) (g (off + n * s))"
    using Suc.prems [of n] by (simp add: algebra_simps)
  moreover have "packed off (off + n * s) (concat (map (\<lambda>i. g (off + i * s)) [0..<n]))"
    using Suc by simp
  ultimately show ?case using packed_append [of off "off + n * s"] by simp
qed (simp add: packed_def)

lemma packed_leaves:
  "wf_type t \<Longrightarrow> packed off (off + sizeof t) (leaves off t)"
  "wf_fields fs \<Longrightarrow> packed (base + cur) (base + struct_end cur fs) (field_leaves base cur fs)"
proof (induction off t and base cur fs rule: leaves_field_leaves.induct)
  case (2 off t n)
  then show ?case by (auto intro!: packed_array)
next
  case (3 off fs)
  then have "struct_end 0 fs \<le> align_up (struct_end 0 fs) (align_all fs)" by (simp add: align_up_props align_pos)
  then show ?case using 3 packed_mono [of "off + 0" "off + struct_end 0 fs"] by simp
next
  case (6 base cur f t fs)
  let ?o = "align_up cur (alignof t)"
  have o: "cur \<le> ?o" using 6 by (simp add: align_up_props align_pos)
  have "packed (base + ?o) (base + ?o + sizeof t) (leaves (base + ?o) t)"
    "packed (base + (?o + sizeof t)) (base + struct_end (?o + sizeof t) fs) (field_leaves base (?o + sizeof t) fs)"
    using 6 by simp_all
  then have "packed (base + ?o) (base + struct_end (?o + sizeof t) fs)
      (leaves (base + ?o) t @ field_leaves base (?o + sizeof t) fs)"
    using struct_end_mono [of fs "?o + sizeof t"] 6 by (intro packed_append) (auto simp: add.assoc)
  then show ?case using packed_mono o by fastforce
qed (auto simp: packed_def apart_def)

section \<open>Bytes\<close>

text \<open>Little-endian numbers of \<open>n\<close> bytes.\<close>

fun to_bytes :: "nat \<Rightarrow> nat \<Rightarrow> byte list" where
  "to_bytes 0 x = []"
| "to_bytes (Suc n) x = of_nat x # to_bytes n (x div 256)"

fun of_bytes :: "byte list \<Rightarrow> nat" where
  "of_bytes [] = 0"
| "of_bytes (b # bs) = unat b + 256 * of_bytes bs"

lemma length_to_bytes [simp]: "length (to_bytes n x) = n"
  by (induction n arbitrary: x) auto

lemma of_bytes_to_bytes: "of_bytes (to_bytes n x) = x mod 256 ^ n"
proof (induction n arbitrary: x)
  case (Suc n)
  have "x mod 256 ^ Suc n = 256 * (x div 256 mod 256 ^ n) + x mod 256"
    by (simp add: mod_mult2_eq)
  then show ?case using Suc by (simp add: unat_of_nat)
qed simp

text \<open>Storing scalars at their places in a block of memory, and reading them again.\<close>

fun store :: "(nat \<times> nat) list \<Rightarrow> nat list \<Rightarrow> byte list \<Rightarrow> byte list option" where
  "store ((o', n) # ls) (v # vs) m =
     (case write_block m o' (to_bytes n v) of None \<Rightarrow> None | Some m1 \<Rightarrow> store ls vs m1)"
| "store ls vs m = Some m"

definition load :: "byte list \<Rightarrow> nat \<times> nat \<Rightarrow> nat" where
  "load m p = of_bytes (take (snd p) (drop (fst p) m))"

lemma write_block_load:
  assumes "write_block m o' bs = Some m'"
  shows "length m' = length m" "load m' (o', length bs) = of_bytes bs"
    "fst p + snd p \<le> o' \<Longrightarrow> load m' p = load m p"
    "o' + length bs \<le> fst p \<Longrightarrow> load m' p = load m p"
proof -
  have m': "o' + length bs \<le> length m" "m' = take o' m @ bs @ drop (o' + length bs) m"
    using write_block_SomeD [OF assms] by auto
  then show "length m' = length m" "load m' (o', length bs) = of_bytes bs" by (auto simp: load_def)
  show "load m' p = load m p" if "fst p + snd p \<le> o'"
  proof -
    have "snd p \<le> o' - fst p" using that by linarith
    then show ?thesis using m' by (simp add: load_def drop_take min_def)
  qed
  show "load m' p = load m p" if "o' + length bs \<le> fst p"
    using m' that by (simp add: load_def add.commute)
qed

lemma store_load:
  assumes "packed a b ls" "b \<le> length m" "length vs = length ls"
  shows "\<exists>m'. store ls vs m = Some m' \<and> length m' = length m
     \<and> map (load m') ls = map (\<lambda>((o', n), v). v mod 256 ^ n) (zip ls vs)
     \<and> (\<forall>p. fst p + snd p \<le> a \<longrightarrow> load m' p = load m p)"
  using assms
proof (induction ls arbitrary: a m vs)
  case (Cons l ls)
  obtain o' n where l: "l = (o', n)" by fastforce
  obtain v vs' where vs: "vs = v # vs'" "length vs' = length ls" using Cons.prems(3) by (cases vs) auto
  have o: "a \<le> o'" "o' + n \<le> b" and p: "packed (o' + n) b ls"
    using Cons.prems(1) l by (fastforce simp: packed_def apart_def list_all_iff)+
  obtain m1 where m1: "write_block m o' (to_bytes n v) = Some m1"
    using o Cons.prems(2) by (simp add: write_block_def)
  note w = write_block_load [OF m1, unfolded length_to_bytes]
  obtain m' where m': "store ls vs' m1 = Some m'" "length m' = length m"
    "map (load m') ls = map (\<lambda>((o', n), v). v mod 256 ^ n) (zip ls vs')"
    "\<forall>p. fst p + snd p \<le> o' + n \<longrightarrow> load m' p = load m1 p"
    using Cons.IH [OF p _ vs(2), of m1] w(1) Cons.prems(2) by auto
  have "load m' (o', n) = v mod 256 ^ n" using m'(4) w(2) of_bytes_to_bytes by simp
  moreover have "load m' q = load m q" if "fst q + snd q \<le> a" for q
    using m'(4) w(3) [of q] that o(1) by (cases q) simp
  ultimately show ?case using l vs m1 m' by simp
qed simp

section \<open>Structures\<close>

text \<open>
  Structures are laid out soundly: every member is aligned, lies inside the structure and
  after the end of the previous member, and the size is a multiple of the alignment, so that
  arrays of structures are aligned as well.
\<close>

theorem struct_layout:
  assumes "wf_fields fs"
  shows "list_all (\<lambda>(f, o', t). alignof t dvd o' \<and> o' + sizeof t \<le> sizeof (Struct fs)) (offsets 0 fs)
     \<and> sorted_wrt (\<lambda>(f, o1, t1) (g, o2, t2). o1 + sizeof t1 \<le> o2) (offsets 0 fs)
     \<and> alignof (Struct fs) dvd sizeof (Struct fs)"
proof -
  have "list_all (\<lambda>(f, o', t). off \<le> o' \<and> alignof t dvd o' \<and> o' + sizeof t \<le> struct_end off fs) (offsets off fs)
      \<and> sorted_wrt (\<lambda>(f, o1, t1) (g, o2, t2). o1 + sizeof t1 \<le> o2) (offsets off fs)" for off
    using assms
  proof (induction fs arbitrary: off)
    case (Cons p fs)
    obtain f t where p: "p = (f, t)" by fastforce
    let ?o = "align_up off (alignof t)"
    have o: "off \<le> ?o" "alignof t dvd ?o" using Cons.prems p by (auto simp: align_up_props align_pos)
    show ?case
      using Cons.IH [of "?o + sizeof t"] Cons.prems p o struct_end_mono [of fs "?o + sizeof t"]
      by (fastforce simp: list_all_iff)
  qed simp
  from this [of 0] show ?thesis
    using assms align_up_props(2) [OF align_pos(2) [OF assms], of "struct_end 0 fs"] align_dvd_size [of "Struct fs"]
    by (fastforce simp: list_all_iff)
qed

end
