(* ===== verification/Event_Memory.thy ===== *)
theory Event_Memory
  imports C_Layout Interop_Queue
begin

text \<open>
  The bytes behind the deferred events. \<open>interop_exports.h\<close> declares one structure per event and the
  union \<open>deferred_event_t\<close>; C++ stores a member of it, copies the union, and LuaJIT reads the \<open>type\<close>
  through one member and the details through another. The theory lays out these declarations and
  shows that the constructors of \<^typ>\<open>deferred_event\<close> are a sound abstraction of this memory.
  Floats are bit patterns; the bytes between and after the members are arbitrary.
\<close>

section \<open>Declarations\<close>

definition server_status_event_t :: c_fields where
  "server_status_event_t = [(''type'', c_int), (''listen_status'', c_bool), (''port'', c_int)]"

definition window_move_event_t :: c_fields where
  "window_move_event_t = [(''type'', c_int), (''x'', c_int), (''y'', c_int)]"

definition window_resize_event_t :: c_fields where
  "window_resize_event_t = [(''type'', c_int), (''width'', c_int), (''height'', c_int)]"

definition window_close_event_t :: c_fields where
  "window_close_event_t = [(''type'', c_int)]"

definition framebuffer_resize_event_t :: c_fields where
  "framebuffer_resize_event_t = [(''type'', c_int), (''width'', c_int), (''height'', c_int)]"

definition content_scale_event_t :: c_fields where
  "content_scale_event_t = [(''type'', c_int), (''x'', c_float), (''y'', c_float)]"

definition window_refresh_event_t :: c_fields where
  "window_refresh_event_t = [(''type'', c_int)]"

definition window_focus_event_t :: c_fields where
  "window_focus_event_t = [(''type'', c_int), (''focused'', c_int)]"

definition window_iconify_event_t :: c_fields where
  "window_iconify_event_t = [(''type'', c_int), (''iconified'', c_int)]"

definition window_maximize_event_t :: c_fields where
  "window_maximize_event_t = [(''type'', c_int), (''maximized'', c_int)]"

definition mouse_button_event_t :: c_fields where
  "mouse_button_event_t = [(''type'', c_int), (''button'', c_int), (''action'', c_int), (''mods'', c_int)]"

definition cursor_move_event_t :: c_fields where
  "cursor_move_event_t = [(''type'', c_int), (''x'', c_double), (''y'', c_double)]"

definition cursor_enter_event_t :: c_fields where
  "cursor_enter_event_t = [(''type'', c_int), (''entered'', c_int)]"

definition scroll_event_t :: c_fields where
  "scroll_event_t = [(''type'', c_int), (''x'', c_double), (''y'', c_double)]"

definition key_event_t :: c_fields where
  "key_event_t =
     [(''type'', c_int), (''key'', c_int), (''scancode'', c_int), (''action'', c_int),
      (''mods'', c_int)]"

definition character_input_event_t :: c_fields where
  "character_input_event_t = [(''type'', c_int), (''codepoint'', c_uint32)]"

definition error_event_t :: c_fields where
  "error_event_t = [(''type'', c_int), (''code'', c_int)]"

definition rml_geometry_info_t :: c_fields where
  "rml_geometry_info_t = [(''vertex_buffer'', c_ptr), (''num_vertices'', c_int), (''index_buffer'', c_ptr),
      (''num_indices'', c_int)]"

definition geometry_compilation_event_t :: c_fields where
  "geometry_compilation_event_t = [(''type'', c_int), (''compiled_geometry'', Struct rml_geometry_info_t)]"

definition geometry_render_event_t :: c_fields where
  "geometry_render_event_t =
     [(''type'', c_int), (''compiled_geometry'', Struct rml_geometry_info_t),
      (''translate_u'', c_float), (''translate_v'', c_float), (''texture'', c_ptr)]"

definition geometry_release_event_t :: c_fields where
  "geometry_release_event_t = [(''type'', c_int), (''compiled_geometry'', Struct rml_geometry_info_t)]"

definition scissortest_status_event_t :: c_fields where
  "scissortest_status_event_t = [(''type'', c_int), (''enabled_flag'', c_bool)]"

definition scissortest_region_event_t :: c_fields where
  "scissortest_region_event_t =
     [(''type'', c_int), (''u'', c_int), (''v'', c_int),
      (''width'', c_int), (''height'', c_int)]"

definition texture_load_event_t :: c_fields where
  "texture_load_event_t = [(''type'', c_int), (''texture'', c_ptr)]"

definition texture_generation_event_t :: c_fields where
  "texture_generation_event_t = [(''type'', c_int), (''texture'', c_ptr)]"

definition texture_release_event_t :: c_fields where
  "texture_release_event_t = [(''type'', c_int), (''texture'', c_ptr)]"

definition transformation_update_event_t :: c_fields where
  "transformation_update_event_t =
     [(''type'', c_int), (''x1'', c_float), (''x2'', c_float),
      (''x3'', c_float), (''x4'', c_float), (''y1'', c_float), (''y2'', c_float), (''y3'', c_float),
      (''y4'', c_float), (''z1'', c_float), (''z2'', c_float), (''z3'', c_float), (''z4'', c_float),
      (''w1'', c_float), (''w2'', c_float), (''w3'', c_float), (''w4'', c_float)]"

definition deferred_event_t :: c_fields where
  "deferred_event_t =
     [(''error_details'', Struct error_event_t),
      (''window_move_details'', Struct window_move_event_t),
      (''window_resize_details'', Struct window_resize_event_t),
      (''window_close_details'', Struct window_close_event_t),
      (''framebuffer_resize_details'', Struct framebuffer_resize_event_t),
      (''content_scale_details'', Struct content_scale_event_t),
      (''window_refresh_details'', Struct window_refresh_event_t),
      (''window_focus_details'', Struct window_focus_event_t),
      (''window_iconify_details'', Struct window_iconify_event_t),
      (''window_maximize_details'', Struct window_maximize_event_t),
      (''mouse_button_details'', Struct mouse_button_event_t),
      (''cursor_move_details'', Struct cursor_move_event_t),
      (''cursor_enter_details'', Struct cursor_enter_event_t), (''scroll_details'', Struct scroll_event_t),
      (''key_details'', Struct key_event_t), (''character_input_details'', Struct character_input_event_t),
      (''geometry_compilation_details'', Struct geometry_compilation_event_t),
      (''geometry_render_details'', Struct geometry_render_event_t),
      (''geometry_release_details'', Struct geometry_release_event_t),
      (''scissortest_status_details'', Struct scissortest_status_event_t),
      (''scissortest_region_details'', Struct scissortest_region_event_t),
      (''texture_load_details'', Struct texture_load_event_t),
      (''texture_generation_details'', Struct texture_generation_event_t),
      (''texture_release_details'', Struct texture_release_event_t),
      (''transformation_update_details'', Struct transformation_update_event_t)]"

fun event_type_code :: "EventType \<Rightarrow> nat" where
  "event_type_code ERROR_EVENT = 0"
| "event_type_code WINDOW_MOVE_EVENT = 1"
| "event_type_code WINDOW_RESIZE_EVENT = 2"
| "event_type_code WINDOW_CLOSE_EVENT = 3"
| "event_type_code FRAMEBUFFER_RESIZE_EVENT = 4"
| "event_type_code CONTENT_SCALE_EVENT = 5"
| "event_type_code WINDOW_REFRESH_EVENT = 6"
| "event_type_code WINDOW_FOCUS_EVENT = 7"
| "event_type_code WINDOW_ICONIFY_EVENT = 8"
| "event_type_code WINDOW_MAXIMIZE_EVENT = 9"
| "event_type_code MOUSE_BUTTON_EVENT = 10"
| "event_type_code CURSOR_MOVE_EVENT = 11"
| "event_type_code CURSOR_ENTER_EVENT = 12"
| "event_type_code SCROLL_EVENT = 13"
| "event_type_code KEYBOARD_EVENT = 14"
| "event_type_code CHARACTER_INPUT_EVENT = 15"
| "event_type_code GEOMETRY_COMPILATION_EVENT = 16"
| "event_type_code GEOMETRY_RENDER_EVENT = 17"
| "event_type_code GEOMETRY_RELEASE_EVENT = 18"
| "event_type_code SCISSORTEST_STATUS_EVENT = 19"
| "event_type_code SCISSORTEST_REGION_EVENT = 20"
| "event_type_code TEXTURE_LOAD_EVENT = 21"
| "event_type_code TEXTURE_GENERATION_EVENT = 22"
| "event_type_code TEXTURE_RELEASE_EVENT = 23"
| "event_type_code TRANSFORMATION_UPDATE_EVENT = 24"

definition all_events :: "EventType list" where
  "all_events =
     [ERROR_EVENT, WINDOW_MOVE_EVENT, WINDOW_RESIZE_EVENT, WINDOW_CLOSE_EVENT,
      FRAMEBUFFER_RESIZE_EVENT, CONTENT_SCALE_EVENT, WINDOW_REFRESH_EVENT, WINDOW_FOCUS_EVENT,
      WINDOW_ICONIFY_EVENT, WINDOW_MAXIMIZE_EVENT, MOUSE_BUTTON_EVENT, CURSOR_MOVE_EVENT,
      CURSOR_ENTER_EVENT, SCROLL_EVENT, KEYBOARD_EVENT, CHARACTER_INPUT_EVENT,
      GEOMETRY_COMPILATION_EVENT, GEOMETRY_RENDER_EVENT, GEOMETRY_RELEASE_EVENT, SCISSORTEST_STATUS_EVENT,
      SCISSORTEST_REGION_EVENT, TEXTURE_LOAD_EVENT, TEXTURE_GENERATION_EVENT, TEXTURE_RELEASE_EVENT,
      TRANSFORMATION_UPDATE_EVENT]"

section \<open>Values\<close>

definition int_bits :: "int \<Rightarrow> nat" where
  "int_bits i = nat (i mod 2 ^ 32)"

definition int_of_bits :: "nat \<Rightarrow> int" where
  "int_of_bits n = signed_take_bit 31 (int n)"

definition int_fits :: "int \<Rightarrow> bool" where
  "int_fits i \<longleftrightarrow> - (2 ^ 31) \<le> i \<and> i < 2 ^ 31"

definition geometry_values :: "rml_geometry_info \<Rightarrow> nat list" where
  "geometry_values g = [vertex_buffer g, int_bits (num_vertices g), index_buffer g, int_bits (num_indices g)]"

definition geometry_of :: "nat \<Rightarrow> nat \<Rightarrow> nat \<Rightarrow> nat \<Rightarrow> rml_geometry_info" where
  "geometry_of vb nv ib ni =
     \<lparr>vertex_buffer = vb, num_vertices = int_of_bits nv, index_buffer = ib, num_indices = int_of_bits ni\<rparr>"

definition geometry_fits :: "rml_geometry_info \<Rightarrow> bool" where
  "geometry_fits g \<longleftrightarrow> vertex_buffer g < 2 ^ 64 \<and> int_fits (num_vertices g)
     \<and> index_buffer g < 2 ^ 64 \<and> int_fits (num_indices g)"

text \<open>The scalars of the stored member, in the order of their declaration.\<close>

fun event_values :: "deferred_event \<Rightarrow> nat list" where
  "event_values (Error_details t c) = [event_type_code t, int_bits c]"
| "event_values (Window_move_details t x y) = [event_type_code t, int_bits x, int_bits y]"
| "event_values (Window_resize_details t x y) = [event_type_code t, int_bits x, int_bits y]"
| "event_values (Window_close_details t) = [event_type_code t]"
| "event_values (Framebuffer_resize_details t x y) = [event_type_code t, int_bits x, int_bits y]"
| "event_values (Content_scale_details t x y) = [event_type_code t, unat x, unat y]"
| "event_values (Window_refresh_details t) = [event_type_code t]"
| "event_values (Window_focus_details t x) = [event_type_code t, int_bits x]"
| "event_values (Window_iconify_details t x) = [event_type_code t, int_bits x]"
| "event_values (Window_maximize_details t x) = [event_type_code t, int_bits x]"
| "event_values (Mouse_button_details t b a ms) = [event_type_code t, int_bits b, int_bits a, int_bits ms]"
| "event_values (Cursor_move_details t x y) = [event_type_code t, unat x, unat y]"
| "event_values (Cursor_enter_details t x) = [event_type_code t, int_bits x]"
| "event_values (Scroll_details t x y) = [event_type_code t, unat x, unat y]"
| "event_values (Key_details t k s a ms) = [event_type_code t, int_bits k, int_bits s, int_bits a, int_bits ms]"
| "event_values (Character_input_details t c) = [event_type_code t, unat c]"
| "event_values (Geometry_compilation_details t g) = event_type_code t # geometry_values g"
| "event_values (Geometry_render_details t g u v x) = event_type_code t # geometry_values g @ [unat u, unat v, x]"
| "event_values (Geometry_release_details t g) = event_type_code t # geometry_values g"
| "event_values (Scissortest_status_details t b) = [event_type_code t, of_bool b]"
| "event_values (Scissortest_region_details t u v w h) = [event_type_code t, int_bits u, int_bits v, int_bits w, int_bits h]"
| "event_values (Texture_load_details t x) = [event_type_code t, x]"
| "event_values (Texture_generation_details t x) = [event_type_code t, x]"
| "event_values (Texture_release_details t x) = [event_type_code t, x]"
| "event_values (Transformation_update_details t xs) = event_type_code t # map unat xs"

fun representable :: "deferred_event \<Rightarrow> bool" where
  "representable (Error_details t c) \<longleftrightarrow> int_fits c"
| "representable (Window_move_details t x y) \<longleftrightarrow> int_fits x \<and> int_fits y"
| "representable (Window_resize_details t x y) \<longleftrightarrow> int_fits x \<and> int_fits y"
| "representable (Window_close_details t) \<longleftrightarrow> True"
| "representable (Framebuffer_resize_details t x y) \<longleftrightarrow> int_fits x \<and> int_fits y"
| "representable (Content_scale_details t x y) \<longleftrightarrow> True"
| "representable (Window_refresh_details t) \<longleftrightarrow> True"
| "representable (Window_focus_details t x) \<longleftrightarrow> int_fits x"
| "representable (Window_iconify_details t x) \<longleftrightarrow> int_fits x"
| "representable (Window_maximize_details t x) \<longleftrightarrow> int_fits x"
| "representable (Mouse_button_details t b a ms) \<longleftrightarrow> int_fits b \<and> int_fits a \<and> int_fits ms"
| "representable (Cursor_move_details t x y) \<longleftrightarrow> True"
| "representable (Cursor_enter_details t x) \<longleftrightarrow> int_fits x"
| "representable (Scroll_details t x y) \<longleftrightarrow> True"
| "representable (Key_details t k s a ms) \<longleftrightarrow> int_fits k \<and> int_fits s \<and> int_fits a \<and> int_fits ms"
| "representable (Character_input_details t c) \<longleftrightarrow> True"
| "representable (Geometry_compilation_details t g) \<longleftrightarrow> geometry_fits g"
| "representable (Geometry_render_details t g u v x) \<longleftrightarrow> geometry_fits g \<and> x < 2 ^ 64"
| "representable (Geometry_release_details t g) \<longleftrightarrow> geometry_fits g"
| "representable (Scissortest_status_details t b) \<longleftrightarrow> True"
| "representable (Scissortest_region_details t u v w h) \<longleftrightarrow> int_fits u \<and> int_fits v \<and> int_fits w \<and> int_fits h"
| "representable (Texture_load_details t x) \<longleftrightarrow> x < 2 ^ 64"
| "representable (Texture_generation_details t x) \<longleftrightarrow> x < 2 ^ 64"
| "representable (Texture_release_details t x) \<longleftrightarrow> x < 2 ^ 64"
| "representable (Transformation_update_details t xs) \<longleftrightarrow> length xs = 16"

text \<open>The structure that was stored, and the one a reader uses for a type.\<close>

fun member_fields :: "deferred_event \<Rightarrow> c_fields" where
  "member_fields (Error_details t c) = error_event_t"
| "member_fields (Window_move_details t x y) = window_move_event_t"
| "member_fields (Window_resize_details t x y) = window_resize_event_t"
| "member_fields (Window_close_details t) = window_close_event_t"
| "member_fields (Framebuffer_resize_details t x y) = framebuffer_resize_event_t"
| "member_fields (Content_scale_details t x y) = content_scale_event_t"
| "member_fields (Window_refresh_details t) = window_refresh_event_t"
| "member_fields (Window_focus_details t x) = window_focus_event_t"
| "member_fields (Window_iconify_details t x) = window_iconify_event_t"
| "member_fields (Window_maximize_details t x) = window_maximize_event_t"
| "member_fields (Mouse_button_details t b a ms) = mouse_button_event_t"
| "member_fields (Cursor_move_details t x y) = cursor_move_event_t"
| "member_fields (Cursor_enter_details t x) = cursor_enter_event_t"
| "member_fields (Scroll_details t x y) = scroll_event_t"
| "member_fields (Key_details t k s a ms) = key_event_t"
| "member_fields (Character_input_details t c) = character_input_event_t"
| "member_fields (Geometry_compilation_details t g) = geometry_compilation_event_t"
| "member_fields (Geometry_render_details t g u v x) = geometry_render_event_t"
| "member_fields (Geometry_release_details t g) = geometry_release_event_t"
| "member_fields (Scissortest_status_details t b) = scissortest_status_event_t"
| "member_fields (Scissortest_region_details t u v w h) = scissortest_region_event_t"
| "member_fields (Texture_load_details t x) = texture_load_event_t"
| "member_fields (Texture_generation_details t x) = texture_generation_event_t"
| "member_fields (Texture_release_details t x) = texture_release_event_t"
| "member_fields (Transformation_update_details t xs) = transformation_update_event_t"

fun event_struct :: "EventType \<Rightarrow> c_fields" where
  "event_struct ERROR_EVENT = error_event_t"
| "event_struct WINDOW_MOVE_EVENT = window_move_event_t"
| "event_struct WINDOW_RESIZE_EVENT = window_resize_event_t"
| "event_struct WINDOW_CLOSE_EVENT = window_close_event_t"
| "event_struct FRAMEBUFFER_RESIZE_EVENT = framebuffer_resize_event_t"
| "event_struct CONTENT_SCALE_EVENT = content_scale_event_t"
| "event_struct WINDOW_REFRESH_EVENT = window_refresh_event_t"
| "event_struct WINDOW_FOCUS_EVENT = window_focus_event_t"
| "event_struct WINDOW_ICONIFY_EVENT = window_iconify_event_t"
| "event_struct WINDOW_MAXIMIZE_EVENT = window_maximize_event_t"
| "event_struct MOUSE_BUTTON_EVENT = mouse_button_event_t"
| "event_struct CURSOR_MOVE_EVENT = cursor_move_event_t"
| "event_struct CURSOR_ENTER_EVENT = cursor_enter_event_t"
| "event_struct SCROLL_EVENT = scroll_event_t"
| "event_struct KEYBOARD_EVENT = key_event_t"
| "event_struct CHARACTER_INPUT_EVENT = character_input_event_t"
| "event_struct GEOMETRY_COMPILATION_EVENT = geometry_compilation_event_t"
| "event_struct GEOMETRY_RENDER_EVENT = geometry_render_event_t"
| "event_struct GEOMETRY_RELEASE_EVENT = geometry_release_event_t"
| "event_struct SCISSORTEST_STATUS_EVENT = scissortest_status_event_t"
| "event_struct SCISSORTEST_REGION_EVENT = scissortest_region_event_t"
| "event_struct TEXTURE_LOAD_EVENT = texture_load_event_t"
| "event_struct TEXTURE_GENERATION_EVENT = texture_generation_event_t"
| "event_struct TEXTURE_RELEASE_EVENT = texture_release_event_t"
| "event_struct TRANSFORMATION_UPDATE_EVENT = transformation_update_event_t"

fun event_of :: "EventType \<Rightarrow> nat list \<Rightarrow> deferred_event" where
  "event_of ERROR_EVENT vs = Error_details ERROR_EVENT (int_of_bits (vs ! 1))"
| "event_of WINDOW_MOVE_EVENT vs = Window_move_details WINDOW_MOVE_EVENT (int_of_bits (vs ! 1)) (int_of_bits (vs ! 2))"
| "event_of WINDOW_RESIZE_EVENT vs = Window_resize_details WINDOW_RESIZE_EVENT (int_of_bits (vs ! 1)) (int_of_bits (vs ! 2))"
| "event_of WINDOW_CLOSE_EVENT vs = Window_close_details WINDOW_CLOSE_EVENT"
| "event_of FRAMEBUFFER_RESIZE_EVENT vs = Framebuffer_resize_details FRAMEBUFFER_RESIZE_EVENT (int_of_bits (vs ! 1)) (int_of_bits (vs ! 2))"
| "event_of CONTENT_SCALE_EVENT vs = Content_scale_details CONTENT_SCALE_EVENT (of_nat (vs ! 1)) (of_nat (vs ! 2))"
| "event_of WINDOW_REFRESH_EVENT vs = Window_refresh_details WINDOW_REFRESH_EVENT"
| "event_of WINDOW_FOCUS_EVENT vs = Window_focus_details WINDOW_FOCUS_EVENT (int_of_bits (vs ! 1))"
| "event_of WINDOW_ICONIFY_EVENT vs = Window_iconify_details WINDOW_ICONIFY_EVENT (int_of_bits (vs ! 1))"
| "event_of WINDOW_MAXIMIZE_EVENT vs = Window_maximize_details WINDOW_MAXIMIZE_EVENT (int_of_bits (vs ! 1))"
| "event_of MOUSE_BUTTON_EVENT vs = Mouse_button_details MOUSE_BUTTON_EVENT (int_of_bits (vs ! 1)) (int_of_bits (vs ! 2)) (int_of_bits (vs ! 3))"
| "event_of CURSOR_MOVE_EVENT vs = Cursor_move_details CURSOR_MOVE_EVENT (of_nat (vs ! 1)) (of_nat (vs ! 2))"
| "event_of CURSOR_ENTER_EVENT vs = Cursor_enter_details CURSOR_ENTER_EVENT (int_of_bits (vs ! 1))"
| "event_of SCROLL_EVENT vs = Scroll_details SCROLL_EVENT (of_nat (vs ! 1)) (of_nat (vs ! 2))"
| "event_of KEYBOARD_EVENT vs = Key_details KEYBOARD_EVENT (int_of_bits (vs ! 1)) (int_of_bits (vs ! 2)) (int_of_bits (vs ! 3)) (int_of_bits (vs ! 4))"
| "event_of CHARACTER_INPUT_EVENT vs = Character_input_details CHARACTER_INPUT_EVENT (of_nat (vs ! 1))"
| "event_of GEOMETRY_COMPILATION_EVENT vs = Geometry_compilation_details GEOMETRY_COMPILATION_EVENT (geometry_of (vs ! 1) (vs ! 2) (vs ! 3) (vs ! 4))"
| "event_of GEOMETRY_RENDER_EVENT vs = Geometry_render_details GEOMETRY_RENDER_EVENT (geometry_of (vs ! 1) (vs ! 2) (vs ! 3) (vs ! 4))
     (of_nat (vs ! 5)) (of_nat (vs ! 6)) (vs ! 7)"
| "event_of GEOMETRY_RELEASE_EVENT vs = Geometry_release_details GEOMETRY_RELEASE_EVENT (geometry_of (vs ! 1) (vs ! 2) (vs ! 3) (vs ! 4))"
| "event_of SCISSORTEST_STATUS_EVENT vs = Scissortest_status_details SCISSORTEST_STATUS_EVENT (vs ! 1 \<noteq> 0)"
| "event_of SCISSORTEST_REGION_EVENT vs = Scissortest_region_details SCISSORTEST_REGION_EVENT (int_of_bits (vs ! 1)) (int_of_bits (vs ! 2)) (int_of_bits (vs ! 3)) (int_of_bits (vs ! 4))"
| "event_of TEXTURE_LOAD_EVENT vs = Texture_load_details TEXTURE_LOAD_EVENT (vs ! 1)"
| "event_of TEXTURE_GENERATION_EVENT vs = Texture_generation_details TEXTURE_GENERATION_EVENT (vs ! 1)"
| "event_of TEXTURE_RELEASE_EVENT vs = Texture_release_details TEXTURE_RELEASE_EVENT (vs ! 1)"
| "event_of TRANSFORMATION_UPDATE_EVENT vs = Transformation_update_details TRANSFORMATION_UPDATE_EVENT (map of_nat (tl vs))"

section \<open>Storing and reading\<close>

definition store_event :: "deferred_event \<Rightarrow> byte list \<Rightarrow> byte list option" where
  "store_event e m = store (leaves 0 (Struct (member_fields e))) (event_values e) m"

definition read_type :: "byte list \<Rightarrow> EventType option" where
  "read_type m = List.find (\<lambda>t. event_type_code t = load m (0, 4)) all_events"

definition read_event :: "byte list \<Rightarrow> deferred_event option" where
  "read_event m =
     map_option (\<lambda>t. event_of t (map (load m) (leaves 0 (Struct (event_struct t))))) (read_type m)"

section \<open>Lemmas\<close>

lemmas event_structs = server_status_event_t_def window_move_event_t_def window_resize_event_t_def
  window_close_event_t_def framebuffer_resize_event_t_def content_scale_event_t_def window_refresh_event_t_def
  window_focus_event_t_def window_iconify_event_t_def window_maximize_event_t_def mouse_button_event_t_def
  cursor_move_event_t_def cursor_enter_event_t_def scroll_event_t_def key_event_t_def
  character_input_event_t_def error_event_t_def rml_geometry_info_t_def geometry_compilation_event_t_def
  geometry_render_event_t_def geometry_release_event_t_def scissortest_status_event_t_def
  scissortest_region_event_t_def texture_load_event_t_def texture_generation_event_t_def
  texture_release_event_t_def transformation_update_event_t_def

lemmas layout_eval = event_structs align_up_def

lemma wf_deferred_event: "wf_fields deferred_event_t"
  by (simp add: deferred_event_t_def event_structs)

lemma sizeof_deferred_event: "sizeof (Union deferred_event_t) = 72"
  by (simp add: deferred_event_t_def layout_eval)

lemma member_declared: "wf_fields (member_fields e) \<and> sizeof (Struct (member_fields e)) \<le> 72"
  by (cases e) (simp_all add: layout_eval)

lemma member_tag_first:
  "\<exists>ls. leaves 0 (Struct (member_fields e)) = (0, 4) # ls"
  by (cases e) (simp_all add: layout_eval)

lemma event_values_tag: "\<exists>vs. event_values e = event_type_code (event_tag e) # vs"
  by (cases e) simp_all

lemma event_struct_tagged: "well_tagged e \<Longrightarrow> event_struct (event_tag e) = member_fields e"
  by (cases e) (simp_all add: well_tagged_def)

lemma int_bits_less [simp]: "int_bits i < 4294967296"
  by (simp add: int_bits_def nat_less_iff)

lemma event_type_code_less: "event_type_code t < 256 ^ 4"
  by (cases t) simp_all

lemma unat_less_u32: "unat (w :: u32) < 4294967296"
  using unsigned_less [of w, where ?'a = nat] by simp

lemma unat_less_u64: "unat (w :: u64) < 18446744073709551616"
  using unsigned_less [of w, where ?'a = nat] by simp

lemma find_event_type_code: "List.find (\<lambda>u. event_type_code u = event_type_code t) all_events = Some t"
  by (cases t) (simp_all add: all_events_def)

lemma values_fit:
  "representable e \<Longrightarrow> list_all2 (\<lambda>p v. v < 256 ^ snd p) (leaves 0 (Struct (member_fields e))) (event_values e)"
proof (cases e)
  case (Transformation_update_details t xs)
  assume "representable e"
  then have "length (event_values e) = 17" "list_all (\<lambda>v. v < 256 ^ 4) (event_values e)"
    using Transformation_update_details unat_less_u32 event_type_code_less [of t] by (auto simp: list_all_iff)
  moreover have "length (leaves 0 (Struct (member_fields e))) = 17"
    "list_all (\<lambda>p. snd p = 4) (leaves 0 (Struct (member_fields e)))"
    using Transformation_update_details by (simp_all add: layout_eval)
  ultimately show ?thesis by (auto simp: list_all2_conv_all_nth list_all_length)
qed (auto simp: layout_eval event_type_code_less [simplified] unat_less_u32 unat_less_u64 geometry_values_def geometry_fits_def)

lemma int_bits_inverse: "int_fits i \<Longrightarrow> int_of_bits (int_bits i) = i"
proof -
  assume "int_fits i"
  moreover have "i mod 2 ^ 32 = take_bit 32 i" by (simp add: take_bit_eq_mod)
  ultimately show ?thesis
    by (simp add: int_fits_def int_bits_def int_of_bits_def signed_take_bit_take_bit signed_take_bit_int_eq_self
        flip: take_bit_eq_mod)
qed

lemma event_of_values: "well_tagged e \<Longrightarrow> representable e \<Longrightarrow> event_of (event_tag e) (event_values e) = e"
  by (cases e) (simp_all add: well_tagged_def int_bits_inverse geometry_of_def geometry_values_def geometry_fits_def
      map_idI)

lemma mod_fit:
  fixes vs :: "nat list"
  shows "list_all2 (\<lambda>p v. v < 256 ^ snd p) ls vs \<Longrightarrow> map (\<lambda>((o', n), v). v mod 256 ^ n) (zip ls vs) = vs"
  by (induction ls vs rule: list_all2_induct) auto

section \<open>Properties\<close>

text \<open>
  C8. The abstraction of \<open>deferred_event_t\<close> is sound: storing any member into a block of the size of
  the union stays inside it; reading the type gives the stored type whichever member was stored;
  and reading the member that belongs to the type gives back the event, for every well-tagged
  event whose values fit their C types.
\<close>

theorem event_union_roundtrip:
  assumes "length m = sizeof (Union deferred_event_t)" "representable e"
  shows "\<exists>m'. store_event e m = Some m' \<and> length m' = length m \<and> read_type m' = Some (event_tag e)
     \<and> (well_tagged e \<longrightarrow> read_event m' = Some e)"
proof -
  let ?ls = "leaves 0 (Struct (member_fields e))"
  have f: "list_all2 (\<lambda>p v. v < 256 ^ snd p) ?ls (event_values e)" using assms(2) by (rule values_fit)
  have p: "packed 0 72 ?ls"
    using packed_leaves(1) [of "Struct (member_fields e)" 0] member_declared [of e] packed_mono [of 0 _ ?ls 0 72] by simp
  obtain m' where m': "store ?ls (event_values e) m = Some m'" "length m' = length m"
    "map (load m') ?ls = map (\<lambda>((o', n), v). v mod 256 ^ n) (zip ?ls (event_values e))"
    using store_load [OF p, of m "event_values e"] assms(1) sizeof_deferred_event list_all2_lengthD [OF f] by auto
  then have l: "map (load m') ?ls = event_values e" using mod_fit [OF f] by simp
  then have "load m' (0, 4) = event_type_code (event_tag e)"
    using member_tag_first [of e] event_values_tag [of e] by auto
  then have t: "read_type m' = Some (event_tag e)"
    by (simp add: read_type_def find_event_type_code)
  show ?thesis
    using m' t l event_struct_tagged [of e] event_of_values [of e] assms(2)
    by (auto simp: store_event_def read_event_def)
qed

theorem event_union_roundtrip_witness:
  "\<exists>m'. store_event (Key_details KEYBOARD_EVENT 65 (-1) 1 0) (replicate 72 0xAA) = Some m'
     \<and> read_event m' = Some (Key_details KEYBOARD_EVENT 65 (-1) 1 0)"
  using event_union_roundtrip [of "replicate 72 0xAA" "Key_details KEYBOARD_EVENT 65 (-1) 1 0"]
  by (auto simp: sizeof_deferred_event int_fits_def well_tagged_def simp del: sizeof.simps)

end
