(* ===== verification/Webview_Engine.thy ===== *)
theory Webview_Engine
  imports Prelude
begin

unbundle bit_operations_syntax

text \<open>
  The webview bindings: \<open>Runtime/Bindings/FFI/webview/webview_ffi.cpp\<close> and the class
  \<open>WebviewBrowserEngine\<close>, which has one implementation per platform (\<open>webview_windows.hpp\<close>,
  \<open>webview_unix.hpp\<close>, \<open>webview_mac.hpp\<close>). The platform's window toolkit and the webview library
  are parameters: records of what their functions answer, often as a function of the calls made
  so far, which the engine state records in order.

  What the three implementations promise to the exported functions is the locale
  \<open>browser_engine\<close>; it is interpreted for each of them.
\<close>

section \<open>Outcomes and the exported functions\<close>

text \<open>
  A member function returns, throws (the error code of the library), waits for a message that
  does not arrive, or uses a dead object.
\<close>

datatype ('a, 'e) outcome = Returns 'a 'e | Throws int 'e | Waits | Undefined

fun and_then :: "('a, 'e) outcome \<Rightarrow> ('a \<Rightarrow> 'e \<Rightarrow> ('b, 'e) outcome) \<Rightarrow> ('b, 'e) outcome" where
  "and_then (Returns a e) f = f a e"
| "and_then (Throws c e) f = Throws c e"
| "and_then Waits f = Waits"
| "and_then Undefined f = Undefined"

definition unwrapResult :: "int + 'a \<Rightarrow> 'e \<Rightarrow> ('a, 'e) outcome" where
  "unwrapResult result e = (case result of Inl c \<Rightarrow> Throws c e | Inr v \<Rightarrow> Returns v e)"

record 'e browser_class =
  construct :: "bool \<Rightarrow> nat \<Rightarrow> 'e"
  step :: "int \<Rightarrow> 'e \<Rightarrow> (int, 'e) outcome"
  toggleFullScreen :: "'e \<Rightarrow> (unit, 'e) outcome"
  setAppIcon :: "string \<Rightarrow> 'e \<Rightarrow> (bool, 'e) outcome"

text \<open>A \<open>webview_t\<close> is the address of an engine; \<open>static_cast\<close> checks nothing.\<close>

type_synonym 'e engine_heap = "nat \<rightharpoonup> 'e"

definition webview_create :: "'e browser_class \<Rightarrow> nat \<Rightarrow> int \<Rightarrow> nat \<Rightarrow> 'e engine_heap \<Rightarrow> nat \<times> 'e engine_heap" where
  "webview_create C a withDevToolsEnabled existingNativeWindow h =
     (a, h(a \<mapsto> construct C (withDevToolsEnabled \<noteq> 0) existingNativeWindow))"

definition on_engine :: "nat \<Rightarrow> ('e \<Rightarrow> ('a, 'e) outcome) \<Rightarrow> 'e engine_heap \<Rightarrow> ('a, 'e engine_heap) outcome" where
  "on_engine w f h =
     (case h w of
        None \<Rightarrow> Undefined
      | Some e \<Rightarrow>
          (case f e of
             Returns a e' \<Rightarrow> Returns a (h(w \<mapsto> e'))
           | Throws c e' \<Rightarrow> Throws c (h(w \<mapsto> e'))
           | Waits \<Rightarrow> Waits
           | Undefined \<Rightarrow> Undefined))"

definition webview_run_once :: "'e browser_class \<Rightarrow> nat \<Rightarrow> int \<Rightarrow> 'e engine_heap \<Rightarrow> (int, 'e engine_heap) outcome" where
  "webview_run_once C w blocking = on_engine w (step C blocking)"

definition webview_toggle_fullscreen :: "'e browser_class \<Rightarrow> nat \<Rightarrow> 'e engine_heap \<Rightarrow> (unit, 'e engine_heap) outcome" where
  "webview_toggle_fullscreen C w = on_engine w (toggleFullScreen C)"

definition webview_set_icon :: "'e browser_class \<Rightarrow> nat \<Rightarrow> string \<Rightarrow> 'e engine_heap \<Rightarrow> (bool, 'e engine_heap) outcome" where
  "webview_set_icon C w file_path = on_engine w (setAppIcon C file_path)"

section \<open>Windows\<close>

text \<open>Functions handed over by \<open>dispatch\<close> are objects on the heap, named by a number.\<close>

record win_msg =
  hwnd :: nat
  message :: u32
  lParam :: nat

datatype win_call =
    TranslateMessage win_msg
  | DispatchMessage win_msg
  | Call_function nat
  | LoadImage string
  | SendMessage_SETICON bool nat
  | GetWindowPlacement
  | GetMonitorInfo
  | SetWindowLong u32
  | SetWindowPos_top int int int int
  | SetWindowPlacement
  | SetWindowPos_frame

record 'p win_engine =
  win_window :: "int + nat"
  window_style :: u32
  window_placement :: 'p
  m_windowPlacement :: 'p
  thread_messages :: "win_msg list"
  dispatched :: "nat \<rightharpoonup> nat"
  win_calls :: "win_call list"

record 'p win_api =
  ws_overlappedwindow :: u32
  wm_app :: u32
  wm_quit :: u32
  getmessage_fails :: "win_call list \<Rightarrow> bool"
  placement_ok :: "win_call list \<Rightarrow> bool"
  monitor_rect :: "win_call list \<Rightarrow> (int \<times> int \<times> int \<times> int) option"
  moved_to :: "int \<Rightarrow> int \<Rightarrow> int \<Rightarrow> int \<Rightarrow> 'p \<Rightarrow> 'p"
  placed_as :: "'p \<Rightarrow> 'p \<Rightarrow> 'p"
  frame_changed :: "'p \<Rightarrow> 'p"
  icon_file :: "string \<Rightarrow> nat"
  window_proc :: "win_msg \<Rightarrow> 'p win_engine \<Rightarrow> 'p win_engine"
  run_function :: "nat \<Rightarrow> 'p win_engine \<Rightarrow> 'p win_engine"

definition win_log :: "win_call list \<Rightarrow> 'p win_engine \<Rightarrow> 'p win_engine" where
  "win_log cs e = e\<lparr>win_calls := win_calls e @ cs\<rparr>"

text \<open>
  \<open>GetMessage\<close> waits for a message and answers a negative number on failure; it answers zero for
  \<open>WM_QUIT\<close>, which the code does not test. \<open>PeekMessage\<close> answers at once.
\<close>

definition win_fetch :: "'p win_api \<Rightarrow> bool \<Rightarrow> 'p win_engine \<Rightarrow> (win_msg option, 'p win_engine) outcome" where
  "win_fetch api blocking e =
     (if blocking \<and> getmessage_fails api (win_calls e) then Returns None e
      else case thread_messages e of
             [] \<Rightarrow> if blocking then Waits else Returns None e
           | msg # rest \<Rightarrow> Returns (Some msg) (e\<lparr>thread_messages := rest\<rparr>))"

definition win_step :: "'p win_api \<Rightarrow> int \<Rightarrow> 'p win_engine \<Rightarrow> (int, 'p win_engine) outcome" where
  "win_step api blocking e0 =
     and_then (win_fetch api (blocking \<noteq> 0) e0) (\<lambda>m e.
       case m of
         None \<Rightarrow> Returns 0 e
       | Some msg \<Rightarrow>
           if hwnd msg \<noteq> 0
           then Returns 0 (window_proc api msg (win_log [TranslateMessage msg, DispatchMessage msg] e))
           else if message msg = wm_app api
           then (case dispatched e (lParam msg) of
                   None \<Rightarrow> Undefined
                 | Some f \<Rightarrow>
                     (let e1 = run_function api f (win_log [Call_function f] e) in
                      case dispatched e1 (lParam msg) of
                        None \<Rightarrow> Undefined
                      | Some _ \<Rightarrow> Returns 0 (e1\<lparr>dispatched := (dispatched e1)(lParam msg := None)\<rparr>)))
           else if message msg = wm_quit api then Returns (-1) e
           else Returns 0 e)"

text \<open>The style and the placement are those of the window; both early returns are failed calls.
  The members \<open>left\<close>, \<open>top\<close>, \<open>right\<close>, \<open>bottom\<close> of \<open>rcMonitor\<close> are \<open>x0\<close>, \<open>y0\<close>, \<open>x1\<close>, \<open>y1\<close>.\<close>

definition WindowedModeToFullscreen :: "'p win_api \<Rightarrow> u32 \<Rightarrow> 'p win_engine \<Rightarrow> 'p win_engine" where
  "WindowedModeToFullscreen api windowStyle e =
     (let e1 = win_log [GetWindowPlacement] e in
      if \<not> placement_ok api (win_calls e1) then e1
      else
       (let e2 = win_log [GetMonitorInfo] (e1\<lparr>m_windowPlacement := window_placement e1\<rparr>) in
        case monitor_rect api (win_calls e2) of
          None \<Rightarrow> e2
        | Some (x0, y0, x1, y1) \<Rightarrow>
            (let style = windowStyle AND NOT (ws_overlappedwindow api);
                 e3 = win_log [SetWindowLong style] (e2\<lparr>window_style := style\<rparr>)
             in win_log [SetWindowPos_top x0 y0 (x1 - x0) (y1 - y0)]
                  (e3\<lparr>window_placement := moved_to api x0 y0 (x1 - x0) (y1 - y0) (window_placement e3)\<rparr>))))"

definition FullscreenModeToWindowed :: "'p win_api \<Rightarrow> u32 \<Rightarrow> 'p win_engine \<Rightarrow> 'p win_engine" where
  "FullscreenModeToWindowed api windowStyle e =
     (let style = windowStyle OR ws_overlappedwindow api;
          e1 = win_log [SetWindowLong style] (e\<lparr>window_style := style\<rparr>);
          e2 = win_log [SetWindowPlacement]
                 (e1\<lparr>window_placement := placed_as api (m_windowPlacement e1) (window_placement e1)\<rparr>)
      in win_log [SetWindowPos_frame] (e2\<lparr>window_placement := frame_changed api (window_placement e2)\<rparr>))"

definition win_toggleFullScreen :: "'p win_api \<Rightarrow> 'p win_engine \<Rightarrow> (unit, 'p win_engine) outcome" where
  "win_toggleFullScreen api e0 =
     and_then (unwrapResult (win_window e0) e0) (\<lambda>nativeWindowHandle e.
       let windowStyle = window_style e;
           isInWindowedMode = (windowStyle AND ws_overlappedwindow api \<noteq> 0)
       in if isInWindowedMode then Returns () (WindowedModeToFullscreen api windowStyle e)
          else Returns () (FullscreenModeToWindowed api windowStyle e))"

definition win_setAppIcon :: "'p win_api \<Rightarrow> string \<Rightarrow> 'p win_engine \<Rightarrow> (bool, 'p win_engine) outcome" where
  "win_setAppIcon api iconPath e0 =
     and_then (unwrapResult (win_window e0) e0) (\<lambda>nativeWindowHandle e.
       let icon = icon_file api iconPath;
           e1 = win_log [LoadImage iconPath] e
       in if icon \<noteq> 0
          then Returns True (win_log [SendMessage_SETICON True icon, SendMessage_SETICON False icon] e1)
          else Returns False e1)"

text \<open>
  \<open>new_webview\<close> is the constructor of the base class; \<open>m_windowPlacement\<close> starts as a placement
  (\<open>zeroed\<close>) whose members other than its length are zero.
\<close>

definition win_class ::
  "'p win_api \<Rightarrow> 'p \<Rightarrow> (bool \<Rightarrow> nat \<Rightarrow> 'p win_engine) \<Rightarrow> 'p win_engine browser_class" where
  "win_class api zeroed new_webview =
     \<lparr>construct = (\<lambda>debug window. (new_webview debug window)\<lparr>m_windowPlacement := zeroed\<rparr>), step = win_step api, toggleFullScreen = win_toggleFullScreen api,
      setAppIcon = win_setAppIcon api\<rparr>"

section \<open>GTK\<close>

datatype gtk_call =
    Main_iteration bool
  | Window_fullscreen
  | Window_unfullscreen
  | Pixbuf_new string nat
  | Pixbuf_error string nat
  | Window_set_icon nat
  | Object_unref nat
  | Warning string
  | Error_free nat

record gtk_engine =
  gtk_window :: "int + nat"
  gdk_state :: u32
  gtk_calls :: "gtk_call list"

text \<open>\<open>load_pixbuf\<close> gives a pixel buffer, or an error object with its message.\<close>

record gtk_api =
  gdk_fullscreen_bit :: u32
  main_iteration :: "bool \<Rightarrow> gtk_engine \<Rightarrow> bool \<times> gtk_engine"
  load_pixbuf :: "string \<Rightarrow> gtk_call list \<Rightarrow> (nat \<times> string) + nat"

definition gtk_log :: "gtk_call list \<Rightarrow> gtk_engine \<Rightarrow> gtk_engine" where
  "gtk_log cs e = e\<lparr>gtk_calls := gtk_calls e @ cs\<rparr>"

definition gtk_step :: "gtk_api \<Rightarrow> int \<Rightarrow> gtk_engine \<Rightarrow> (int, gtk_engine) outcome" where
  "gtk_step api blocking e =
     (let (quit, e1) = main_iteration api (blocking \<noteq> 0) (gtk_log [Main_iteration (blocking \<noteq> 0)] e)
      in Returns (if quit then 1 else 0) e1)"

definition gtk_toggleFullScreen :: "gtk_api \<Rightarrow> gtk_engine \<Rightarrow> (unit, gtk_engine) outcome" where
  "gtk_toggleFullScreen api e0 =
     and_then (unwrapResult (gtk_window e0) e0) (\<lambda>gtkWindow e.
       if gdk_state e AND gdk_fullscreen_bit api \<noteq> 0 then Returns () (gtk_log [Window_unfullscreen] e)
       else Returns () (gtk_log [Window_fullscreen] e))"

text \<open>The window is unwrapped after the file was loaded.\<close>

definition gtk_setAppIcon :: "gtk_api \<Rightarrow> string \<Rightarrow> gtk_engine \<Rightarrow> (bool, gtk_engine) outcome" where
  "gtk_setAppIcon api iconPath e0 =
     (case load_pixbuf api iconPath (gtk_calls e0) of
        Inr pixelBuffer \<Rightarrow>
          (let e1 = gtk_log [Pixbuf_new iconPath pixelBuffer] e0 in
           and_then (unwrapResult (gtk_window e1) e1) (\<lambda>gtkWindow e.
             Returns True (gtk_log [Window_set_icon pixelBuffer, Object_unref pixelBuffer] e)))
      | Inl (error, msg) \<Rightarrow>
          Returns False (gtk_log [Pixbuf_error iconPath error, Warning msg, Error_free error] e0))"

definition gtk_class :: "gtk_api \<Rightarrow> (bool \<Rightarrow> nat \<Rightarrow> gtk_engine) \<Rightarrow> gtk_engine browser_class" where
  "gtk_class api new_webview =
     \<lparr>construct = new_webview, step = gtk_step api, toggleFullScreen = gtk_toggleFullScreen api,
      setAppIcon = gtk_setAppIcon api\<rparr>"

section \<open>Cocoa\<close>

datatype mac_call =
    NextEvent bool
  | SendEvent nat
  | Window_toggleFullScreen nat
  | Image_init string nat
  | SetRepresentedURL nat string
  | SetApplicationIconImage nat nat

record mac_engine =
  mac_window :: "int + nat"
  m_shouldExit :: int
  mac_calls :: "mac_call list"

text \<open>\<open>next_event\<close> is 0 when there is none, \<open>image_file\<close> when the file is no image.\<close>

record mac_api =
  next_event :: "bool \<Rightarrow> mac_call list \<Rightarrow> nat"
  send_event :: "nat \<Rightarrow> mac_engine \<Rightarrow> mac_engine"
  image_file :: "string \<Rightarrow> mac_call list \<Rightarrow> nat"
  shared_application :: nat

definition mac_log :: "mac_call list \<Rightarrow> mac_engine \<Rightarrow> mac_engine" where
  "mac_log cs e = e\<lparr>mac_calls := mac_calls e @ cs\<rparr>"

definition mac_step :: "mac_api \<Rightarrow> int \<Rightarrow> mac_engine \<Rightarrow> (int, mac_engine) outcome" where
  "mac_step api blocking e =
     (let e1 = mac_log [NextEvent (blocking \<noteq> 0)] e;
          event = next_event api (blocking \<noteq> 0) (mac_calls e1);
          e2 = (if event \<noteq> 0 then send_event api event (mac_log [SendEvent event] e1) else e1)
      in Returns (m_shouldExit e2) e2)"

definition mac_toggleFullScreen :: "mac_api \<Rightarrow> mac_engine \<Rightarrow> (unit, mac_engine) outcome" where
  "mac_toggleFullScreen api e0 =
     and_then (unwrapResult (mac_window e0) e0) (\<lambda>nsWindow e.
       Returns () (mac_log [Window_toggleFullScreen nsWindow] e))"

definition mac_setAppIcon :: "mac_api \<Rightarrow> string \<Rightarrow> mac_engine \<Rightarrow> (bool, mac_engine) outcome" where
  "mac_setAppIcon api iconPath e0 =
     (let iconImage = image_file api iconPath (mac_calls e0);
          e1 = mac_log [Image_init iconPath iconImage] e0
      in if iconImage = 0 then Returns False e1
         else and_then (unwrapResult (mac_window e1) e1) (\<lambda>nsWindow e.
           if nsWindow \<noteq> 0 then Returns True (mac_log [SetRepresentedURL nsWindow iconPath] e)
           else if shared_application api \<noteq> 0
           then Returns True (mac_log [SetApplicationIconImage (shared_application api) iconImage] e)
           else Returns False e))"

definition mac_class :: "mac_api \<Rightarrow> (bool \<Rightarrow> nat \<Rightarrow> mac_engine) \<Rightarrow> mac_engine browser_class" where
  "mac_class api new_webview =
     \<lparr>construct = (\<lambda>debug window. (new_webview debug window)\<lparr>m_shouldExit := 0\<rparr>), step = mac_step api, toggleFullScreen = mac_toggleFullScreen api,
      setAppIcon = mac_setAppIcon api\<rparr>"

section \<open>What every engine promises\<close>

text \<open>
  A sequence of calls on one handle: nonblocking steps, toggles and icons. \<open>None\<close> is anything but
  a normal return.
\<close>

datatype webview_request = Run_once | Toggle_fullscreen | Set_icon string

datatype webview_answer = Stepped int | Toggled | Icon_set bool

fun answer :: "('a \<Rightarrow> webview_answer) \<Rightarrow> ('a, 'e engine_heap) outcome \<Rightarrow> (webview_answer \<times> 'e engine_heap) option" where
  "answer f (Returns a h) = Some (f a, h)"
| "answer f _ = None"

fun webview_perform :: "'e browser_class \<Rightarrow> nat \<Rightarrow> webview_request \<Rightarrow> 'e engine_heap \<Rightarrow>
    (webview_answer \<times> 'e engine_heap) option" where
  "webview_perform C w Run_once h = answer Stepped (webview_run_once C w 0 h)"
| "webview_perform C w Toggle_fullscreen h = answer (\<lambda>_. Toggled) (webview_toggle_fullscreen C w h)"
| "webview_perform C w (Set_icon path) h = answer Icon_set (webview_set_icon C w path h)"

fun webview_session :: "'e browser_class \<Rightarrow> (nat \<times> webview_request) list \<Rightarrow> 'e engine_heap \<Rightarrow>
    (webview_answer list \<times> 'e engine_heap) option" where
  "webview_session C [] h = Some ([], h)"
| "webview_session C ((w, r) # rs) h =
     (case webview_perform C w r h of
        None \<Rightarrow> None
      | Some (a, h1) \<Rightarrow> map_option (map_prod (Cons a) id) (webview_session C rs h1))"

text \<open>The answer a request deserves: an icon is accepted exactly when its file can be loaded.\<close>

fun proper_answer :: "(string \<Rightarrow> bool) \<Rightarrow> webview_request \<Rightarrow> webview_answer \<Rightarrow> bool" where
  "proper_answer loads Run_once a \<longleftrightarrow> (\<exists>n. a = Stepped n)"
| "proper_answer loads Toggle_fullscreen a \<longleftrightarrow> a = Toggled"
| "proper_answer loads (Set_icon path) a \<longleftrightarrow> a = Icon_set (loads path)"

locale browser_engine =
  fixes C :: "'e browser_class"
    and usable :: "'e \<Rightarrow> bool"
    and loads :: "string \<Rightarrow> bool"
  assumes step_returns: "usable e \<Longrightarrow> \<exists>n e'. step C 0 e = Returns n e' \<and> usable e'"
    and toggle_returns: "usable e \<Longrightarrow> \<exists>e'. toggleFullScreen C e = Returns () e' \<and> usable e'"
    and icon_returns: "usable e \<Longrightarrow> \<exists>e'. setAppIcon C path e = Returns (loads path) e' \<and> usable e'"
begin

lemma request_returns:
  assumes "h w = Some e" "usable e"
  shows "\<exists>a e'. webview_perform C w r h = Some (a, h(w \<mapsto> e')) \<and> usable e' \<and> proper_answer loads r a"
proof (cases r)
  case Run_once
  then show ?thesis using step_returns [OF assms(2)] assms(1)
    by (auto simp: webview_run_once_def on_engine_def)
next
  case Toggle_fullscreen
  then show ?thesis using toggle_returns [OF assms(2)] assms(1)
    by (auto simp: webview_toggle_fullscreen_def on_engine_def)
next
  case (Set_icon path)
  then show ?thesis using icon_returns [OF assms(2), of path] assms(1)
    by (auto simp: webview_set_icon_def on_engine_def)
qed

lemma session_returns:
  assumes "list_all (\<lambda>(w, r). \<exists>e. h w = Some e \<and> usable e) rs"
  shows "\<exists>as h'. webview_session C rs h = Some (as, h') \<and> list_all2 (\<lambda>(w, r). proper_answer loads r) rs as
     \<and> dom h' = dom h \<and> (\<forall>w. w \<notin> fst ` set rs \<longrightarrow> h' w = h w)"
  using assms
proof (induction rs arbitrary: h)
  case (Cons q rs)
  obtain w r where q: "q = (w, r)" by fastforce
  obtain e where e: "h w = Some e" "usable e" using Cons.prems q by auto
  obtain a e' where a: "webview_perform C w r h = Some (a, h(w \<mapsto> e'))" "usable e'" "proper_answer loads r a"
    using request_returns [of h w e r] e by blast
  have "list_all (\<lambda>(v, r). \<exists>e. (h(w \<mapsto> e')) v = Some e \<and> usable e) rs"
    using Cons.prems a(2) by (auto simp: list_all_iff)
  from Cons.IH [OF this] obtain as h' where "webview_session C rs (h(w \<mapsto> e')) = Some (as, h')"
    "list_all2 (\<lambda>(w, r). proper_answer loads r) rs as" "dom h' = dom (h(w \<mapsto> e'))"
    "\<forall>v. v \<notin> fst ` set rs \<longrightarrow> h' v = (h(w \<mapsto> e')) v" by blast
  then show ?case using q a e(1) by (auto simp: dom_def)
qed simp

end

text \<open>
  What the toolkits are relied on for. A handler that runs inside a Windows message may post
  messages and hand over new functions, but does not take away functions that are still waiting:
  a handler with a message loop of its own (a modal dialog, a window that is being moved) may lose
  such messages and is left out. The window stays open: closing it, which makes \<open>window()\<close> fail,
  is left out too; \<open>gtk_icon_releases\<close> shows what happens then.
\<close>

definition app_message :: "'p win_api \<Rightarrow> win_msg \<Rightarrow> bool" where
  "app_message api m \<longleftrightarrow> hwnd m = 0 \<and> message m = wm_app api"

definition functions_of :: "'p win_api \<Rightarrow> win_msg list \<Rightarrow> nat list" where
  "functions_of api ms = map lParam (filter (app_message api) ms)"

definition messages_ok :: "'p win_api \<Rightarrow> 'p win_engine \<Rightarrow> bool" where
  "messages_ok api e \<longleftrightarrow> distinct (functions_of api (thread_messages e))
     \<and> set (functions_of api (thread_messages e)) \<subseteq> dom (dispatched e)"

definition handler_extends :: "'p win_api \<Rightarrow> 'p win_engine \<Rightarrow> 'p win_engine \<Rightarrow> bool" where
  "handler_extends api e e' \<longleftrightarrow> win_window e' = win_window e \<and> dispatched e \<subseteq>\<^sub>m dispatched e'
     \<and> (\<exists>ms. thread_messages e' = thread_messages e @ ms \<and> distinct (functions_of api ms)
          \<and> set (functions_of api ms) \<subseteq> dom (dispatched e') - dom (dispatched e))"

definition win_handlers_ok :: "'p win_api \<Rightarrow> bool" where
  "win_handlers_ok api \<longleftrightarrow> (\<forall>m e. handler_extends api e (window_proc api m e))
     \<and> (\<forall>f e. handler_extends api e (run_function api f e))"

definition win_usable :: "'p win_api \<Rightarrow> 'p win_engine \<Rightarrow> bool" where
  "win_usable api e \<longleftrightarrow> win_handlers_ok api \<and> (\<exists>w. win_window e = Inr w) \<and> messages_ok api e"

definition gtk_usable :: "gtk_api \<Rightarrow> (string \<Rightarrow> bool) \<Rightarrow> gtk_engine \<Rightarrow> bool" where
  "gtk_usable api loads e \<longleftrightarrow> (\<exists>w. gtk_window e = Inr w)
     \<and> (\<forall>b e. gtk_window (snd (main_iteration api b e)) = gtk_window e)
     \<and> (\<forall>path cs. loads path \<longleftrightarrow> (\<exists>p. load_pixbuf api path cs = Inr p))"

definition mac_usable :: "mac_api \<Rightarrow> (string \<Rightarrow> bool) \<Rightarrow> mac_engine \<Rightarrow> bool" where
  "mac_usable api loads e \<longleftrightarrow> (\<exists>w. mac_window e = Inr w \<and> (w = 0 \<longrightarrow> shared_application api \<noteq> 0))
     \<and> m_shouldExit e = 0
     \<and> (\<forall>v e. mac_window (send_event api v e) = mac_window e \<and> m_shouldExit (send_event api v e) = m_shouldExit e)
     \<and> (\<forall>path cs. loads path \<longleftrightarrow> image_file api path cs \<noteq> 0)"

lemma functions_of_append: "functions_of api (xs @ ys) = functions_of api xs @ functions_of api ys"
  by (simp add: functions_of_def)

lemma win_log_simps [simp]:
  "win_window (win_log cs e) = win_window e" "dispatched (win_log cs e) = dispatched e"
  "thread_messages (win_log cs e) = thread_messages e" "window_style (win_log cs e) = window_style e"
  "window_placement (win_log cs e) = window_placement e" "m_windowPlacement (win_log cs e) = m_windowPlacement e"
  "win_calls (win_log cs e) = win_calls e @ cs"
  by (simp_all add: win_log_def)

lemma messages_ok_extends:
  assumes "messages_ok api e" "handler_extends api e e'"
  shows "messages_ok api e'"
proof -
  have d: "dom (dispatched e) \<subseteq> dom (dispatched e')"
    using assms(2) by (intro map_le_implies_dom_le) (simp add: handler_extends_def)
  then show ?thesis using assms
    by (fastforce simp: handler_extends_def messages_ok_def functions_of_append)
qed

lemma win_step_app:
  assumes "win_handlers_ok api" "messages_ok api e" "thread_messages e = m # ms" "app_message api m"
  shows "\<exists>f e'. dispatched e (lParam m) = Some f \<and> win_step api 0 e = Returns 0 e'
     \<and> handler_extends api (win_log [Call_function f] (e\<lparr>thread_messages := ms\<rparr>))
          (run_function api f (win_log [Call_function f] (e\<lparr>thread_messages := ms\<rparr>)))
     \<and> e' = (run_function api f (win_log [Call_function f] (e\<lparr>thread_messages := ms\<rparr>)))
          \<lparr>dispatched := (dispatched (run_function api f (win_log [Call_function f] (e\<lparr>thread_messages := ms\<rparr>))))(lParam m := None)\<rparr>
     \<and> messages_ok api e' \<and> win_window e' = win_window e"
proof -
  obtain f where f: "dispatched e (lParam m) = Some f"
    using assms(2-4) by (auto simp: messages_ok_def functions_of_def)
  define e0 where "e0 = win_log [Call_function f] (e\<lparr>thread_messages := ms\<rparr>)"
  define e1 where "e1 = run_function api f e0"
  have x: "handler_extends api e0 e1" using assms(1) by (simp add: win_handlers_ok_def e1_def)
  have m0: "messages_ok api e0" and n: "lParam m \<notin> set (functions_of api ms)"
    using assms(2-4) by (auto simp: messages_ok_def functions_of_def e0_def)
  from x obtain ns where ns: "thread_messages e1 = ms @ ns"
    "set (functions_of api ns) \<subseteq> dom (dispatched e1) - dom (dispatched e0)"
    by (auto simp: handler_extends_def e0_def)
  have live: "dispatched e1 (lParam m) = Some f"
    using x f domI [of "dispatched e" "lParam m" f] by (simp add: handler_extends_def map_le_def e0_def)
  have "lParam m \<notin> set (functions_of api (thread_messages e1))"
    using n ns f by (auto simp: functions_of_append e0_def)
  then have ok: "messages_ok api (e1\<lparr>dispatched := (dispatched e1)(lParam m := None)\<rparr>)"
    using messages_ok_extends [OF m0 x] by (auto simp: messages_ok_def)
  have "win_step api 0 e = Returns 0 (e1\<lparr>dispatched := (dispatched e1)(lParam m := None)\<rparr>)"
    using assms(3,4) f live
    by (simp add: win_step_def win_fetch_def app_message_def e1_def e0_def Let_def)
  moreover have "win_window e1 = win_window e" using x by (simp add: handler_extends_def e0_def)
  ultimately show ?thesis using f ok x unfolding e1_def e0_def by auto
qed

lemma win_step_usable:
  assumes "win_usable api e"
  shows "\<exists>n e'. win_step api 0 e = Returns n e' \<and> win_usable api e'"
proof (cases "thread_messages e")
  case Nil
  then show ?thesis using assms by (simp add: win_step_def win_fetch_def)
next
  case (Cons m ms)
  have h: "win_handlers_ok api" "messages_ok api e" and w: "\<exists>w. win_window e = Inr w"
    using assms by (auto simp: win_usable_def)
  show ?thesis
  proof (cases "app_message api m")
    case True
    then show ?thesis using win_step_app [OF h Cons] w h(1) unfolding win_usable_def by metis
  next
    case False
    let ?e = "e\<lparr>thread_messages := ms\<rparr>"
    let ?l = "win_log [TranslateMessage m, DispatchMessage m] ?e"
    have m: "messages_ok api ?e" "messages_ok api ?l"
      using h(2) Cons False by (auto simp: messages_ok_def functions_of_def)
    have x: "handler_extends api ?l (window_proc api m ?l)" using h(1) by (simp add: win_handlers_ok_def)
    have "win_usable api ?e" "win_usable api (window_proc api m ?l)"
      using m messages_ok_extends [OF m(2) x] x w h(1) by (auto simp: win_usable_def handler_extends_def)
    moreover have "win_step api 0 e = (if hwnd m \<noteq> 0 then Returns 0 (window_proc api m ?l)
        else if message m = wm_quit api then Returns (-1) ?e else Returns 0 ?e)"
      using Cons False by (auto simp: win_step_def win_fetch_def app_message_def)
    ultimately show ?thesis by simp
  qed
qed

lemma to_fullscreen_fields:
  "win_window (WindowedModeToFullscreen api s e) = win_window e"
  "dispatched (WindowedModeToFullscreen api s e) = dispatched e"
  "thread_messages (WindowedModeToFullscreen api s e) = thread_messages e"
  by (simp_all add: WindowedModeToFullscreen_def Let_def split: option.split prod.split)

lemma to_windowed_fields:
  "win_window (FullscreenModeToWindowed api s e) = win_window e"
  "dispatched (FullscreenModeToWindowed api s e) = dispatched e"
  "thread_messages (FullscreenModeToWindowed api s e) = thread_messages e"
  by (simp_all add: FullscreenModeToWindowed_def Let_def)

lemma win_usable_fields:
  "win_window e' = win_window e \<Longrightarrow> dispatched e' = dispatched e \<Longrightarrow> thread_messages e' = thread_messages e \<Longrightarrow>
   win_usable api e' \<longleftrightarrow> win_usable api e"
  by (simp add: win_usable_def messages_ok_def)

lemma win_toggle_usable:
  assumes "win_usable api e"
  shows "\<exists>e'. win_toggleFullScreen api e = Returns () e' \<and> win_usable api e'"
proof -
  have "win_usable api (WindowedModeToFullscreen api (window_style e) e)"
    "win_usable api (FullscreenModeToWindowed api (window_style e) e)"
    using assms win_usable_fields [OF to_fullscreen_fields] win_usable_fields [OF to_windowed_fields] by blast+
  moreover obtain w where "win_window e = Inr w" using assms by (auto simp: win_usable_def)
  ultimately show ?thesis by (simp add: win_toggleFullScreen_def unwrapResult_def Let_def)
qed

lemma win_icon_usable:
  assumes "win_usable api e"
  shows "\<exists>e'. win_setAppIcon api path e = Returns (icon_file api path \<noteq> 0) e' \<and> win_usable api e'"
  using assms by (auto simp: win_setAppIcon_def unwrapResult_def win_usable_def messages_ok_def Let_def)

interpretation windows_engine: browser_engine "win_class api zeroed new_webview" "win_usable api"
    "\<lambda>path. icon_file api path \<noteq> 0"
  by unfold_locales
    (auto simp: win_class_def simp del: neq0_conv intro: win_step_usable win_toggle_usable win_icon_usable)

lemma gtk_log_simps [simp]:
  "gtk_window (gtk_log cs e) = gtk_window e" "gdk_state (gtk_log cs e) = gdk_state e"
  "gtk_calls (gtk_log cs e) = gtk_calls e @ cs"
  by (simp_all add: gtk_log_def)

lemma mac_log_simps [simp]:
  "mac_window (mac_log cs e) = mac_window e" "m_shouldExit (mac_log cs e) = m_shouldExit e"
  "mac_calls (mac_log cs e) = mac_calls e @ cs"
  by (simp_all add: mac_log_def)

lemma gtk_icon_usable:
  assumes "gtk_usable api loads e"
  shows "\<exists>e'. gtk_setAppIcon api path e = Returns (loads path) e' \<and> gtk_usable api loads e'"
proof -
  have "loads path \<longleftrightarrow> (\<exists>p. load_pixbuf api path (gtk_calls e) = Inr p)" using assms by (simp add: gtk_usable_def)
  then show ?thesis using assms
    by (cases "load_pixbuf api path (gtk_calls e)")
      (auto simp: gtk_setAppIcon_def unwrapResult_def gtk_usable_def Let_def)
qed

interpretation gtk_engine: browser_engine "gtk_class api new_webview" "gtk_usable api loads" loads
proof
  show "\<exists>n e'. step (gtk_class api new_webview) 0 e = Returns n e' \<and> gtk_usable api loads e'"
    if "gtk_usable api loads e" for e
    using that by (auto simp: gtk_class_def gtk_step_def gtk_usable_def split: prod.split)
      (metis gtk_log_simps(1) snd_conv)
  show "\<exists>e'. setAppIcon (gtk_class api new_webview) path e = Returns (loads path) e' \<and> gtk_usable api loads e'"
    if "gtk_usable api loads e" for e path
    using gtk_icon_usable [OF that, of path] by (simp add: gtk_class_def)
qed (auto simp: gtk_class_def gtk_toggleFullScreen_def unwrapResult_def gtk_usable_def)

lemma mac_icon_usable:
  assumes "mac_usable api loads e"
  shows "\<exists>e'. mac_setAppIcon api path e = Returns (loads path) e' \<and> mac_usable api loads e'"
proof -
  have "loads path \<longleftrightarrow> image_file api path (mac_calls e) \<noteq> 0" using assms by (simp add: mac_usable_def)
  then show ?thesis using assms
    by (cases "image_file api path (mac_calls e) = 0")
      (auto simp: mac_setAppIcon_def unwrapResult_def mac_usable_def Let_def simp del: neq0_conv)
qed

interpretation mac_engine: browser_engine "mac_class api new_webview" "mac_usable api loads" loads
proof
  show "\<exists>n e'. step (mac_class api new_webview) 0 e = Returns n e' \<and> mac_usable api loads e'"
    if "mac_usable api loads e" for e
    using that by (auto simp: mac_class_def mac_step_def mac_usable_def Let_def)
  show "\<exists>e'. setAppIcon (mac_class api new_webview) path e = Returns (loads path) e' \<and> mac_usable api loads e'"
    if "mac_usable api loads e" for e path
    using mac_icon_usable [OF that, of path] by (simp add: mac_class_def)
qed (auto simp: mac_class_def mac_toggleFullScreen_def unwrapResult_def mac_usable_def)


section \<open>Dispatched functions\<close>

fun called_functions :: "win_call list \<Rightarrow> nat list" where
  "called_functions [] = []"
| "called_functions (Call_function f # cs) = f # called_functions cs"
| "called_functions (c # cs) = called_functions cs"

lemma called_functions_append: "called_functions (xs @ ys) = called_functions xs @ called_functions ys"
  by (induction xs rule: called_functions.induct) simp_all

text \<open>Repeated calls of \<open>webview_run_once\<close> that do not block.\<close>

fun win_pump :: "'p win_api \<Rightarrow> nat \<Rightarrow> 'p win_engine \<Rightarrow> 'p win_engine option" where
  "win_pump api 0 e = Some e"
| "win_pump api (Suc n) e = (case win_step api 0 e of Returns r e' \<Rightarrow> win_pump api n e' | _ \<Rightarrow> None)"

definition calls_no_function :: "'p win_api \<Rightarrow> bool" where
  "calls_no_function api \<longleftrightarrow>
     (\<forall>f e. called_functions (win_calls (run_function api f e)) = called_functions (win_calls e))"

text \<open>Objects of GLib that a call created, and those it gave back.\<close>

fun gtk_created :: "gtk_call list \<Rightarrow> nat list" where
  "gtk_created [] = []"
| "gtk_created (Pixbuf_new path p # cs) = p # gtk_created cs"
| "gtk_created (Pixbuf_error path x # cs) = x # gtk_created cs"
| "gtk_created (c # cs) = gtk_created cs"

fun gtk_released :: "gtk_call list \<Rightarrow> nat list" where
  "gtk_released [] = []"
| "gtk_released (Object_unref p # cs) = p # gtk_released cs"
| "gtk_released (Error_free x # cs) = x # gtk_released cs"
| "gtk_released (c # cs) = gtk_released cs"

section \<open>Properties\<close>

text \<open>
  C17. Functions handed to the Windows engine are called exactly once and in the order of their
  messages: as many nonblocking steps as there are such messages in front call exactly these
  functions, never use a freed function object, and leave the later messages, followed by those
  that the functions posted meanwhile. Exactly the called functions are freed, if they hand over
  no new ones.
\<close>

theorem win_functions_run_once:
  assumes "win_usable api e" "calls_no_function api"
    and "thread_messages e = ms @ rest" "list_all (app_message api) ms"
  shows "\<exists>e' new. win_pump api (length ms) e = Some e' \<and> win_usable api e' \<and> thread_messages e' = rest @ new
     \<and> called_functions (win_calls e') = called_functions (win_calls e) @ map (the \<circ> dispatched e \<circ> lParam) ms
     \<and> ((\<forall>f e. dispatched (run_function api f e) = dispatched e) \<longrightarrow>
          dispatched e' = dispatched e |` (- (lParam ` set ms)))"
  using assms
proof (induction ms arbitrary: e rest)
  case (Cons m ms)
  have h: "win_handlers_ok api" "messages_ok api e" "thread_messages e = m # (ms @ rest)" "app_message api m"
    using Cons.prems by (auto simp: win_usable_def)
  obtain f e1 where f: "dispatched e (lParam m) = Some f" and s: "win_step api 0 e = Returns 0 e1"
    and x: "handler_extends api (win_log [Call_function f] (e\<lparr>thread_messages := ms @ rest\<rparr>))
          (run_function api f (win_log [Call_function f] (e\<lparr>thread_messages := ms @ rest\<rparr>)))"
    and e1: "e1 = (run_function api f (win_log [Call_function f] (e\<lparr>thread_messages := ms @ rest\<rparr>)))
          \<lparr>dispatched := (dispatched (run_function api f (win_log [Call_function f] (e\<lparr>thread_messages := ms @ rest\<rparr>))))(lParam m := None)\<rparr>"
    and o: "messages_ok api e1" "win_window e1 = win_window e"
    using win_step_app [OF h] by blast
  have u: "win_usable api e1" using Cons.prems(1) o by (simp add: win_usable_def)
  have c: "called_functions (win_calls e1) = called_functions (win_calls e) @ [f]"
    using Cons.prems(2) e1 by (simp add: calls_no_function_def called_functions_append)
  obtain ns where ns: "thread_messages e1 = ms @ rest @ ns" using x e1 by (auto simp: handler_extends_def)
  have d: "map (the \<circ> dispatched e1 \<circ> lParam) ms = map (the \<circ> dispatched e \<circ> lParam) ms"
  proof (intro map_cong [OF refl])
    fix m' assume m': "m' \<in> set ms"
    then have "lParam m' \<in> set (functions_of api ms)" using Cons.prems(4) by (auto simp: functions_of_def list_all_iff)
    then have "lParam m' \<noteq> lParam m" "lParam m' \<in> dom (dispatched e)"
      using h by (auto simp: messages_ok_def functions_of_def)
    then show "(the \<circ> dispatched e1 \<circ> lParam) m' = (the \<circ> dispatched e \<circ> lParam) m'"
      using x e1 by (simp add: handler_extends_def map_le_def)
  qed
  have "list_all (app_message api) ms" using Cons.prems(4) by simp
  from Cons.IH [OF u Cons.prems(2) ns this] obtain e' new where
    "win_pump api (length ms) e1 = Some e'" "win_usable api e'" "thread_messages e' = (rest @ ns) @ new"
    "called_functions (win_calls e') = called_functions (win_calls e1) @ map (the \<circ> dispatched e1 \<circ> lParam) ms"
    "(\<forall>f e. dispatched (run_function api f e) = dispatched e) \<longrightarrow> dispatched e' = dispatched e1 |` (- (lParam ` set ms))"
    by blast
  moreover have "(dispatched e)(lParam m := None) |` (- (lParam ` set ms)) = dispatched e |` (- (lParam ` set (m # ms)))"
    by (auto simp: restrict_map_def)
  ultimately show ?case using s f c d e1 by auto
qed (simp add: restrict_map_def)

definition sample_win_api :: "nat win_api" where
  "sample_win_api =
     \<lparr>ws_overlappedwindow = 0xCF0000, wm_app = 0x8000, wm_quit = 0x12, getmessage_fails = (\<lambda>cs. False),
      placement_ok = (\<lambda>cs. True), monitor_rect = (\<lambda>cs. Some (0, 0, 1920, 1080)),
      moved_to = (\<lambda>x y w h p. 0), placed_as = (\<lambda>p q. p), frame_changed = id,
      icon_file = (\<lambda>path. if path = ''app.ico'' then 5 else 0), window_proc = (\<lambda>m e. e), run_function = (\<lambda>f e. e)\<rparr>"

definition sample_win_engine :: "nat win_engine" where
  "sample_win_engine =
     \<lparr>win_window = Inr 9, window_style = 0x10CF0000, window_placement = 7, m_windowPlacement = 0,
      thread_messages = [\<lparr>hwnd = 0, message = 0x8000, lParam = 40\<rparr>, \<lparr>hwnd = 0, message = 0x8000, lParam = 41\<rparr>],
      dispatched = [40 \<mapsto> 1, 41 \<mapsto> 2], win_calls = []\<rparr>"

lemma sample_win_usable: "win_usable sample_win_api sample_win_engine"
  by (simp add: win_usable_def win_handlers_ok_def handler_extends_def messages_ok_def functions_of_def
      app_message_def sample_win_api_def sample_win_engine_def)

theorem win_functions_run_once_witness:
  "\<exists>e'. win_pump sample_win_api 2 sample_win_engine = Some e' \<and> called_functions (win_calls e') = [1, 2]
     \<and> dispatched e' 40 = None \<and> dispatched e' 41 = None"
proof -
  have "calls_no_function sample_win_api" by (simp add: calls_no_function_def sample_win_api_def)
  moreover have "list_all (app_message sample_win_api) (thread_messages sample_win_engine)"
    by (simp add: app_message_def sample_win_api_def sample_win_engine_def)
  ultimately show ?thesis
    using win_functions_run_once [OF sample_win_usable, of "thread_messages sample_win_engine" "[]"]
    by (auto simp: sample_win_engine_def sample_win_api_def numeral_2_eq_2)
qed

text \<open>
  C26. Toggling full screen twice on Windows: the first toggle removes the window frame and moves
  the window over its monitor, the second restores the saved placement and leaves the style with
  all frame bits set. The window is thus restored exactly if its style had all of these bits,
  while any one of them is enough for it to count as windowed.
\<close>

theorem win_toggle_roundtrip:
  assumes "win_window e = Inr w" "window_style e AND ws_overlappedwindow api \<noteq> 0"
    and "\<And>cs. placement_ok api cs" "\<And>cs. monitor_rect api cs = Some (x0, y0, x1, y1)"
    and "\<And>p. placed_as api (window_placement e) p = window_placement e"
    and "frame_changed api (window_placement e) = window_placement e"
  shows "\<exists>e1 e2. win_toggleFullScreen api e = Returns () e1 \<and> win_toggleFullScreen api e1 = Returns () e2
     \<and> window_style e1 = window_style e AND NOT (ws_overlappedwindow api)
     \<and> window_placement e1 = moved_to api x0 y0 (x1 - x0) (y1 - y0) (window_placement e)
     \<and> window_placement e2 = window_placement e
     \<and> window_style e2 = window_style e OR ws_overlappedwindow api
     \<and> (window_style e2 = window_style e \<longleftrightarrow>
          window_style e AND ws_overlappedwindow api = ws_overlappedwindow api)"
proof -
  let ?s = "window_style e" and ?W = "ws_overlappedwindow api"
  have bits: "(?s AND NOT ?W) AND ?W = 0" "(?s AND NOT ?W) OR ?W = ?s OR ?W"
    by (rule bit_word_eqI, auto simp: bit_simps)+
  have iff: "?s OR ?W = ?s \<longleftrightarrow> ?s AND ?W = ?W" by (auto simp: bit_eq_iff bit_simps)
  show ?thesis using assms bits iff
    by (simp add: win_toggleFullScreen_def unwrapResult_def Let_def WindowedModeToFullscreen_def
        FullscreenModeToWindowed_def)
qed

theorem win_toggle_roundtrip_witness:
  "\<exists>e1 e2. win_toggleFullScreen sample_win_api (sample_win_engine\<lparr>window_style := 0x10C80000\<rparr>) = Returns () e1
     \<and> win_toggleFullScreen sample_win_api e1 = Returns () e2 \<and> window_style e1 = 0x10000000
     \<and> window_placement e2 = 7 \<and> window_style e2 = 0x10CF0000"
  using win_toggle_roundtrip [of "sample_win_engine\<lparr>window_style := 0x10C80000\<rparr>" 9 sample_win_api 0 0 1920 1080]
  by (simp add: sample_win_engine_def sample_win_api_def) blast

text \<open>
  When Windows does not report the placement or the monitor, toggling changes nothing of a
  framed window.
\<close>

lemma win_toggle_failed_query:
  assumes "win_window e = Inr w" "window_style e AND ws_overlappedwindow api \<noteq> 0"
    and "(\<forall>cs. \<not> placement_ok api cs) \<or> (\<forall>cs. monitor_rect api cs = None)"
  shows "\<exists>e1. win_toggleFullScreen api e = Returns () e1
     \<and> window_style e1 = window_style e \<and> window_placement e1 = window_placement e"
  using assms
  by (auto simp: win_toggleFullScreen_def unwrapResult_def Let_def WindowedModeToFullscreen_def)

text \<open>
  The first toggle of a new engine on a window without any frame bit applies the zeroed
  placement, which was never read from a window.
\<close>

lemma win_toggle_unframed:
  assumes "e = construct (win_class api zeroed new_webview) debug parent"
    and "win_window e = Inr w" "window_style e AND ws_overlappedwindow api = 0"
  shows "\<exists>e1. win_toggleFullScreen api e = Returns () e1
     \<and> window_placement e1 = frame_changed api (placed_as api zeroed (window_placement e))"
  using assms
  by (simp add: win_toggleFullScreen_def unwrapResult_def Let_def FullscreenModeToWindowed_def win_class_def)

text \<open>
  A quit message ends the loop only where the engine reports it: the Windows engine answers -1,
  also when it waited for the message, the Cocoa engine answers 0 whatever happened.
\<close>

lemma win_step_quit:
  assumes "thread_messages e = m # ms" "hwnd m = 0" "message m = wm_quit api" "wm_quit api \<noteq> wm_app api"
    and "\<not> getmessage_fails api (win_calls e)"
  shows "win_step api blocking e = Returns (-1) (e\<lparr>thread_messages := ms\<rparr>)"
  using assms by (simp add: win_step_def win_fetch_def)

lemma mac_step_never_exits:
  assumes "mac_usable api loads e"
  shows "\<exists>e'. mac_step api blocking e = Returns 0 e' \<and> mac_usable api loads e'"
  using assms by (auto simp: mac_step_def mac_usable_def Let_def)

text \<open>
  On every platform a session of nonblocking steps, toggles and icons on engines whose window stays
  open returns normally from every call (if the toolkit's functions do), answers every icon request
  by whether the file can be loaded, and touches no other engine. What a toggle or an icon does
  to the window is the subject of the other properties.
\<close>

theorem webview_sessions_return:
  "(list_all (\<lambda>(w, r). \<exists>e. h1 w = Some e \<and> win_usable wapi e) rs \<longrightarrow>
      (\<exists>as h'. webview_session (win_class wapi zeroed wnew) rs h1 = Some (as, h')
         \<and> list_all2 (\<lambda>(w, r). proper_answer (\<lambda>path. icon_file wapi path \<noteq> 0) r) rs as
         \<and> dom h' = dom h1 \<and> (\<forall>w. w \<notin> fst ` set rs \<longrightarrow> h' w = h1 w)))
   \<and> (list_all (\<lambda>(w, r). \<exists>e. h2 w = Some e \<and> gtk_usable gapi gloads e) rs \<longrightarrow>
      (\<exists>as h'. webview_session (gtk_class gapi gnew) rs h2 = Some (as, h')
         \<and> list_all2 (\<lambda>(w, r). proper_answer gloads r) rs as
         \<and> dom h' = dom h2 \<and> (\<forall>w. w \<notin> fst ` set rs \<longrightarrow> h' w = h2 w)))
   \<and> (list_all (\<lambda>(w, r). \<exists>e. h3 w = Some e \<and> mac_usable mapi mloads e) rs \<longrightarrow>
      (\<exists>as h'. webview_session (mac_class mapi mnew) rs h3 = Some (as, h')
         \<and> list_all2 (\<lambda>(w, r). proper_answer mloads r) rs as
         \<and> dom h' = dom h3 \<and> (\<forall>w. w \<notin> fst ` set rs \<longrightarrow> h' w = h3 w)))"
  by (intro conjI impI; rule windows_engine.session_returns gtk_engine.session_returns mac_engine.session_returns)

definition sample_gtk_api :: gtk_api where
  "sample_gtk_api = \<lparr>gdk_fullscreen_bit = 16, main_iteration = (\<lambda>b e. (False, e)),
     load_pixbuf = (\<lambda>path cs. if path = ''app.png'' then Inr 3 else Inl (4, ''no such file''))\<rparr>"

definition sample_mac_api :: mac_api where
  "sample_mac_api = \<lparr>next_event = (\<lambda>b cs. 0), send_event = (\<lambda>v e. e),
     image_file = (\<lambda>path cs. if path = ''app.icns'' then 3 else 0), shared_application = 1\<rparr>"

theorem webview_sessions_return_witness:
  "(\<exists>h'. webview_session (win_class sample_win_api 0 (\<lambda>d p. sample_win_engine)) [(2, Set_icon ''app.ico'')]
      [2 \<mapsto> sample_win_engine] = Some ([Icon_set True], h'))
   \<and> (\<exists>h'. webview_session (gtk_class sample_gtk_api (\<lambda>d p. \<lparr>gtk_window = Inr 9, gdk_state = 0, gtk_calls = []\<rparr>))
      [(2, Set_icon ''app.ico'')] [2 \<mapsto> \<lparr>gtk_window = Inr 9, gdk_state = 0, gtk_calls = []\<rparr>] = Some ([Icon_set False], h'))
   \<and> (\<exists>h'. webview_session (mac_class sample_mac_api (\<lambda>d p. \<lparr>mac_window = Inr 9, m_shouldExit = 0, mac_calls = []\<rparr>))
      [(2, Set_icon ''app.ico'')] [2 \<mapsto> \<lparr>mac_window = Inr 9, m_shouldExit = 0, mac_calls = []\<rparr>] = Some ([Icon_set False], h'))"
proof -
  have g: "gtk_usable sample_gtk_api (\<lambda>path. path = ''app.png'') \<lparr>gtk_window = Inr 9, gdk_state = 0, gtk_calls = []\<rparr>"
    by (simp add: gtk_usable_def sample_gtk_api_def)
  have m: "mac_usable sample_mac_api (\<lambda>path. path = ''app.icns'') \<lparr>mac_window = Inr 9, m_shouldExit = 0, mac_calls = []\<rparr>"
    by (simp add: mac_usable_def sample_mac_api_def)
  have i: "icon_file sample_win_api ''app.ico'' \<noteq> 0" by (simp add: sample_win_api_def)
  show ?thesis
    using webview_sessions_return [of "[2 \<mapsto> sample_win_engine]" sample_win_api "[(2, Set_icon ''app.ico'')]" 0
        "\<lambda>d p. sample_win_engine" "[2 \<mapsto> \<lparr>gtk_window = Inr 9, gdk_state = 0, gtk_calls = []\<rparr>]" sample_gtk_api
        "\<lambda>path. path = ''app.png''" "\<lambda>d p. \<lparr>gtk_window = Inr 9, gdk_state = 0, gtk_calls = []\<rparr>"
        "[2 \<mapsto> \<lparr>mac_window = Inr 9, m_shouldExit = 0, mac_calls = []\<rparr>]" sample_mac_api
        "\<lambda>path. path = ''app.icns''" "\<lambda>d p. \<lparr>mac_window = Inr 9, m_shouldExit = 0, mac_calls = []\<rparr>"]
      sample_win_usable g m i
    by (auto simp: list_all2_Cons1 simp del: webview_session.simps)
qed

text \<open>
  The GTK engine releases each pixel buffer or error object that loading an icon created, except
  when the window is not available: then the exception leaves the pixel buffer behind.
\<close>

theorem gtk_icon_releases:
  "(gtk_setAppIcon api path e = Returns b e' \<longrightarrow>
      (\<exists>cs. gtk_calls e' = gtk_calls e @ cs \<and> gtk_released cs = gtk_created cs \<and> length (gtk_created cs) = 1))
   \<and> (gtk_window e = Inl c \<longrightarrow> load_pixbuf api path (gtk_calls e) = Inr p \<longrightarrow>
      (\<exists>e1. gtk_setAppIcon api path e = Throws c e1 \<and> gtk_calls e1 = gtk_calls e @ [Pixbuf_new path p]))"
  by (cases "load_pixbuf api path (gtk_calls e)"; cases "gtk_window e")
    (force simp: gtk_setAppIcon_def unwrapResult_def Let_def)+

end
