(* ===== verification/Cpp_Bits.thy ===== *)
theory Cpp_Bits
  imports Prelude
begin

text \<open>
  The bit functions of \<open>Runtime/Bindings/FFI/cpp/cpp_ffi.cpp\<close>: the wrapper \<open>std_bit_width\<close> and the
  instances of \<open>std::bit_ceil\<close>, \<open>std::bit_floor\<close> and \<open>std::has_single_bit\<close> for \<open>size_t\<close> that the
  table of exported functions points to. The functions of the standard library are defined here
  as the standard describes them; only \<open>std_bit_width\<close> is code of the runtime. \<open>std::bit_ceil\<close> is undefined (\<open>None\<close>) when the result is
  not representable.
\<close>

section \<open>The functions\<close>

fun bit_count :: "nat \<Rightarrow> nat" where
  "bit_count n = (if n = 0 then 0 else Suc (bit_count (n div 2)))"

fun pop_count :: "nat \<Rightarrow> nat" where
  "pop_count n = (if n = 0 then 0 else n mod 2 + pop_count (n div 2))"

declare bit_count.simps [simp del] pop_count.simps [simp del]

text \<open>\<open>std::bit_width\<close> counts the bits up to the highest one that is set.\<close>

definition std_bit_width :: "u64 \<Rightarrow> int" where
  "std_bit_width n = int (bit_count (unat n))"

definition bit_ceil :: "u64 \<Rightarrow> u64 option" where
  "bit_ceil n =
     (if n \<le> 1 then Some 1
      else let k = bit_count (unat (n - 1)) in if k < 64 then Some (push_bit k 1) else None)"

definition bit_floor :: "u64 \<Rightarrow> u64" where
  "bit_floor n = (if n = 0 then 0 else push_bit (bit_count (unat n) - 1) 1)"

definition has_single_bit :: "u64 \<Rightarrow> bool" where
  "has_single_bit n \<longleftrightarrow> pop_count (unat n) = 1"

section \<open>Powers of two\<close>

lemma bit_count_less: "n < 2 ^ bit_count n"
  by (induction n rule: bit_count.induct) (subst bit_count.simps, auto)

lemma bit_count_least: "n < 2 ^ k \<Longrightarrow> bit_count n \<le> k"
proof (induction n arbitrary: k rule: bit_count.induct)
  case (1 n)
  show ?case
  proof (cases "n = 0")
    case False
    then obtain j where "k = Suc j" using 1(2) by (cases k) auto
    then show ?thesis using 1 False by (subst bit_count.simps) auto
  qed (simp add: bit_count.simps)
qed

lemma bit_count_iff: "bit_count n \<le> k \<longleftrightarrow> n < 2 ^ k"
  using bit_count_less [of n] bit_count_least [of n k] by (meson less_le_trans one_le_numeral power_increasing)

lemma bit_count_lower: "0 < n \<Longrightarrow> 2 ^ (bit_count n - 1) \<le> n"
  using bit_count_iff [of n "bit_count n - 1"] bit_count_iff [of n 0] by (metis Suc_pred' diff_le_self le_antisym
      lessI not_gr_zero not_less not_less_eq_eq power_0 less_one bot_nat_0.extremum)

lemma bit_count_word: "bit_count (unat (n :: u64)) \<le> 64"
  using bit_count_iff [of "unat n" 64] unsigned_less [of n, where ?'a = nat] by simp

lemma unat_push_one:
  assumes "k < 64"
  shows "unat (push_bit k 1 :: u64) = 2 ^ k"
proof -
  have "(2 :: nat) ^ k < 2 ^ 64" by (rule power_strict_increasing [OF assms]) simp
  with assms show ?thesis by (simp only: unsigned_push_bit_eq) (simp add: push_bit_eq_mult take_bit_nat_eq_self)
qed

lemma pop_count_pos: "0 < n \<Longrightarrow> 0 < pop_count n"
proof (induction n rule: pop_count.induct)
  case (1 n)
  then show ?case by (cases "n div 2 = 0"; subst pop_count.simps) auto
qed

lemma pop_count_double [simp]: "pop_count (2 * n) = pop_count n" "pop_count (Suc (2 * n)) = Suc (pop_count n)"
  by (subst pop_count.simps, simp add: pop_count.simps)+

lemma pop_count_one: "pop_count n = 1 \<longleftrightarrow> (\<exists>k. n = 2 ^ k)"
proof
  show "pop_count n = 1 \<Longrightarrow> \<exists>k. n = 2 ^ k"
  proof (induction n rule: less_induct)
    case (less n)
    obtain m where "n = 2 * m \<or> n = Suc (2 * m)" by (metis oddE Suc_eq_plus1 evenE)
    then show ?case
    proof
      assume n: "n = 2 * m"
      then have "m < n" using less.prems by (cases m) (auto simp: pop_count.simps)
      then obtain k where "m = 2 ^ k" using less.IH [of m] less.prems n by auto
      then have "n = 2 ^ Suc k" using n by simp
      then show ?thesis by blast
    next
      assume n: "n = Suc (2 * m)"
      then have "m = 0" using less.prems pop_count_pos [of m] by auto
      then show ?thesis using n by (auto intro: exI [of _ 0])
    qed
  qed
  have "pop_count (2 ^ k) = 1" for k :: nat
    by (induction k) (simp_all add: pop_count.simps [of 1] pop_count.simps [of 0] flip: One_nat_def)
  then show "\<exists>k. n = 2 ^ k \<Longrightarrow> pop_count n = 1" by blast
qed

lemma bit_floor_power:
  assumes "n \<noteq> 0"
  shows "(\<exists>k. unat (bit_floor n) = 2 ^ k) \<and> unat (bit_floor n) \<le> unat n
     \<and> (\<forall>k. 2 ^ k \<le> unat n \<longrightarrow> 2 ^ k \<le> unat (bit_floor n))"
proof -
  let ?b = "bit_count (unat n)"
  have p: "0 < unat n" using assms by (simp add: unat_gt_0)
  then have b: "0 < ?b" "?b \<le> 64" using bit_count_word [of n] bit_count_less [of "unat n"] by (auto intro: gr0I)
  then have u: "unat (bit_floor n) = 2 ^ (?b - 1)" using assms
    unat_push_one [of "?b - 1"] by (simp add: bit_floor_def)
  have "k \<le> ?b - 1" if "2 ^ k \<le> unat n" for k
    using that bit_count_iff [of "unat n" k] b by linarith
  then show ?thesis using u bit_count_lower [OF p] by auto
qed

lemma bit_ceil_power:
  "case bit_ceil n of None \<Rightarrow> 2 ^ 63 < unat n
   | Some c \<Rightarrow> unat n \<le> 2 ^ 63 \<and> (\<exists>k. unat c = 2 ^ k) \<and> unat n \<le> unat c
       \<and> (\<forall>k. unat n \<le> 2 ^ k \<longrightarrow> unat c \<le> 2 ^ k)"
proof (cases "n \<le> 1")
  case True
  then have "unat n \<le> 1" by (simp add: word_le_nat_alt)
  then show ?thesis using True by (auto simp: bit_ceil_def intro: exI [of _ 0] order.trans [of _ 1])
next
  case False
  let ?b = "bit_count (unat (n - 1))"
  have n1: "unat (n - 1) = unat n - 1" "1 < unat n"
    using False by (auto simp: word_le_nat_alt unat_sub not_le)
  have iff: "?b \<le> k \<longleftrightarrow> unat n \<le> 2 ^ k" for k using bit_count_iff [of "unat (n - 1)" k] n1 by auto
  show ?thesis
  proof (cases "?b < 64")
    case True
    then have "bit_ceil n = Some (push_bit ?b 1)" using False by (simp add: bit_ceil_def)
    moreover have "unat n \<le> 2 ^ 63" using iff [of 63] True by linarith
    ultimately show ?thesis using unat_push_one [OF True] iff by (auto intro: power_increasing)
  next
    case F: False
    then have "bit_ceil n = None" using False by (simp add: bit_ceil_def)
    then show ?thesis using iff [of 63] F by auto
  qed
qed

section \<open>Properties\<close>

text \<open>
  The exported bit functions are those of the C++ standard: \<open>bit_width\<close> is the least number of
  bits that hold the argument, \<open>bit_floor\<close> and \<open>bit_ceil\<close> are the greatest power of two below and the
  least above it, \<open>bit_ceil\<close> is undefined exactly above 2 to the 63, and \<open>has_single_bit\<close> holds exactly
  for powers of two.
\<close>

theorem cpp_bits_correct:
  "(\<forall>k. std_bit_width n \<le> int k \<longleftrightarrow> unat n < 2 ^ k) \<and> std_bit_width n \<le> 64
   \<and> (n \<noteq> 0 \<longrightarrow> (\<exists>k. unat (bit_floor n) = 2 ^ k) \<and> unat (bit_floor n) \<le> unat n
        \<and> (\<forall>k. 2 ^ k \<le> unat n \<longrightarrow> 2 ^ k \<le> unat (bit_floor n)))
   \<and> bit_floor 0 = 0
   \<and> (case bit_ceil n of
        None \<Rightarrow> 2 ^ 63 < unat n
      | Some c \<Rightarrow> unat n \<le> 2 ^ 63 \<and> (\<exists>k. unat c = 2 ^ k) \<and> unat n \<le> unat c
          \<and> (\<forall>k. unat n \<le> 2 ^ k \<longrightarrow> unat c \<le> 2 ^ k))
   \<and> (has_single_bit n \<longleftrightarrow> (\<exists>k. unat n = 2 ^ k))"
proof (intro conjI)
  show "\<forall>k. std_bit_width n \<le> int k \<longleftrightarrow> unat n < 2 ^ k" by (simp add: std_bit_width_def bit_count_iff)
  show "std_bit_width n \<le> 64" using bit_count_word [of n] by (simp add: std_bit_width_def)
  show "n \<noteq> 0 \<longrightarrow> (\<exists>k. unat (bit_floor n) = 2 ^ k) \<and> unat (bit_floor n) \<le> unat n
      \<and> (\<forall>k. 2 ^ k \<le> unat n \<longrightarrow> 2 ^ k \<le> unat (bit_floor n))"
    using bit_floor_power [of n] by blast
  show "case bit_ceil n of None \<Rightarrow> 2 ^ 63 < unat n
      | Some c \<Rightarrow> unat n \<le> 2 ^ 63 \<and> (\<exists>k. unat c = 2 ^ k) \<and> unat n \<le> unat c
          \<and> (\<forall>k. unat n \<le> 2 ^ k \<longrightarrow> unat c \<le> 2 ^ k)"
    by (rule bit_ceil_power)
qed (simp_all add: bit_floor_def has_single_bit_def pop_count_one del: One_nat_def)

theorem cpp_bits_correct_witness:
  "(5 :: u64) \<noteq> 0 \<and> (\<exists>k. unat (bit_floor 5) = 2 ^ k) \<and> unat (bit_floor 5) \<le> 5 \<and> bit_floor 5 = 4
   \<and> std_bit_width 5 = 3 \<and> bit_ceil 5 = Some 8 \<and> (\<exists>k. unat (8 :: u64) = 2 ^ k) \<and> \<not> has_single_bit 5"
proof -
  have calc: "bit_floor 5 = 4" "std_bit_width 5 = 3" "bit_ceil 5 = Some 8" "\<not> has_single_bit 5"
    by code_simp+
  show ?thesis using cpp_bits_correct [of 5] calc by simp
qed

end
