(* ===== verification/Miniz_Sessions.thy ===== *)
theory Miniz_Sessions
  imports Miniz_Bindings
begin

text \<open>
  Sequences of calls on the compression bindings: a text that is fed to a deflator in pieces and
  whose compressed form is fed to an inflator in other pieces, and an archive that is written
  entry by entry and then read from memory. What miniz is relied on for is stated as contracts.
\<close>

section \<open>Streams\<close>

text \<open>
  \<open>consumed\<close> and \<open>produced\<close> are all bytes a stream has taken in and given out so far, \<open>complete\<close> are the
  compressed streams, \<open>decode\<close> gives their texts, and \<open>rounds\<close> bounds the number of buffers that a call
  still fills. A deflator is \<open>finishing\<close> once it was asked to finish and \<open>finished\<close> once it did. An
  inflator is \<open>aligned\<close> if its window is a whole number of transfer buffers ahead: a new one is, and
  it stays so while buffers are filled, but a call that leaves room ends this.

  The contracts are about steps with the buffer of the bindings. \<open>mz_deflate\<close> accepts the flush
  modes up to \<open>MZ_FINISH\<close>; with room left in the buffer it has taken in its input, and a finished
  stream is complete. \<open>mz_inflate\<close> is used on complete streams without flushing; with room left in
  the buffer it has taken in the stream and given out its text.
\<close>

record 'c codec_view =
  consumed :: "'c \<Rightarrow> string"
  produced :: "'c \<Rightarrow> string"
  finishing :: "'c \<Rightarrow> bool"
  finished :: "'c \<Rightarrow> bool"
  aligned :: "'c \<Rightarrow> bool"
  rounds :: "'c \<Rightarrow> string \<Rightarrow> nat \<Rightarrow> nat"
  decode :: "string \<Rightarrow> string"
  complete :: "string \<Rightarrow> bool"

definition may_step :: "'c codec_view \<Rightarrow> bool \<Rightarrow> 'c \<Rightarrow> string \<Rightarrow> nat \<Rightarrow> bool" where
  "may_step v inflating c inp f \<longleftrightarrow>
     (if inflating then f = 0 \<and> aligned v c \<and> complete v (consumed v c @ inp)
      else f \<le> 4 \<and> (finishing v c \<longrightarrow> f = 4) \<and> (finished v c \<longrightarrow> inp = []))"

definition fresh_stream :: "'c codec_view \<Rightarrow> 'c \<Rightarrow> bool" where
  "fresh_stream v c \<longleftrightarrow>
     consumed v c = [] \<and> produced v c = [] \<and> \<not> finishing v c \<and> \<not> finished v c \<and> aligned v c"

definition codec_init :: "('z, 'w, 'c) mz_lib \<Rightarrow> 'c codec_view \<Rightarrow> bool" where
  "codec_init lib v \<longleftrightarrow>
     (\<forall>level. -1 \<le> level \<longrightarrow> level \<le> 9 \<longrightarrow> (\<exists>c. lib_deflateInit lib level = (MZ_OK, c) \<and> fresh_stream v c))
     \<and> (\<exists>c. lib_inflateInit lib = (MZ_OK, c) \<and> fresh_stream v c)"

definition codec_step :: "('z, 'w, 'c) mz_lib \<Rightarrow> 'c codec_view \<Rightarrow> bool" where
  "codec_step lib v \<longleftrightarrow>
     (\<forall>inflating c f inp. may_step v inflating c inp f \<longrightarrow>
       (case lib_step lib inflating c f inp (lual_buffersize lib) of
          (status, c', inp', added) \<Rightarrow>
            (\<exists>used. inp = used @ inp' \<and> consumed v c' = consumed v c @ used)
            \<and> produced v c' = produced v c @ added \<and> length added \<le> lual_buffersize lib
            \<and> (status = MZ_OK \<or> status = MZ_STREAM_END \<or> status = MZ_BUF_ERROR \<and> added = [])
            \<and> (length added = lual_buffersize lib \<longrightarrow> rounds v c' inp' f < rounds v c inp f)
            \<and> (length added < lual_buffersize lib \<longrightarrow> inp' = [])
            \<and> (if inflating
               then (length added = lual_buffersize lib \<longrightarrow> aligned v c')
                 \<and> (length added < lual_buffersize lib \<longrightarrow> produced v c' = decode v (consumed v c'))
               else (finishing v c' \<longrightarrow> f = 4) \<and> (finished v c' \<longrightarrow> f = 4 \<and> inp' = [])
                 \<and> (length added < lual_buffersize lib \<longrightarrow> f = 4 \<longrightarrow>
                      complete v (produced v c') \<and> decode v (produced v c') = consumed v c'))))"

text \<open>What holds of a stream after a call with flush mode \<open>f\<close>.\<close>

definition settled :: "'c codec_view \<Rightarrow> bool \<Rightarrow> nat \<Rightarrow> 'c \<Rightarrow> bool" where
  "settled v inflating f c \<longleftrightarrow>
     (if inflating then produced v c = decode v (consumed v c)
      else (finishing v c \<longrightarrow> f = 4) \<and> (finished v c \<longrightarrow> f = 4)
        \<and> (f = 4 \<longrightarrow> complete v (produced v c) \<and> decode v (produced v c) = consumed v c))"

lemma stream_loop_codec:
  assumes "codec_step lib v" "may_step v inflating c inp f"
  shows "\<exists>c' out. stream_loop lib inflating f c inp acc = Some (Returns [MString (acc @ out)], c')
     \<and> consumed v c' = consumed v c @ inp \<and> produced v c' = produced v c @ out \<and> settled v inflating f c'"
  using assms(2)
proof (induction "rounds v c inp f" arbitrary: c inp acc rule: less_induct)
  case less
  let ?n = "lual_buffersize lib"
  obtain status c' inp' added where step: "lib_step lib inflating c f inp ?n = (status, c', inp', added)"
    by (metis prod_cases4)
  note k = assms(1) [unfolded codec_step_def, rule_format, OF less.prems, unfolded step, simplified]
  obtain used where u: "inp = used @ inp'" "consumed v c' = consumed v c @ used" using k by blast
  define acc' where "acc' = (if status = MZ_BUF_ERROR then acc else acc @ added)"
  have acc': "acc' = acc @ added" using k by (auto simp: acc'_def MZ_OK_def MZ_STREAM_END_def MZ_BUF_ERROR_def)
  have unfold: "stream_loop lib inflating f c inp acc =
     (if length added = ?n then stream_loop lib inflating f c' inp' acc' else Some (Returns [MString acc'], c'))"
    using step k by (subst stream_loop.simps) (auto simp: acc'_def Let_def)
  show ?case
  proof (cases "length added = ?n")
    case True
    have "may_step v inflating c' inp' f" using less.prems k u True by (auto simp: may_step_def split: if_splits)
    moreover have "rounds v c' inp' f < rounds v c inp f" using k True by blast
    ultimately obtain c2 out where
      "stream_loop lib inflating f c' inp' acc' = Some (Returns [MString (acc' @ out)], c2)"
      "consumed v c2 = consumed v c' @ inp'" "produced v c2 = produced v c' @ out" "settled v inflating f c2"
      using less.hyps [of c' inp' acc'] by blast
    then show ?thesis using unfold True acc' u k by auto
  next
    case False
    then have "length added < ?n" using k by linarith
    then show ?thesis using unfold False acc' u k by (auto simp: settled_def split: if_splits)
  qed
qed

text \<open>The flush mode of an optional argument, and a sequence of calls with their results.\<close>

definition flush_of :: "string option \<Rightarrow> nat option" where
  "flush_of flush = check_option (case flush of None \<Rightarrow> ''no'' | Some f \<Rightarrow> f) flush_types"

fun deflate_all :: "('z, 'w, 'c) mz_lib \<Rightarrow> nat \<Rightarrow> (string \<times> string option) list \<Rightarrow> ('z, 'w, 'c) miniz_state
    \<Rightarrow> (string list \<times> ('z, 'w, 'c) miniz_state) option" where
  "deflate_all lib p [] s = Some ([], s)"
| "deflate_all lib p ((data, flush) # calls) s =
     (case lmz_deflator_deflate lib p data flush s of
        Some (Returns [MString out], s1) \<Rightarrow> map_option (map_prod (Cons out) id) (deflate_all lib p calls s1)
      | _ \<Rightarrow> None)"

lemma deflate_call:
  assumes "codec_step lib v" "mz_deflators s p = Some st" "mode st = 0" "length data < 2 ^ 32"
    and "flush_of flush = Some f" "f \<le> 4" "\<not> finishing v (stream st)" "\<not> finished v (stream st)"
  shows "\<exists>c out. lmz_deflator_deflate lib p data flush s =
       Some (Returns [MString out], s\<lparr>mz_deflators := (mz_deflators s)(p \<mapsto> st\<lparr>stream := c\<rparr>)\<rparr>)
     \<and> consumed v c = consumed v (stream st) @ data \<and> produced v c = produced v (stream st) @ out
     \<and> settled v False f c"
  using stream_loop_codec [OF assms(1), of False "stream st" data f "[]"] assms(2-)
  by (auto simp: may_step_def lmz_deflator_deflate_def lmz_inflator_deflator_impl_def flush_of_def)

lemma inflate_call:
  assumes "codec_step lib v" "mz_inflators s p = Some st" "mode st \<noteq> 0" "length data < 2 ^ 32"
    and "fresh_stream v (stream st)" "complete v data"
  shows "\<exists>s'. lmz_inflator_inflate lib p data None s = Some (Returns [MString (decode v data)], s')"
  using stream_loop_codec [OF assms(1), of True "stream st" data 0 "[]"] assms(2-)
  by (auto simp: may_step_def lmz_inflator_inflate_def lmz_inflator_deflator_impl_def settled_def fresh_stream_def)

lemma deflate_all_run:
  assumes "codec_step lib v" "mz_deflators s p = Some st" "mode st = 0"
    and "list_all (\<lambda>(data, flush). length data < 2 ^ 32 \<and> (\<exists>f < 4. flush_of flush = Some f)) calls"
    and "\<not> finishing v (stream st)" "\<not> finished v (stream st)" "length data < 2 ^ 32" "flush_of flush = Some 4"
  shows "\<exists>os s' c. deflate_all lib p (calls @ [(data, flush)]) s = Some (os, s')
     \<and> consumed v c = consumed v (stream st) @ concat (map fst calls) @ data
     \<and> produced v c = produced v (stream st) @ concat os \<and> settled v False 4 c"
  using assms(2-6)
proof (induction calls arbitrary: s st)
  case Nil
  then show ?case using deflate_call [OF assms(1) Nil(1,2) assms(7,8)] by auto
next
  case (Cons call calls)
  obtain d fl where call: "call = (d, fl)" by fastforce
  obtain g where g: "length d < 2 ^ 32" "flush_of fl = Some g" "g < 4" using Cons.prems(3) call by auto
  obtain c1 out where d1: "lmz_deflator_deflate lib p d fl s =
       Some (Returns [MString out], s\<lparr>mz_deflators := (mz_deflators s)(p \<mapsto> st\<lparr>stream := c1\<rparr>)\<rparr>)"
    "consumed v c1 = consumed v (stream st) @ d" "produced v c1 = produced v (stream st) @ out" "settled v False g c1"
    using deflate_call [OF assms(1) Cons.prems(1,2) g(1,2)] g(3) Cons.prems(4,5) by auto
  have "\<not> finishing v c1" "\<not> finished v c1" using d1(4) g(3) by (auto simp: settled_def)
  then show ?case
    using Cons.IH [of "s\<lparr>mz_deflators := (mz_deflators s)(p \<mapsto> st\<lparr>stream := c1\<rparr>)\<rparr>" "st\<lparr>stream := c1\<rparr>"]
      Cons.prems d1 call by fastforce
qed

text \<open>
  C10. Streams compose: a text that is fed to a new deflator in any pieces, with the flush modes \<open>no\<close>,
  \<open>partial\<close>, \<open>sync\<close> or \<open>full\<close> in any order and \<open>finish\<close> in the last call, gives strings which, joined and
  fed to a new inflator in one call, give the text back. All calls return. (The mode \<open>block\<close> is
  refused by miniz. An inflator that is fed in several calls is not covered: the loop stops at
  the first buffer that is not full, and a step that begins by emptying the window need not look
  at its input.)
\<close>

theorem stream_roundtrip:
  assumes "codec_init lib v" "codec_step lib v"
    and "lmz_check_compression_level level = Inr lv"
    and "list_all (\<lambda>(data, flush). length data < 2 ^ 32 \<and> (\<exists>f < 4. flush_of flush = Some f)) calls"
    and "length data < 2 ^ 32" "flush_of flush = Some 4"
  shows "\<exists>os s1. fst (lmz_deflator_init lib p g level s) = Returns [MUserdata p]
     \<and> deflate_all lib p (calls @ [(data, flush)]) (snd (lmz_deflator_init lib p g level s)) = Some (os, s1)
     \<and> fst (lmz_inflator_init lib q g s1) = Returns [MUserdata q]
     \<and> (length (concat os) < 2 ^ 32 \<longrightarrow>
          (\<exists>s2. lmz_inflator_inflate lib q (concat os) None (snd (lmz_inflator_init lib q g s1))
             = Some (Returns [MString (concat (map fst calls) @ data)], s2)))"
proof -
  have "-1 \<le> lv \<and> lv \<le> 9" using assms(3)
    by (auto simp: lmz_check_compression_level_def Let_def MZ_DEFAULT_COMPRESSION_def MZ_BEST_COMPRESSION_def split: if_splits)
  then obtain c where c: "lib_deflateInit lib lv = (MZ_OK, c)" "fresh_stream v c"
    using assms(1) unfolding codec_init_def by blast
  obtain c2 where c2: "lib_inflateInit lib = (MZ_OK, c2)" "fresh_stream v c2"
    using assms(1) unfolding codec_init_def by blast
  define s0 where "s0 = snd (lmz_deflator_init lib p g level s)"
  have i: "fst (lmz_deflator_init lib p g level s) = Returns [MUserdata p]"
    "mz_deflators s0 p = Some \<lparr>mode = 0, stream = c\<rparr>"
    using assms(3) c(1) by (simp_all add: lmz_deflator_init_def s0_def)
  from deflate_all_run [OF assms(2) i(2) _ assms(4) _ _ assms(5,6)] c(2) obtain os s1 c1 where
    d: "deflate_all lib p (calls @ [(data, flush)]) s0 = Some (os, s1)"
    "consumed v c1 = concat (map fst calls) @ data" "produced v c1 = concat os" "settled v False 4 c1"
    by (auto simp: fresh_stream_def)
  have j: "fst (lmz_inflator_init lib q g s1) = Returns [MUserdata q]"
    "mz_inflators (snd (lmz_inflator_init lib q g s1)) q = Some \<lparr>mode = 1, stream = c2\<rparr>"
    using c2(1) by (simp_all add: lmz_inflator_init_def)
  have "complete v (concat os)" "decode v (concat os) = concat (map fst calls) @ data"
    using d(2-4) by (auto simp: settled_def)
  then show ?thesis using i(1) d(1) j(1) inflate_call [OF assms(2) j(2), of "concat os"] c2(2) unfolding s0_def by auto
qed

text \<open>A library whose streams hand their input through, as what was given out and what is pending.\<close>

definition sample_codec :: "((string \<times> string) list, (string \<times> string) list, string \<times> string) mz_lib" where
  "sample_codec =
     \<lparr>luv_loop = 1, fs_open = (\<lambda>path. -2), fs_size = (\<lambda>h. 0), fs_read = (\<lambda>h ofs n. (-9, [])),
      lib_reader_init = lib_reader_init sample_miniz, lib_reader_init_mem = lib_reader_init_mem sample_miniz,
      lib_num_files = lib_num_files sample_miniz, lib_locate = lib_locate sample_miniz,
      lib_file_stat = lib_file_stat sample_miniz, lib_get_filename = lib_get_filename sample_miniz,
      lib_is_directory = lib_is_directory sample_miniz, lib_extract_to_heap = lib_extract_to_heap sample_miniz,
      lib_archive_start = lib_archive_start sample_miniz, lib_writer_init_heap = lib_writer_init_heap sample_miniz,
      lib_add_from_reader = lib_add_from_reader sample_miniz, lib_add_mem = lib_add_mem sample_miniz,
      lib_finalize_heap = lib_finalize_heap sample_miniz,
      lib_deflateInit = (\<lambda>level. (MZ_OK, ([], []))), lib_inflateInit = (MZ_OK, ([], [])),
      lib_step = (\<lambda>inflating (given, pending) flush inp n.
          (MZ_OK, (given @ take n (pending @ inp), drop n (pending @ inp)), [], take n (pending @ inp))),
      lib_error = (\<lambda>status. None),
      lib_infl_to_heap = (\<lambda>t flags. (None, 0)), lib_defl_to_heap = (\<lambda>t flags. (Some t, length t)),
      lib_adler32 = (\<lambda>a t. a), lib_crc32 = (\<lambda>a t. a),
      lib_compress = (\<lambda>t n level. (0, t)), lib_compressBound = id, lib_uncompress = lib_uncompress sample_miniz,
      lual_buffersize = 2, path_max = 4096\<rparr>"

definition sample_view :: "(string \<times> string) codec_view" where
  "sample_view = \<lparr>consumed = (\<lambda>(given, pending). given @ pending), produced = fst,
     finishing = (\<lambda>c. False), finished = (\<lambda>c. False), aligned = (\<lambda>c. True),
     rounds = (\<lambda>c inp f. length (snd c) + length inp), decode = (\<lambda>x. x), complete = (\<lambda>x. True)\<rparr>"

lemma sample_codec_contract: "codec_init sample_codec sample_view" "codec_step sample_codec sample_view"
  by (auto simp: codec_init_def codec_step_def sample_codec_def sample_view_def fresh_stream_def
      simp del: take_append drop_append)

definition empty_miniz :: "('z, 'w, 'c) miniz_state" where
  "empty_miniz = \<lparr>mz_readers = Map.empty, mz_writers = Map.empty, mz_deflators = Map.empty, mz_inflators = Map.empty,
     error_messages = [], fs_calls = [], heap_leaks = 0\<rparr>"

theorem stream_roundtrip_witness:
  "\<exists>os s1 s2. deflate_all sample_codec 3 [(''abc'', None), (''de'', Some ''finish'')]
       (snd (lmz_deflator_init sample_codec 3 0 None empty_miniz)) = Some (os, s1) \<and> length (concat os) < 2 ^ 32
     \<and> lmz_inflator_inflate sample_codec 4 (concat os) None (snd (lmz_inflator_init sample_codec 4 0 s1))
         = Some (Returns [MString ''abcde''], s2)"
proof -
  have f: "flush_of None = Some 0" "flush_of (Some ''finish'') = Some 4"
    by (simp_all add: flush_of_def flush_types_def c_str_def NUL_def)
  have l: "lmz_check_compression_level None = Inr (-1)"
    by (simp add: lmz_check_compression_level_def opt_int_def MZ_DEFAULT_COMPRESSION_def MZ_BEST_COMPRESSION_def)
  have c: "list_all (\<lambda>(data, flush). length data < 2 ^ 32 \<and> (\<exists>f < 4. flush_of flush = Some f)) [(''abc'', None)]"
    using f(1) by simp
  have "map_option (length \<circ> concat \<circ> fst) (deflate_all sample_codec 3 [(''abc'', None), (''de'', Some ''finish'')]
       (snd (lmz_deflator_init sample_codec 3 0 None empty_miniz))) = Some 5"
    using l f by (simp add: lmz_deflator_init_def lmz_deflator_deflate_def lmz_inflator_deflator_impl_def flush_of_def
        sample_codec_def stream_loop.simps MZ_OK_def MZ_BUF_ERROR_def)
  then show ?thesis
    using stream_roundtrip [OF sample_codec_contract l c, of "''de''" "Some ''finish''" 3 0 empty_miniz 4] f(2)
    by auto
qed

section \<open>Archives\<close>

text \<open>
  \<open>entries\<close> are the names and texts in an archive that is being written. The library compares names
  by \<open>same\<close> (it ignores case unless told otherwise). What it is relied on for, with the default
  flags that the bindings pass: an archive that it finalised can be opened, and then every name that
  is unique is located and every entry extracted.
\<close>

definition reads_back :: "('z, 'w, 'c) mz_lib \<Rightarrow> (string \<Rightarrow> string \<Rightarrow> bool) \<Rightarrow> 'z \<Rightarrow> (string \<times> string) list \<Rightarrow> bool" where
  "reads_back lib same z es \<longleftrightarrow>
     unat (lib_num_files lib z) = length es
     \<and> (\<forall>path i. i < length es \<longrightarrow> (\<forall>j < length es. same (fst (es ! j)) path \<longleftrightarrow> j = i) \<longrightarrow>
          lib_locate lib z path 0 = int i)
     \<and> (\<forall>i. i < length es \<longrightarrow>
          lib_extract_to_heap lib z (of_nat i) 0 = (Some (snd (es ! i)), length (snd (es ! i))))"

definition zip_contract :: "('z, 'w, 'c) mz_lib \<Rightarrow> ('w \<Rightarrow> (string \<times> string) list) \<Rightarrow> (string \<Rightarrow> string \<Rightarrow> bool) \<Rightarrow> bool" where
  "zip_contract lib entries same \<longleftrightarrow>
     (\<forall>n m w. lib_writer_init_heap lib n m = Some w \<longrightarrow> entries w = [])
     \<and> (\<forall>w path data w'. lib_add_mem lib w path data 0 = (True, w') \<longrightarrow> entries w' = entries w @ [(path, data)])
     \<and> (\<forall>w block w'. lib_finalize_heap lib w = (Some block, w') \<longrightarrow>
          (\<exists>z. lib_reader_init_mem lib block 0 = Inr z \<and> reads_back lib same z (entries w)))"

text \<open>Adding entries one after the other; \<open>None\<close> when one of the calls does not return normally.\<close>

fun add_all :: "('z, 'w, 'c) mz_lib \<Rightarrow> nat \<Rightarrow> (string \<times> string) list \<Rightarrow> ('z, 'w, 'c) miniz_state
    \<Rightarrow> ('z, 'w, 'c) miniz_state option" where
  "add_all lib p [] s = Some s"
| "add_all lib p ((path, data) # es) s =
     (case lmz_writer_add_mem lib p path data None s of
        (Returns [], s1) \<Rightarrow> add_all lib p es s1
      | _ \<Rightarrow> None)"

lemma add_all_entries:
  assumes "zip_contract lib entries same" "mz_writers s p = Some (Some w)" "add_all lib p es s = Some s'"
  shows "\<exists>w'. mz_writers s' p = Some (Some w') \<and> entries w' = entries w @ map (map_prod c_str id) es"
  using assms(2,3)
proof (induction es arbitrary: s w)
  case (Cons e es)
  obtain path data where e: "e = (path, data)" by fastforce
  obtain ok w1 where a: "lib_add_mem lib w (c_str path) data (opt_uint None) = (ok, w1)" by fastforce
  have ok: "ok" and s1: "add_all lib p es (s\<lparr>mz_writers := (mz_writers s)(p \<mapsto> Some w1)\<rparr>) = Some s'"
    using Cons.prems e a
    by (auto simp: lmz_writer_add_mem_def on_writer_def with_udata_def split: if_splits)
  have "entries w1 = entries w @ [(c_str path, data)]" using assms(1) a ok unfolding zip_contract_def opt_uint_def by simp
  then show ?case using Cons.IH [OF _ s1, of w1] e by simp
qed simp

text \<open>
  C16. An archive that was written through the bindings and is read back from memory has as many
  files as entries were added, \<open>locate_file\<close> finds each name, and \<open>extract\<close> with the index it
  returned gives the text that was added under that name, provided the library tells the names
  apart. Names end at a NUL character.
\<close>

theorem zip_roundtrip:
  assumes "zip_contract lib entries same"
    and "lmz_writer_init lib p None None s = (Returns [MUserdata p], s0)"
    and "add_all lib p es s0 = Some s1" "lmz_writer_finalize lib p s1 = (Returns [MString block], s2)"
    and "s3 = snd (lmz_reader_init_mem lib L r g gfd block None s2)"
    and "length es < INT_MAX" "i < length es" "\<forall>j < length es. same (c_str (fst (es ! j))) (c_str (fst (es ! i))) \<longleftrightarrow> j = i"
  shows "fst (lmz_reader_get_num_files lib r s3) = Returns [MInteger (int (length es))]
     \<and> fst (lmz_reader_locate_file lib r (fst (es ! i)) None s3) = Returns [MInteger (int i + 1)]
     \<and> fst (lmz_reader_extract lib r (int i + 1) None s3) = Returns [MString (snd (es ! i))]"
proof -
  obtain w where w: "mz_writers s0 p = Some (Some w)" "entries w = []"
    using assms(1,2) unfolding zip_contract_def lmz_writer_init_def by (auto split: option.splits)
  obtain w1 where w1: "mz_writers s1 p = Some (Some w1)" "entries w1 = map (map_prod c_str id) es"
    using add_all_entries [OF assms(1) w(1) assms(3)] w(2) by auto
  obtain w2 where "lib_finalize_heap lib w1 = (Some block, w2)"
    using assms(4) w1(1) by (auto simp: lmz_writer_finalize_def with_udata_def split: prod.splits option.splits)
  then obtain z where z: "lib_reader_init_mem lib block 0 = Inr z" "reads_back lib same z (map (map_prod c_str id) es)"
    using assms(1) w1(2) unfolding zip_contract_def by metis
  have r: "mz_readers s3 r = Some \<lparr>archive = Some z, lmz_loop = g, fd = gfd\<rparr>"
    using z(1) assms(5) by (simp add: lmz_reader_init_mem_def opt_uint_def)
  note k = z(2) [unfolded reads_back_def length_map]
  have n: "unat (lib_num_files lib z) = length es" using k by blast
  have l: "lib_locate lib z (c_str (fst (es ! i))) 0 = int i" using k assms(7,8) by simp
  have x: "lib_extract_to_heap lib z (of_nat i) 0 = (Some (snd (es ! i)), length (snd (es ! i)))"
    using k assms(7) by simp
  have "uint (lib_num_files lib z) = int (length es)" using n by (simp flip: n)
  moreover have "lua_index (int i + 1) = of_nat i" by (simp add: lua_index_def)
  ultimately show ?thesis using r l x n assms(6,7)
    by (simp add: lmz_reader_get_num_files_def lmz_reader_locate_file_def lmz_reader_extract_def with_udata_def
        with_archive_def opt_uint_def push_block_def)
qed


definition sample_zip :: "((string \<times> string) list, (string \<times> string) list, string) mz_lib" where
  "sample_zip = sample_miniz\<lparr>lib_finalize_heap := (\<lambda>w. (if w = [(''a'', ''one''), (''b'', ''two'')] then Some ''zip'' else None, w))\<rparr>"

lemma sample_zip_contract: "zip_contract sample_zip id (=)"
  by (auto simp: zip_contract_def reads_back_def sample_zip_def sample_miniz_def entry_at_def less_Suc_eq split: if_splits)

theorem zip_roundtrip_witness:
  "let s1 = the (add_all sample_zip 3 [(''a'', ''one''), (''b'', ''two'')] (snd (lmz_writer_init sample_zip 3 None None empty_miniz)));
       s3 = snd (lmz_reader_init_mem sample_zip 9 4 0 0 ''zip'' None (snd (lmz_writer_finalize sample_zip 3 s1)))
   in fst (lmz_writer_finalize sample_zip 3 s1) = Returns [MString ''zip'']
      \<and> fst (lmz_reader_locate_file sample_zip 4 ''b'' None s3) = Returns [MInteger 2]
      \<and> fst (lmz_reader_extract sample_zip 4 2 None s3) = Returns [MString ''two'']"
proof -
  let ?es = "[(''a'', ''one''), (''b'', ''two'')]"
  define s0 where "s0 = snd (lmz_writer_init sample_zip 3 None None empty_miniz)"
  define s1 where "s1 = the (add_all sample_zip 3 ?es s0)"
  have i: "lmz_writer_init sample_zip 3 None None empty_miniz = (Returns [MUserdata 3], s0)"
    by (simp add: s0_def lmz_writer_init_def sample_zip_def sample_miniz_def)
  have a: "add_all sample_zip 3 ?es s0 = Some s1" "mz_writers s1 3 = Some (Some ?es)"
    by (simp_all add: s0_def s1_def lmz_writer_init_def sample_zip_def sample_miniz_def lmz_writer_add_mem_def
        on_writer_def with_udata_def c_str_def NUL_def)
  have f: "lmz_writer_finalize sample_zip 3 s1 = (Returns [MString ''zip''], snd (lmz_writer_finalize sample_zip 3 s1))"
    using a(2) by (simp add: lmz_writer_finalize_def with_udata_def sample_zip_def)
  have "fst (lmz_writer_finalize sample_zip 3 s1) = Returns [MString ''zip'']" using f by (metis fst_conv)
  then show ?thesis
    using zip_roundtrip [OF sample_zip_contract i a(1) f refl, of 1 4 9 0 0]
    unfolding s0_def [symmetric] s1_def [symmetric] Let_def
    by (simp add: less_Suc_eq c_str_def NUL_def)
qed

end
