(* ===== verification/Wgpu_Types.thy ===== *)
theory Wgpu_Types
  imports C_Layout
begin

unbundle bit_operations_syntax

text \<open>
  The types of the WebGPU bindings, \<open>Runtime/Bindings/FFI/wgpu/wgpu_aliases.h\<close>: LuaJIT code builds
  these structures and passes their addresses to the functions of the table of
  \<open>wgpu_ffi.cpp\<close>. An enumeration is the list of its enumerators, named without the prefix that
  all of them share (the name of the enumeration; \<open>WGPUSType\<close> for \<open>WGPUNativeSType\<close>); a structure
  is the list of its members. Enumerations, \<open>WGPUBool\<close> and flags have four bytes, pointers,
  handles and callbacks eight.
\<close>

section \<open>Enumerations\<close>

definition WGPUAdapterType :: c_enumeration where
  "WGPUAdapterType =
     [(''DiscreteGPU'', 0), (''IntegratedGPU'', 1), (''CPU'', 2), (''Unknown'', 3), (''Force32'', 0x7FFFFFFF)]"

definition WGPUAddressMode :: c_enumeration where
  "WGPUAddressMode =
     [(''Repeat'', 0), (''MirrorRepeat'', 1), (''ClampToEdge'', 2), (''Force32'', 0x7FFFFFFF)]"

definition WGPUBackendType :: c_enumeration where
  "WGPUBackendType =
     [(''Undefined'', 0), (''Null'', 1), (''WebGPU'', 2), (''D3D11'', 3), (''D3D12'', 4), (''Metal'', 5),
      (''Vulkan'', 6), (''OpenGL'', 7), (''OpenGLES'', 8), (''Force32'', 0x7FFFFFFF)]"

definition WGPUBlendFactor :: c_enumeration where
  "WGPUBlendFactor =
     [(''Zero'', 0), (''One'', 1), (''Src'', 2), (''OneMinusSrc'', 3), (''SrcAlpha'', 4),
      (''OneMinusSrcAlpha'', 5), (''Dst'', 6), (''OneMinusDst'', 7), (''DstAlpha'', 8),
      (''OneMinusDstAlpha'', 9), (''SrcAlphaSaturated'', 0xA), (''Constant'', 0xB), (''OneMinusConstant'', 0xC),
      (''Force32'', 0x7FFFFFFF)]"

definition WGPUBlendOperation :: c_enumeration where
  "WGPUBlendOperation =
     [(''Add'', 0), (''Subtract'', 1), (''ReverseSubtract'', 2), (''Min'', 3), (''Max'', 4),
      (''Force32'', 0x7FFFFFFF)]"

definition WGPUBufferBindingType :: c_enumeration where
  "WGPUBufferBindingType =
     [(''Undefined'', 0), (''Uniform'', 1), (''Storage'', 2), (''ReadOnlyStorage'', 3),
      (''Force32'', 0x7FFFFFFF)]"

definition WGPUBufferMapAsyncStatus :: c_enumeration where
  "WGPUBufferMapAsyncStatus =
     [(''Success'', 0), (''ValidationError'', 1), (''Unknown'', 2), (''DeviceLost'', 3),
      (''DestroyedBeforeCallback'', 4), (''UnmappedBeforeCallback'', 5), (''MappingAlreadyPending'', 6),
      (''OffsetOutOfRange'', 7), (''SizeOutOfRange'', 8), (''Force32'', 0x7FFFFFFF)]"

definition WGPUBufferMapState :: c_enumeration where
  "WGPUBufferMapState =
     [(''Unmapped'', 0), (''Pending'', 1), (''Mapped'', 2), (''Force32'', 0x7FFFFFFF)]"

definition WGPUCompareFunction :: c_enumeration where
  "WGPUCompareFunction =
     [(''Undefined'', 0), (''Never'', 1), (''Less'', 2), (''LessEqual'', 3), (''Greater'', 4),
      (''GreaterEqual'', 5), (''Equal'', 6), (''NotEqual'', 7), (''Always'', 8), (''Force32'', 0x7FFFFFFF)]"

definition WGPUCompilationInfoRequestStatus :: c_enumeration where
  "WGPUCompilationInfoRequestStatus =
     [(''Success'', 0), (''Error'', 1), (''DeviceLost'', 2), (''Unknown'', 3), (''Force32'', 0x7FFFFFFF)]"

definition WGPUCompilationMessageType :: c_enumeration where
  "WGPUCompilationMessageType =
     [(''Error'', 0), (''Warning'', 1), (''Info'', 2), (''Force32'', 0x7FFFFFFF)]"

definition WGPUCompositeAlphaMode :: c_enumeration where
  "WGPUCompositeAlphaMode =
     [(''Auto'', 0), (''Opaque'', 1), (''Premultiplied'', 2), (''Unpremultiplied'', 3), (''Inherit'', 4),
      (''Force32'', 0x7FFFFFFF)]"

definition WGPUCreatePipelineAsyncStatus :: c_enumeration where
  "WGPUCreatePipelineAsyncStatus =
     [(''Success'', 0), (''ValidationError'', 1), (''InternalError'', 2), (''DeviceLost'', 3),
      (''DeviceDestroyed'', 4), (''Unknown'', 5), (''Force32'', 0x7FFFFFFF)]"

definition WGPUCullMode :: c_enumeration where
  "WGPUCullMode =
     [(''None'', 0), (''Front'', 1), (''Back'', 2), (''Force32'', 0x7FFFFFFF)]"

definition WGPUDeviceLostReason :: c_enumeration where
  "WGPUDeviceLostReason =
     [(''Unknown'', 1), (''Destroyed'', 2), (''Force32'', 0x7FFFFFFF)]"

definition WGPUErrorFilter :: c_enumeration where
  "WGPUErrorFilter =
     [(''Validation'', 0), (''OutOfMemory'', 1), (''Internal'', 2), (''Force32'', 0x7FFFFFFF)]"

definition WGPUErrorType :: c_enumeration where
  "WGPUErrorType =
     [(''NoError'', 0), (''Validation'', 1), (''OutOfMemory'', 2), (''Internal'', 3), (''Unknown'', 4),
      (''DeviceLost'', 5), (''Force32'', 0x7FFFFFFF)]"

definition WGPUFeatureName :: c_enumeration where
  "WGPUFeatureName =
     [(''Undefined'', 0), (''DepthClipControl'', 1), (''Depth32FloatStencil8'', 2), (''TimestampQuery'', 3),
      (''TextureCompressionBC'', 4), (''TextureCompressionETC2'', 5), (''TextureCompressionASTC'', 6),
      (''IndirectFirstInstance'', 7), (''ShaderF16'', 8), (''RG11B10UfloatRenderable'', 9),
      (''BGRA8UnormStorage'', 0xA), (''Float32Filterable'', 0xB), (''Force32'', 0x7FFFFFFF)]"

definition WGPUFilterMode :: c_enumeration where
  "WGPUFilterMode =
     [(''Nearest'', 0), (''Linear'', 1), (''Force32'', 0x7FFFFFFF)]"

definition WGPUFrontFace :: c_enumeration where
  "WGPUFrontFace =
     [(''CCW'', 0), (''CW'', 1), (''Force32'', 0x7FFFFFFF)]"

definition WGPUIndexFormat :: c_enumeration where
  "WGPUIndexFormat =
     [(''Undefined'', 0), (''Uint16'', 1), (''Uint32'', 2), (''Force32'', 0x7FFFFFFF)]"

definition WGPULoadOp :: c_enumeration where
  "WGPULoadOp =
     [(''Undefined'', 0), (''Clear'', 1), (''Load'', 2), (''Force32'', 0x7FFFFFFF)]"

definition WGPUMipmapFilterMode :: c_enumeration where
  "WGPUMipmapFilterMode =
     [(''Nearest'', 0), (''Linear'', 1), (''Force32'', 0x7FFFFFFF)]"

definition WGPUPowerPreference :: c_enumeration where
  "WGPUPowerPreference =
     [(''Undefined'', 0), (''LowPower'', 1), (''HighPerformance'', 2), (''Force32'', 0x7FFFFFFF)]"

definition WGPUPresentMode :: c_enumeration where
  "WGPUPresentMode =
     [(''Fifo'', 0), (''FifoRelaxed'', 1), (''Immediate'', 2), (''Mailbox'', 3), (''Force32'', 0x7FFFFFFF)]"

definition WGPUPrimitiveTopology :: c_enumeration where
  "WGPUPrimitiveTopology =
     [(''PointList'', 0), (''LineList'', 1), (''LineStrip'', 2), (''TriangleList'', 3), (''TriangleStrip'', 4),
      (''Force32'', 0x7FFFFFFF)]"

definition WGPUQueryType :: c_enumeration where
  "WGPUQueryType =
     [(''Occlusion'', 0), (''Timestamp'', 1), (''Force32'', 0x7FFFFFFF)]"

definition WGPUQueueWorkDoneStatus :: c_enumeration where
  "WGPUQueueWorkDoneStatus =
     [(''Success'', 0), (''Error'', 1), (''Unknown'', 2), (''DeviceLost'', 3), (''Force32'', 0x7FFFFFFF)]"

definition WGPURequestAdapterStatus :: c_enumeration where
  "WGPURequestAdapterStatus =
     [(''Success'', 0), (''Unavailable'', 1), (''Error'', 2), (''Unknown'', 3), (''Force32'', 0x7FFFFFFF)]"

definition WGPURequestDeviceStatus :: c_enumeration where
  "WGPURequestDeviceStatus =
     [(''Success'', 0), (''Error'', 1), (''Unknown'', 2), (''Force32'', 0x7FFFFFFF)]"

definition WGPUSType :: c_enumeration where
  "WGPUSType =
     [(''Invalid'', 0), (''SurfaceDescriptorFromMetalLayer'', 1), (''SurfaceDescriptorFromWindowsHWND'', 2),
      (''SurfaceDescriptorFromXlibWindow'', 3), (''SurfaceDescriptorFromCanvasHTMLSelector'', 4),
      (''ShaderModuleSPIRVDescriptor'', 5), (''ShaderModuleWGSLDescriptor'', 6),
      (''PrimitiveDepthClipControl'', 7), (''SurfaceDescriptorFromWaylandSurface'', 8),
      (''SurfaceDescriptorFromAndroidNativeWindow'', 9), (''SurfaceDescriptorFromXcbWindow'', 0xA),
      (''RenderPassDescriptorMaxDrawCount'', 0xF), (''Force32'', 0x7FFFFFFF)]"

definition WGPUSamplerBindingType :: c_enumeration where
  "WGPUSamplerBindingType =
     [(''Undefined'', 0), (''Filtering'', 1), (''NonFiltering'', 2), (''Comparison'', 3),
      (''Force32'', 0x7FFFFFFF)]"

definition WGPUStencilOperation :: c_enumeration where
  "WGPUStencilOperation =
     [(''Keep'', 0), (''Zero'', 1), (''Replace'', 2), (''Invert'', 3), (''IncrementClamp'', 4),
      (''DecrementClamp'', 5), (''IncrementWrap'', 6), (''DecrementWrap'', 7), (''Force32'', 0x7FFFFFFF)]"

definition WGPUStorageTextureAccess :: c_enumeration where
  "WGPUStorageTextureAccess =
     [(''Undefined'', 0), (''WriteOnly'', 1), (''ReadOnly'', 2), (''ReadWrite'', 3), (''Force32'', 0x7FFFFFFF)]"

definition WGPUStoreOp :: c_enumeration where
  "WGPUStoreOp =
     [(''Undefined'', 0), (''Store'', 1), (''Discard'', 2), (''Force32'', 0x7FFFFFFF)]"

definition WGPUSurfaceGetCurrentTextureStatus :: c_enumeration where
  "WGPUSurfaceGetCurrentTextureStatus =
     [(''Success'', 0), (''Timeout'', 1), (''Outdated'', 2), (''Lost'', 3), (''OutOfMemory'', 4),
      (''DeviceLost'', 5), (''Force32'', 0x7FFFFFFF)]"

definition WGPUTextureAspect :: c_enumeration where
  "WGPUTextureAspect =
     [(''All'', 0), (''StencilOnly'', 1), (''DepthOnly'', 2), (''Force32'', 0x7FFFFFFF)]"

definition WGPUTextureDimension :: c_enumeration where
  "WGPUTextureDimension =
     [(''1D'', 0), (''2D'', 1), (''3D'', 2), (''Force32'', 0x7FFFFFFF)]"

definition WGPUTextureFormat :: c_enumeration where
  "WGPUTextureFormat =
     [(''Undefined'', 0), (''R8Unorm'', 1), (''R8Snorm'', 2), (''R8Uint'', 3), (''R8Sint'', 4),
      (''R16Uint'', 5), (''R16Sint'', 6), (''R16Float'', 7), (''RG8Unorm'', 8), (''RG8Snorm'', 9),
      (''RG8Uint'', 0xA), (''RG8Sint'', 0xB), (''R32Float'', 0xC), (''R32Uint'', 0xD), (''R32Sint'', 0xE),
      (''RG16Uint'', 0xF), (''RG16Sint'', 0x10), (''RG16Float'', 0x11), (''RGBA8Unorm'', 0x12),
      (''RGBA8UnormSrgb'', 0x13), (''RGBA8Snorm'', 0x14), (''RGBA8Uint'', 0x15), (''RGBA8Sint'', 0x16),
      (''BGRA8Unorm'', 0x17), (''BGRA8UnormSrgb'', 0x18), (''RGB10A2Uint'', 0x19), (''RGB10A2Unorm'', 0x1A),
      (''RG11B10Ufloat'', 0x1B), (''RGB9E5Ufloat'', 0x1C), (''RG32Float'', 0x1D), (''RG32Uint'', 0x1E),
      (''RG32Sint'', 0x1F), (''RGBA16Uint'', 0x20), (''RGBA16Sint'', 0x21), (''RGBA16Float'', 0x22),
      (''RGBA32Float'', 0x23), (''RGBA32Uint'', 0x24), (''RGBA32Sint'', 0x25), (''Stencil8'', 0x26),
      (''Depth16Unorm'', 0x27), (''Depth24Plus'', 0x28), (''Depth24PlusStencil8'', 0x29),
      (''Depth32Float'', 0x2A), (''Depth32FloatStencil8'', 0x2B), (''BC1RGBAUnorm'', 0x2C),
      (''BC1RGBAUnormSrgb'', 0x2D), (''BC2RGBAUnorm'', 0x2E), (''BC2RGBAUnormSrgb'', 0x2F),
      (''BC3RGBAUnorm'', 0x30), (''BC3RGBAUnormSrgb'', 0x31), (''BC4RUnorm'', 0x32), (''BC4RSnorm'', 0x33),
      (''BC5RGUnorm'', 0x34), (''BC5RGSnorm'', 0x35), (''BC6HRGBUfloat'', 0x36), (''BC6HRGBFloat'', 0x37),
      (''BC7RGBAUnorm'', 0x38), (''BC7RGBAUnormSrgb'', 0x39), (''ETC2RGB8Unorm'', 0x3A),
      (''ETC2RGB8UnormSrgb'', 0x3B), (''ETC2RGB8A1Unorm'', 0x3C), (''ETC2RGB8A1UnormSrgb'', 0x3D),
      (''ETC2RGBA8Unorm'', 0x3E), (''ETC2RGBA8UnormSrgb'', 0x3F), (''EACR11Unorm'', 0x40),
      (''EACR11Snorm'', 0x41), (''EACRG11Unorm'', 0x42), (''EACRG11Snorm'', 0x43), (''ASTC4x4Unorm'', 0x44),
      (''ASTC4x4UnormSrgb'', 0x45), (''ASTC5x4Unorm'', 0x46), (''ASTC5x4UnormSrgb'', 0x47),
      (''ASTC5x5Unorm'', 0x48), (''ASTC5x5UnormSrgb'', 0x49), (''ASTC6x5Unorm'', 0x4A),
      (''ASTC6x5UnormSrgb'', 0x4B), (''ASTC6x6Unorm'', 0x4C), (''ASTC6x6UnormSrgb'', 0x4D),
      (''ASTC8x5Unorm'', 0x4E), (''ASTC8x5UnormSrgb'', 0x4F), (''ASTC8x6Unorm'', 0x50),
      (''ASTC8x6UnormSrgb'', 0x51), (''ASTC8x8Unorm'', 0x52), (''ASTC8x8UnormSrgb'', 0x53),
      (''ASTC10x5Unorm'', 0x54), (''ASTC10x5UnormSrgb'', 0x55), (''ASTC10x6Unorm'', 0x56),
      (''ASTC10x6UnormSrgb'', 0x57), (''ASTC10x8Unorm'', 0x58), (''ASTC10x8UnormSrgb'', 0x59),
      (''ASTC10x10Unorm'', 0x5A), (''ASTC10x10UnormSrgb'', 0x5B), (''ASTC12x10Unorm'', 0x5C),
      (''ASTC12x10UnormSrgb'', 0x5D), (''ASTC12x12Unorm'', 0x5E), (''ASTC12x12UnormSrgb'', 0x5F),
      (''Force32'', 0x7FFFFFFF)]"

definition WGPUTextureSampleType :: c_enumeration where
  "WGPUTextureSampleType =
     [(''Undefined'', 0), (''Float'', 1), (''UnfilterableFloat'', 2), (''Depth'', 3), (''Sint'', 4),
      (''Uint'', 5), (''Force32'', 0x7FFFFFFF)]"

definition WGPUTextureViewDimension :: c_enumeration where
  "WGPUTextureViewDimension =
     [(''Undefined'', 0), (''1D'', 1), (''2D'', 2), (''2DArray'', 3), (''Cube'', 4), (''CubeArray'', 5),
      (''3D'', 6), (''Force32'', 0x7FFFFFFF)]"

definition WGPUVertexFormat :: c_enumeration where
  "WGPUVertexFormat =
     [(''Undefined'', 0), (''Uint8x2'', 1), (''Uint8x4'', 2), (''Sint8x2'', 3), (''Sint8x4'', 4),
      (''Unorm8x2'', 5), (''Unorm8x4'', 6), (''Snorm8x2'', 7), (''Snorm8x4'', 8), (''Uint16x2'', 9),
      (''Uint16x4'', 0xA), (''Sint16x2'', 0xB), (''Sint16x4'', 0xC), (''Unorm16x2'', 0xD), (''Unorm16x4'', 0xE),
      (''Snorm16x2'', 0xF), (''Snorm16x4'', 0x10), (''Float16x2'', 0x11), (''Float16x4'', 0x12),
      (''Float32'', 0x13), (''Float32x2'', 0x14), (''Float32x3'', 0x15), (''Float32x4'', 0x16),
      (''Uint32'', 0x17), (''Uint32x2'', 0x18), (''Uint32x3'', 0x19), (''Uint32x4'', 0x1A), (''Sint32'', 0x1B),
      (''Sint32x2'', 0x1C), (''Sint32x3'', 0x1D), (''Sint32x4'', 0x1E), (''Force32'', 0x7FFFFFFF)]"

definition WGPUVertexStepMode :: c_enumeration where
  "WGPUVertexStepMode =
     [(''Vertex'', 0), (''Instance'', 1), (''VertexBufferNotUsed'', 2), (''Force32'', 0x7FFFFFFF)]"

definition WGPUWGSLFeatureName :: c_enumeration where
  "WGPUWGSLFeatureName =
     [(''Undefined'', 0), (''ReadonlyAndReadwriteStorageTextures'', 1), (''Packed4x8IntegerDotProduct'', 2),
      (''UnrestrictedPointerParameters'', 3), (''PointerCompositeAccess'', 4), (''Force32'', 0x7FFFFFFF)]"

definition WGPUBufferUsage :: c_enumeration where
  "WGPUBufferUsage =
     [(''None'', 0), (''MapRead'', 1), (''MapWrite'', 2), (''CopySrc'', 4), (''CopyDst'', 8), (''Index'', 0x10),
      (''Vertex'', 0x20), (''Uniform'', 0x40), (''Storage'', 0x80), (''Indirect'', 0x100),
      (''QueryResolve'', 0x200), (''Force32'', 0x7FFFFFFF)]"

definition WGPUColorWriteMask :: c_enumeration where
  "WGPUColorWriteMask =
     [(''None'', 0), (''Red'', 1), (''Green'', 2), (''Blue'', 4), (''Alpha'', 8), (''All'', 0xF),
      (''Force32'', 0x7FFFFFFF)]"

definition WGPUMapMode :: c_enumeration where
  "WGPUMapMode =
     [(''None'', 0), (''Read'', 1), (''Write'', 2), (''Force32'', 0x7FFFFFFF)]"

definition WGPUShaderStage :: c_enumeration where
  "WGPUShaderStage =
     [(''None'', 0), (''Vertex'', 1), (''Fragment'', 2), (''Compute'', 4), (''Force32'', 0x7FFFFFFF)]"

definition WGPUTextureUsage :: c_enumeration where
  "WGPUTextureUsage =
     [(''None'', 0), (''CopySrc'', 1), (''CopyDst'', 2), (''TextureBinding'', 4), (''StorageBinding'', 8),
      (''RenderAttachment'', 0x10), (''Force32'', 0x7FFFFFFF)]"

definition WGPUNativeSType :: c_enumeration where
  "WGPUNativeSType =
     [(''DeviceExtras'', 0x30001), (''RequiredLimitsExtras'', 0x30002), (''PipelineLayoutExtras'', 0x30003),
      (''ShaderModuleGLSLDescriptor'', 0x30004), (''SupportedLimitsExtras'', 0x30005),
      (''InstanceExtras'', 0x30006), (''BindGroupEntryExtras'', 0x30007),
      (''BindGroupLayoutEntryExtras'', 0x30008), (''QuerySetDescriptorExtras'', 0x30009),
      (''SurfaceConfigurationExtras'', 0x3000A), (''Force32'', 0x7FFFFFFF)]"

definition WGPUNativeFeature :: c_enumeration where
  "WGPUNativeFeature =
     [(''PushConstants'', 0x30001), (''TextureAdapterSpecificFormatFeatures'', 0x30002),
      (''MultiDrawIndirect'', 0x30003), (''MultiDrawIndirectCount'', 0x30004),
      (''VertexWritableStorage'', 0x30005), (''TextureBindingArray'', 0x30006),
      (''SampledTextureAndStorageBufferArrayNonUniformIndexing'', 0x30007),
      (''PipelineStatisticsQuery'', 0x30008), (''StorageResourceBindingArray'', 0x30009),
      (''PartiallyBoundBindingArray'', 0x3000A), (''TextureFormat16bitNorm'', 0x3000B),
      (''TextureCompressionAstcHdr'', 0x3000C), (''MappablePrimaryBuffers'', 0x3000E),
      (''BufferBindingArray'', 0x3000F), (''UniformBufferAndStorageTextureArrayNonUniformIndexing'', 0x30010),
      (''SpirvShaderPassthrough'', 0x30017), (''VertexAttribute64bit'', 0x30019),
      (''TextureFormatNv12'', 0x3001A), (''RayTracingAccelerationStructure'', 0x3001B), (''RayQuery'', 0x3001C),
      (''ShaderF64'', 0x3001D), (''ShaderI16'', 0x3001E), (''ShaderPrimitiveIndex'', 0x3001F),
      (''ShaderEarlyDepthTest'', 0x30020), (''Subgroup'', 0x30021), (''SubgroupVertex'', 0x30022),
      (''SubgroupBarrier'', 0x30023), (''TimestampQueryInsideEncoders'', 0x30024),
      (''TimestampQueryInsidePasses'', 0x30025), (''Force32'', 0x7FFFFFFF)]"

definition WGPULogLevel :: c_enumeration where
  "WGPULogLevel =
     [(''Off'', 0), (''Error'', 1), (''Warn'', 2), (''Info'', 3), (''Debug'', 4), (''Trace'', 5),
      (''Force32'', 0x7FFFFFFF)]"

definition WGPUInstanceBackend :: c_enumeration where
  "WGPUInstanceBackend =
     [(''All'', 0), (''Vulkan'', push_bit 0 1), (''GL'', push_bit 1 1), (''Metal'', push_bit 2 1),
      (''DX12'', push_bit 3 1), (''DX11'', push_bit 4 1), (''BrowserWebGPU'', push_bit 5 1),
      (''Primary'', 1 OR 4 OR 8 OR 32), (''Secondary'', 2 OR 16), (''Force32'', 0x7FFFFFFF)]"

definition WGPUInstanceFlag :: c_enumeration where
  "WGPUInstanceFlag =
     [(''Default'', 0), (''Debug'', push_bit 0 1), (''Validation'', push_bit 1 1),
      (''DiscardHalLabels'', push_bit 2 1), (''Force32'', 0x7FFFFFFF)]"

definition WGPUDx12Compiler :: c_enumeration where
  "WGPUDx12Compiler =
     [(''Undefined'', 0), (''Fxc'', 1), (''Dxc'', 2), (''Force32'', 0x7FFFFFFF)]"

definition WGPUGles3MinorVersion :: c_enumeration where
  "WGPUGles3MinorVersion =
     [(''Automatic'', 0), (''Version0'', 1), (''Version1'', 2), (''Version2'', 3), (''Force32'', 0x7FFFFFFF)]"

definition WGPUPipelineStatisticName :: c_enumeration where
  "WGPUPipelineStatisticName =
     [(''VertexShaderInvocations'', 0), (''ClipperInvocations'', 1), (''ClipperPrimitivesOut'', 2),
      (''FragmentShaderInvocations'', 3), (''ComputeShaderInvocations'', 4), (''Force32'', 0x7FFFFFFF)]"

definition WGPUNativeQueryType :: c_enumeration where
  "WGPUNativeQueryType =
     [(''PipelineStatistics'', 0x30000), (''Force32'', 0x7FFFFFFF)]"

definition WGPUNativeTextureFormat :: c_enumeration where
  "WGPUNativeTextureFormat =
     [(''R16Unorm'', 0x30001), (''R16Snorm'', 0x30002), (''Rg16Unorm'', 0x30003), (''Rg16Snorm'', 0x30004),
      (''Rgba16Unorm'', 0x30005), (''Rgba16Snorm'', 0x30006), (''NV12'', 0x30007)]"

section \<open>Structures\<close>

definition WGPUChainedStruct :: c_fields where
  "WGPUChainedStruct =
     [(''next'', c_ptr), (''sType'', c_enum)]"

definition WGPUChainedStructOut :: c_fields where
  "WGPUChainedStructOut =
     [(''next'', c_ptr), (''sType'', c_enum)]"

definition WGPUAdapterInfo :: c_fields where
  "WGPUAdapterInfo =
     [(''nextInChain'', c_ptr), (''vendor'', c_ptr), (''architecture'', c_ptr), (''device'', c_ptr),
      (''description'', c_ptr), (''backendType'', c_enum), (''adapterType'', c_enum), (''vendorID'', c_uint32),
      (''deviceID'', c_uint32)]"

definition WGPUBindGroupEntry :: c_fields where
  "WGPUBindGroupEntry =
     [(''nextInChain'', c_ptr), (''binding'', c_uint32), (''buffer'', c_ptr), (''offset'', c_uint64),
      (''size'', c_uint64), (''sampler'', c_ptr), (''textureView'', c_ptr)]"

definition WGPUBlendComponent :: c_fields where
  "WGPUBlendComponent =
     [(''operation'', c_enum), (''srcFactor'', c_enum), (''dstFactor'', c_enum)]"

definition WGPUBufferBindingLayout :: c_fields where
  "WGPUBufferBindingLayout =
     [(''nextInChain'', c_ptr), (''type'', c_enum), (''hasDynamicOffset'', c_uint32),
      (''minBindingSize'', c_uint64)]"

definition WGPUBufferDescriptor :: c_fields where
  "WGPUBufferDescriptor =
     [(''nextInChain'', c_ptr), (''label'', c_ptr), (''usage'', c_uint32), (''size'', c_uint64),
      (''mappedAtCreation'', c_uint32)]"

definition WGPUColor :: c_fields where
  "WGPUColor =
     [(''r'', c_double), (''g'', c_double), (''b'', c_double), (''a'', c_double)]"

definition WGPUCommandBufferDescriptor :: c_fields where
  "WGPUCommandBufferDescriptor =
     [(''nextInChain'', c_ptr), (''label'', c_ptr)]"

definition WGPUCommandEncoderDescriptor :: c_fields where
  "WGPUCommandEncoderDescriptor =
     [(''nextInChain'', c_ptr), (''label'', c_ptr)]"

definition WGPUCompilationMessage :: c_fields where
  "WGPUCompilationMessage =
     [(''nextInChain'', c_ptr), (''message'', c_ptr), (''type'', c_enum), (''lineNum'', c_uint64),
      (''linePos'', c_uint64), (''offset'', c_uint64), (''length'', c_uint64), (''utf16LinePos'', c_uint64),
      (''utf16Offset'', c_uint64), (''utf16Length'', c_uint64)]"

definition WGPUComputePassTimestampWrites :: c_fields where
  "WGPUComputePassTimestampWrites =
     [(''querySet'', c_ptr), (''beginningOfPassWriteIndex'', c_uint32), (''endOfPassWriteIndex'', c_uint32)]"

definition WGPUConstantEntry :: c_fields where
  "WGPUConstantEntry =
     [(''nextInChain'', c_ptr), (''key'', c_ptr), (''value'', c_double)]"

definition WGPUExtent3D :: c_fields where
  "WGPUExtent3D =
     [(''width'', c_uint32), (''height'', c_uint32), (''depthOrArrayLayers'', c_uint32)]"

definition WGPUInstanceDescriptor :: c_fields where
  "WGPUInstanceDescriptor =
     [(''nextInChain'', c_ptr)]"

definition WGPULimits :: c_fields where
  "WGPULimits =
     [(''maxTextureDimension1D'', c_uint32), (''maxTextureDimension2D'', c_uint32),
      (''maxTextureDimension3D'', c_uint32), (''maxTextureArrayLayers'', c_uint32),
      (''maxBindGroups'', c_uint32), (''maxBindGroupsPlusVertexBuffers'', c_uint32),
      (''maxBindingsPerBindGroup'', c_uint32), (''maxDynamicUniformBuffersPerPipelineLayout'', c_uint32),
      (''maxDynamicStorageBuffersPerPipelineLayout'', c_uint32),
      (''maxSampledTexturesPerShaderStage'', c_uint32), (''maxSamplersPerShaderStage'', c_uint32),
      (''maxStorageBuffersPerShaderStage'', c_uint32), (''maxStorageTexturesPerShaderStage'', c_uint32),
      (''maxUniformBuffersPerShaderStage'', c_uint32), (''maxUniformBufferBindingSize'', c_uint64),
      (''maxStorageBufferBindingSize'', c_uint64), (''minUniformBufferOffsetAlignment'', c_uint32),
      (''minStorageBufferOffsetAlignment'', c_uint32), (''maxVertexBuffers'', c_uint32),
      (''maxBufferSize'', c_uint64), (''maxVertexAttributes'', c_uint32),
      (''maxVertexBufferArrayStride'', c_uint32), (''maxInterStageShaderComponents'', c_uint32),
      (''maxInterStageShaderVariables'', c_uint32), (''maxColorAttachments'', c_uint32),
      (''maxColorAttachmentBytesPerSample'', c_uint32), (''maxComputeWorkgroupStorageSize'', c_uint32),
      (''maxComputeInvocationsPerWorkgroup'', c_uint32), (''maxComputeWorkgroupSizeX'', c_uint32),
      (''maxComputeWorkgroupSizeY'', c_uint32), (''maxComputeWorkgroupSizeZ'', c_uint32),
      (''maxComputeWorkgroupsPerDimension'', c_uint32)]"

definition WGPUMultisampleState :: c_fields where
  "WGPUMultisampleState =
     [(''nextInChain'', c_ptr), (''count'', c_uint32), (''mask'', c_uint32),
      (''alphaToCoverageEnabled'', c_uint32)]"

definition WGPUOrigin3D :: c_fields where
  "WGPUOrigin3D =
     [(''x'', c_uint32), (''y'', c_uint32), (''z'', c_uint32)]"

definition WGPUPipelineLayoutDescriptor :: c_fields where
  "WGPUPipelineLayoutDescriptor =
     [(''nextInChain'', c_ptr), (''label'', c_ptr), (''bindGroupLayoutCount'', c_size),
      (''bindGroupLayouts'', c_ptr)]"

definition WGPUPrimitiveDepthClipControl :: c_fields where
  "WGPUPrimitiveDepthClipControl =
     [(''chain'', Struct WGPUChainedStruct), (''unclippedDepth'', c_uint32)]"

definition WGPUPrimitiveState :: c_fields where
  "WGPUPrimitiveState =
     [(''nextInChain'', c_ptr), (''topology'', c_enum), (''stripIndexFormat'', c_enum), (''frontFace'', c_enum),
      (''cullMode'', c_enum)]"

definition WGPUQuerySetDescriptor :: c_fields where
  "WGPUQuerySetDescriptor =
     [(''nextInChain'', c_ptr), (''label'', c_ptr), (''type'', c_enum), (''count'', c_uint32)]"

definition WGPUQueueDescriptor :: c_fields where
  "WGPUQueueDescriptor =
     [(''nextInChain'', c_ptr), (''label'', c_ptr)]"

definition WGPURenderBundleDescriptor :: c_fields where
  "WGPURenderBundleDescriptor =
     [(''nextInChain'', c_ptr), (''label'', c_ptr)]"

definition WGPURenderBundleEncoderDescriptor :: c_fields where
  "WGPURenderBundleEncoderDescriptor =
     [(''nextInChain'', c_ptr), (''label'', c_ptr), (''colorFormatCount'', c_size), (''colorFormats'', c_ptr),
      (''depthStencilFormat'', c_enum), (''sampleCount'', c_uint32), (''depthReadOnly'', c_uint32),
      (''stencilReadOnly'', c_uint32)]"

definition WGPURenderPassDepthStencilAttachment :: c_fields where
  "WGPURenderPassDepthStencilAttachment =
     [(''view'', c_ptr), (''depthLoadOp'', c_enum), (''depthStoreOp'', c_enum), (''depthClearValue'', c_float),
      (''depthReadOnly'', c_uint32), (''stencilLoadOp'', c_enum), (''stencilStoreOp'', c_enum),
      (''stencilClearValue'', c_uint32), (''stencilReadOnly'', c_uint32)]"

definition WGPURenderPassDescriptorMaxDrawCount :: c_fields where
  "WGPURenderPassDescriptorMaxDrawCount =
     [(''chain'', Struct WGPUChainedStruct), (''maxDrawCount'', c_uint64)]"

definition WGPURenderPassTimestampWrites :: c_fields where
  "WGPURenderPassTimestampWrites =
     [(''querySet'', c_ptr), (''beginningOfPassWriteIndex'', c_uint32), (''endOfPassWriteIndex'', c_uint32)]"

definition WGPURequestAdapterOptions :: c_fields where
  "WGPURequestAdapterOptions =
     [(''nextInChain'', c_ptr), (''compatibleSurface'', c_ptr), (''powerPreference'', c_enum),
      (''backendType'', c_enum), (''forceFallbackAdapter'', c_uint32)]"

definition WGPUSamplerBindingLayout :: c_fields where
  "WGPUSamplerBindingLayout =
     [(''nextInChain'', c_ptr), (''type'', c_enum)]"

definition WGPUSamplerDescriptor :: c_fields where
  "WGPUSamplerDescriptor =
     [(''nextInChain'', c_ptr), (''label'', c_ptr), (''addressModeU'', c_enum), (''addressModeV'', c_enum),
      (''addressModeW'', c_enum), (''magFilter'', c_enum), (''minFilter'', c_enum), (''mipmapFilter'', c_enum),
      (''lodMinClamp'', c_float), (''lodMaxClamp'', c_float), (''compare'', c_enum),
      (''maxAnisotropy'', c_uint16)]"

definition WGPUShaderModuleCompilationHint :: c_fields where
  "WGPUShaderModuleCompilationHint =
     [(''nextInChain'', c_ptr), (''entryPoint'', c_ptr), (''layout'', c_ptr)]"

definition WGPUShaderModuleSPIRVDescriptor :: c_fields where
  "WGPUShaderModuleSPIRVDescriptor =
     [(''chain'', Struct WGPUChainedStruct), (''codeSize'', c_uint32), (''code'', c_ptr)]"

definition WGPUShaderModuleWGSLDescriptor :: c_fields where
  "WGPUShaderModuleWGSLDescriptor =
     [(''chain'', Struct WGPUChainedStruct), (''code'', c_ptr)]"

definition WGPUStencilFaceState :: c_fields where
  "WGPUStencilFaceState =
     [(''compare'', c_enum), (''failOp'', c_enum), (''depthFailOp'', c_enum), (''passOp'', c_enum)]"

definition WGPUStorageTextureBindingLayout :: c_fields where
  "WGPUStorageTextureBindingLayout =
     [(''nextInChain'', c_ptr), (''access'', c_enum), (''format'', c_enum), (''viewDimension'', c_enum)]"

definition WGPUSurfaceCapabilities :: c_fields where
  "WGPUSurfaceCapabilities =
     [(''nextInChain'', c_ptr), (''usages'', c_uint32), (''formatCount'', c_size), (''formats'', c_ptr),
      (''presentModeCount'', c_size), (''presentModes'', c_ptr), (''alphaModeCount'', c_size),
      (''alphaModes'', c_ptr)]"

definition WGPUSurfaceConfiguration :: c_fields where
  "WGPUSurfaceConfiguration =
     [(''nextInChain'', c_ptr), (''device'', c_ptr), (''format'', c_enum), (''usage'', c_uint32),
      (''viewFormatCount'', c_size), (''viewFormats'', c_ptr), (''alphaMode'', c_enum), (''width'', c_uint32),
      (''height'', c_uint32), (''presentMode'', c_enum)]"

definition WGPUSurfaceDescriptor :: c_fields where
  "WGPUSurfaceDescriptor =
     [(''nextInChain'', c_ptr), (''label'', c_ptr)]"

definition WGPUSurfaceDescriptorFromAndroidNativeWindow :: c_fields where
  "WGPUSurfaceDescriptorFromAndroidNativeWindow =
     [(''chain'', Struct WGPUChainedStruct), (''window'', c_ptr)]"

definition WGPUSurfaceDescriptorFromCanvasHTMLSelector :: c_fields where
  "WGPUSurfaceDescriptorFromCanvasHTMLSelector =
     [(''chain'', Struct WGPUChainedStruct), (''selector'', c_ptr)]"

definition WGPUSurfaceDescriptorFromMetalLayer :: c_fields where
  "WGPUSurfaceDescriptorFromMetalLayer =
     [(''chain'', Struct WGPUChainedStruct), (''layer'', c_ptr)]"

definition WGPUSurfaceDescriptorFromWaylandSurface :: c_fields where
  "WGPUSurfaceDescriptorFromWaylandSurface =
     [(''chain'', Struct WGPUChainedStruct), (''display'', c_ptr), (''surface'', c_ptr)]"

definition WGPUSurfaceDescriptorFromWindowsHWND :: c_fields where
  "WGPUSurfaceDescriptorFromWindowsHWND =
     [(''chain'', Struct WGPUChainedStruct), (''hinstance'', c_ptr), (''hwnd'', c_ptr)]"

definition WGPUSurfaceDescriptorFromXcbWindow :: c_fields where
  "WGPUSurfaceDescriptorFromXcbWindow =
     [(''chain'', Struct WGPUChainedStruct), (''connection'', c_ptr), (''window'', c_uint32)]"

definition WGPUSurfaceDescriptorFromXlibWindow :: c_fields where
  "WGPUSurfaceDescriptorFromXlibWindow =
     [(''chain'', Struct WGPUChainedStruct), (''display'', c_ptr), (''window'', c_uint64)]"

definition WGPUSurfaceTexture :: c_fields where
  "WGPUSurfaceTexture =
     [(''texture'', c_ptr), (''suboptimal'', c_uint32), (''status'', c_enum)]"

definition WGPUTextureBindingLayout :: c_fields where
  "WGPUTextureBindingLayout =
     [(''nextInChain'', c_ptr), (''sampleType'', c_enum), (''viewDimension'', c_enum),
      (''multisampled'', c_uint32)]"

definition WGPUTextureDataLayout :: c_fields where
  "WGPUTextureDataLayout =
     [(''nextInChain'', c_ptr), (''offset'', c_uint64), (''bytesPerRow'', c_uint32),
      (''rowsPerImage'', c_uint32)]"

definition WGPUTextureViewDescriptor :: c_fields where
  "WGPUTextureViewDescriptor =
     [(''nextInChain'', c_ptr), (''label'', c_ptr), (''format'', c_enum), (''dimension'', c_enum),
      (''baseMipLevel'', c_uint32), (''mipLevelCount'', c_uint32), (''baseArrayLayer'', c_uint32),
      (''arrayLayerCount'', c_uint32), (''aspect'', c_enum)]"

definition WGPUUncapturedErrorCallbackInfo :: c_fields where
  "WGPUUncapturedErrorCallbackInfo =
     [(''nextInChain'', c_ptr), (''callback'', c_ptr), (''userdata'', c_ptr)]"

definition WGPUVertexAttribute :: c_fields where
  "WGPUVertexAttribute =
     [(''format'', c_enum), (''offset'', c_uint64), (''shaderLocation'', c_uint32)]"

definition WGPUBindGroupDescriptor :: c_fields where
  "WGPUBindGroupDescriptor =
     [(''nextInChain'', c_ptr), (''label'', c_ptr), (''layout'', c_ptr), (''entryCount'', c_size),
      (''entries'', c_ptr)]"

definition WGPUBindGroupLayoutEntry :: c_fields where
  "WGPUBindGroupLayoutEntry =
     [(''nextInChain'', c_ptr), (''binding'', c_uint32), (''visibility'', c_uint32),
      (''buffer'', Struct WGPUBufferBindingLayout), (''sampler'', Struct WGPUSamplerBindingLayout),
      (''texture'', Struct WGPUTextureBindingLayout),
      (''storageTexture'', Struct WGPUStorageTextureBindingLayout)]"

definition WGPUBlendState :: c_fields where
  "WGPUBlendState =
     [(''color'', Struct WGPUBlendComponent), (''alpha'', Struct WGPUBlendComponent)]"

definition WGPUCompilationInfo :: c_fields where
  "WGPUCompilationInfo =
     [(''nextInChain'', c_ptr), (''messageCount'', c_size), (''messages'', c_ptr)]"

definition WGPUComputePassDescriptor :: c_fields where
  "WGPUComputePassDescriptor =
     [(''nextInChain'', c_ptr), (''label'', c_ptr), (''timestampWrites'', c_ptr)]"

definition WGPUDepthStencilState :: c_fields where
  "WGPUDepthStencilState =
     [(''nextInChain'', c_ptr), (''format'', c_enum), (''depthWriteEnabled'', c_uint32),
      (''depthCompare'', c_enum), (''stencilFront'', Struct WGPUStencilFaceState),
      (''stencilBack'', Struct WGPUStencilFaceState), (''stencilReadMask'', c_uint32),
      (''stencilWriteMask'', c_uint32), (''depthBias'', c_int), (''depthBiasSlopeScale'', c_float),
      (''depthBiasClamp'', c_float)]"

definition WGPUImageCopyBuffer :: c_fields where
  "WGPUImageCopyBuffer =
     [(''nextInChain'', c_ptr), (''layout'', Struct WGPUTextureDataLayout), (''buffer'', c_ptr)]"

definition WGPUImageCopyTexture :: c_fields where
  "WGPUImageCopyTexture =
     [(''nextInChain'', c_ptr), (''texture'', c_ptr), (''mipLevel'', c_uint32),
      (''origin'', Struct WGPUOrigin3D), (''aspect'', c_enum)]"

definition WGPUProgrammableStageDescriptor :: c_fields where
  "WGPUProgrammableStageDescriptor =
     [(''nextInChain'', c_ptr), (''module'', c_ptr), (''entryPoint'', c_ptr), (''constantCount'', c_size),
      (''constants'', c_ptr)]"

definition WGPURenderPassColorAttachment :: c_fields where
  "WGPURenderPassColorAttachment =
     [(''nextInChain'', c_ptr), (''view'', c_ptr), (''depthSlice'', c_uint32), (''resolveTarget'', c_ptr),
      (''loadOp'', c_enum), (''storeOp'', c_enum), (''clearValue'', Struct WGPUColor)]"

definition WGPURequiredLimits :: c_fields where
  "WGPURequiredLimits =
     [(''nextInChain'', c_ptr), (''limits'', Struct WGPULimits)]"

definition WGPUShaderModuleDescriptor :: c_fields where
  "WGPUShaderModuleDescriptor =
     [(''nextInChain'', c_ptr), (''label'', c_ptr), (''hintCount'', c_size), (''hints'', c_ptr)]"

definition WGPUSupportedLimits :: c_fields where
  "WGPUSupportedLimits =
     [(''nextInChain'', c_ptr), (''limits'', Struct WGPULimits)]"

definition WGPUTextureDescriptor :: c_fields where
  "WGPUTextureDescriptor =
     [(''nextInChain'', c_ptr), (''label'', c_ptr), (''usage'', c_uint32), (''dimension'', c_enum),
      (''size'', Struct WGPUExtent3D), (''format'', c_enum), (''mipLevelCount'', c_uint32),
      (''sampleCount'', c_uint32), (''viewFormatCount'', c_size), (''viewFormats'', c_ptr)]"

definition WGPUVertexBufferLayout :: c_fields where
  "WGPUVertexBufferLayout =
     [(''arrayStride'', c_uint64), (''stepMode'', c_enum), (''attributeCount'', c_size),
      (''attributes'', c_ptr)]"

definition WGPUBindGroupLayoutDescriptor :: c_fields where
  "WGPUBindGroupLayoutDescriptor =
     [(''nextInChain'', c_ptr), (''label'', c_ptr), (''entryCount'', c_size), (''entries'', c_ptr)]"

definition WGPUColorTargetState :: c_fields where
  "WGPUColorTargetState =
     [(''nextInChain'', c_ptr), (''format'', c_enum), (''blend'', c_ptr), (''writeMask'', c_uint32)]"

definition WGPUComputePipelineDescriptor :: c_fields where
  "WGPUComputePipelineDescriptor =
     [(''nextInChain'', c_ptr), (''label'', c_ptr), (''layout'', c_ptr),
      (''compute'', Struct WGPUProgrammableStageDescriptor)]"

definition WGPUDeviceDescriptor :: c_fields where
  "WGPUDeviceDescriptor =
     [(''nextInChain'', c_ptr), (''label'', c_ptr), (''requiredFeatureCount'', c_size),
      (''requiredFeatures'', c_ptr), (''requiredLimits'', c_ptr),
      (''defaultQueue'', Struct WGPUQueueDescriptor), (''deviceLostCallback'', c_ptr),
      (''deviceLostUserdata'', c_ptr),
      (''uncapturedErrorCallbackInfo'', Struct WGPUUncapturedErrorCallbackInfo)]"

definition WGPURenderPassDescriptor :: c_fields where
  "WGPURenderPassDescriptor =
     [(''nextInChain'', c_ptr), (''label'', c_ptr), (''colorAttachmentCount'', c_size),
      (''colorAttachments'', c_ptr), (''depthStencilAttachment'', c_ptr), (''occlusionQuerySet'', c_ptr),
      (''timestampWrites'', c_ptr)]"

definition WGPUVertexState :: c_fields where
  "WGPUVertexState =
     [(''nextInChain'', c_ptr), (''module'', c_ptr), (''entryPoint'', c_ptr), (''constantCount'', c_size),
      (''constants'', c_ptr), (''bufferCount'', c_size), (''buffers'', c_ptr)]"

definition WGPUFragmentState :: c_fields where
  "WGPUFragmentState =
     [(''nextInChain'', c_ptr), (''module'', c_ptr), (''entryPoint'', c_ptr), (''constantCount'', c_size),
      (''constants'', c_ptr), (''targetCount'', c_size), (''targets'', c_ptr)]"

definition WGPURenderPipelineDescriptor :: c_fields where
  "WGPURenderPipelineDescriptor =
     [(''nextInChain'', c_ptr), (''label'', c_ptr), (''layout'', c_ptr), (''vertex'', Struct WGPUVertexState),
      (''primitive'', Struct WGPUPrimitiveState), (''depthStencil'', c_ptr),
      (''multisample'', Struct WGPUMultisampleState), (''fragment'', c_ptr)]"

definition WGPUInstanceExtras :: c_fields where
  "WGPUInstanceExtras =
     [(''chain'', Struct WGPUChainedStruct), (''backends'', c_uint32), (''flags'', c_uint32),
      (''dx12ShaderCompiler'', c_enum), (''gles3MinorVersion'', c_enum), (''dxilPath'', c_ptr),
      (''dxcPath'', c_ptr)]"

definition WGPUDeviceExtras :: c_fields where
  "WGPUDeviceExtras =
     [(''chain'', Struct WGPUChainedStruct), (''tracePath'', c_ptr)]"

definition WGPUNativeLimits :: c_fields where
  "WGPUNativeLimits =
     [(''maxPushConstantSize'', c_uint32), (''maxNonSamplerBindings'', c_uint32)]"

definition WGPURequiredLimitsExtras :: c_fields where
  "WGPURequiredLimitsExtras =
     [(''chain'', Struct WGPUChainedStruct), (''limits'', Struct WGPUNativeLimits)]"

definition WGPUSupportedLimitsExtras :: c_fields where
  "WGPUSupportedLimitsExtras =
     [(''chain'', Struct WGPUChainedStructOut), (''limits'', Struct WGPUNativeLimits)]"

definition WGPUPushConstantRange :: c_fields where
  "WGPUPushConstantRange =
     [(''stages'', c_uint32), (''start'', c_uint32), (''end'', c_uint32)]"

definition WGPUPipelineLayoutExtras :: c_fields where
  "WGPUPipelineLayoutExtras =
     [(''chain'', Struct WGPUChainedStruct), (''pushConstantRangeCount'', c_size),
      (''pushConstantRanges'', c_ptr)]"

definition WGPUWrappedSubmissionIndex :: c_fields where
  "WGPUWrappedSubmissionIndex =
     [(''queue'', c_ptr), (''submissionIndex'', c_uint64)]"

definition WGPUShaderDefine :: c_fields where
  "WGPUShaderDefine =
     [(''name'', c_ptr), (''value'', c_ptr)]"

definition WGPUShaderModuleGLSLDescriptor :: c_fields where
  "WGPUShaderModuleGLSLDescriptor =
     [(''chain'', Struct WGPUChainedStruct), (''stage'', c_enum), (''code'', c_ptr),
      (''defineCount'', c_uint32), (''defines'', c_ptr)]"

definition WGPUShaderModuleDescriptorSpirV :: c_fields where
  "WGPUShaderModuleDescriptorSpirV =
     [(''label'', c_ptr), (''sourceSize'', c_uint32), (''source'', c_ptr)]"

definition WGPURegistryReport :: c_fields where
  "WGPURegistryReport =
     [(''numAllocated'', c_size), (''numKeptFromUser'', c_size), (''numReleasedFromUser'', c_size),
      (''numError'', c_size), (''elementSize'', c_size)]"

definition WGPUHubReport :: c_fields where
  "WGPUHubReport =
     [(''adapters'', Struct WGPURegistryReport), (''devices'', Struct WGPURegistryReport),
      (''queues'', Struct WGPURegistryReport), (''pipelineLayouts'', Struct WGPURegistryReport),
      (''shaderModules'', Struct WGPURegistryReport), (''bindGroupLayouts'', Struct WGPURegistryReport),
      (''bindGroups'', Struct WGPURegistryReport), (''commandBuffers'', Struct WGPURegistryReport),
      (''renderBundles'', Struct WGPURegistryReport), (''renderPipelines'', Struct WGPURegistryReport),
      (''computePipelines'', Struct WGPURegistryReport), (''querySets'', Struct WGPURegistryReport),
      (''buffers'', Struct WGPURegistryReport), (''textures'', Struct WGPURegistryReport),
      (''textureViews'', Struct WGPURegistryReport), (''samplers'', Struct WGPURegistryReport)]"

definition WGPUGlobalReport :: c_fields where
  "WGPUGlobalReport =
     [(''surfaces'', Struct WGPURegistryReport), (''backendType'', c_enum), (''vulkan'', Struct WGPUHubReport),
      (''metal'', Struct WGPUHubReport), (''dx12'', Struct WGPUHubReport), (''gl'', Struct WGPUHubReport)]"

definition WGPUInstanceEnumerateAdapterOptions :: c_fields where
  "WGPUInstanceEnumerateAdapterOptions =
     [(''nextInChain'', c_ptr), (''backends'', c_uint32)]"

definition WGPUBindGroupEntryExtras :: c_fields where
  "WGPUBindGroupEntryExtras =
     [(''chain'', Struct WGPUChainedStruct), (''buffers'', c_ptr), (''bufferCount'', c_size),
      (''samplers'', c_ptr), (''samplerCount'', c_size), (''textureViews'', c_ptr),
      (''textureViewCount'', c_size)]"

definition WGPUBindGroupLayoutEntryExtras :: c_fields where
  "WGPUBindGroupLayoutEntryExtras =
     [(''chain'', Struct WGPUChainedStruct), (''count'', c_uint32)]"

definition WGPUQuerySetDescriptorExtras :: c_fields where
  "WGPUQuerySetDescriptorExtras =
     [(''chain'', Struct WGPUChainedStruct), (''pipelineStatistics'', c_ptr),
      (''pipelineStatisticCount'', c_size)]"

definition WGPUSurfaceConfigurationExtras :: c_fields where
  "WGPUSurfaceConfigurationExtras =
     [(''chain'', Struct WGPUChainedStruct), (''desiredMaximumFrameLatency'', c_uint32)]"

definition wgpu_enums :: "c_enumeration list" where
  "wgpu_enums =
     [WGPUAdapterType, WGPUAddressMode, WGPUBackendType, WGPUBlendFactor, WGPUBlendOperation,
      WGPUBufferBindingType, WGPUBufferMapAsyncStatus, WGPUBufferMapState, WGPUCompareFunction,
      WGPUCompilationInfoRequestStatus, WGPUCompilationMessageType, WGPUCompositeAlphaMode,
      WGPUCreatePipelineAsyncStatus, WGPUCullMode, WGPUDeviceLostReason, WGPUErrorFilter, WGPUErrorType,
      WGPUFeatureName, WGPUFilterMode, WGPUFrontFace, WGPUIndexFormat, WGPULoadOp, WGPUMipmapFilterMode,
      WGPUPowerPreference, WGPUPresentMode, WGPUPrimitiveTopology, WGPUQueryType, WGPUQueueWorkDoneStatus,
      WGPURequestAdapterStatus, WGPURequestDeviceStatus, WGPUSType, WGPUSamplerBindingType,
      WGPUStencilOperation, WGPUStorageTextureAccess, WGPUStoreOp, WGPUSurfaceGetCurrentTextureStatus,
      WGPUTextureAspect, WGPUTextureDimension, WGPUTextureFormat, WGPUTextureSampleType,
      WGPUTextureViewDimension, WGPUVertexFormat, WGPUVertexStepMode, WGPUWGSLFeatureName, WGPUBufferUsage,
      WGPUColorWriteMask, WGPUMapMode, WGPUShaderStage, WGPUTextureUsage, WGPUNativeSType, WGPUNativeFeature,
      WGPULogLevel, WGPUInstanceBackend, WGPUInstanceFlag, WGPUDx12Compiler, WGPUGles3MinorVersion,
      WGPUPipelineStatisticName, WGPUNativeQueryType, WGPUNativeTextureFormat]"

definition wgpu_structs :: "(string \<times> c_fields) list" where
  "wgpu_structs =
     [(''ChainedStruct'', WGPUChainedStruct), (''ChainedStructOut'', WGPUChainedStructOut),
      (''AdapterInfo'', WGPUAdapterInfo), (''BindGroupEntry'', WGPUBindGroupEntry),
      (''BlendComponent'', WGPUBlendComponent), (''BufferBindingLayout'', WGPUBufferBindingLayout),
      (''BufferDescriptor'', WGPUBufferDescriptor), (''Color'', WGPUColor),
      (''CommandBufferDescriptor'', WGPUCommandBufferDescriptor),
      (''CommandEncoderDescriptor'', WGPUCommandEncoderDescriptor),
      (''CompilationMessage'', WGPUCompilationMessage),
      (''ComputePassTimestampWrites'', WGPUComputePassTimestampWrites), (''ConstantEntry'', WGPUConstantEntry),
      (''Extent3D'', WGPUExtent3D), (''InstanceDescriptor'', WGPUInstanceDescriptor), (''Limits'', WGPULimits),
      (''MultisampleState'', WGPUMultisampleState), (''Origin3D'', WGPUOrigin3D),
      (''PipelineLayoutDescriptor'', WGPUPipelineLayoutDescriptor),
      (''PrimitiveDepthClipControl'', WGPUPrimitiveDepthClipControl), (''PrimitiveState'', WGPUPrimitiveState),
      (''QuerySetDescriptor'', WGPUQuerySetDescriptor), (''QueueDescriptor'', WGPUQueueDescriptor),
      (''RenderBundleDescriptor'', WGPURenderBundleDescriptor),
      (''RenderBundleEncoderDescriptor'', WGPURenderBundleEncoderDescriptor),
      (''RenderPassDepthStencilAttachment'', WGPURenderPassDepthStencilAttachment),
      (''RenderPassDescriptorMaxDrawCount'', WGPURenderPassDescriptorMaxDrawCount),
      (''RenderPassTimestampWrites'', WGPURenderPassTimestampWrites),
      (''RequestAdapterOptions'', WGPURequestAdapterOptions),
      (''SamplerBindingLayout'', WGPUSamplerBindingLayout), (''SamplerDescriptor'', WGPUSamplerDescriptor),
      (''ShaderModuleCompilationHint'', WGPUShaderModuleCompilationHint),
      (''ShaderModuleSPIRVDescriptor'', WGPUShaderModuleSPIRVDescriptor),
      (''ShaderModuleWGSLDescriptor'', WGPUShaderModuleWGSLDescriptor),
      (''StencilFaceState'', WGPUStencilFaceState),
      (''StorageTextureBindingLayout'', WGPUStorageTextureBindingLayout),
      (''SurfaceCapabilities'', WGPUSurfaceCapabilities), (''SurfaceConfiguration'', WGPUSurfaceConfiguration),
      (''SurfaceDescriptor'', WGPUSurfaceDescriptor),
      (''SurfaceDescriptorFromAndroidNativeWindow'', WGPUSurfaceDescriptorFromAndroidNativeWindow),
      (''SurfaceDescriptorFromCanvasHTMLSelector'', WGPUSurfaceDescriptorFromCanvasHTMLSelector),
      (''SurfaceDescriptorFromMetalLayer'', WGPUSurfaceDescriptorFromMetalLayer),
      (''SurfaceDescriptorFromWaylandSurface'', WGPUSurfaceDescriptorFromWaylandSurface),
      (''SurfaceDescriptorFromWindowsHWND'', WGPUSurfaceDescriptorFromWindowsHWND),
      (''SurfaceDescriptorFromXcbWindow'', WGPUSurfaceDescriptorFromXcbWindow),
      (''SurfaceDescriptorFromXlibWindow'', WGPUSurfaceDescriptorFromXlibWindow),
      (''SurfaceTexture'', WGPUSurfaceTexture), (''TextureBindingLayout'', WGPUTextureBindingLayout),
      (''TextureDataLayout'', WGPUTextureDataLayout), (''TextureViewDescriptor'', WGPUTextureViewDescriptor),
      (''UncapturedErrorCallbackInfo'', WGPUUncapturedErrorCallbackInfo),
      (''VertexAttribute'', WGPUVertexAttribute), (''BindGroupDescriptor'', WGPUBindGroupDescriptor),
      (''BindGroupLayoutEntry'', WGPUBindGroupLayoutEntry), (''BlendState'', WGPUBlendState),
      (''CompilationInfo'', WGPUCompilationInfo), (''ComputePassDescriptor'', WGPUComputePassDescriptor),
      (''DepthStencilState'', WGPUDepthStencilState), (''ImageCopyBuffer'', WGPUImageCopyBuffer),
      (''ImageCopyTexture'', WGPUImageCopyTexture),
      (''ProgrammableStageDescriptor'', WGPUProgrammableStageDescriptor),
      (''RenderPassColorAttachment'', WGPURenderPassColorAttachment), (''RequiredLimits'', WGPURequiredLimits),
      (''ShaderModuleDescriptor'', WGPUShaderModuleDescriptor), (''SupportedLimits'', WGPUSupportedLimits),
      (''TextureDescriptor'', WGPUTextureDescriptor), (''VertexBufferLayout'', WGPUVertexBufferLayout),
      (''BindGroupLayoutDescriptor'', WGPUBindGroupLayoutDescriptor),
      (''ColorTargetState'', WGPUColorTargetState),
      (''ComputePipelineDescriptor'', WGPUComputePipelineDescriptor),
      (''DeviceDescriptor'', WGPUDeviceDescriptor), (''RenderPassDescriptor'', WGPURenderPassDescriptor),
      (''VertexState'', WGPUVertexState), (''FragmentState'', WGPUFragmentState),
      (''RenderPipelineDescriptor'', WGPURenderPipelineDescriptor), (''InstanceExtras'', WGPUInstanceExtras),
      (''DeviceExtras'', WGPUDeviceExtras), (''NativeLimits'', WGPUNativeLimits),
      (''RequiredLimitsExtras'', WGPURequiredLimitsExtras),
      (''SupportedLimitsExtras'', WGPUSupportedLimitsExtras), (''PushConstantRange'', WGPUPushConstantRange),
      (''PipelineLayoutExtras'', WGPUPipelineLayoutExtras),
      (''WrappedSubmissionIndex'', WGPUWrappedSubmissionIndex), (''ShaderDefine'', WGPUShaderDefine),
      (''ShaderModuleGLSLDescriptor'', WGPUShaderModuleGLSLDescriptor),
      (''ShaderModuleDescriptorSpirV'', WGPUShaderModuleDescriptorSpirV),
      (''RegistryReport'', WGPURegistryReport), (''HubReport'', WGPUHubReport),
      (''GlobalReport'', WGPUGlobalReport),
      (''InstanceEnumerateAdapterOptions'', WGPUInstanceEnumerateAdapterOptions),
      (''BindGroupEntryExtras'', WGPUBindGroupEntryExtras),
      (''BindGroupLayoutEntryExtras'', WGPUBindGroupLayoutEntryExtras),
      (''QuerySetDescriptorExtras'', WGPUQuerySetDescriptorExtras),
      (''SurfaceConfigurationExtras'', WGPUSurfaceConfigurationExtras)]"

section \<open>Extension chains\<close>

text \<open>
  A descriptor points to a chain of extension structures: each begins with a
  \<open>WGPUChainedStruct\<close>, and its \<open>sType\<close> says what the rest is.
\<close>

definition stype_codes :: c_enumeration where
  "stype_codes = filter (\<lambda>(nm, v). nm \<noteq> ''Invalid'' \<and> nm \<noteq> ''Force32'') (WGPUSType @ WGPUNativeSType)"

definition chained :: "c_fields \<Rightarrow> bool" where
  "chained fs \<longleftrightarrow> ''chain'' \<in> set (map fst fs)"

definition struct_ok :: "string \<times> c_fields \<Rightarrow> bool" where
  "struct_ok p \<longleftrightarrow> wf_fields (snd p)
     \<and> (chained (snd p) \<longrightarrow> map_option fst (map_of (offsets 0 (snd p)) ''chain'') = Some 0
          \<and> take 2 (leaves 0 (Struct (snd p))) = leaves 0 (Struct WGPUChainedStruct))
     \<and> (''nextInChain'' \<in> set (map fst (snd p)) \<longrightarrow>
          map_of (offsets 0 (snd p)) ''nextInChain'' = Some (0, c_ptr))"

definition enum_ok :: "c_enumeration \<Rightarrow> bool" where
  "enum_ok e \<longleftrightarrow> distinct (map snd e) \<and> list_all (\<lambda>(nm, v). 0 \<le> v \<and> v < 2 ^ 31) e"

lemmas wgpu_enum_defs =
  WGPUAdapterType_def WGPUAddressMode_def WGPUBackendType_def WGPUBlendFactor_def WGPUBlendOperation_def
  WGPUBufferBindingType_def WGPUBufferMapAsyncStatus_def WGPUBufferMapState_def WGPUCompareFunction_def
  WGPUCompilationInfoRequestStatus_def WGPUCompilationMessageType_def WGPUCompositeAlphaMode_def
  WGPUCreatePipelineAsyncStatus_def WGPUCullMode_def WGPUDeviceLostReason_def WGPUErrorFilter_def
  WGPUErrorType_def WGPUFeatureName_def WGPUFilterMode_def WGPUFrontFace_def WGPUIndexFormat_def WGPULoadOp_def
  WGPUMipmapFilterMode_def WGPUPowerPreference_def WGPUPresentMode_def WGPUPrimitiveTopology_def
  WGPUQueryType_def WGPUQueueWorkDoneStatus_def WGPURequestAdapterStatus_def WGPURequestDeviceStatus_def
  WGPUSType_def WGPUSamplerBindingType_def WGPUStencilOperation_def WGPUStorageTextureAccess_def
  WGPUStoreOp_def WGPUSurfaceGetCurrentTextureStatus_def WGPUTextureAspect_def WGPUTextureDimension_def
  WGPUTextureFormat_def WGPUTextureSampleType_def WGPUTextureViewDimension_def WGPUVertexFormat_def
  WGPUVertexStepMode_def WGPUWGSLFeatureName_def WGPUBufferUsage_def WGPUColorWriteMask_def WGPUMapMode_def
  WGPUShaderStage_def WGPUTextureUsage_def WGPUNativeSType_def WGPUNativeFeature_def WGPULogLevel_def
  WGPUInstanceBackend_def WGPUInstanceFlag_def WGPUDx12Compiler_def WGPUGles3MinorVersion_def
  WGPUPipelineStatisticName_def WGPUNativeQueryType_def WGPUNativeTextureFormat_def

lemmas wgpu_struct_defs =
  WGPUChainedStruct_def WGPUChainedStructOut_def WGPUAdapterInfo_def WGPUBindGroupEntry_def
  WGPUBlendComponent_def WGPUBufferBindingLayout_def WGPUBufferDescriptor_def WGPUColor_def
  WGPUCommandBufferDescriptor_def WGPUCommandEncoderDescriptor_def WGPUCompilationMessage_def
  WGPUComputePassTimestampWrites_def WGPUConstantEntry_def WGPUExtent3D_def WGPUInstanceDescriptor_def
  WGPULimits_def WGPUMultisampleState_def WGPUOrigin3D_def WGPUPipelineLayoutDescriptor_def
  WGPUPrimitiveDepthClipControl_def WGPUPrimitiveState_def WGPUQuerySetDescriptor_def WGPUQueueDescriptor_def
  WGPURenderBundleDescriptor_def WGPURenderBundleEncoderDescriptor_def WGPURenderPassDepthStencilAttachment_def
  WGPURenderPassDescriptorMaxDrawCount_def WGPURenderPassTimestampWrites_def WGPURequestAdapterOptions_def
  WGPUSamplerBindingLayout_def WGPUSamplerDescriptor_def WGPUShaderModuleCompilationHint_def
  WGPUShaderModuleSPIRVDescriptor_def WGPUShaderModuleWGSLDescriptor_def WGPUStencilFaceState_def
  WGPUStorageTextureBindingLayout_def WGPUSurfaceCapabilities_def WGPUSurfaceConfiguration_def
  WGPUSurfaceDescriptor_def WGPUSurfaceDescriptorFromAndroidNativeWindow_def
  WGPUSurfaceDescriptorFromCanvasHTMLSelector_def WGPUSurfaceDescriptorFromMetalLayer_def
  WGPUSurfaceDescriptorFromWaylandSurface_def WGPUSurfaceDescriptorFromWindowsHWND_def
  WGPUSurfaceDescriptorFromXcbWindow_def WGPUSurfaceDescriptorFromXlibWindow_def WGPUSurfaceTexture_def
  WGPUTextureBindingLayout_def WGPUTextureDataLayout_def WGPUTextureViewDescriptor_def
  WGPUUncapturedErrorCallbackInfo_def WGPUVertexAttribute_def WGPUBindGroupDescriptor_def
  WGPUBindGroupLayoutEntry_def WGPUBlendState_def WGPUCompilationInfo_def WGPUComputePassDescriptor_def
  WGPUDepthStencilState_def WGPUImageCopyBuffer_def WGPUImageCopyTexture_def
  WGPUProgrammableStageDescriptor_def WGPURenderPassColorAttachment_def WGPURequiredLimits_def
  WGPUShaderModuleDescriptor_def WGPUSupportedLimits_def WGPUTextureDescriptor_def WGPUVertexBufferLayout_def
  WGPUBindGroupLayoutDescriptor_def WGPUColorTargetState_def WGPUComputePipelineDescriptor_def
  WGPUDeviceDescriptor_def WGPURenderPassDescriptor_def WGPUVertexState_def WGPUFragmentState_def
  WGPURenderPipelineDescriptor_def WGPUInstanceExtras_def WGPUDeviceExtras_def WGPUNativeLimits_def
  WGPURequiredLimitsExtras_def WGPUSupportedLimitsExtras_def WGPUPushConstantRange_def
  WGPUPipelineLayoutExtras_def WGPUWrappedSubmissionIndex_def WGPUShaderDefine_def
  WGPUShaderModuleGLSLDescriptor_def WGPUShaderModuleDescriptorSpirV_def WGPURegistryReport_def
  WGPUHubReport_def WGPUGlobalReport_def WGPUInstanceEnumerateAdapterOptions_def WGPUBindGroupEntryExtras_def
  WGPUBindGroupLayoutEntryExtras_def WGPUQuerySetDescriptorExtras_def WGPUSurfaceConfigurationExtras_def

lemmas chain_eval = struct_ok_def chained_def align_up_def wgpu_struct_defs

lemma wgpu_enums_ok: "list_all enum_ok wgpu_enums"
  by (simp add: wgpu_enums_def enum_ok_def wgpu_enum_defs)

lemma wgpu_structs_1: "list_all struct_ok (take 32 wgpu_structs)"
  by (simp add: wgpu_structs_def chain_eval)

lemma wgpu_structs_2: "list_all struct_ok (take 32 (drop 32 wgpu_structs))"
  by (simp add: wgpu_structs_def chain_eval)

lemma wgpu_structs_3: "list_all struct_ok (drop 64 wgpu_structs)"
  by (simp add: wgpu_structs_def chain_eval)

lemma wgpu_structs_ok: "list_all struct_ok wgpu_structs"
  using wgpu_structs_1 wgpu_structs_2 wgpu_structs_3 list_all_pieces [of struct_ok wgpu_structs 32]
    list_all_pieces [of struct_ok "drop 32 wgpu_structs" 32] by simp

section \<open>Properties\<close>

text \<open>
  The types of the WebGPU bindings follow the conventions the library relies on. All
  structures have a valid layout. In every extension structure the chain comes first, so that the
  scalars of a \<open>WGPUChainedStruct\<close> are at the same places in all of them and its \<open>sType\<close> can be
  read through a pointer to the chain; the type codes are distinct, and exactly the structures
  that can be chained have one. Enumerators of one enumeration are distinct and fit a C \<open>int\<close>.
\<close>

theorem wgpu_types_sound:
  "list_all struct_ok wgpu_structs \<and> list_all enum_ok wgpu_enums
   \<and> distinct (map snd stype_codes)
   \<and> set (map fst (filter (chained \<circ> snd) wgpu_structs)) = set (map fst stype_codes)
   \<and> map_of (offsets 0 WGPUChainedStruct) ''sType'' = Some (8, c_enum)"
proof (intro conjI)
  show "distinct (map snd stype_codes)"
    by (simp add: stype_codes_def WGPUSType_def WGPUNativeSType_def)
  show "set (map fst (filter (chained \<circ> snd) wgpu_structs)) = set (map fst stype_codes)"
    by code_simp
  show "map_of (offsets 0 WGPUChainedStruct) ''sType'' = Some (8, c_enum)"
    by (simp add: WGPUChainedStruct_def align_up_def)
qed (fact wgpu_structs_ok wgpu_enums_ok)+

end
