(* ===== verification/Wgpu_Procs.thy ===== *)
theory Wgpu_Procs
  imports Ffi_Exports
begin

text \<open>
  The signatures of the WebGPU functions: \<open>wgpu_aliases.h\<close> has one function pointer type
  \<open>WGPUProc<Name>\<close> for each function \<open>wgpu<Name>\<close> of the standard interface, and the structure in
  \<open>wgpu_exports.h\<close> has one member for each function the runtime exports, through which LuaJIT calls
  it. A signature is the name, the result type and the parameter types as they are written, less
  the names and comments of parameters. The groups are those of the two headers.
\<close>

type_synonym c_signature = "string \<times> string \<times> string list"

section \<open>Procedure types\<close>

definition wgpu_procs_Global :: "c_signature list" where
  "wgpu_procs_Global =
     [(''CreateInstance'', ''WGPUInstance'', [''WGPUInstanceDescriptor const*'']),
      (''GetProcAddress'', ''WGPUProc'', [''WGPUDevice'', ''char const*''])]"

definition wgpu_procs_Adapter :: "c_signature list" where
  "wgpu_procs_Adapter =
     [(''AdapterEnumerateFeatures'', ''size_t'', [''WGPUAdapter'', ''WGPUFeatureName*'']),
      (''AdapterGetInfo'', ''void'', [''WGPUAdapter'', ''WGPUAdapterInfo*'']),
      (''AdapterGetLimits'', ''WGPUBool'', [''WGPUAdapter'', ''WGPUSupportedLimits*'']),
      (''AdapterHasFeature'', ''WGPUBool'', [''WGPUAdapter'', ''WGPUFeatureName'']),
      (''AdapterRequestDevice'', ''void'', [''WGPUAdapter'', ''WGPUDeviceDescriptor const*'',
         ''WGPUAdapterRequestDeviceCallback'', ''void*'']),
      (''AdapterReference'', ''void'', [''WGPUAdapter'']),
      (''AdapterRelease'', ''void'', [''WGPUAdapter''])]"

definition wgpu_procs_AdapterInfo :: "c_signature list" where
  "wgpu_procs_AdapterInfo =
     [(''AdapterInfoFreeMembers'', ''void'', [''WGPUAdapterInfo''])]"

definition wgpu_procs_BindGroup :: "c_signature list" where
  "wgpu_procs_BindGroup =
     [(''BindGroupSetLabel'', ''void'', [''WGPUBindGroup'', ''char const*'']),
      (''BindGroupReference'', ''void'', [''WGPUBindGroup'']),
      (''BindGroupRelease'', ''void'', [''WGPUBindGroup''])]"

definition wgpu_procs_BindGroupLayout :: "c_signature list" where
  "wgpu_procs_BindGroupLayout =
     [(''BindGroupLayoutSetLabel'', ''void'', [''WGPUBindGroupLayout'', ''char const*'']),
      (''BindGroupLayoutReference'', ''void'', [''WGPUBindGroupLayout'']),
      (''BindGroupLayoutRelease'', ''void'', [''WGPUBindGroupLayout''])]"

definition wgpu_procs_Buffer :: "c_signature list" where
  "wgpu_procs_Buffer =
     [(''BufferDestroy'', ''void'', [''WGPUBuffer'']),
      (''BufferGetConstMappedRange'', ''void const*'', [''WGPUBuffer'', ''size_t'', ''size_t'']),
      (''BufferGetMapState'', ''WGPUBufferMapState'', [''WGPUBuffer'']),
      (''BufferGetMappedRange'', ''void*'', [''WGPUBuffer'', ''size_t'', ''size_t'']),
      (''BufferGetSize'', ''uint64_t'', [''WGPUBuffer'']),
      (''BufferGetUsage'', ''WGPUBufferUsageFlags'', [''WGPUBuffer'']),
      (''BufferMapAsync'', ''void'', [''WGPUBuffer'', ''WGPUMapModeFlags'', ''size_t'', ''size_t'',
         ''WGPUBufferMapAsyncCallback'', ''void*'']),
      (''BufferSetLabel'', ''void'', [''WGPUBuffer'', ''char const*'']),
      (''BufferUnmap'', ''void'', [''WGPUBuffer'']),
      (''BufferReference'', ''void'', [''WGPUBuffer'']),
      (''BufferRelease'', ''void'', [''WGPUBuffer''])]"

definition wgpu_procs_CommandBuffer :: "c_signature list" where
  "wgpu_procs_CommandBuffer =
     [(''CommandBufferSetLabel'', ''void'', [''WGPUCommandBuffer'', ''char const*'']),
      (''CommandBufferReference'', ''void'', [''WGPUCommandBuffer'']),
      (''CommandBufferRelease'', ''void'', [''WGPUCommandBuffer''])]"

definition wgpu_procs_CommandEncoder :: "c_signature list" where
  "wgpu_procs_CommandEncoder =
     [(''CommandEncoderBeginComputePass'', ''WGPUComputePassEncoder'', [''WGPUCommandEncoder'',
         ''WGPUComputePassDescriptor const*'']),
      (''CommandEncoderBeginRenderPass'', ''WGPURenderPassEncoder'', [''WGPUCommandEncoder'',
         ''WGPURenderPassDescriptor const*'']),
      (''CommandEncoderClearBuffer'', ''void'', [''WGPUCommandEncoder'', ''WGPUBuffer'', ''uint64_t'',
         ''uint64_t'']),
      (''CommandEncoderCopyBufferToBuffer'', ''void'', [''WGPUCommandEncoder'', ''WGPUBuffer'', ''uint64_t'',
         ''WGPUBuffer'', ''uint64_t'', ''uint64_t'']),
      (''CommandEncoderCopyBufferToTexture'', ''void'', [''WGPUCommandEncoder'',
         ''WGPUImageCopyBuffer const*'', ''WGPUImageCopyTexture const*'', ''WGPUExtent3D const*'']),
      (''CommandEncoderCopyTextureToBuffer'', ''void'', [''WGPUCommandEncoder'',
         ''WGPUImageCopyTexture const*'', ''WGPUImageCopyBuffer const*'', ''WGPUExtent3D const*'']),
      (''CommandEncoderCopyTextureToTexture'', ''void'', [''WGPUCommandEncoder'',
         ''WGPUImageCopyTexture const*'', ''WGPUImageCopyTexture const*'', ''WGPUExtent3D const*'']),
      (''CommandEncoderFinish'', ''WGPUCommandBuffer'', [''WGPUCommandEncoder'',
         ''WGPUCommandBufferDescriptor const*'']),
      (''CommandEncoderInsertDebugMarker'', ''void'', [''WGPUCommandEncoder'', ''char const*'']),
      (''CommandEncoderPopDebugGroup'', ''void'', [''WGPUCommandEncoder'']),
      (''CommandEncoderPushDebugGroup'', ''void'', [''WGPUCommandEncoder'', ''char const*'']),
      (''CommandEncoderResolveQuerySet'', ''void'', [''WGPUCommandEncoder'', ''WGPUQuerySet'', ''uint32_t'',
         ''uint32_t'', ''WGPUBuffer'', ''uint64_t'']),
      (''CommandEncoderSetLabel'', ''void'', [''WGPUCommandEncoder'', ''char const*'']),
      (''CommandEncoderWriteTimestamp'', ''void'', [''WGPUCommandEncoder'', ''WGPUQuerySet'', ''uint32_t'']),
      (''CommandEncoderReference'', ''void'', [''WGPUCommandEncoder'']),
      (''CommandEncoderRelease'', ''void'', [''WGPUCommandEncoder''])]"

definition wgpu_procs_ComputePassEncoder :: "c_signature list" where
  "wgpu_procs_ComputePassEncoder =
     [(''ComputePassEncoderDispatchWorkgroups'', ''void'', [''WGPUComputePassEncoder'', ''uint32_t'',
         ''uint32_t'', ''uint32_t'']),
      (''ComputePassEncoderDispatchWorkgroupsIndirect'', ''void'', [''WGPUComputePassEncoder'', ''WGPUBuffer'',
         ''uint64_t'']),
      (''ComputePassEncoderEnd'', ''void'', [''WGPUComputePassEncoder'']),
      (''ComputePassEncoderInsertDebugMarker'', ''void'', [''WGPUComputePassEncoder'', ''char const*'']),
      (''ComputePassEncoderPopDebugGroup'', ''void'', [''WGPUComputePassEncoder'']),
      (''ComputePassEncoderPushDebugGroup'', ''void'', [''WGPUComputePassEncoder'', ''char const*'']),
      (''ComputePassEncoderSetBindGroup'', ''void'', [''WGPUComputePassEncoder'', ''uint32_t'',
         ''WGPUBindGroup'', ''size_t'', ''uint32_t const*'']),
      (''ComputePassEncoderSetLabel'', ''void'', [''WGPUComputePassEncoder'', ''char const*'']),
      (''ComputePassEncoderSetPipeline'', ''void'', [''WGPUComputePassEncoder'', ''WGPUComputePipeline'']),
      (''ComputePassEncoderReference'', ''void'', [''WGPUComputePassEncoder'']),
      (''ComputePassEncoderRelease'', ''void'', [''WGPUComputePassEncoder''])]"

definition wgpu_procs_ComputePipeline :: "c_signature list" where
  "wgpu_procs_ComputePipeline =
     [(''ComputePipelineGetBindGroupLayout'', ''WGPUBindGroupLayout'', [''WGPUComputePipeline'', ''uint32_t'']),
      (''ComputePipelineSetLabel'', ''void'', [''WGPUComputePipeline'', ''char const*'']),
      (''ComputePipelineReference'', ''void'', [''WGPUComputePipeline'']),
      (''ComputePipelineRelease'', ''void'', [''WGPUComputePipeline''])]"

definition wgpu_procs_Device :: "c_signature list" where
  "wgpu_procs_Device =
     [(''DeviceCreateBindGroup'', ''WGPUBindGroup'', [''WGPUDevice'', ''WGPUBindGroupDescriptor const*'']),
      (''DeviceCreateBindGroupLayout'', ''WGPUBindGroupLayout'', [''WGPUDevice'',
         ''WGPUBindGroupLayoutDescriptor const*'']),
      (''DeviceCreateBuffer'', ''WGPUBuffer'', [''WGPUDevice'', ''WGPUBufferDescriptor const*'']),
      (''DeviceCreateCommandEncoder'', ''WGPUCommandEncoder'', [''WGPUDevice'',
         ''WGPUCommandEncoderDescriptor const*'']),
      (''DeviceCreateComputePipeline'', ''WGPUComputePipeline'', [''WGPUDevice'',
         ''WGPUComputePipelineDescriptor const*'']),
      (''DeviceCreateComputePipelineAsync'', ''void'', [''WGPUDevice'',
         ''WGPUComputePipelineDescriptor const*'', ''WGPUDeviceCreateComputePipelineAsyncCallback'',
         ''void*'']),
      (''DeviceCreatePipelineLayout'', ''WGPUPipelineLayout'', [''WGPUDevice'',
         ''WGPUPipelineLayoutDescriptor const*'']),
      (''DeviceCreateQuerySet'', ''WGPUQuerySet'', [''WGPUDevice'', ''WGPUQuerySetDescriptor const*'']),
      (''DeviceCreateRenderBundleEncoder'', ''WGPURenderBundleEncoder'', [''WGPUDevice'',
         ''WGPURenderBundleEncoderDescriptor const*'']),
      (''DeviceCreateRenderPipeline'', ''WGPURenderPipeline'', [''WGPUDevice'',
         ''WGPURenderPipelineDescriptor const*'']),
      (''DeviceCreateRenderPipelineAsync'', ''void'', [''WGPUDevice'', ''WGPURenderPipelineDescriptor const*'',
         ''WGPUDeviceCreateRenderPipelineAsyncCallback'', ''void*'']),
      (''DeviceCreateSampler'', ''WGPUSampler'', [''WGPUDevice'', ''WGPUSamplerDescriptor const*'']),
      (''DeviceCreateShaderModule'', ''WGPUShaderModule'', [''WGPUDevice'',
         ''WGPUShaderModuleDescriptor const*'']),
      (''DeviceCreateTexture'', ''WGPUTexture'', [''WGPUDevice'', ''WGPUTextureDescriptor const*'']),
      (''DeviceDestroy'', ''void'', [''WGPUDevice'']),
      (''DeviceEnumerateFeatures'', ''size_t'', [''WGPUDevice'', ''WGPUFeatureName*'']),
      (''DeviceGetLimits'', ''WGPUBool'', [''WGPUDevice'', ''WGPUSupportedLimits*'']),
      (''DeviceGetQueue'', ''WGPUQueue'', [''WGPUDevice'']),
      (''DeviceHasFeature'', ''WGPUBool'', [''WGPUDevice'', ''WGPUFeatureName'']),
      (''DevicePopErrorScope'', ''void'', [''WGPUDevice'', ''WGPUErrorCallback'', ''void*'']),
      (''DevicePushErrorScope'', ''void'', [''WGPUDevice'', ''WGPUErrorFilter'']),
      (''DeviceSetLabel'', ''void'', [''WGPUDevice'', ''char const*'']),
      (''DeviceReference'', ''void'', [''WGPUDevice'']),
      (''DeviceRelease'', ''void'', [''WGPUDevice''])]"

definition wgpu_procs_Instance :: "c_signature list" where
  "wgpu_procs_Instance =
     [(''InstanceCreateSurface'', ''WGPUSurface'', [''WGPUInstance'', ''WGPUSurfaceDescriptor const*'']),
      (''InstanceHasWGSLLanguageFeature'', ''WGPUBool'', [''WGPUInstance'', ''WGPUWGSLFeatureName'']),
      (''InstanceProcessEvents'', ''void'', [''WGPUInstance'']),
      (''InstanceRequestAdapter'', ''void'', [''WGPUInstance'', ''WGPURequestAdapterOptions const*'',
         ''WGPUInstanceRequestAdapterCallback'', ''void*'']),
      (''InstanceReference'', ''void'', [''WGPUInstance'']),
      (''InstanceRelease'', ''void'', [''WGPUInstance''])]"

definition wgpu_procs_PipelineLayout :: "c_signature list" where
  "wgpu_procs_PipelineLayout =
     [(''PipelineLayoutSetLabel'', ''void'', [''WGPUPipelineLayout'', ''char const*'']),
      (''PipelineLayoutReference'', ''void'', [''WGPUPipelineLayout'']),
      (''PipelineLayoutRelease'', ''void'', [''WGPUPipelineLayout''])]"

definition wgpu_procs_QuerySet :: "c_signature list" where
  "wgpu_procs_QuerySet =
     [(''QuerySetDestroy'', ''void'', [''WGPUQuerySet'']),
      (''QuerySetGetCount'', ''uint32_t'', [''WGPUQuerySet'']),
      (''QuerySetGetType'', ''WGPUQueryType'', [''WGPUQuerySet'']),
      (''QuerySetSetLabel'', ''void'', [''WGPUQuerySet'', ''char const*'']),
      (''QuerySetReference'', ''void'', [''WGPUQuerySet'']),
      (''QuerySetRelease'', ''void'', [''WGPUQuerySet''])]"

definition wgpu_procs_Queue :: "c_signature list" where
  "wgpu_procs_Queue =
     [(''QueueOnSubmittedWorkDone'', ''void'', [''WGPUQueue'', ''WGPUQueueOnSubmittedWorkDoneCallback'',
         ''void*'']),
      (''QueueSetLabel'', ''void'', [''WGPUQueue'', ''char const*'']),
      (''QueueSubmit'', ''void'', [''WGPUQueue'', ''size_t'', ''WGPUCommandBuffer const*'']),
      (''QueueWriteBuffer'', ''void'', [''WGPUQueue'', ''WGPUBuffer'', ''uint64_t'', ''void const*'',
         ''size_t'']),
      (''QueueWriteTexture'', ''void'', [''WGPUQueue'', ''WGPUImageCopyTexture const*'', ''void const*'',
         ''size_t'', ''WGPUTextureDataLayout const*'', ''WGPUExtent3D const*'']),
      (''QueueReference'', ''void'', [''WGPUQueue'']),
      (''QueueRelease'', ''void'', [''WGPUQueue''])]"

definition wgpu_procs_RenderBundle :: "c_signature list" where
  "wgpu_procs_RenderBundle =
     [(''RenderBundleSetLabel'', ''void'', [''WGPURenderBundle'', ''char const*'']),
      (''RenderBundleReference'', ''void'', [''WGPURenderBundle'']),
      (''RenderBundleRelease'', ''void'', [''WGPURenderBundle''])]"

definition wgpu_procs_RenderBundleEncoder :: "c_signature list" where
  "wgpu_procs_RenderBundleEncoder =
     [(''RenderBundleEncoderDraw'', ''void'', [''WGPURenderBundleEncoder'', ''uint32_t'', ''uint32_t'',
         ''uint32_t'', ''uint32_t'']),
      (''RenderBundleEncoderDrawIndexed'', ''void'', [''WGPURenderBundleEncoder'', ''uint32_t'', ''uint32_t'',
         ''uint32_t'', ''int32_t'', ''uint32_t'']),
      (''RenderBundleEncoderDrawIndexedIndirect'', ''void'', [''WGPURenderBundleEncoder'', ''WGPUBuffer'',
         ''uint64_t'']),
      (''RenderBundleEncoderDrawIndirect'', ''void'', [''WGPURenderBundleEncoder'', ''WGPUBuffer'',
         ''uint64_t'']),
      (''RenderBundleEncoderFinish'', ''WGPURenderBundle'', [''WGPURenderBundleEncoder'',
         ''WGPURenderBundleDescriptor const*'']),
      (''RenderBundleEncoderInsertDebugMarker'', ''void'', [''WGPURenderBundleEncoder'', ''char const*'']),
      (''RenderBundleEncoderPopDebugGroup'', ''void'', [''WGPURenderBundleEncoder'']),
      (''RenderBundleEncoderPushDebugGroup'', ''void'', [''WGPURenderBundleEncoder'', ''char const*'']),
      (''RenderBundleEncoderSetBindGroup'', ''void'', [''WGPURenderBundleEncoder'', ''uint32_t'',
         ''WGPUBindGroup'', ''size_t'', ''uint32_t const*'']),
      (''RenderBundleEncoderSetIndexBuffer'', ''void'', [''WGPURenderBundleEncoder'', ''WGPUBuffer'',
         ''WGPUIndexFormat'', ''uint64_t'', ''uint64_t'']),
      (''RenderBundleEncoderSetLabel'', ''void'', [''WGPURenderBundleEncoder'', ''char const*'']),
      (''RenderBundleEncoderSetPipeline'', ''void'', [''WGPURenderBundleEncoder'', ''WGPURenderPipeline'']),
      (''RenderBundleEncoderSetVertexBuffer'', ''void'', [''WGPURenderBundleEncoder'', ''uint32_t'',
         ''WGPUBuffer'', ''uint64_t'', ''uint64_t'']),
      (''RenderBundleEncoderReference'', ''void'', [''WGPURenderBundleEncoder'']),
      (''RenderBundleEncoderRelease'', ''void'', [''WGPURenderBundleEncoder''])]"

definition wgpu_procs_RenderPassEncoder :: "c_signature list" where
  "wgpu_procs_RenderPassEncoder =
     [(''RenderPassEncoderBeginOcclusionQuery'', ''void'', [''WGPURenderPassEncoder'', ''uint32_t'']),
      (''RenderPassEncoderDraw'', ''void'', [''WGPURenderPassEncoder'', ''uint32_t'', ''uint32_t'',
         ''uint32_t'', ''uint32_t'']),
      (''RenderPassEncoderDrawIndexed'', ''void'', [''WGPURenderPassEncoder'', ''uint32_t'', ''uint32_t'',
         ''uint32_t'', ''int32_t'', ''uint32_t'']),
      (''RenderPassEncoderDrawIndexedIndirect'', ''void'', [''WGPURenderPassEncoder'', ''WGPUBuffer'',
         ''uint64_t'']),
      (''RenderPassEncoderDrawIndirect'', ''void'', [''WGPURenderPassEncoder'', ''WGPUBuffer'', ''uint64_t'']),
      (''RenderPassEncoderEnd'', ''void'', [''WGPURenderPassEncoder'']),
      (''RenderPassEncoderEndOcclusionQuery'', ''void'', [''WGPURenderPassEncoder'']),
      (''RenderPassEncoderExecuteBundles'', ''void'', [''WGPURenderPassEncoder'', ''size_t'',
         ''WGPURenderBundle const*'']),
      (''RenderPassEncoderInsertDebugMarker'', ''void'', [''WGPURenderPassEncoder'', ''char const*'']),
      (''RenderPassEncoderPopDebugGroup'', ''void'', [''WGPURenderPassEncoder'']),
      (''RenderPassEncoderPushDebugGroup'', ''void'', [''WGPURenderPassEncoder'', ''char const*'']),
      (''RenderPassEncoderSetBindGroup'', ''void'', [''WGPURenderPassEncoder'', ''uint32_t'',
         ''WGPUBindGroup'', ''size_t'', ''uint32_t const*'']),
      (''RenderPassEncoderSetBlendConstant'', ''void'', [''WGPURenderPassEncoder'', ''WGPUColor const*'']),
      (''RenderPassEncoderSetIndexBuffer'', ''void'', [''WGPURenderPassEncoder'', ''WGPUBuffer'',
         ''WGPUIndexFormat'', ''uint64_t'', ''uint64_t'']),
      (''RenderPassEncoderSetLabel'', ''void'', [''WGPURenderPassEncoder'', ''char const*'']),
      (''RenderPassEncoderSetPipeline'', ''void'', [''WGPURenderPassEncoder'', ''WGPURenderPipeline'']),
      (''RenderPassEncoderSetScissorRect'', ''void'', [''WGPURenderPassEncoder'', ''uint32_t'', ''uint32_t'',
         ''uint32_t'', ''uint32_t'']),
      (''RenderPassEncoderSetStencilReference'', ''void'', [''WGPURenderPassEncoder'', ''uint32_t'']),
      (''RenderPassEncoderSetVertexBuffer'', ''void'', [''WGPURenderPassEncoder'', ''uint32_t'',
         ''WGPUBuffer'', ''uint64_t'', ''uint64_t'']),
      (''RenderPassEncoderSetViewport'', ''void'', [''WGPURenderPassEncoder'', ''float'', ''float'', ''float'',
         ''float'', ''float'', ''float'']),
      (''RenderPassEncoderReference'', ''void'', [''WGPURenderPassEncoder'']),
      (''RenderPassEncoderRelease'', ''void'', [''WGPURenderPassEncoder''])]"

definition wgpu_procs_RenderPipeline :: "c_signature list" where
  "wgpu_procs_RenderPipeline =
     [(''RenderPipelineGetBindGroupLayout'', ''WGPUBindGroupLayout'', [''WGPURenderPipeline'', ''uint32_t'']),
      (''RenderPipelineSetLabel'', ''void'', [''WGPURenderPipeline'', ''char const*'']),
      (''RenderPipelineReference'', ''void'', [''WGPURenderPipeline'']),
      (''RenderPipelineRelease'', ''void'', [''WGPURenderPipeline''])]"

definition wgpu_procs_Sampler :: "c_signature list" where
  "wgpu_procs_Sampler =
     [(''SamplerSetLabel'', ''void'', [''WGPUSampler'', ''char const*'']),
      (''SamplerReference'', ''void'', [''WGPUSampler'']),
      (''SamplerRelease'', ''void'', [''WGPUSampler''])]"

definition wgpu_procs_ShaderModule :: "c_signature list" where
  "wgpu_procs_ShaderModule =
     [(''ShaderModuleGetCompilationInfo'', ''void'', [''WGPUShaderModule'',
         ''WGPUShaderModuleGetCompilationInfoCallback'', ''void*'']),
      (''ShaderModuleSetLabel'', ''void'', [''WGPUShaderModule'', ''char const*'']),
      (''ShaderModuleReference'', ''void'', [''WGPUShaderModule'']),
      (''ShaderModuleRelease'', ''void'', [''WGPUShaderModule''])]"

definition wgpu_procs_Surface :: "c_signature list" where
  "wgpu_procs_Surface =
     [(''SurfaceConfigure'', ''void'', [''WGPUSurface'', ''WGPUSurfaceConfiguration const*'']),
      (''SurfaceGetCapabilities'', ''void'', [''WGPUSurface'', ''WGPUAdapter'', ''WGPUSurfaceCapabilities*'']),
      (''SurfaceGetCurrentTexture'', ''void'', [''WGPUSurface'', ''WGPUSurfaceTexture*'']),
      (''SurfacePresent'', ''void'', [''WGPUSurface'']),
      (''SurfaceSetLabel'', ''void'', [''WGPUSurface'', ''char const*'']),
      (''SurfaceUnconfigure'', ''void'', [''WGPUSurface'']),
      (''SurfaceReference'', ''void'', [''WGPUSurface'']),
      (''SurfaceRelease'', ''void'', [''WGPUSurface''])]"

definition wgpu_procs_SurfaceCapabilities :: "c_signature list" where
  "wgpu_procs_SurfaceCapabilities =
     [(''SurfaceCapabilitiesFreeMembers'', ''void'', [''WGPUSurfaceCapabilities''])]"

definition wgpu_procs_Texture :: "c_signature list" where
  "wgpu_procs_Texture =
     [(''TextureCreateView'', ''WGPUTextureView'', [''WGPUTexture'', ''WGPUTextureViewDescriptor const*'']),
      (''TextureDestroy'', ''void'', [''WGPUTexture'']),
      (''TextureGetDepthOrArrayLayers'', ''uint32_t'', [''WGPUTexture'']),
      (''TextureGetDimension'', ''WGPUTextureDimension'', [''WGPUTexture'']),
      (''TextureGetFormat'', ''WGPUTextureFormat'', [''WGPUTexture'']),
      (''TextureGetHeight'', ''uint32_t'', [''WGPUTexture'']),
      (''TextureGetMipLevelCount'', ''uint32_t'', [''WGPUTexture'']),
      (''TextureGetSampleCount'', ''uint32_t'', [''WGPUTexture'']),
      (''TextureGetUsage'', ''WGPUTextureUsageFlags'', [''WGPUTexture'']),
      (''TextureGetWidth'', ''uint32_t'', [''WGPUTexture'']),
      (''TextureSetLabel'', ''void'', [''WGPUTexture'', ''char const*'']),
      (''TextureReference'', ''void'', [''WGPUTexture'']),
      (''TextureRelease'', ''void'', [''WGPUTexture''])]"

definition wgpu_procs_TextureView :: "c_signature list" where
  "wgpu_procs_TextureView =
     [(''TextureViewSetLabel'', ''void'', [''WGPUTextureView'', ''char const*'']),
      (''TextureViewReference'', ''void'', [''WGPUTextureView'']),
      (''TextureViewRelease'', ''void'', [''WGPUTextureView''])]"

definition wgpu_procs :: "c_signature list" where
  "wgpu_procs =
     wgpu_procs_Global @ wgpu_procs_Adapter @ wgpu_procs_AdapterInfo @ wgpu_procs_BindGroup @
     wgpu_procs_BindGroupLayout @ wgpu_procs_Buffer @ wgpu_procs_CommandBuffer @ wgpu_procs_CommandEncoder @
     wgpu_procs_ComputePassEncoder @ wgpu_procs_ComputePipeline @ wgpu_procs_Device @ wgpu_procs_Instance @
     wgpu_procs_PipelineLayout @ wgpu_procs_QuerySet @ wgpu_procs_Queue @ wgpu_procs_RenderBundle @
     wgpu_procs_RenderBundleEncoder @ wgpu_procs_RenderPassEncoder @ wgpu_procs_RenderPipeline @
     wgpu_procs_Sampler @ wgpu_procs_ShaderModule @ wgpu_procs_Surface @ wgpu_procs_SurfaceCapabilities @
     wgpu_procs_Texture @ wgpu_procs_TextureView"

section \<open>Exported members\<close>

definition wgpu_fields_Custom :: "c_signature list" where
  "wgpu_fields_Custom =
     [(''wgpu_version'', ''const char*'', [])]"

definition wgpu_fields_Global :: "c_signature list" where
  "wgpu_fields_Global =
     [(''wgpu_create_instance'', ''WGPUInstance'', [''WGPUInstanceDescriptor const*'']),
      (''wgpu_get_proc_address'', ''WGPUProc'', [''WGPUDevice'', ''char const*''])]"

definition wgpu_fields_Adapter :: "c_signature list" where
  "wgpu_fields_Adapter =
     [(''wgpu_adapter_enumerate_features'', ''size_t'', [''WGPUAdapter'', ''WGPUFeatureName*'']),
      (''wgpu_adapter_get_info'', ''void'', [''WGPUAdapter'', ''WGPUAdapterInfo*'']),
      (''wgpu_adapter_get_limits'', ''WGPUBool'', [''WGPUAdapter'', ''WGPUSupportedLimits*'']),
      (''wgpu_adapter_has_feature'', ''WGPUBool'', [''WGPUAdapter'', ''WGPUFeatureName'']),
      (''wgpu_adapter_request_device'', ''void'', [''WGPUAdapter'', ''WGPUDeviceDescriptor const*'',
         ''WGPUAdapterRequestDeviceCallback'', ''void*'']),
      (''wgpu_adapter_reference'', ''void'', [''WGPUAdapter'']),
      (''wgpu_adapter_release'', ''void'', [''WGPUAdapter''])]"

definition wgpu_fields_AdapterInfo :: "c_signature list" where
  "wgpu_fields_AdapterInfo =
     [(''wgpu_adapter_info_free_members'', ''void'', [''WGPUAdapterInfo''])]"

definition wgpu_fields_BindGroup :: "c_signature list" where
  "wgpu_fields_BindGroup =
     [(''wgpu_bind_group_set_label'', ''void'', [''WGPUBindGroup'', ''char const*'']),
      (''wgpu_bind_group_reference'', ''void'', [''WGPUBindGroup'']),
      (''wgpu_bind_group_release'', ''void'', [''WGPUBindGroup''])]"

definition wgpu_fields_BindGroupLayout :: "c_signature list" where
  "wgpu_fields_BindGroupLayout =
     [(''wgpu_bind_group_layout_set_label'', ''void'', [''WGPUBindGroupLayout'', ''char const*'']),
      (''wgpu_bind_group_layout_reference'', ''void'', [''WGPUBindGroupLayout'']),
      (''wgpu_bind_group_layout_release'', ''void'', [''WGPUBindGroupLayout''])]"

definition wgpu_fields_Buffer :: "c_signature list" where
  "wgpu_fields_Buffer =
     [(''wgpu_buffer_destroy'', ''void'', [''WGPUBuffer'']),
      (''wgpu_buffer_get_const_mapped_range'', ''void const*'', [''WGPUBuffer'', ''size_t'', ''size_t'']),
      (''wgpu_buffer_get_map_state'', ''WGPUBufferMapState'', [''WGPUBuffer'']),
      (''wgpu_buffer_get_mapped_range'', ''void*'', [''WGPUBuffer'', ''size_t'', ''size_t'']),
      (''wgpu_buffer_get_size'', ''uint64_t'', [''WGPUBuffer'']),
      (''wgpu_buffer_get_usage'', ''WGPUBufferUsageFlags'', [''WGPUBuffer'']),
      (''wgpu_buffer_map_async'', ''void'', [''WGPUBuffer'', ''WGPUMapModeFlags'', ''size_t'', ''size_t'',
         ''WGPUBufferMapAsyncCallback'', ''void*'']),
      (''wgpu_buffer_set_label'', ''void'', [''WGPUBuffer'', ''char const*'']),
      (''wgpu_buffer_unmap'', ''void'', [''WGPUBuffer'']),
      (''wgpu_buffer_reference'', ''void'', [''WGPUBuffer'']),
      (''wgpu_buffer_release'', ''void'', [''WGPUBuffer''])]"

definition wgpu_fields_CommandBuffer :: "c_signature list" where
  "wgpu_fields_CommandBuffer =
     [(''wgpu_command_buffer_set_label'', ''void'', [''WGPUCommandBuffer'', ''char const*'']),
      (''wgpu_command_buffer_reference'', ''void'', [''WGPUCommandBuffer'']),
      (''wgpu_command_buffer_release'', ''void'', [''WGPUCommandBuffer''])]"

definition wgpu_fields_CommandEncoder :: "c_signature list" where
  "wgpu_fields_CommandEncoder =
     [(''wgpu_command_encoder_begin_compute_pass'', ''WGPUComputePassEncoder'', [''WGPUCommandEncoder'',
         ''WGPUComputePassDescriptor const*'']),
      (''wgpu_command_encoder_begin_render_pass'', ''WGPURenderPassEncoder'', [''WGPUCommandEncoder'',
         ''WGPURenderPassDescriptor const*'']),
      (''wgpu_command_encoder_clear_buffer'', ''void'', [''WGPUCommandEncoder'', ''WGPUBuffer'', ''uint64_t'',
         ''uint64_t'']),
      (''wgpu_command_encoder_copy_buffer_to_buffer'', ''void'', [''WGPUCommandEncoder'', ''WGPUBuffer'',
         ''uint64_t'', ''WGPUBuffer'', ''uint64_t'', ''uint64_t'']),
      (''wgpu_command_encoder_copy_buffer_to_texture'', ''void'', [''WGPUCommandEncoder'',
         ''WGPUImageCopyBuffer const*'', ''WGPUImageCopyTexture const*'', ''WGPUExtent3D const*'']),
      (''wgpu_command_encoder_copy_texture_to_buffer'', ''void'', [''WGPUCommandEncoder'',
         ''WGPUImageCopyTexture const*'', ''WGPUImageCopyBuffer const*'', ''WGPUExtent3D const*'']),
      (''wgpu_command_encoder_copy_texture_to_texture'', ''void'', [''WGPUCommandEncoder'',
         ''WGPUImageCopyTexture const*'', ''WGPUImageCopyTexture const*'', ''WGPUExtent3D const*'']),
      (''wgpu_command_encoder_finish'', ''WGPUCommandBuffer'', [''WGPUCommandEncoder'',
         ''WGPUCommandBufferDescriptor const*'']),
      (''wgpu_command_encoder_insert_debug_marker'', ''void'', [''WGPUCommandEncoder'', ''char const*'']),
      (''wgpu_command_encoder_pop_debug_group'', ''void'', [''WGPUCommandEncoder'']),
      (''wgpu_command_encoder_push_debug_group'', ''void'', [''WGPUCommandEncoder'', ''char const*'']),
      (''wgpu_command_encoder_resolve_query_set'', ''void'', [''WGPUCommandEncoder'', ''WGPUQuerySet'',
         ''uint32_t'', ''uint32_t'', ''WGPUBuffer'', ''uint64_t'']),
      (''wgpu_command_encoder_set_label'', ''void'', [''WGPUCommandEncoder'', ''char const*'']),
      (''wgpu_command_encoder_write_timestamp'', ''void'', [''WGPUCommandEncoder'', ''WGPUQuerySet'',
         ''uint32_t'']),
      (''wgpu_command_encoder_reference'', ''void'', [''WGPUCommandEncoder'']),
      (''wgpu_command_encoder_release'', ''void'', [''WGPUCommandEncoder''])]"

definition wgpu_fields_ComputePassEncoder :: "c_signature list" where
  "wgpu_fields_ComputePassEncoder =
     [(''wgpu_compute_pass_encoder_dispatch_workgroups'', ''void'', [''WGPUComputePassEncoder'', ''uint32_t'',
         ''uint32_t'', ''uint32_t'']),
      (''wgpu_compute_pass_encoder_dispatch_workgroups_indirect'', ''void'', [''WGPUComputePassEncoder'',
         ''WGPUBuffer'', ''uint64_t'']),
      (''wgpu_compute_pass_encoder_end'', ''void'', [''WGPUComputePassEncoder'']),
      (''wgpu_compute_pass_encoder_insert_debug_marker'', ''void'', [''WGPUComputePassEncoder'',
         ''char const*'']),
      (''wgpu_compute_pass_encoder_pop_debug_group'', ''void'', [''WGPUComputePassEncoder'']),
      (''wgpu_compute_pass_encoder_push_debug_group'', ''void'', [''WGPUComputePassEncoder'', ''char const*'']),
      (''wgpu_compute_pass_encoder_set_bind_group'', ''void'', [''WGPUComputePassEncoder'', ''uint32_t'',
         ''WGPUBindGroup'', ''size_t'', ''uint32_t const*'']),
      (''wgpu_compute_pass_encoder_set_label'', ''void'', [''WGPUComputePassEncoder'', ''char const*'']),
      (''wgpu_compute_pass_encoder_set_pipeline'', ''void'', [''WGPUComputePassEncoder'',
         ''WGPUComputePipeline'']),
      (''wgpu_compute_pass_encoder_reference'', ''void'', [''WGPUComputePassEncoder'']),
      (''wgpu_compute_pass_encoder_release'', ''void'', [''WGPUComputePassEncoder''])]"

definition wgpu_fields_ComputePipeline :: "c_signature list" where
  "wgpu_fields_ComputePipeline =
     [(''wgpu_compute_pipeline_get_bind_group_layout'', ''WGPUBindGroupLayout'', [''WGPUComputePipeline'',
         ''uint32_t'']),
      (''wgpu_compute_pipeline_set_label'', ''void'', [''WGPUComputePipeline'', ''char const*'']),
      (''wgpu_compute_pipeline_reference'', ''void'', [''WGPUComputePipeline'']),
      (''wgpu_compute_pipeline_release'', ''void'', [''WGPUComputePipeline''])]"

definition wgpu_fields_Device :: "c_signature list" where
  "wgpu_fields_Device =
     [(''wgpu_device_create_bind_group'', ''WGPUBindGroup'', [''WGPUDevice'',
         ''WGPUBindGroupDescriptor const*'']),
      (''wgpu_device_create_bind_group_layout'', ''WGPUBindGroupLayout'', [''WGPUDevice'',
         ''WGPUBindGroupLayoutDescriptor const*'']),
      (''wgpu_device_create_buffer'', ''WGPUBuffer'', [''WGPUDevice'', ''WGPUBufferDescriptor const*'']),
      (''wgpu_device_create_command_encoder'', ''WGPUCommandEncoder'', [''WGPUDevice'',
         ''WGPUCommandEncoderDescriptor const*'']),
      (''wgpu_device_create_compute_pipeline'', ''WGPUComputePipeline'', [''WGPUDevice'',
         ''WGPUComputePipelineDescriptor const*'']),
      (''wgpu_device_create_compute_pipeline_async'', ''void'', [''WGPUDevice'',
         ''WGPUComputePipelineDescriptor const*'', ''WGPUDeviceCreateComputePipelineAsyncCallback'',
         ''void*'']),
      (''wgpu_device_create_pipeline_layout'', ''WGPUPipelineLayout'', [''WGPUDevice'',
         ''WGPUPipelineLayoutDescriptor const*'']),
      (''wgpu_device_create_query_set'', ''WGPUQuerySet'', [''WGPUDevice'', ''WGPUQuerySetDescriptor const*'']),
      (''wgpu_device_create_render_bundle_encoder'', ''WGPURenderBundleEncoder'', [''WGPUDevice'',
         ''WGPURenderBundleEncoderDescriptor const*'']),
      (''wgpu_device_create_render_pipeline'', ''WGPURenderPipeline'', [''WGPUDevice'',
         ''WGPURenderPipelineDescriptor const*'']),
      (''wgpu_device_create_render_pipeline_async'', ''void'', [''WGPUDevice'',
         ''WGPURenderPipelineDescriptor const*'', ''WGPUDeviceCreateRenderPipelineAsyncCallback'', ''void*'']),
      (''wgpu_device_create_sampler'', ''WGPUSampler'', [''WGPUDevice'', ''WGPUSamplerDescriptor const*'']),
      (''wgpu_device_create_shader_module'', ''WGPUShaderModule'', [''WGPUDevice'',
         ''WGPUShaderModuleDescriptor const*'']),
      (''wgpu_device_create_texture'', ''WGPUTexture'', [''WGPUDevice'', ''WGPUTextureDescriptor const*'']),
      (''wgpu_device_destroy'', ''void'', [''WGPUDevice'']),
      (''wgpu_device_enumerate_features'', ''size_t'', [''WGPUDevice'', ''WGPUFeatureName*'']),
      (''wgpu_device_get_limits'', ''WGPUBool'', [''WGPUDevice'', ''WGPUSupportedLimits*'']),
      (''wgpu_device_get_queue'', ''WGPUQueue'', [''WGPUDevice'']),
      (''wgpu_device_has_feature'', ''WGPUBool'', [''WGPUDevice'', ''WGPUFeatureName'']),
      (''wgpu_device_pop_error_scope'', ''void'', [''WGPUDevice'', ''WGPUErrorCallback'', ''void*'']),
      (''wgpu_device_push_error_scope'', ''void'', [''WGPUDevice'', ''WGPUErrorFilter'']),
      (''wgpu_device_set_label'', ''void'', [''WGPUDevice'', ''char const*'']),
      (''wgpu_device_reference'', ''void'', [''WGPUDevice'']),
      (''wgpu_device_release'', ''void'', [''WGPUDevice''])]"

definition wgpu_fields_Instance :: "c_signature list" where
  "wgpu_fields_Instance =
     [(''wgpu_instance_create_surface'', ''WGPUSurface'', [''WGPUInstance'', ''WGPUSurfaceDescriptor const*'']),
      (''wgpu_instance_has_wgsl_language_feature'', ''WGPUBool'', [''WGPUInstance'', ''WGPUWGSLFeatureName'']),
      (''wgpu_instance_process_events'', ''void'', [''WGPUInstance'']),
      (''wgpu_instance_request_adapter'', ''void'', [''WGPUInstance'', ''WGPURequestAdapterOptions const*'',
         ''WGPUInstanceRequestAdapterCallback'', ''void*'']),
      (''wgpu_instance_reference'', ''void'', [''WGPUInstance'']),
      (''wgpu_instance_release'', ''void'', [''WGPUInstance''])]"

definition wgpu_fields_PipelineLayout :: "c_signature list" where
  "wgpu_fields_PipelineLayout =
     [(''wgpu_pipeline_layout_set_label'', ''void'', [''WGPUPipelineLayout'', ''char const*'']),
      (''wgpu_pipeline_layout_reference'', ''void'', [''WGPUPipelineLayout'']),
      (''wgpu_pipeline_layout_release'', ''void'', [''WGPUPipelineLayout''])]"

definition wgpu_fields_QuerySet :: "c_signature list" where
  "wgpu_fields_QuerySet =
     [(''wgpu_query_set_destroy'', ''void'', [''WGPUQuerySet'']),
      (''wgpu_query_set_get_count'', ''uint32_t'', [''WGPUQuerySet'']),
      (''wgpu_query_set_get_type'', ''WGPUQueryType'', [''WGPUQuerySet'']),
      (''wgpu_query_set_set_label'', ''void'', [''WGPUQuerySet'', ''char const*'']),
      (''wgpu_query_set_reference'', ''void'', [''WGPUQuerySet'']),
      (''wgpu_query_set_release'', ''void'', [''WGPUQuerySet''])]"

definition wgpu_fields_Queue :: "c_signature list" where
  "wgpu_fields_Queue =
     [(''wgpu_queue_on_submitted_work_done'', ''void'', [''WGPUQueue'',
         ''WGPUQueueOnSubmittedWorkDoneCallback'', ''void*'']),
      (''wgpu_queue_set_label'', ''void'', [''WGPUQueue'', ''char const*'']),
      (''wgpu_queue_submit'', ''void'', [''WGPUQueue'', ''size_t'', ''WGPUCommandBuffer const*'']),
      (''wgpu_queue_write_buffer'', ''void'', [''WGPUQueue'', ''WGPUBuffer'', ''uint64_t'', ''void const*'',
         ''size_t'']),
      (''wgpu_queue_write_texture'', ''void'', [''WGPUQueue'', ''WGPUImageCopyTexture const*'',
         ''void const*'', ''size_t'', ''WGPUTextureDataLayout const*'', ''WGPUExtent3D const*'']),
      (''wgpu_queue_reference'', ''void'', [''WGPUQueue'']),
      (''wgpu_queue_release'', ''void'', [''WGPUQueue''])]"

definition wgpu_fields_RenderBundle :: "c_signature list" where
  "wgpu_fields_RenderBundle =
     [(''wgpu_render_bundle_set_label'', ''void'', [''WGPURenderBundle'', ''char const*'']),
      (''wgpu_render_bundle_reference'', ''void'', [''WGPURenderBundle'']),
      (''wgpu_render_bundle_release'', ''void'', [''WGPURenderBundle''])]"

definition wgpu_fields_RenderBundleEncoder :: "c_signature list" where
  "wgpu_fields_RenderBundleEncoder =
     [(''wgpu_render_bundle_encoder_draw'', ''void'', [''WGPURenderBundleEncoder'', ''uint32_t'', ''uint32_t'',
         ''uint32_t'', ''uint32_t'']),
      (''wgpu_render_bundle_encoder_draw_indexed'', ''void'', [''WGPURenderBundleEncoder'', ''uint32_t'',
         ''uint32_t'', ''uint32_t'', ''int32_t'', ''uint32_t'']),
      (''wgpu_render_bundle_encoder_draw_indexed_indirect'', ''void'', [''WGPURenderBundleEncoder'',
         ''WGPUBuffer'', ''uint64_t'']),
      (''wgpu_render_bundle_encoder_draw_indirect'', ''void'', [''WGPURenderBundleEncoder'', ''WGPUBuffer'',
         ''uint64_t'']),
      (''wgpu_render_bundle_encoder_finish'', ''WGPURenderBundle'', [''WGPURenderBundleEncoder'',
         ''WGPURenderBundleDescriptor const*'']),
      (''wgpu_render_bundle_encoder_insert_debug_marker'', ''void'', [''WGPURenderBundleEncoder'',
         ''char const*'']),
      (''wgpu_render_bundle_encoder_pop_debug_group'', ''void'', [''WGPURenderBundleEncoder'']),
      (''wgpu_render_bundle_encoder_push_debug_group'', ''void'', [''WGPURenderBundleEncoder'',
         ''char const*'']),
      (''wgpu_render_bundle_encoder_set_bind_group'', ''void'', [''WGPURenderBundleEncoder'', ''uint32_t'',
         ''WGPUBindGroup'', ''size_t'', ''uint32_t const*'']),
      (''wgpu_render_bundle_encoder_set_index_buffer'', ''void'', [''WGPURenderBundleEncoder'', ''WGPUBuffer'',
         ''WGPUIndexFormat'', ''uint64_t'', ''uint64_t'']),
      (''wgpu_render_bundle_encoder_set_label'', ''void'', [''WGPURenderBundleEncoder'', ''char const*'']),
      (''wgpu_render_bundle_encoder_set_pipeline'', ''void'', [''WGPURenderBundleEncoder'',
         ''WGPURenderPipeline'']),
      (''wgpu_render_bundle_encoder_set_vertex_buffer'', ''void'', [''WGPURenderBundleEncoder'', ''uint32_t'',
         ''WGPUBuffer'', ''uint64_t'', ''uint64_t'']),
      (''wgpu_render_bundle_encoder_reference'', ''void'', [''WGPURenderBundleEncoder'']),
      (''wgpu_render_bundle_encoder_release'', ''void'', [''WGPURenderBundleEncoder''])]"

definition wgpu_fields_RenderPassEncoder :: "c_signature list" where
  "wgpu_fields_RenderPassEncoder =
     [(''wgpu_render_pass_encoder_begin_occlusion_query'', ''void'', [''WGPURenderPassEncoder'', ''uint32_t'']),
      (''wgpu_render_pass_encoder_draw'', ''void'', [''WGPURenderPassEncoder'', ''uint32_t'', ''uint32_t'',
         ''uint32_t'', ''uint32_t'']),
      (''wgpu_render_pass_encoder_draw_indexed'', ''void'', [''WGPURenderPassEncoder'', ''uint32_t'',
         ''uint32_t'', ''uint32_t'', ''int32_t'', ''uint32_t'']),
      (''wgpu_render_pass_encoder_draw_indexed_indirect'', ''void'', [''WGPURenderPassEncoder'',
         ''WGPUBuffer'', ''uint64_t'']),
      (''wgpu_render_pass_encoder_draw_indirect'', ''void'', [''WGPURenderPassEncoder'', ''WGPUBuffer'',
         ''uint64_t'']),
      (''wgpu_render_pass_encoder_end'', ''void'', [''WGPURenderPassEncoder'']),
      (''wgpu_render_pass_encoder_end_occlusion_query'', ''void'', [''WGPURenderPassEncoder'']),
      (''wgpu_render_pass_encoder_execute_bundles'', ''void'', [''WGPURenderPassEncoder'', ''size_t'',
         ''WGPURenderBundle const*'']),
      (''wgpu_render_pass_encoder_insert_debug_marker'', ''void'', [''WGPURenderPassEncoder'',
         ''char const*'']),
      (''wgpu_render_pass_encoder_pop_debug_group'', ''void'', [''WGPURenderPassEncoder'']),
      (''wgpu_render_pass_encoder_push_debug_group'', ''void'', [''WGPURenderPassEncoder'', ''char const*'']),
      (''wgpu_render_pass_encoder_set_bind_group'', ''void'', [''WGPURenderPassEncoder'', ''uint32_t'',
         ''WGPUBindGroup'', ''size_t'', ''uint32_t const*'']),
      (''wgpu_render_pass_encoder_set_blend_constant'', ''void'', [''WGPURenderPassEncoder'',
         ''WGPUColor const*'']),
      (''wgpu_render_pass_encoder_set_index_buffer'', ''void'', [''WGPURenderPassEncoder'', ''WGPUBuffer'',
         ''WGPUIndexFormat'', ''uint64_t'', ''uint64_t'']),
      (''wgpu_render_pass_encoder_set_label'', ''void'', [''WGPURenderPassEncoder'', ''char const*'']),
      (''wgpu_render_pass_encoder_set_pipeline'', ''void'', [''WGPURenderPassEncoder'',
         ''WGPURenderPipeline'']),
      (''wgpu_render_pass_encoder_set_scissor_rect'', ''void'', [''WGPURenderPassEncoder'', ''uint32_t'',
         ''uint32_t'', ''uint32_t'', ''uint32_t'']),
      (''wgpu_render_pass_encoder_set_stencil_reference'', ''void'', [''WGPURenderPassEncoder'', ''uint32_t'']),
      (''wgpu_render_pass_encoder_set_vertex_buffer'', ''void'', [''WGPURenderPassEncoder'', ''uint32_t'',
         ''WGPUBuffer'', ''uint64_t'', ''uint64_t'']),
      (''wgpu_render_pass_encoder_set_viewport'', ''void'', [''WGPURenderPassEncoder'', ''float'', ''float'',
         ''float'', ''float'', ''float'', ''float'']),
      (''wgpu_render_pass_encoder_reference'', ''void'', [''WGPURenderPassEncoder'']),
      (''wgpu_render_pass_encoder_release'', ''void'', [''WGPURenderPassEncoder''])]"

definition wgpu_fields_RenderPipeline :: "c_signature list" where
  "wgpu_fields_RenderPipeline =
     [(''wgpu_render_pipeline_get_bind_group_layout'', ''WGPUBindGroupLayout'', [''WGPURenderPipeline'',
         ''uint32_t'']),
      (''wgpu_render_pipeline_set_label'', ''void'', [''WGPURenderPipeline'', ''char const*'']),
      (''wgpu_render_pipeline_reference'', ''void'', [''WGPURenderPipeline'']),
      (''wgpu_render_pipeline_release'', ''void'', [''WGPURenderPipeline''])]"

definition wgpu_fields_Sampler :: "c_signature list" where
  "wgpu_fields_Sampler =
     [(''wgpu_sampler_set_label'', ''void'', [''WGPUSampler'', ''char const*'']),
      (''wgpu_sampler_reference'', ''void'', [''WGPUSampler'']),
      (''wgpu_sampler_release'', ''void'', [''WGPUSampler''])]"

definition wgpu_fields_ShaderModule :: "c_signature list" where
  "wgpu_fields_ShaderModule =
     [(''wgpu_shader_module_get_compilation_info'', ''void'', [''WGPUShaderModule'',
         ''WGPUShaderModuleGetCompilationInfoCallback'', ''void*'']),
      (''wgpu_shader_module_set_label'', ''void'', [''WGPUShaderModule'', ''char const*'']),
      (''wgpu_shader_module_reference'', ''void'', [''WGPUShaderModule'']),
      (''wgpu_shader_module_release'', ''void'', [''WGPUShaderModule''])]"

definition wgpu_fields_Surface :: "c_signature list" where
  "wgpu_fields_Surface =
     [(''wgpu_surface_configure'', ''void'', [''WGPUSurface'', ''WGPUSurfaceConfiguration const*'']),
      (''wgpu_surface_get_capabilities'', ''void'', [''WGPUSurface'', ''WGPUAdapter'',
         ''WGPUSurfaceCapabilities*'']),
      (''wgpu_surface_get_current_texture'', ''void'', [''WGPUSurface'', ''WGPUSurfaceTexture*'']),
      (''wgpu_surface_present'', ''void'', [''WGPUSurface'']),
      (''wgpu_surface_set_label'', ''void'', [''WGPUSurface'', ''char const*'']),
      (''wgpu_surface_unconfigure'', ''void'', [''WGPUSurface'']),
      (''wgpu_surface_reference'', ''void'', [''WGPUSurface'']),
      (''wgpu_surface_release'', ''void'', [''WGPUSurface''])]"

definition wgpu_fields_SurfaceCapabilities :: "c_signature list" where
  "wgpu_fields_SurfaceCapabilities =
     [(''wgpu_surface_capabilities_free_members'', ''void'', [''WGPUSurfaceCapabilities''])]"

definition wgpu_fields_Texture :: "c_signature list" where
  "wgpu_fields_Texture =
     [(''wgpu_texture_create_view'', ''WGPUTextureView'', [''WGPUTexture'',
         ''WGPUTextureViewDescriptor const*'']),
      (''wgpu_texture_destroy'', ''void'', [''WGPUTexture'']),
      (''wgpu_texture_get_depth_or_array_layers'', ''uint32_t'', [''WGPUTexture'']),
      (''wgpu_texture_get_dimension'', ''WGPUTextureDimension'', [''WGPUTexture'']),
      (''wgpu_texture_get_format'', ''WGPUTextureFormat'', [''WGPUTexture'']),
      (''wgpu_texture_get_height'', ''uint32_t'', [''WGPUTexture'']),
      (''wgpu_texture_get_mip_level_count'', ''uint32_t'', [''WGPUTexture'']),
      (''wgpu_texture_get_sample_count'', ''uint32_t'', [''WGPUTexture'']),
      (''wgpu_texture_get_usage'', ''WGPUTextureUsageFlags'', [''WGPUTexture'']),
      (''wgpu_texture_get_width'', ''uint32_t'', [''WGPUTexture'']),
      (''wgpu_texture_set_label'', ''void'', [''WGPUTexture'', ''char const*'']),
      (''wgpu_texture_reference'', ''void'', [''WGPUTexture'']),
      (''wgpu_texture_release'', ''void'', [''WGPUTexture''])]"

definition wgpu_fields_TextureView :: "c_signature list" where
  "wgpu_fields_TextureView =
     [(''wgpu_texture_view_set_label'', ''void'', [''WGPUTextureView'', ''char const*'']),
      (''wgpu_texture_view_reference'', ''void'', [''WGPUTextureView'']),
      (''wgpu_texture_view_release'', ''void'', [''WGPUTextureView''])]"

definition wgpu_fields_Native :: "c_signature list" where
  "wgpu_fields_Native =
     [(''wgpu_generate_report'', ''void'', [''WGPUInstance'', ''WGPUGlobalReport*'']),
      (''wgpu_instance_enumerate_adapters'', ''size_t'', [''WGPUInstance'',
         ''WGPUInstanceEnumerateAdapterOptions const*'', ''WGPUAdapter*'']),
      (''wgpu_queue_submit_for_index'', ''WGPUSubmissionIndex'', [''WGPUQueue'', ''size_t'',
         ''WGPUCommandBuffer const*'']),
      (''wgpu_device_create_shader_module_spirv'', ''WGPUShaderModule'', [''WGPUDevice'',
         ''WGPUShaderModuleDescriptorSpirV const*'']),
      (''wgpu_device_poll'', ''WGPUBool'', [''WGPUDevice'', ''WGPUBool'',
         ''WGPUWrappedSubmissionIndex const*'']),
      (''wgpu_set_log_callback'', ''void'', [''WGPULogCallback'', ''void*'']),
      (''wgpu_set_log_level'', ''void'', [''WGPULogLevel'']),
      (''wgpu_get_version'', ''uint32_t'', []),
      (''wgpu_compute_pass_encoder_set_push_constants'', ''void'', [''WGPUComputePassEncoder'', ''uint32_t'',
         ''uint32_t'', ''void const*'']),
      (''wgpu_render_pass_encoder_set_push_constants'', ''void'', [''WGPURenderPassEncoder'',
         ''WGPUShaderStageFlags'', ''uint32_t'', ''uint32_t'', ''void const*'']),
      (''wgpu_render_bundle_encoder_set_push_constants'', ''void'', [''WGPURenderBundleEncoder'',
         ''WGPUShaderStageFlags'', ''uint32_t'', ''uint32_t'', ''void const*'']),
      (''wgpu_render_pass_encoder_multi_draw_indirect'', ''void'', [''WGPURenderPassEncoder'', ''WGPUBuffer'',
         ''uint64_t'', ''uint32_t'']),
      (''wgpu_render_pass_encoder_multi_draw_indexed_indirect'', ''void'', [''WGPURenderPassEncoder'',
         ''WGPUBuffer'', ''uint64_t'', ''uint32_t'']),
      (''wgpu_render_pass_encoder_multi_draw_indirect_count'', ''void'', [''WGPURenderPassEncoder'',
         ''WGPUBuffer'', ''uint64_t'', ''WGPUBuffer'', ''uint64_t'', ''uint32_t'']),
      (''wgpu_render_pass_encoder_multi_draw_indexed_indirect_count'', ''void'', [''WGPURenderPassEncoder'',
         ''WGPUBuffer'', ''uint64_t'', ''WGPUBuffer'', ''uint64_t'', ''uint32_t'']),
      (''wgpu_compute_pass_encoder_begin_pipeline_statistics_query'', ''void'', [''WGPUComputePassEncoder'',
         ''WGPUQuerySet'', ''uint32_t'']),
      (''wgpu_compute_pass_encoder_end_pipeline_statistics_query'', ''void'', [''WGPUComputePassEncoder'']),
      (''wgpu_render_pass_encoder_begin_pipeline_statistics_query'', ''void'', [''WGPURenderPassEncoder'',
         ''WGPUQuerySet'', ''uint32_t'']),
      (''wgpu_render_pass_encoder_end_pipeline_statistics_query'', ''void'', [''WGPURenderPassEncoder'']),
      (''wgpu_compute_pass_encoder_write_timestamp'', ''void'', [''WGPUComputePassEncoder'', ''WGPUQuerySet'',
         ''uint32_t'']),
      (''wgpu_render_pass_encoder_write_timestamp'', ''void'', [''WGPURenderPassEncoder'', ''WGPUQuerySet'',
         ''uint32_t''])]"

definition wgpu_signatures :: "c_signature list" where
  "wgpu_signatures =
     wgpu_fields_Custom @ wgpu_fields_Global @ wgpu_fields_Adapter @ wgpu_fields_AdapterInfo @
     wgpu_fields_BindGroup @ wgpu_fields_BindGroupLayout @ wgpu_fields_Buffer @ wgpu_fields_CommandBuffer @
     wgpu_fields_CommandEncoder @ wgpu_fields_ComputePassEncoder @ wgpu_fields_ComputePipeline @
     wgpu_fields_Device @ wgpu_fields_Instance @ wgpu_fields_PipelineLayout @ wgpu_fields_QuerySet @
     wgpu_fields_Queue @ wgpu_fields_RenderBundle @ wgpu_fields_RenderBundleEncoder @
     wgpu_fields_RenderPassEncoder @ wgpu_fields_RenderPipeline @ wgpu_fields_Sampler @
     wgpu_fields_ShaderModule @ wgpu_fields_Surface @ wgpu_fields_SurfaceCapabilities @ wgpu_fields_Texture @
     wgpu_fields_TextureView @ wgpu_fields_Native"

text \<open>
  What a call through each member reaches: the function bound to it by \<open>getExportsTable\<close>, without
  the prefix \<open>wgpu\<close>, with the signature under which it is called.
\<close>

definition called_signatures :: "c_signature list" where
  "called_signatures =
     map (\<lambda>((member, result, params), (field, function)). (drop 4 function, result, params))
       (zip wgpu_signatures wgpu_exports)"

lemmas wgpu_proc_defs = wgpu_procs_def
  wgpu_procs_Global_def wgpu_procs_Adapter_def wgpu_procs_AdapterInfo_def wgpu_procs_BindGroup_def
  wgpu_procs_BindGroupLayout_def wgpu_procs_Buffer_def wgpu_procs_CommandBuffer_def
  wgpu_procs_CommandEncoder_def wgpu_procs_ComputePassEncoder_def wgpu_procs_ComputePipeline_def
  wgpu_procs_Device_def wgpu_procs_Instance_def wgpu_procs_PipelineLayout_def wgpu_procs_QuerySet_def
  wgpu_procs_Queue_def wgpu_procs_RenderBundle_def wgpu_procs_RenderBundleEncoder_def
  wgpu_procs_RenderPassEncoder_def wgpu_procs_RenderPipeline_def wgpu_procs_Sampler_def
  wgpu_procs_ShaderModule_def wgpu_procs_Surface_def wgpu_procs_SurfaceCapabilities_def wgpu_procs_Texture_def
  wgpu_procs_TextureView_def

lemmas wgpu_field_defs = wgpu_signatures_def
  wgpu_fields_Custom_def wgpu_fields_Global_def wgpu_fields_Adapter_def wgpu_fields_AdapterInfo_def
  wgpu_fields_BindGroup_def wgpu_fields_BindGroupLayout_def wgpu_fields_Buffer_def
  wgpu_fields_CommandBuffer_def wgpu_fields_CommandEncoder_def wgpu_fields_ComputePassEncoder_def
  wgpu_fields_ComputePipeline_def wgpu_fields_Device_def wgpu_fields_Instance_def
  wgpu_fields_PipelineLayout_def wgpu_fields_QuerySet_def wgpu_fields_Queue_def wgpu_fields_RenderBundle_def
  wgpu_fields_RenderBundleEncoder_def wgpu_fields_RenderPassEncoder_def wgpu_fields_RenderPipeline_def
  wgpu_fields_Sampler_def wgpu_fields_ShaderModule_def wgpu_fields_Surface_def
  wgpu_fields_SurfaceCapabilities_def wgpu_fields_Texture_def wgpu_fields_TextureView_def
  wgpu_fields_Native_def

lemma signature_members: "map fst wgpu_signatures = map fst wgpu_exports"
  by (simp add: wgpu_field_defs wgpu_exports_defs)

lemma called_standard: "take 183 (drop 1 called_signatures) = wgpu_procs"
  by (simp add: called_signatures_def wgpu_field_defs wgpu_exports_defs wgpu_proc_defs)

section \<open>Properties\<close>

text \<open>
  The standard interface of WebGPU is exported completely and with the right types: the
  members are those of the table that \<open>getExportsTable\<close> fills, and for every procedure type there is
  a member bound to that function whose result and parameter types are those of the procedure
  type, so that a call of LuaJIT through it has the signature of the function.
\<close>

theorem wgpu_procs_exported:
  "map fst wgpu_signatures = static_wgpu_exports_table
   \<and> length wgpu_procs = 183 \<and> set wgpu_procs \<subseteq> set called_signatures"
proof (intro conjI)
  show "map fst wgpu_signatures = static_wgpu_exports_table"
    using signature_members wgpu_exports_fields by simp
  show "length wgpu_procs = 183" by (simp add: wgpu_proc_defs)
  show "set wgpu_procs \<subseteq> set called_signatures"
    unfolding called_standard [symmetric] using set_take_subset set_drop_subset by (rule subset_trans)
qed

end
