(* ===== verification/Ffi_Types.thy ===== *)
theory Ffi_Types
  imports C_Layout
begin

text \<open>
  Types of the smaller bindings that LuaJIT shares with the libraries: \<open>curl_aliases.h\<close>,
  \<open>glfw_aliases.h\<close> and \<open>webview_aliases.h\<close>. The size of \<open>long\<close> differs between the platforms (four
  bytes on Windows, eight elsewhere), so it is a parameter of the one structure that has it.
\<close>

section \<open>libcurl\<close>

definition CURLversion :: c_enumeration where
  "CURLversion = implicit_values
     [''CURLVERSION_FIRST'', ''CURLVERSION_SECOND'', ''CURLVERSION_THIRD'', ''CURLVERSION_FOURTH'',
      ''CURLVERSION_FIFTH'', ''CURLVERSION_SIXTH'', ''CURLVERSION_SEVENTH'', ''CURLVERSION_EIGHTH'',
      ''CURLVERSION_NINTH'', ''CURLVERSION_TENTH'', ''CURLVERSION_ELEVENTH'', ''CURLVERSION_TWELFTH'',
      ''CURLVERSION_LAST'']"

definition curl_version_info_data :: "c_type \<Rightarrow> c_fields" where
  "curl_version_info_data long =
     [(''age'', c_enum), (''version'', c_ptr), (''version_num'', c_uint32), (''host'', c_ptr),
      (''features'', c_int), (''ssl_version'', c_ptr), (''ssl_version_num'', long), (''libz_version'', c_ptr),
      (''protocols'', c_ptr), (''ares'', c_ptr), (''ares_num'', c_int), (''libidn'', c_ptr),
      (''iconv_ver_num'', c_int), (''libssh_version'', c_ptr), (''brotli_ver_num'', c_uint32),
      (''brotli_version'', c_ptr), (''nghttp2_ver_num'', c_uint32), (''nghttp2_version'', c_ptr),
      (''quic_version'', c_ptr), (''cainfo'', c_ptr), (''capath'', c_ptr), (''zstd_ver_num'', c_uint32),
      (''zstd_version'', c_ptr), (''hyper_version'', c_ptr), (''gsasl_version'', c_ptr),
      (''feature_names'', c_ptr), (''rtmp_version'', c_ptr)]"

definition CURLUcode :: c_enumeration where
  "CURLUcode = implicit_values
     [''CURLUE_OK'', ''CURLUE_BAD_HANDLE'', ''CURLUE_BAD_PARTPOINTER'', ''CURLUE_MALFORMED_INPUT'',
      ''CURLUE_BAD_PORT_NUMBER'', ''CURLUE_UNSUPPORTED_SCHEME'', ''CURLUE_URLDECODE'', ''CURLUE_OUT_OF_MEMORY'',
      ''CURLUE_USER_NOT_ALLOWED'', ''CURLUE_UNKNOWN_PART'', ''CURLUE_NO_SCHEME'', ''CURLUE_NO_USER'',
      ''CURLUE_NO_PASSWORD'', ''CURLUE_NO_OPTIONS'', ''CURLUE_NO_HOST'', ''CURLUE_NO_PORT'',
      ''CURLUE_NO_QUERY'', ''CURLUE_NO_FRAGMENT'', ''CURLUE_NO_ZONEID'', ''CURLUE_BAD_FILE_URL'',
      ''CURLUE_BAD_FRAGMENT'', ''CURLUE_BAD_HOSTNAME'', ''CURLUE_BAD_IPV6'', ''CURLUE_BAD_LOGIN'',
      ''CURLUE_BAD_PASSWORD'', ''CURLUE_BAD_PATH'', ''CURLUE_BAD_QUERY'', ''CURLUE_BAD_SCHEME'',
      ''CURLUE_BAD_SLASHES'', ''CURLUE_BAD_USER'', ''CURLUE_LACKS_IDN'', ''CURLUE_TOO_LARGE'', ''CURLUE_LAST'']"

definition CURLUPart :: c_enumeration where
  "CURLUPart = implicit_values
     [''CURLUPART_URL'', ''CURLUPART_SCHEME'', ''CURLUPART_USER'', ''CURLUPART_PASSWORD'',
      ''CURLUPART_OPTIONS'', ''CURLUPART_HOST'', ''CURLUPART_PORT'', ''CURLUPART_PATH'', ''CURLUPART_QUERY'',
      ''CURLUPART_FRAGMENT'', ''CURLUPART_ZONEID'']"

definition CURLUFeatureFlags :: c_enumeration where
  "CURLUFeatureFlags =
     [(''CURLU_DEFAULT_FEATURES'', push_bit 0 0), (''CURLU_DEFAULT_PORT'', push_bit 0 1),
      (''CURLU_NO_DEFAULT_PORT'', push_bit 1 1), (''CURLU_DEFAULT_SCHEME'', push_bit 2 1),
      (''CURLU_NON_SUPPORT_SCHEME'', push_bit 3 1), (''CURLU_PATH_AS_IS'', push_bit 4 1),
      (''CURLU_DISALLOW_USER'', push_bit 5 1), (''CURLU_URLDECODE'', push_bit 6 1),
      (''CURLU_URLENCODE'', push_bit 7 1), (''CURLU_APPENDQUERY'', push_bit 8 1),
      (''CURLU_GUESS_SCHEME'', push_bit 9 1), (''CURLU_NO_AUTHORITY'', push_bit 10 1),
      (''CURLU_ALLOW_SPACE'', push_bit 11 1), (''CURLU_PUNYCODE'', push_bit 12 1),
      (''CURLU_PUNY2IDN'', push_bit 13 1), (''CURLU_GET_EMPTY'', push_bit 14 1),
      (''CURLU_NO_GUESS_SCHEME'', push_bit 15 1)]"

section \<open>GLFW\<close>

definition GLFWimage :: c_fields where
  "GLFWimage =
     [(''width'', c_int), (''height'', c_int), (''pixels'', c_ptr)]"

definition GLFWvidmode :: c_fields where
  "GLFWvidmode =
     [(''width'', c_int), (''height'', c_int), (''redBits'', c_int), (''greenBits'', c_int),
      (''blueBits'', c_int), (''refreshRate'', c_int)]"

section \<open>webview\<close>

definition webview_hint_t :: c_enumeration where
  "webview_hint_t = implicit_values
     [''WEBVIEW_HINT_NONE'', ''WEBVIEW_HINT_MIN'', ''WEBVIEW_HINT_MAX'', ''WEBVIEW_HINT_FIXED'']"

definition webview_native_handle_kind_t :: c_enumeration where
  "webview_native_handle_kind_t = implicit_values
     [''WEBVIEW_NATIVE_HANDLE_KIND_UI_WINDOW'', ''WEBVIEW_NATIVE_HANDLE_KIND_UI_WIDGET'',
      ''WEBVIEW_NATIVE_HANDLE_KIND_BROWSER_CONTROLLER'']"

definition webview_version_t :: c_fields where
  "webview_version_t =
     [(''major'', c_uint32), (''minor'', c_uint32), (''patch'', c_uint32)]"

definition webview_version_info_t :: c_fields where
  "webview_version_info_t =
     [(''version'', Struct webview_version_t), (''version_number'', Array c_char 32), (''pre_release'', Array c_char 48),
      (''build_metadata'', Array c_char 48)]"

definition webview_error_t :: c_enumeration where
  "webview_error_t =
     [(''WEBVIEW_ERROR_MISSING_DEPENDENCY'', -5), (''WEBVIEW_ERROR_CANCELED'', -4),
      (''WEBVIEW_ERROR_INVALID_STATE'', -3), (''WEBVIEW_ERROR_INVALID_ARGUMENT'', -2),
      (''WEBVIEW_ERROR_UNSPECIFIED'', -1), (''WEBVIEW_ERROR_OK'', 0), (''WEBVIEW_ERROR_DUPLICATE'', 1),
      (''WEBVIEW_ERROR_NOT_FOUND'', 2)]"

section \<open>Lemmas\<close>

text \<open>
  The version record of libcurl has the same size and the same places of all members on both
  kinds of platform.
\<close>

lemma curl_version_layout:
  "map (\<lambda>(f, o', t). (f, o')) (offsets 0 (curl_version_info_data (Scalar 4)))
     = map (\<lambda>(f, o', t). (f, o')) (offsets 0 (curl_version_info_data (Scalar 8)))
   \<and> sizeof (Struct (curl_version_info_data (Scalar 4))) = sizeof (Struct (curl_version_info_data (Scalar 8)))"
  by (simp add: curl_version_info_data_def align_up_def)

text \<open>Error codes have the numbers that the comments give them.\<close>

lemma curl_ucode_numbers:
  "map_of CURLUcode ''CURLUE_OK'' = Some 0 \<and> map_of CURLUcode ''CURLUE_NO_SCHEME'' = Some 10
   \<and> map_of CURLUcode ''CURLUE_BAD_FRAGMENT'' = Some 20 \<and> map_of CURLUcode ''CURLUE_TOO_LARGE'' = Some 31"
  by code_simp

text \<open>Feature flags can be combined: apart from the default they are different single bits.\<close>

lemma curl_flags_bits: "map snd CURLUFeatureFlags = 0 # map (\<lambda>k. 2 ^ k) [0..<16]"
  by (simp add: CURLUFeatureFlags_def upt_rec)

text \<open>The strings of the version record begin at multiples of four and end the record.\<close>

lemma webview_version_layout:
  "map (\<lambda>(f, o', t). (f, o')) (offsets 0 webview_version_info_t)
     = [(''version'', 0), (''version_number'', 12), (''pre_release'', 44), (''build_metadata'', 92)]
   \<and> sizeof (Struct webview_version_info_t) = 140"
  by (simp add: webview_version_info_t_def webview_version_t_def align_up_def)

end
