(* ===== verification/Spec2Isabelle.thy ===== *)
theory Spec2Isabelle
  imports Argon2_Base64 Uuid_Strings Web_Server_Props Uws_Exports Glfw_Events Rml_Renderer Rml_Bindings
    Lua_VM Lua_Repl Json_Encoder Miniz_Bindings Ffi_Exports Stbi_Images Iconv_Convert Crypto_KDF Labsound_Bindings
    Deferred_Events Event_Memory Webview_Engine Cpp_Bits Miniz_Sessions Wgpu_Types Wgpu_Procs Ffi_Types
begin

text \<open>
  \<^bold>\<open>A verification development for the Evo runtime.\<close>

  Evo is a Lua runtime: \<open>main.cpp\<close> creates an event loop and a Lua virtual machine, loads packages
  into it, hands tables of C functions to the Lua code (the bindings) and runs the script
  \<open>evo.lua\<close>. Lua code then drives the bindings; libraries such as uWebSockets, GLFW or RmlUi call
  back into the C++ code, which stores what happened in queues that Lua polls. This development
  models the C++ code under \<open>src/Runtime\<close> definition by definition, and states what each part
  promises.

  \<^bold>\<open>Shared theories.\<close>
  \<^item> \<open>Prelude\<close>: blocks of memory with bounds, C strings, \<open>strncpy\<close> and \<open>memcpy\<close>; an access outside a
    block is \<open>None\<close>.
  \<^item> \<open>Std_Containers\<close>: \<open>std::queue\<close> and \<open>std::unordered_map\<close>, and the locales that state their
    contracts (first in, first out; lookup after insert and erase). Both are interpreted on these
    containers; the queue contract again on the deferred event queues and on the web server together
    with Lua's event buffer.
  \<^item> \<open>Lua_State\<close>: the stack, tables, globals and registry of the Lua C API.

  \<^bold>\<open>Components.\<close>
  \<^item> \<open>Argon2_Base64\<close> (\<open>crypto_argon2.cpp/.hpp\<close>): the branch-free base64 codec with its 32-bit
    accumulator and \<open>size_t\<close> arithmetic. It equals an RFC 4648 reference codec, round-trips, and
    never writes outside its buffer; with signed \<open>char\<close> bytes above 0x7f are accepted.
  \<^item> \<open>Uuid_Strings\<close> (\<open>stduuid_ffi.cpp\<close>): the four generators and their 37-byte result.
  \<^item> \<open>Web_Server\<close> (\<open>WebServer.cpp/.hpp\<close>): the record \<open>web_server\<close> has the members of the class, each
    member function is a definition, and calls into uWebSockets are recorded in a trace.
    \<open>Web_Server_Runs\<close> treats arbitrary interleavings of Lua calls and network events (order of
    deferred events), \<open>Web_Server_Safety\<close> that no response is used after its end, and
    \<open>Web_Server_Props\<close> the single operations and the polling loop of Lua, which reads every event from
    the one buffer it uses again and again.
  \<^item> \<open>Uws_Exports\<close> (\<open>uws_ffi.cpp\<close>): the C interface on a heap of servers. Each exported function
    refines one operation of the server model, and servers do not influence each other. One
    environment answers all servers, each from the history of its own calls.
  \<^item> \<open>Interop_Queue\<close> (\<open>interop_ffi.cpp\<close>, \<open>interop_exports.h\<close>): deferred event queues on a heap, as an
    instance of the queue locale; \<open>Glfw_Events\<close> (\<open>glfw_ffi.cpp\<close>) and \<open>Rml_Renderer\<close>
    (\<open>RmlUi_Renderer_WebGPU.cpp\<close>) push into them. \<open>Deferred_Events\<close> runs all producers and Lua on one
    memory: everything handed to Lua is well tagged, and all operations are defined up to the first
    \<open>SetTransform\<close>, which reads one float behind its matrix whatever it is given; the
    runs refine a labelled transition system of queues. \<open>Event_Memory\<close> goes down to the bytes of the
    union that the events are exchanged in.
  \<^item> \<open>Rml_Bindings\<close> (\<open>rml_ffi.cpp\<close>): the RmlUi interface with its null checks and the protection of
    the global \<open>print\<close>.
  \<^item> \<open>Lua_VM\<close> (\<open>LuaVirtualMachine.cpp\<close>, \<open>SharedEventLoop.hpp\<close>, \<open>main.cpp\<close>): the virtual machine with its
    stack bookkeeping, the event loop, and \<open>main\<close> composed of them, for Lua code that returns. Loaders
    may register their own package, as those written for Lua 5.1 do.
  \<^item> \<open>Lua_Repl\<close> (\<open>luajit_repl.c\<close>, \<open>runtime_ffi.cpp\<close>): the interactive loop, reading from a finite input.
    The code it runs may not return; the loop ends exactly if all code it runs does.
  \<^item> \<open>Json_Encoder\<close> (\<open>rapidjson.hpp\<close>): the encoder as the events it sends to the writer; it refines an
    inductive specification of the document of a Lua value. Sorted output does not depend on the order
    of iteration, as long as no two keys of a table agree up to their first NUL byte.
  \<^item> \<open>Miniz_Bindings\<close> (\<open>lminiz.cpp/.hpp\<close>): zip readers and writers, compression streams and one-shot
    functions. Streams return all output whatever the size of the transfer buffer, and the growing
    buffer of \<open>uncompress\<close> reaches every text up to half of \<open>INT_MAX\<close>.
    \<open>Miniz_Sessions\<close> composes calls: a text through a deflator in arbitrary pieces and flush modes, and
    the output through an inflator; and an archive that is written and read back.
  \<^item> \<open>Webview_Engine\<close> (\<open>webview_ffi.cpp\<close> and the three engine headers): the exported functions over a
    class that each platform implements; a locale states what they share and is interpreted for
    Windows, GTK and Cocoa, for windows that stay open. Dispatched functions run once and are freed
    (unless a nested message loop takes their messages), and toggling full screen is analysed on the
    style bits.
  \<^item> \<open>Cpp_Bits\<close> (\<open>cpp_ffi.cpp\<close>): the bit functions, with their characterisation by powers of two;
    all but \<open>std_bit_width\<close> are functions of the C++ standard.
  \<^item> \<open>C_Layout\<close>: how C lays out structures and unions, without overlaps; used for the types in
    \<open>Event_Memory\<close>, \<open>Wgpu_Types\<close> (\<open>wgpu_aliases.h\<close>) and \<open>Ffi_Types\<close> (\<open>curl_aliases.h\<close>, \<open>glfw_aliases.h\<close>,
    \<open>webview_aliases.h\<close>). \<open>Wgpu_Procs\<close> compares the procedure types of WebGPU with the members of
    the exported table.
  \<^item> \<open>Ffi_Exports\<close> (the \<open>getExportsTable\<close> functions and \<open>*_exports.h\<close> headers, \<open>glfw_constants.hpp\<close>): the
    tables of function pointers that \<open>main\<close> binds; none has a null pointer.
  \<^item> \<open>Stbi_Images\<close> (\<open>stbi_ffi.cpp\<close>), \<open>Iconv_Convert\<close> (\<open>iconv_ffi.cpp\<close>), \<open>Crypto_KDF\<close>
    (\<open>crypto_ffi.cpp\<close>) and \<open>Labsound_Bindings\<close> (\<open>labsound_ffi.cpp\<close>): image, charset, OpenSSL and audio
    bindings with the memory and the library objects they handle.

  \<^bold>\<open>Conventions.\<close> Code outside the repository is a parameter: a function argument or a record of its
  results, often as a function of the trace of calls made so far, so that a result may depend on
  everything that happened. What the code relies on is a named hypothesis (\<open>iconv_contract\<close>,
  \<open>lua_init_ok\<close> and similar), and the theorems that use one have a witness with a concrete
  library. Undefined behaviour of C++ (an access outside a block, a dead object, a null
  reference) and failed assertions are \<open>None\<close> or values of a fault type, never a convenient
  default. Machine integers keep their width where a conversion or an overflow matters. The order
  in which an unordered map is traversed is a list order here; the theorems on broadcasts and
  shutdown hold for every order.

  \<^bold>\<open>Loops and bounds.\<close> No definition uses fuel. Structural loops are \<open>fun\<close>; the reading loops of
  the REPL terminate because every line read shortens the input, the JSON encoder because every
  nested table uses up depth, which the encoder itself limits by \<open>max_depth\<close> (128 by default),
  \<open>uncompress\<close> because its buffer doubles up to \<open>INT_MAX\<close>, and runs over lists of operations by
  structure. The loop of a compression stream ends only if the library does: it is a partial
  function, and the theorem on it proves that it returns.
  Sizes that are constants of the code (37-byte UUID strings, the 512-byte input line of LuaJIT,
  256 and 32 elements of the device record) are definitions; those of the platform
  (\<open>LUAL_BUFFERSIZE\<close>, \<open>PATH_MAX\<close>) are parameters.

  \<^bold>\<open>Not modelled.\<close> Functions that only return a version string are left out, as are the files that
  include the sources of third-party Lua packages, and all Lua code: it runs inside the interpreter,
  which is a parameter. Of the window toolkits, the GPU library and the other libraries only
  the calls and their results appear. Threads other than the main one do not touch the state
  modelled here, except inside libraries. Planned next: the names of the web server's routes
  through the HTTP router, and the Lua halves of the bindings.
\<close>

end
